(* ===== verification/Prelude.thy ===== *)
theory Prelude
  imports Main "HOL-Library.Word" "HOL-Library.Monad_Syntax" "HOL-Library.Multiset"
begin

text \<open>
  Shared vocabulary of the development: the machine integers of the C++ sources, the
  monad in which calls that can fail to return are written, byte and character
  conversions, checked signed subtraction, and the generic list lemmas that the
  components share.

  Conventions.
  \<^item> A C++ \<open>std::uint8_t\<close>, \<open>uint16_t\<close>, \<open>uint32_t\<close> is a word of that width; an
    \<open>std::int64_t\<close> is a 64-bit word read with \<open>sint\<close>.
  \<^item> \<open>std::size_t\<close> is \<open>nat\<close>: the values are lengths of buffers that exist in memory.
  \<^item> \<open>std::optional<A>\<close> is \<open>'a option\<close>.
  \<^item> \<open>'a exec\<close> is the outcome of a call: \<open>Some r\<close> when the call returns \<open>r\<close>, \<open>None\<close>
    when it has no defined return (undefined behaviour, such as a read outside a buffer or
    a signed overflow, or a loop that never ends).  That a call does return is therefore
    a theorem of its own, never an assumption hidden in a definition.
\<close>

section \<open>Machine integers\<close>

type_synonym u8 = "8 word"
type_synonym u16 = "16 word"
type_synonym u32 = "32 word"
type_synonym i64 = "64 word"
type_synonym bytes = "u8 list"

section \<open>Calls that may have no defined return\<close>

type_synonym 'a exec = "'a option"

abbreviation (input) returns :: "'a \<Rightarrow> 'a exec" where
  "returns x \<equiv> Some x"

abbreviation (input) no_return :: "'a exec" where
  "no_return \<equiv> None"

named_theorems exec_simps \<open>evaluation of the exec monad and of checked reads\<close>

text \<open>\<open>if (!read(...)) return std::nullopt;\<close> as a combinator.\<close>

definition and_then :: "'a option exec \<Rightarrow> ('a \<Rightarrow> 'b option exec) \<Rightarrow> 'b option exec" where
  "and_then r f = do { x \<leftarrow> r; (case x of None \<Rightarrow> returns None | Some v \<Rightarrow> f v) }"

lemma and_then_simps [simp, exec_simps]:
  "and_then None f = None"
  "and_then (Some None) f = Some None"
  "and_then (Some (Some v)) f = f v"
  by (simp_all add: and_then_def)

lemma and_then_eq_value:
  "and_then r f = Some (Some y) \<longleftrightarrow> (\<exists>v. r = Some (Some v) \<and> f v = Some (Some y))"
  by (cases r) (auto simp: and_then_def split: option.splits)

lemma and_then_defined:
  assumes "\<exists>x. r = Some x" and "\<And>v. r = Some (Some v) \<Longrightarrow> \<exists>y. f v = Some y"
  shows "\<exists>y. and_then r f = Some y"
  using assms by (auto simp: and_then_def split: option.splits)

section \<open>Signed 64-bit subtraction\<close>

text \<open>
  C++ leaves signed overflow undefined, so the difference of two \<open>int64_t\<close> values is
  defined only when it fits.
\<close>

definition i64_sub :: "i64 \<Rightarrow> i64 \<Rightarrow> i64 exec" where
  "i64_sub a b =
     (let d = sint a - sint b
      in if - (2 ^ 63) \<le> d \<and> d < 2 ^ 63 then returns (word_of_int d) else no_return)"

lemma sint_i64_bounds: "- (2 ^ 63) \<le> sint (a :: i64)" "sint (a :: i64) < 2 ^ 63"
  using sint_range_size [of a] by (auto simp: word_size)

lemma i64_sub_nonneg:
  assumes "0 \<le> sint a" and "0 \<le> sint b"
  shows "i64_sub a b = Some (a - b)" and "sint (a - b) = sint a - sint b"
proof -
  have range: "- (2 ^ 63) \<le> sint a - sint b" "sint a - sint b < 2 ^ 63"
    using assms sint_i64_bounds [of a] sint_i64_bounds [of b] by linarith+
  then show "sint (a - b) = sint a - sint b"
    by (simp add: sint_word_ariths signed_take_bit_int_eq_self)
  then show "i64_sub a b = Some (a - b)"
    using range by (simp add: i64_sub_def Let_def flip: wi_hom_sub)
qed

section \<open>Buffers\<close>

text \<open>
  The block of \<open>n\<close> bytes that starts at \<open>off\<close>: what \<open>data.data() + off\<close> with a length
  denotes.  A block that leaves the buffer has no defined content.
\<close>

definition slice :: "bytes \<Rightarrow> nat \<Rightarrow> nat \<Rightarrow> bytes exec" where
  "slice data off n =
     (if off + n \<le> length data then returns (take n (drop off data)) else no_return)"

lemma slice_in_range [exec_simps]:
  "off + n \<le> length data \<Longrightarrow> slice data off n = Some (take n (drop off data))"
  by (simp add: slice_def)

text \<open>A \<open>std::string\<close> is a sequence of bytes; \<open>char\<close> is 8 bits wide.\<close>

definition byte_of_char :: "char \<Rightarrow> u8" where
  "byte_of_char c = of_nat (of_char c)"

definition char_of_byte :: "u8 \<Rightarrow> char" where
  "char_of_byte b = char_of (unat b)"

definition bytes_of_string :: "string \<Rightarrow> bytes" where
  "bytes_of_string = map byte_of_char"

definition string_of_bytes :: "bytes \<Rightarrow> string" where
  "string_of_bytes = map char_of_byte"

lemma char_of_byte_of_char [simp]: "char_of_byte (byte_of_char c) = c"
  by (simp add: char_of_byte_def byte_of_char_def unsigned_of_nat take_bit_eq_mod)

lemma unat_byte_less: "unat (b :: u8) < 256"
  using unsigned_less [of b, where ?'a = nat] by simp

lemma byte_of_char_of_byte [simp]: "byte_of_char (char_of_byte b) = b"
  by (simp add: char_of_byte_def byte_of_char_def mod_less [OF unat_byte_less])

lemma string_bytes_inverse [simp]:
  "string_of_bytes (bytes_of_string s) = s"
  "bytes_of_string (string_of_bytes bs) = bs"
  by (induction s) (auto simp: string_of_bytes_def bytes_of_string_def,
      induction bs, auto simp: string_of_bytes_def bytes_of_string_def)

lemma length_bytes_of_string [simp]: "length (bytes_of_string s) = length s"
  by (simp add: bytes_of_string_def)

lemma length_string_of_bytes [simp]: "length (string_of_bytes bs) = length bs"
  by (simp add: string_of_bytes_def)

section \<open>Lists\<close>

lemma take_drop_split:
  assumes "i \<le> j" and "j \<le> k" and "k \<le> length xs"
  shows "take (k - i) (drop i xs) = take (j - i) (drop i xs) @ take (k - j) (drop j xs)"
proof -
  have "k - i = (j - i) + (k - j)" using assms by simp
  then show ?thesis
    by (simp only: take_add drop_drop) (use assms in simp)
qed

lemma take_drop_prefix:
  "off = length xs \<Longrightarrow> n = length ys \<Longrightarrow> take n (drop off (xs @ ys @ zs)) = ys"
  by simp

end
