(* ===== verification/Discovery_Types.thy ===== *)
theory Discovery_Types
  imports Prelude
begin

text \<open>
  The three enumerations of \<open>types/\<close>.  A C++ \<open>enum class\<close> over \<open>std::uint8_t\<close> can
  hold every byte: the decoder casts an untrusted byte to \<open>DiscoveryMessageType\<close>, and
  \<open>to_string\<close> has a default branch for such values.  Each datatype therefore has the named
  enumerators and \<open>..._Unnamed b\<close> for the others.
\<close>

section \<open>types/DiscoveryMessageType.hpp\<close>

datatype message_type =
    MT_Unknown
  | MT_Announce
  | MT_Probe
  | MT_Reply
  | MT_Unnamed u8

fun message_type_to_string :: "message_type \<Rightarrow> string" where
  "message_type_to_string MT_Unknown = ''unknown''"
| "message_type_to_string MT_Announce = ''announce''"
| "message_type_to_string MT_Probe = ''probe''"
| "message_type_to_string MT_Reply = ''reply''"
| "message_type_to_string (MT_Unnamed _) = ''invalid''"

definition message_type_is_valid :: "message_type \<Rightarrow> bool" where
  "message_type_is_valid t \<longleftrightarrow> t = MT_Announce \<or> t = MT_Probe \<or> t = MT_Reply"

definition is_announcement :: "message_type \<Rightarrow> bool" where
  "is_announcement t \<longleftrightarrow> t = MT_Announce"

definition is_probe_flow :: "message_type \<Rightarrow> bool" where
  "is_probe_flow t \<longleftrightarrow> t = MT_Probe \<or> t = MT_Reply"

text \<open>\<open>static_cast<std::uint8_t>(type)\<close> and \<open>static_cast<DiscoveryMessageType>(raw)\<close>.\<close>

fun message_type_to_u8 :: "message_type \<Rightarrow> u8" where
  "message_type_to_u8 MT_Unknown = 0"
| "message_type_to_u8 MT_Announce = 1"
| "message_type_to_u8 MT_Probe = 2"
| "message_type_to_u8 MT_Reply = 3"
| "message_type_to_u8 (MT_Unnamed b) = b"

definition message_type_of_u8 :: "u8 \<Rightarrow> message_type" where
  "message_type_of_u8 b =
     (if b = 0 then MT_Unknown
      else if b = 1 then MT_Announce
      else if b = 2 then MT_Probe
      else if b = 3 then MT_Reply
      else MT_Unnamed b)"

lemma message_type_to_of_u8 [simp]: "message_type_to_u8 (message_type_of_u8 b) = b"
  by (simp add: message_type_of_u8_def)

lemma message_type_of_to_u8:
  "message_type_is_valid t \<Longrightarrow> message_type_of_u8 (message_type_to_u8 t) = t"
  by (auto simp: message_type_is_valid_def message_type_of_u8_def)

lemma message_type_partition:
  "message_type_is_valid t \<longleftrightarrow> is_announcement t \<noteq> is_probe_flow t"
  by (cases t) (auto simp: message_type_is_valid_def is_announcement_def is_probe_flow_def)

lemma message_type_valid_bytes:
  "message_type_is_valid (message_type_of_u8 b) \<longleftrightarrow> b = 1 \<or> b = 2 \<or> b = 3"
  by (auto simp: message_type_is_valid_def message_type_of_u8_def)

section \<open>types/DiscoveryPeerState.hpp\<close>

datatype peer_state =
    PS_Unknown
  | PS_Discovered
  | PS_Alive
  | PS_Stale
  | PS_Expired
  | PS_Unnamed u8

fun peer_state_to_string :: "peer_state \<Rightarrow> string" where
  "peer_state_to_string PS_Unknown = ''unknown''"
| "peer_state_to_string PS_Discovered = ''discovered''"
| "peer_state_to_string PS_Alive = ''alive''"
| "peer_state_to_string PS_Stale = ''stale''"
| "peer_state_to_string PS_Expired = ''expired''"
| "peer_state_to_string (PS_Unnamed _) = ''invalid''"

definition peer_state_is_valid :: "peer_state \<Rightarrow> bool" where
  "peer_state_is_valid s \<longleftrightarrow>
     s = PS_Discovered \<or> s = PS_Alive \<or> s = PS_Stale \<or> s = PS_Expired"

definition is_available :: "peer_state \<Rightarrow> bool" where
  "is_available s \<longleftrightarrow> s = PS_Discovered \<or> s = PS_Alive"

definition is_unavailable :: "peer_state \<Rightarrow> bool" where
  "is_unavailable s \<longleftrightarrow> s = PS_Unknown \<or> s = PS_Stale \<or> s = PS_Expired"

definition is_expired :: "peer_state \<Rightarrow> bool" where
  "is_expired s \<longleftrightarrow> s = PS_Expired"

lemma available_not_unavailable: "is_available s \<Longrightarrow> \<not> is_unavailable s"
  by (auto simp: is_available_def is_unavailable_def)

lemma available_xor_unavailable:
  "(\<forall>b. s \<noteq> PS_Unnamed b) \<Longrightarrow> is_available s \<noteq> is_unavailable s"
  by (cases s) (auto simp: is_available_def is_unavailable_def)

lemma available_is_valid: "is_available s \<Longrightarrow> peer_state_is_valid s"
  by (auto simp: is_available_def peer_state_is_valid_def)

section \<open>types/DiscoveryStatus.hpp\<close>

datatype discovery_status =
    DS_Stopped
  | DS_Starting
  | DS_Running
  | DS_Stopping
  | DS_Failed
  | DS_Unnamed u8

fun status_to_string :: "discovery_status \<Rightarrow> string" where
  "status_to_string DS_Stopped = ''stopped''"
| "status_to_string DS_Starting = ''starting''"
| "status_to_string DS_Running = ''running''"
| "status_to_string DS_Stopping = ''stopping''"
| "status_to_string DS_Failed = ''failed''"
| "status_to_string (DS_Unnamed _) = ''invalid''"

definition status_is_valid :: "discovery_status \<Rightarrow> bool" where
  "status_is_valid s \<longleftrightarrow>
     s = DS_Stopped \<or> s = DS_Starting \<or> s = DS_Running \<or> s = DS_Stopping \<or> s = DS_Failed"

definition status_is_running :: "discovery_status \<Rightarrow> bool" where
  "status_is_running s \<longleftrightarrow> s = DS_Running"

definition is_transitioning :: "discovery_status \<Rightarrow> bool" where
  "is_transitioning s \<longleftrightarrow> s = DS_Starting \<or> s = DS_Stopping"

definition is_terminal :: "discovery_status \<Rightarrow> bool" where
  "is_terminal s \<longleftrightarrow> s = DS_Stopped \<or> s = DS_Failed"

lemma status_partition:
  "status_is_valid s \<Longrightarrow>
   (if status_is_running s then \<not> is_transitioning s \<and> \<not> is_terminal s
    else is_transitioning s \<noteq> is_terminal s)"
  by (cases s) (auto simp: status_is_valid_def status_is_running_def is_transitioning_def
      is_terminal_def)

end
