(* ===== verification/Externals.thy ===== *)
theory Externals
  imports Prelude
begin

text \<open>
  What the sources take from packages that are not in this repository, as parameters:
  \<^item> \<open>softadastra::core::time\<close>: \<open>Timestamp\<close> and \<open>Duration\<close> are type variables \<open>'t\<close>
    and \<open>'d\<close> with the operations the sources call (\<open>time_api\<close>), and the clock
    that \<open>Timestamp::now()\<close> reads (\<open>clock\<close>);
  \<^item> \<open>softadastra::store::utils::Serializer\<close>: the integer readers and writers
    (\<open>serializer\<close>);
  \<^item> \<open>softadastra::transport\<close>: \<open>PeerInfo\<close>, of which the sources use three fields and
    \<open>is_valid\<close>, and the \<open>TransportEngine\<close> (\<open>transport_api\<close> over a state \<open>'x\<close>).
  The laws that some results need are the named predicates \<open>timestamp_ok\<close>,
  \<open>duration_ok\<close>, \<open>clock_ok\<close> and \<open>serializer_ok\<close>; each theorem that rests on one says so
  in its hypotheses.  No behaviour of these packages is defined here.
\<close>

section \<open>Time\<close>

record ('t, 'd) time_api =
  ts_default :: "'t"                \<comment> \<open>\<open>Timestamp{}\<close>\<close>
  ts_is_valid :: "'t \<Rightarrow> bool"        \<comment> \<open>\<open>is_valid()\<close>\<close>
  ts_millis :: "'t \<Rightarrow> i64"           \<comment> \<open>\<open>millis()\<close>\<close>
  ts_from_millis :: "i64 \<Rightarrow> 't"      \<comment> \<open>\<open>Timestamp::from_millis\<close>\<close>
  dur_millis :: "'d \<Rightarrow> i64"          \<comment> \<open>\<open>Duration::millis()\<close>\<close>
  dur_from_millis :: "i64 \<Rightarrow> 'd"     \<comment> \<open>\<open>Duration::from_millis\<close>\<close>
  dur_from_seconds :: "i64 \<Rightarrow> 'd"    \<comment> \<open>\<open>Duration::from_seconds\<close>\<close>

text \<open>A timestamp is its count of milliseconds, and a valid one is not negative.\<close>

definition timestamp_ok :: "('t, 'd) time_api \<Rightarrow> bool" where
  "timestamp_ok T \<longleftrightarrow>
     \<not> ts_is_valid T (ts_default T) \<and>
     (\<forall>t. ts_from_millis T (ts_millis T t) = t) \<and>
     (\<forall>m. ts_millis T (ts_from_millis T m) = m) \<and>
     (\<forall>t. ts_is_valid T t \<longrightarrow> 0 \<le> sint (ts_millis T t))"

definition duration_ok :: "('t, 'd) time_api \<Rightarrow> bool" where
  "duration_ok T \<longleftrightarrow>
     (\<forall>m. dur_millis T (dur_from_millis T m) = m) \<and>
     (\<forall>s. 0 \<le> sint s \<and> sint s < 2 ^ 32 \<longrightarrow>
        sint (dur_millis T (dur_from_seconds T s)) = 1000 * sint s)"

lemma timestamp_okD:
  assumes "timestamp_ok T"
  shows "\<not> ts_is_valid T (ts_default T)"
    and "ts_from_millis T (ts_millis T t) = t"
    and "ts_millis T (ts_from_millis T m) = m"
    and "ts_is_valid T t \<Longrightarrow> 0 \<le> sint (ts_millis T t)"
  using assms by (auto simp: timestamp_ok_def)

text \<open>
  \<open>Timestamp::now()\<close> returns the next reading of the clock; which values the readings
  have is left open.  \<open>clock_ok\<close> says that the clock delivers valid timestamps.
\<close>

record 't clock =
  readings :: "nat \<Rightarrow> 't"
  ticks :: nat

definition now :: "'t clock \<Rightarrow> 't \<times> 't clock" where
  "now c = (readings c (ticks c), c\<lparr>ticks := Suc (ticks c)\<rparr>)"

definition clock_ok :: "('t, 'd) time_api \<Rightarrow> 't clock \<Rightarrow> bool" where
  "clock_ok T c \<longleftrightarrow> (\<forall>n. ts_is_valid T (readings c n))"

lemma now_simps [simp]:
  "fst (now c) = readings c (ticks c)"
  "readings (snd (now c)) = readings c"
  "ticks (snd (now c)) = Suc (ticks c)"
  by (simp_all add: now_def)

lemma clock_ok_now [simp]: "clock_ok T (snd (now c)) = clock_ok T c"
  by (simp add: clock_ok_def)

lemma clock_ok_reading: "clock_ok T c \<Longrightarrow> ts_is_valid T (readings c n)"
  by (simp add: clock_ok_def)

section \<open>Serializer\<close>

text \<open>
  \<open>append_*\<close> extend a buffer; \<open>read_*\<close> return \<open>false\<close> (\<open>None\<close>) or the value and the
  new offset.
\<close>

record serializer =
  ser_append_u16 :: "bytes \<Rightarrow> u16 \<Rightarrow> bytes"
  ser_append_u32 :: "bytes \<Rightarrow> u32 \<Rightarrow> bytes"
  ser_append_i64 :: "bytes \<Rightarrow> i64 \<Rightarrow> bytes"
  ser_can_read :: "bytes \<Rightarrow> nat \<Rightarrow> nat \<Rightarrow> bool"
  ser_read_u16 :: "bytes \<Rightarrow> nat \<Rightarrow> (u16 \<times> nat) option"
  ser_read_u32 :: "bytes \<Rightarrow> nat \<Rightarrow> (u32 \<times> nat) option"
  ser_read_i64 :: "bytes \<Rightarrow> nat \<Rightarrow> (i64 \<times> nat) option"

text \<open>
  A reader and a writer of integers of a fixed width: the writer appends exactly
  \<open>width\<close> bytes, the reader accepts exactly what the writer writes and stays inside the
  buffer.
\<close>

definition fixed_width ::
    "nat \<Rightarrow> (bytes \<Rightarrow> 'w \<Rightarrow> bytes) \<Rightarrow> (bytes \<Rightarrow> nat \<Rightarrow> ('w \<times> nat) option) \<Rightarrow> bool" where
  "fixed_width width put get \<longleftrightarrow>
     (\<forall>b v. put b v = b @ put [] v) \<and>
     (\<forall>v. length (put [] v) = width) \<and>
     (\<forall>xs v ys. get (xs @ put [] v @ ys) (length xs) = Some (v, length xs + width)) \<and>
     (\<forall>d off v off'. get d off = Some (v, off') \<longrightarrow>
        off' = off + width \<and> off' \<le> length d \<and> take width (drop off d) = put [] v)"

definition serializer_ok :: "serializer \<Rightarrow> bool" where
  "serializer_ok S \<longleftrightarrow>
     fixed_width 2 (ser_append_u16 S) (ser_read_u16 S) \<and>
     fixed_width 4 (ser_append_u32 S) (ser_read_u32 S) \<and>
     fixed_width 8 (ser_append_i64 S) (ser_read_i64 S) \<and>
     (\<forall>d off n. ser_can_read S d off n \<longleftrightarrow> off + n \<le> length d)"

lemma fixed_widthD:
  assumes "fixed_width width put get"
  shows "put b v = b @ put [] v"
    and "length (put [] v) = width"
    and "get (xs @ put [] v @ ys) (length xs) = Some (v, length xs + width)"
    and "get d off = Some (v, off') \<Longrightarrow>
      off' = off + width \<and> off' \<le> length d \<and> take width (drop off d) = put [] v"
  using assms unfolding fixed_width_def by blast+

lemma serializer_okD:
  assumes "serializer_ok S"
  shows "fixed_width 2 (ser_append_u16 S) (ser_read_u16 S)"
    and "fixed_width 4 (ser_append_u32 S) (ser_read_u32 S)"
    and "fixed_width 8 (ser_append_i64 S) (ser_read_i64 S)"
    and "ser_can_read S d off n \<longleftrightarrow> off + n \<le> length d"
  using assms by (auto simp: serializer_ok_def)

section \<open>Transport\<close>

text \<open>\<open>transport::core::PeerInfo\<close>, built as \<open>PeerInfo{node_id, host, port}\<close>.\<close>

record peer_info =
  pi_node_id :: string
  pi_host :: string
  pi_port :: u16

text \<open>
  \<open>TransportEngine\<close>: \<open>is_running()\<close>, \<open>peers().contains(node_id)\<close> and
  \<open>connect_peer(peer)\<close>, whose result the sources ignore, and \<open>PeerInfo::is_valid()\<close>.
\<close>

record 'x transport_api =
  tr_is_running :: "'x \<Rightarrow> bool"
  tr_contains :: "'x \<Rightarrow> string \<Rightarrow> bool"
  tr_connect_peer :: "'x \<Rightarrow> peer_info \<Rightarrow> 'x"
  peer_info_is_valid :: "peer_info \<Rightarrow> bool"

end
