(* ===== verification/Messages.thy ===== *)
theory Messages
  imports Discovery_Types Externals
begin

text \<open>
  The data that travels: \<open>core/DiscoveryAnnouncement.hpp\<close>, \<open>core/DiscoveryMessage.hpp\<close>,
  \<open>core/DiscoveryEnvelope.hpp\<close> and \<open>utils/Datagram.hpp\<close>.  A constructor or method that
  calls \<open>Timestamp::now()\<close> takes the value of that call as its argument \<open>t\<close>.
\<close>

section \<open>core/DiscoveryAnnouncement.hpp\<close>

record 't announcement =
  ann_node_id :: string
  ann_host :: string
  ann_port :: u16
  ann_timestamp :: 't

definition announcement_default :: "('t, 'd) time_api \<Rightarrow> 't announcement" where
  "announcement_default T =
     \<lparr>ann_node_id = [], ann_host = ''127.0.0.1'', ann_port = 0, ann_timestamp = ts_default T\<rparr>"

definition make_announcement :: "'t \<Rightarrow> string \<Rightarrow> string \<Rightarrow> u16 \<Rightarrow> 't announcement" where
  "make_announcement t node_id host port =
     \<lparr>ann_node_id = node_id, ann_host = host, ann_port = port, ann_timestamp = t\<rparr>"

definition announcement_local :: "'t \<Rightarrow> string \<Rightarrow> u16 \<Rightarrow> 't announcement" where
  "announcement_local t node_id port = make_announcement t node_id ''127.0.0.1'' port"

definition announcement_is_valid :: "('t, 'd) time_api \<Rightarrow> 't announcement \<Rightarrow> bool" where
  "announcement_is_valid T a \<longleftrightarrow>
     ann_node_id a \<noteq> [] \<and> ann_host a \<noteq> [] \<and> ann_port a \<noteq> 0 \<and> ts_is_valid T (ann_timestamp a)"

definition announcement_is_localhost :: "'t announcement \<Rightarrow> bool" where
  "announcement_is_localhost a \<longleftrightarrow> ann_host a = ''127.0.0.1'' \<or> ann_host a = ''localhost''"

definition announcement_touch :: "'t \<Rightarrow> 't announcement \<Rightarrow> 't announcement" where
  "announcement_touch t a = a\<lparr>ann_timestamp := t\<rparr>"

definition announcement_clear :: "('t, 'd) time_api \<Rightarrow> 't announcement \<Rightarrow> 't announcement" where
  "announcement_clear T a =
     a\<lparr>ann_node_id := [], ann_host := [], ann_port := 0, ann_timestamp := ts_default T\<rparr>"

section \<open>core/DiscoveryMessage.hpp\<close>

record message =
  msg_type :: message_type
  msg_from :: string
  msg_to :: string
  msg_correlation :: string
  msg_payload :: bytes

definition message_default :: message where
  "message_default =
     \<lparr>msg_type = MT_Unknown, msg_from = [], msg_to = [], msg_correlation = [], msg_payload = []\<rparr>"

definition make_message :: "message_type \<Rightarrow> string \<Rightarrow> bytes \<Rightarrow> message" where
  "make_message ty from payload =
     message_default\<lparr>msg_type := ty, msg_from := from, msg_payload := payload\<rparr>"

definition message_announce :: "string \<Rightarrow> bytes \<Rightarrow> message" where
  "message_announce from payload = make_message MT_Announce from payload"

definition message_probe :: "string \<Rightarrow> message" where
  "message_probe from = make_message MT_Probe from []"

definition message_reply :: "string \<Rightarrow> bytes \<Rightarrow> message" where
  "message_reply from payload = make_message MT_Reply from payload"

definition message_has_recipient :: "message \<Rightarrow> bool" where
  "message_has_recipient m \<longleftrightarrow> msg_to m \<noteq> []"

definition message_has_correlation_id :: "message \<Rightarrow> bool" where
  "message_has_correlation_id m \<longleftrightarrow> msg_correlation m \<noteq> []"

definition message_has_payload :: "message \<Rightarrow> bool" where
  "message_has_payload m \<longleftrightarrow> msg_payload m \<noteq> []"

definition message_payload_size :: "message \<Rightarrow> nat" where
  "message_payload_size m = length (msg_payload m)"

definition message_is_valid :: "message \<Rightarrow> bool" where
  "message_is_valid m \<longleftrightarrow> message_type_is_valid (msg_type m) \<and> msg_from m \<noteq> []"

definition message_clear :: "message \<Rightarrow> message" where
  "message_clear m =
     m\<lparr>msg_type := MT_Unknown, msg_from := [], msg_to := [], msg_correlation := [],
       msg_payload := []\<rparr>"

section \<open>core/DiscoveryEnvelope.hpp\<close>

record 't envelope =
  env_message :: message
  env_from_host :: string
  env_from_port :: u16
  env_to_host :: string
  env_to_port :: u16
  env_timestamp :: 't
  env_retry_count :: u32
  env_last_attempt_at :: 't

definition envelope_default :: "('t, 'd) time_api \<Rightarrow> 't envelope" where
  "envelope_default T =
     \<lparr>env_message = message_default, env_from_host = [], env_from_port = 0, env_to_host = [],
      env_to_port = 0, env_timestamp = ts_default T, env_retry_count = 0,
      env_last_attempt_at = ts_default T\<rparr>"

definition envelope_of_message :: "('t, 'd) time_api \<Rightarrow> 't \<Rightarrow> message \<Rightarrow> 't envelope" where
  "envelope_of_message T t m = (envelope_default T)\<lparr>env_message := m, env_timestamp := t\<rparr>"

definition envelope_outbound ::
    "('t, 'd) time_api \<Rightarrow> 't \<Rightarrow> message \<Rightarrow> string \<Rightarrow> u16 \<Rightarrow> 't envelope" where
  "envelope_outbound T t m host port =
     (envelope_default T)
       \<lparr>env_message := m, env_to_host := host, env_to_port := port, env_timestamp := t\<rparr>"

definition envelope_has_source :: "'t envelope \<Rightarrow> bool" where
  "envelope_has_source e \<longleftrightarrow> env_from_host e \<noteq> [] \<and> env_from_port e \<noteq> 0"

definition envelope_has_destination :: "'t envelope \<Rightarrow> bool" where
  "envelope_has_destination e \<longleftrightarrow> env_to_host e \<noteq> [] \<and> env_to_port e \<noteq> 0"

definition envelope_attempted :: "'t envelope \<Rightarrow> bool" where
  "envelope_attempted e \<longleftrightarrow> 0 < env_retry_count e"

definition envelope_mark_attempt :: "'t \<Rightarrow> 't envelope \<Rightarrow> 't envelope" where
  "envelope_mark_attempt t e =
     e\<lparr>env_retry_count := env_retry_count e + 1, env_last_attempt_at := t\<rparr>"

definition envelope_is_valid :: "('t, 'd) time_api \<Rightarrow> 't envelope \<Rightarrow> bool" where
  "envelope_is_valid T e \<longleftrightarrow> message_is_valid (env_message e) \<and> ts_is_valid T (env_timestamp e)"

definition envelope_clear :: "('t, 'd) time_api \<Rightarrow> 't envelope \<Rightarrow> 't envelope" where
  "envelope_clear T e =
     e\<lparr>env_message := message_clear (env_message e), env_from_host := [], env_from_port := 0,
       env_to_host := [], env_to_port := 0, env_timestamp := ts_default T,
       env_retry_count := 0, env_last_attempt_at := ts_default T\<rparr>"

section \<open>utils/Datagram.hpp\<close>

record datagram =
  dg_host :: string
  dg_port :: u16
  dg_payload :: bytes

definition datagram_default :: datagram where
  "datagram_default = \<lparr>dg_host = [], dg_port = 0, dg_payload = []\<rparr>"

definition make_datagram_of :: "string \<Rightarrow> u16 \<Rightarrow> bytes \<Rightarrow> datagram" where
  "make_datagram_of host port payload = \<lparr>dg_host = host, dg_port = port, dg_payload = payload\<rparr>"

definition datagram_has_endpoint :: "datagram \<Rightarrow> bool" where
  "datagram_has_endpoint d \<longleftrightarrow> dg_host d \<noteq> [] \<and> dg_port d \<noteq> 0"

definition datagram_has_payload :: "datagram \<Rightarrow> bool" where
  "datagram_has_payload d \<longleftrightarrow> dg_payload d \<noteq> []"

definition datagram_payload_size :: "datagram \<Rightarrow> nat" where
  "datagram_payload_size d = length (dg_payload d)"

definition datagram_is_valid :: "datagram \<Rightarrow> bool" where
  "datagram_is_valid d \<longleftrightarrow> datagram_has_endpoint d \<and> datagram_has_payload d"

definition datagram_clear :: "datagram \<Rightarrow> datagram" where
  "datagram_clear d = d\<lparr>dg_host := [], dg_port := 0, dg_payload := []\<rparr>"

section \<open>Validity\<close>

lemmas message_defs =
  message_default_def make_message_def message_announce_def message_probe_def message_reply_def

lemmas envelope_defs = envelope_default_def envelope_of_message_def envelope_outbound_def

lemmas datagram_defs =
  datagram_default_def make_datagram_of_def datagram_has_endpoint_def datagram_has_payload_def
  datagram_is_valid_def

text \<open>The constructors of each kind of message give valid messages of that kind.\<close>

lemma message_constructors_valid:
  "message_is_valid (message_announce from p) \<longleftrightarrow> from \<noteq> []"
  "message_is_valid (message_probe from) \<longleftrightarrow> from \<noteq> []"
  "message_is_valid (message_reply from p) \<longleftrightarrow> from \<noteq> []"
  by (simp_all add: message_is_valid_def message_type_is_valid_def message_defs)

text \<open>Default and cleared values are invalid, so they are refused by every consumer.\<close>

lemma defaults_invalid:
  "\<not> announcement_is_valid T (announcement_default T)"
  "\<not> message_is_valid message_default"
  "\<not> envelope_is_valid T (envelope_default T)"
  "\<not> datagram_is_valid datagram_default"
  by (simp_all add: announcement_is_valid_def announcement_default_def message_is_valid_def
      envelope_is_valid_def envelope_defs message_defs datagram_defs)

lemma cleared_invalid:
  "\<not> announcement_is_valid T (announcement_clear T a)"
  "\<not> message_is_valid (message_clear m)"
  "\<not> envelope_is_valid T (envelope_clear T e)"
  "\<not> datagram_is_valid (datagram_clear d)"
  by (simp_all add: announcement_is_valid_def announcement_clear_def message_is_valid_def
      message_clear_def envelope_is_valid_def envelope_clear_def datagram_clear_def datagram_defs)

lemma outbound_envelope:
  "envelope_is_valid T (envelope_outbound T t m host port) \<longleftrightarrow>
     message_is_valid m \<and> ts_is_valid T t"
  "envelope_has_destination (envelope_outbound T t m host port) \<longleftrightarrow> host \<noteq> [] \<and> port \<noteq> 0"
  "\<not> envelope_has_source (envelope_outbound T t m host port)"
  "\<not> envelope_attempted (envelope_outbound T t m host port)"
  by (simp_all add: envelope_is_valid_def envelope_has_destination_def envelope_has_source_def
      envelope_attempted_def envelope_defs)

lemma mark_attempt_frame [simp]:
  "env_message (envelope_mark_attempt t e) = env_message e"
  "env_to_host (envelope_mark_attempt t e) = env_to_host e"
  "env_to_port (envelope_mark_attempt t e) = env_to_port e"
  "env_timestamp (envelope_mark_attempt t e) = env_timestamp e"
  "envelope_is_valid T (envelope_mark_attempt t e) = envelope_is_valid T e"
  "envelope_has_destination (envelope_mark_attempt t e) = envelope_has_destination e"
  by (simp_all add: envelope_mark_attempt_def envelope_is_valid_def envelope_has_destination_def)

text \<open>
  The retry counter is a \<open>uint32_t\<close>: after \<open>2 ^ 32\<close> attempts it is zero again and
  the envelope counts as not attempted.
\<close>

lemma mark_attempt_counts:
  "unat (env_retry_count (envelope_mark_attempt t e)) =
     (if env_retry_count e = - 1 then 0 else Suc (unat (env_retry_count e)))"
proof (cases "env_retry_count e = - 1")
  case False
  then have "1 + env_retry_count e \<noteq> 0"
    by (metis add.commute add_eq_0_iff)
  with False show ?thesis
    by (simp add: envelope_mark_attempt_def unatSuc add.commute)
qed (simp add: envelope_mark_attempt_def)

end
