(* ===== verification/Config.thy ===== *)
theory Config
  imports Messages
begin

text \<open>
  Configuration: \<open>core/DiscoveryConfig.hpp\<close>, the public \<open>DiscoveryOptions.hpp\<close> that maps
  to it, and \<open>core/DiscoveryContext.hpp\<close>, which hands the configuration and the transport
  engine to the discovery engine.  A \<open>Result<T, Error>\<close> is a sum \<open>error + 'a\<close>; a pointer
  is an option, \<open>None\<close> being \<open>nullptr\<close>.
\<close>

section \<open>core/DiscoveryConfig.hpp\<close>

record 'd config =
  cfg_bind_host :: string
  cfg_bind_port :: u16
  cfg_broadcast_host :: string
  cfg_broadcast_port :: u16
  cfg_node_id :: string
  cfg_announce_host :: string
  cfg_announce_port :: u16
  cfg_announce_interval :: 'd
  cfg_peer_ttl :: 'd
  cfg_max_datagram_size :: nat
  cfg_enable_broadcast :: bool

definition config_default :: "('t, 'd) time_api \<Rightarrow> 'd config" where
  "config_default T =
     \<lparr>cfg_bind_host = ''0.0.0.0'', cfg_bind_port = 0,
      cfg_broadcast_host = ''255.255.255.255'', cfg_broadcast_port = 0,
      cfg_node_id = [], cfg_announce_host = ''127.0.0.1'', cfg_announce_port = 0,
      cfg_announce_interval = dur_from_seconds T 3, cfg_peer_ttl = dur_from_seconds T 15,
      cfg_max_datagram_size = 64 * 1024, cfg_enable_broadcast = True\<rparr>"

definition make_config :: "('t, 'd) time_api \<Rightarrow> string \<Rightarrow> u16 \<Rightarrow> u16 \<Rightarrow> 'd config" where
  "make_config T node_id bind_port announce_port =
     (config_default T)
       \<lparr>cfg_bind_port := bind_port, cfg_broadcast_port := bind_port, cfg_node_id := node_id,
        cfg_announce_port := announce_port\<rparr>"

definition config_local :: "('t, 'd) time_api \<Rightarrow> string \<Rightarrow> u16 \<Rightarrow> u16 \<Rightarrow> 'd config" where
  "config_local T node_id bind_port announce_port =
     (make_config T node_id bind_port announce_port)
       \<lparr>cfg_bind_host := ''127.0.0.1'', cfg_broadcast_host := ''127.0.0.1'',
        cfg_announce_host := ''127.0.0.1''\<rparr>"

definition config_lan :: "('t, 'd) time_api \<Rightarrow> string \<Rightarrow> u16 \<Rightarrow> u16 \<Rightarrow> 'd config" where
  "config_lan T node_id bind_port announce_port =
     (make_config T node_id bind_port announce_port)
       \<lparr>cfg_bind_host := ''0.0.0.0'', cfg_broadcast_host := ''255.255.255.255'',
        cfg_announce_host := ''127.0.0.1'', cfg_enable_broadcast := True\<rparr>"

definition announce_interval_ms :: "('t, 'd) time_api \<Rightarrow> 'd config \<Rightarrow> i64" where
  "announce_interval_ms T c = dur_millis T (cfg_announce_interval c)"

definition peer_ttl_ms :: "('t, 'd) time_api \<Rightarrow> 'd config \<Rightarrow> i64" where
  "peer_ttl_ms T c = dur_millis T (cfg_peer_ttl c)"

definition config_is_valid :: "('t, 'd) time_api \<Rightarrow> 'd config \<Rightarrow> bool" where
  "config_is_valid T c \<longleftrightarrow>
     cfg_bind_host c \<noteq> [] \<and> cfg_bind_port c \<noteq> 0 \<and>
     cfg_broadcast_host c \<noteq> [] \<and> cfg_broadcast_port c \<noteq> 0 \<and>
     cfg_node_id c \<noteq> [] \<and> cfg_announce_host c \<noteq> [] \<and> cfg_announce_port c \<noteq> 0 \<and>
     0 < sint (dur_millis T (cfg_announce_interval c)) \<and>
     0 < sint (dur_millis T (cfg_peer_ttl c)) \<and>
     0 < cfg_max_datagram_size c"

section \<open>DiscoveryOptions.hpp\<close>

record 'd options =
  opt_node_id :: string
  opt_bind_host :: string
  opt_bind_port :: u16
  opt_broadcast_host :: string
  opt_broadcast_port :: u16
  opt_announce_host :: string
  opt_announce_port :: u16
  opt_announce_interval :: 'd
  opt_peer_ttl :: 'd
  opt_enable_broadcast :: bool

definition options_default :: "('t, 'd) time_api \<Rightarrow> 'd options" where
  "options_default T =
     \<lparr>opt_node_id = [], opt_bind_host = ''0.0.0.0'', opt_bind_port = 9400,
      opt_broadcast_host = ''255.255.255.255'', opt_broadcast_port = 9400,
      opt_announce_host = ''127.0.0.1'', opt_announce_port = 0,
      opt_announce_interval = dur_from_seconds T 3, opt_peer_ttl = dur_from_seconds T 15,
      opt_enable_broadcast = True\<rparr>"

definition make_options :: "('t, 'd) time_api \<Rightarrow> string \<Rightarrow> u16 \<Rightarrow> 'd options" where
  "make_options T node_id transport_port =
     (options_default T)\<lparr>opt_node_id := node_id, opt_announce_port := transport_port\<rparr>"

definition options_local :: "('t, 'd) time_api \<Rightarrow> string \<Rightarrow> u16 \<Rightarrow> u16 \<Rightarrow> 'd options" where
  "options_local T node_id bind_port announce_port =
     (make_options T node_id announce_port)
       \<lparr>opt_bind_host := ''127.0.0.1'', opt_bind_port := bind_port,
        opt_broadcast_host := ''127.0.0.1'', opt_broadcast_port := bind_port,
        opt_announce_host := ''127.0.0.1''\<rparr>"

definition options_lan :: "('t, 'd) time_api \<Rightarrow> string \<Rightarrow> u16 \<Rightarrow> u16 \<Rightarrow> 'd options" where
  "options_lan T node_id bind_port announce_port =
     (make_options T node_id announce_port)
       \<lparr>opt_bind_host := ''0.0.0.0'', opt_bind_port := bind_port,
        opt_broadcast_host := ''255.255.255.255'', opt_broadcast_port := bind_port,
        opt_announce_host := ''127.0.0.1'', opt_enable_broadcast := True\<rparr>"

definition options_announce_interval_ms :: "('t, 'd) time_api \<Rightarrow> 'd options \<Rightarrow> i64" where
  "options_announce_interval_ms T opt = dur_millis T (opt_announce_interval opt)"

definition options_peer_ttl_ms :: "('t, 'd) time_api \<Rightarrow> 'd options \<Rightarrow> i64" where
  "options_peer_ttl_ms T opt = dur_millis T (opt_peer_ttl opt)"

definition to_config :: "('t, 'd) time_api \<Rightarrow> 'd options \<Rightarrow> 'd config" where
  "to_config T opt =
     (config_default T)
       \<lparr>cfg_bind_host := opt_bind_host opt, cfg_bind_port := opt_bind_port opt,
        cfg_broadcast_host := opt_broadcast_host opt,
        cfg_broadcast_port := opt_broadcast_port opt,
        cfg_node_id := opt_node_id opt, cfg_announce_host := opt_announce_host opt,
        cfg_announce_port := opt_announce_port opt,
        cfg_announce_interval := opt_announce_interval opt,
        cfg_peer_ttl := opt_peer_ttl opt, cfg_enable_broadcast := opt_enable_broadcast opt\<rparr>"

definition options_is_valid :: "('t, 'd) time_api \<Rightarrow> 'd options \<Rightarrow> bool" where
  "options_is_valid T opt \<longleftrightarrow>
     opt_node_id opt \<noteq> [] \<and> opt_bind_host opt \<noteq> [] \<and> opt_bind_port opt \<noteq> 0 \<and>
     opt_broadcast_host opt \<noteq> [] \<and> opt_broadcast_port opt \<noteq> 0 \<and>
     opt_announce_host opt \<noteq> [] \<and> opt_announce_port opt \<noteq> 0 \<and>
     0 < sint (dur_millis T (opt_announce_interval opt)) \<and>
     0 < sint (dur_millis T (opt_peer_ttl opt))"

definition options_valid :: "('t, 'd) time_api \<Rightarrow> 'd options \<Rightarrow> bool" where
  "options_valid T opt = options_is_valid T opt"

section \<open>core/DiscoveryContext.hpp\<close>

text \<open>
  \<open>core::errors::Error\<close> as the sources build it: a code and a message.
\<close>

datatype error_code = InvalidState | InvalidArgument

datatype error = Error error_code string

text \<open>
  The transport engine is one mutable object outside the context; the pointer only says
  whether it is there, and its state is the \<open>'x\<close> that the operations thread.
\<close>

record 'd discovery_context =
  ctx_config :: "'d config option"
  ctx_transport :: "unit option"

definition context_default :: "'d discovery_context" where
  "context_default = \<lparr>ctx_config = None, ctx_transport = None\<rparr>"

definition make_context :: "'d config \<Rightarrow> 'd discovery_context" where
  "make_context c = \<lparr>ctx_config = Some c, ctx_transport = Some ()\<rparr>"

definition context_is_valid :: "('t, 'd) time_api \<Rightarrow> 'd discovery_context \<Rightarrow> bool" where
  "context_is_valid T ctx \<longleftrightarrow>
     (case ctx_config ctx of
        None \<Rightarrow> False
      | Some c \<Rightarrow> ctx_transport ctx \<noteq> None \<and> config_is_valid T c)"

definition config_checked :: "('t, 'd) time_api \<Rightarrow> 'd discovery_context \<Rightarrow> error + 'd config" where
  "config_checked T ctx =
     (case ctx_config ctx of
        None \<Rightarrow> Inl (Error InvalidState ''discovery context config is null'')
      | Some c \<Rightarrow>
          if \<not> config_is_valid T c then Inl (Error InvalidArgument ''discovery config is invalid'')
          else Inr c)"

definition transport_checked :: "'x transport_api \<Rightarrow> 'x \<Rightarrow> 'd discovery_context \<Rightarrow> error + unit" where
  "transport_checked X x ctx =
     (case ctx_transport ctx of
        None \<Rightarrow> Inl (Error InvalidState ''discovery context transport engine is null'')
      | Some p \<Rightarrow>
          if \<not> tr_is_running X x then Inl (Error InvalidState ''transport engine is not running'')
          else Inr p)"

definition config_ptr :: "'d discovery_context \<Rightarrow> 'd config option" where
  "config_ptr ctx = ctx_config ctx"

definition transport_ptr :: "'d discovery_context \<Rightarrow> unit option" where
  "transport_ptr ctx = ctx_transport ctx"

definition has_config :: "'d discovery_context \<Rightarrow> bool" where
  "has_config ctx \<longleftrightarrow> ctx_config ctx \<noteq> None"

definition has_transport :: "'d discovery_context \<Rightarrow> bool" where
  "has_transport ctx \<longleftrightarrow> ctx_transport ctx \<noteq> None"

section \<open>Facts\<close>

lemmas config_defs = config_default_def make_config_def config_local_def config_lan_def

lemmas options_defs = options_default_def make_options_def options_local_def options_lan_def

lemma config_checked_Inr:
  "config_checked T ctx = Inr c \<longleftrightarrow> ctx_config ctx = Some c \<and> config_is_valid T c"
  by (auto simp: config_checked_def split: option.splits)

lemma config_checked_Inl:
  "(\<exists>e. config_checked T ctx = Inl e) \<longleftrightarrow>
     (\<forall>c. ctx_config ctx = Some c \<longrightarrow> \<not> config_is_valid T c)"
  by (auto simp: config_checked_def split: option.splits)

lemma transport_checked_Inr:
  "transport_checked X x ctx = Inr () \<longleftrightarrow> ctx_transport ctx = Some () \<and> tr_is_running X x"
  by (auto simp: transport_checked_def split: option.splits)

lemma context_is_valid_iff:
  "context_is_valid T ctx \<longleftrightarrow> has_transport ctx \<and> (\<exists>c. config_checked T ctx = Inr c)"
  by (auto simp: context_is_valid_def has_transport_def config_checked_Inr split: option.splits)

lemma to_config_valid: "config_is_valid T (to_config T opt) \<longleftrightarrow> options_is_valid T opt"
  by (auto simp: to_config_def config_is_valid_def options_is_valid_def config_default_def)

text \<open>The durations of the defaults are 3 and 15 seconds.\<close>

lemma default_durations:
  assumes "duration_ok T"
  shows "sint (dur_millis T (dur_from_seconds T 3)) = 3000"
    and "sint (dur_millis T (dur_from_seconds T 15)) = 15000"
  using assms by (simp_all add: duration_ok_def)

end
