(* ===== verification/Peers.thy ===== *)
theory Peers
  imports Config
begin

text \<open>
  \<open>peer/DiscoveredPeer.hpp\<close>, the runtime state of one peer, and the public \<open>Peer.hpp\<close>.
  A method that calls \<open>Timestamp::now()\<close> takes the reading as its argument \<open>t\<close>.
\<close>

section \<open>peer/DiscoveredPeer.hpp\<close>

record 't discovered_peer =
  dp_announcement :: "'t announcement"
  dp_state :: peer_state
  dp_last_seen_at :: 't
  dp_error_count :: u32

definition discovered_peer_default :: "('t, 'd) time_api \<Rightarrow> 't discovered_peer" where
  "discovered_peer_default T =
     \<lparr>dp_announcement = announcement_default T, dp_state = PS_Unknown,
      dp_last_seen_at = ts_default T, dp_error_count = 0\<rparr>"

definition make_discovered_peer :: "'t \<Rightarrow> 't announcement \<Rightarrow> 't discovered_peer" where
  "make_discovered_peer t a =
     \<lparr>dp_announcement = a, dp_state = PS_Discovered, dp_last_seen_at = t, dp_error_count = 0\<rparr>"

definition peer_node_id :: "'t discovered_peer \<Rightarrow> string" where
  "peer_node_id p = ann_node_id (dp_announcement p)"

definition peer_is_valid :: "('t, 'd) time_api \<Rightarrow> 't discovered_peer \<Rightarrow> bool" where
  "peer_is_valid T p \<longleftrightarrow>
     announcement_is_valid T (dp_announcement p) \<and> peer_state_is_valid (dp_state p)"

definition peer_available :: "'t discovered_peer \<Rightarrow> bool" where
  "peer_available p \<longleftrightarrow> is_available (dp_state p)"

definition peer_discovered :: "'t discovered_peer \<Rightarrow> bool" where
  "peer_discovered p \<longleftrightarrow> dp_state p = PS_Discovered"

definition peer_alive :: "'t discovered_peer \<Rightarrow> bool" where
  "peer_alive p \<longleftrightarrow> dp_state p = PS_Alive"

definition peer_stale :: "'t discovered_peer \<Rightarrow> bool" where
  "peer_stale p \<longleftrightarrow> dp_state p = PS_Stale"

definition peer_expired :: "'t discovered_peer \<Rightarrow> bool" where
  "peer_expired p \<longleftrightarrow> dp_state p = PS_Expired"

definition peer_touch :: "'t \<Rightarrow> 't discovered_peer \<Rightarrow> 't discovered_peer" where
  "peer_touch t p = p\<lparr>dp_last_seen_at := t\<rparr>"

definition peer_mark_discovered :: "'t \<Rightarrow> 't discovered_peer \<Rightarrow> 't discovered_peer" where
  "peer_mark_discovered t p = peer_touch t (p\<lparr>dp_state := PS_Discovered\<rparr>)"

definition peer_mark_alive :: "'t \<Rightarrow> 't discovered_peer \<Rightarrow> 't discovered_peer" where
  "peer_mark_alive t p = peer_touch t (p\<lparr>dp_state := PS_Alive\<rparr>)"

definition peer_mark_stale :: "'t \<Rightarrow> 't discovered_peer \<Rightarrow> 't discovered_peer" where
  "peer_mark_stale t p = peer_touch t (p\<lparr>dp_state := PS_Stale\<rparr>)"

definition peer_mark_expired :: "'t \<Rightarrow> 't discovered_peer \<Rightarrow> 't discovered_peer" where
  "peer_mark_expired t p = peer_touch t (p\<lparr>dp_state := PS_Expired\<rparr>)"

definition peer_mark_error :: "'t \<Rightarrow> 't discovered_peer \<Rightarrow> 't discovered_peer" where
  "peer_mark_error t p = peer_touch t (p\<lparr>dp_error_count := dp_error_count p + 1\<rparr>)"

definition peer_update :: "'t \<Rightarrow> 't announcement \<Rightarrow> 't discovered_peer \<Rightarrow> 't discovered_peer" where
  "peer_update t a p = peer_mark_alive t (p\<lparr>dp_announcement := a\<rparr>)"

definition to_peer_info :: "'t discovered_peer \<Rightarrow> peer_info" where
  "to_peer_info p =
     \<lparr>pi_node_id = ann_node_id (dp_announcement p), pi_host = ann_host (dp_announcement p),
      pi_port = ann_port (dp_announcement p)\<rparr>"

definition peer_clear :: "('t, 'd) time_api \<Rightarrow> 't discovered_peer \<Rightarrow> 't discovered_peer" where
  "peer_clear T p =
     p\<lparr>dp_announcement := announcement_clear T (dp_announcement p), dp_state := PS_Unknown,
       dp_last_seen_at := ts_default T, dp_error_count := 0\<rparr>"

lemmas peer_mark_defs =
  peer_touch_def peer_mark_discovered_def peer_mark_alive_def peer_mark_stale_def
  peer_mark_expired_def peer_mark_error_def peer_update_def

lemma peer_marks_state [simp]:
  "dp_state (peer_touch t p) = dp_state p"
  "dp_state (peer_mark_discovered t p) = PS_Discovered"
  "dp_state (peer_mark_alive t p) = PS_Alive"
  "dp_state (peer_mark_stale t p) = PS_Stale"
  "dp_state (peer_mark_expired t p) = PS_Expired"
  "dp_state (peer_mark_error t p) = dp_state p"
  "dp_state (peer_update t a p) = PS_Alive"
  by (simp_all add: peer_mark_defs)

lemma peer_marks_seen [simp]:
  "dp_last_seen_at (peer_touch t p) = t"
  "dp_last_seen_at (peer_mark_discovered t p) = t"
  "dp_last_seen_at (peer_mark_alive t p) = t"
  "dp_last_seen_at (peer_mark_stale t p) = t"
  "dp_last_seen_at (peer_mark_expired t p) = t"
  "dp_last_seen_at (peer_mark_error t p) = t"
  "dp_last_seen_at (peer_update t a p) = t"
  by (simp_all add: peer_mark_defs)

lemma peer_marks_announcement [simp]:
  "dp_announcement (peer_touch t p) = dp_announcement p"
  "dp_announcement (peer_mark_discovered t p) = dp_announcement p"
  "dp_announcement (peer_mark_alive t p) = dp_announcement p"
  "dp_announcement (peer_mark_stale t p) = dp_announcement p"
  "dp_announcement (peer_mark_expired t p) = dp_announcement p"
  "dp_announcement (peer_mark_error t p) = dp_announcement p"
  "dp_announcement (peer_update t a p) = a"
  by (simp_all add: peer_mark_defs)

text \<open>Every mark leaves a peer with a valid announcement valid.\<close>

lemma peer_marks_valid [simp]:
  "peer_is_valid T (peer_touch t p) = peer_is_valid T p"
  "peer_is_valid T (peer_mark_discovered t p) = announcement_is_valid T (dp_announcement p)"
  "peer_is_valid T (peer_mark_alive t p) = announcement_is_valid T (dp_announcement p)"
  "peer_is_valid T (peer_mark_stale t p) = announcement_is_valid T (dp_announcement p)"
  "peer_is_valid T (peer_mark_expired t p) = announcement_is_valid T (dp_announcement p)"
  "peer_is_valid T (peer_mark_error t p) = peer_is_valid T p"
  "peer_is_valid T (peer_update t a p) = announcement_is_valid T a"
  by (simp_all add: peer_is_valid_def peer_state_is_valid_def)

lemma make_discovered_peer_simps [simp]:
  "dp_announcement (make_discovered_peer t a) = a"
  "dp_state (make_discovered_peer t a) = PS_Discovered"
  "dp_last_seen_at (make_discovered_peer t a) = t"
  "peer_is_valid T (make_discovered_peer t a) = announcement_is_valid T a"
  by (simp_all add: make_discovered_peer_def peer_is_valid_def peer_state_is_valid_def)

section \<open>Peer.hpp\<close>

record 't public_peer =
  pub_node_id :: string
  pub_host :: string
  pub_port :: u16
  pub_last_seen_at :: 't

definition public_peer_default :: "('t, 'd) time_api \<Rightarrow> 't public_peer" where
  "public_peer_default T =
     \<lparr>pub_node_id = [], pub_host = [], pub_port = 0, pub_last_seen_at = ts_default T\<rparr>"

definition make_public_peer :: "'t \<Rightarrow> string \<Rightarrow> string \<Rightarrow> u16 \<Rightarrow> 't public_peer" where
  "make_public_peer t node_id host port =
     \<lparr>pub_node_id = node_id, pub_host = host, pub_port = port, pub_last_seen_at = t\<rparr>"

definition from_transport_peer :: "'t \<Rightarrow> peer_info \<Rightarrow> 't public_peer" where
  "from_transport_peer t p = make_public_peer t (pi_node_id p) (pi_host p) (pi_port p)"

definition from_discovered_peer :: "'t \<Rightarrow> 't discovered_peer \<Rightarrow> 't public_peer" where
  "from_discovered_peer t p =
     (make_public_peer t (ann_node_id (dp_announcement p)) (ann_host (dp_announcement p))
        (ann_port (dp_announcement p)))\<lparr>pub_last_seen_at := dp_last_seen_at p\<rparr>"

definition to_transport_peer :: "'t public_peer \<Rightarrow> peer_info" where
  "to_transport_peer p =
     \<lparr>pi_node_id = pub_node_id p, pi_host = pub_host p, pi_port = pub_port p\<rparr>"

definition public_peer_is_localhost :: "'t public_peer \<Rightarrow> bool" where
  "public_peer_is_localhost p \<longleftrightarrow> pub_host p = ''127.0.0.1'' \<or> pub_host p = ''localhost''"

definition public_peer_is_valid :: "('t, 'd) time_api \<Rightarrow> 't public_peer \<Rightarrow> bool" where
  "public_peer_is_valid T p \<longleftrightarrow>
     pub_node_id p \<noteq> [] \<and> pub_host p \<noteq> [] \<and> pub_port p \<noteq> 0 \<and>
     ts_is_valid T (pub_last_seen_at p)"

definition public_peer_valid :: "('t, 'd) time_api \<Rightarrow> 't public_peer \<Rightarrow> bool" where
  "public_peer_valid T p = public_peer_is_valid T p"

definition public_peer_touch :: "'t \<Rightarrow> 't public_peer \<Rightarrow> 't public_peer" where
  "public_peer_touch t p = p\<lparr>pub_last_seen_at := t\<rparr>"

definition public_peer_clear :: "('t, 'd) time_api \<Rightarrow> 't public_peer \<Rightarrow> 't public_peer" where
  "public_peer_clear T p =
     p\<lparr>pub_node_id := [], pub_host := [], pub_port := 0, pub_last_seen_at := ts_default T\<rparr>"

text \<open>
  A discovered peer, its public view and the transport peers of both agree on identity and
  endpoint, and the conversion through \<open>PeerInfo\<close> loses only the timestamp.
\<close>

lemma public_peer_conversions:
  "to_transport_peer (from_discovered_peer t p) = to_peer_info p"
  "to_transport_peer (from_transport_peer t i) = i"
  "from_transport_peer (pub_last_seen_at q) (to_transport_peer q) = q"
  "pub_last_seen_at (from_discovered_peer t p) = dp_last_seen_at p"
  by (simp_all add: to_transport_peer_def from_discovered_peer_def to_peer_info_def
      from_transport_peer_def make_public_peer_def)

lemma public_peer_valid_iff:
  assumes "peer_is_valid T p"
  shows "public_peer_is_valid T (from_discovered_peer t p) \<longleftrightarrow> ts_is_valid T (dp_last_seen_at p)"
  using assms
  by (simp add: public_peer_is_valid_def from_discovered_peer_def make_public_peer_def
      peer_is_valid_def announcement_is_valid_def)

end
