(* ===== verification/Backend.thy ===== *)
theory Backend
  imports Peers
begin

text \<open>
  \<open>backend/IDiscoveryBackend.hpp\<close>, the abstract interface between the engine and the
  network, and its two thin clients \<open>client/DiscoveryClient.hpp\<close> and
  \<open>server/DiscoveryServer.hpp\<close>.

  The virtual methods are a record of functions over a backend state \<open>'b\<close>.  The locale
  \<open>discovery_backend\<close> states what the engine relies on; the UDP backend interprets it.
\<close>

section \<open>backend/IDiscoveryBackend.hpp\<close>

record ('b, 't) backend =
  be_start :: "'b \<Rightarrow> (bool \<times> 'b) exec"
  be_stop :: "'b \<Rightarrow> 'b"
  be_is_running :: "'b \<Rightarrow> bool"
  be_send :: "'b \<Rightarrow> 't envelope \<Rightarrow> (bool \<times> 'b) exec"
  be_poll :: "'b \<Rightarrow> 't clock \<Rightarrow> ('t envelope option \<times> 'b \<times> 't clock) exec"

definition backend_running :: "('b, 't) backend \<Rightarrow> 'b \<Rightarrow> bool" where
  "backend_running B b = be_is_running B b"

section \<open>client/DiscoveryClient.hpp\<close>

definition client_send ::
    "('t, 'd) time_api \<Rightarrow> ('b, 't) backend \<Rightarrow> 't envelope \<Rightarrow> 'b \<Rightarrow> 't clock \<Rightarrow>
     (bool \<times> 'b \<times> 't clock) exec" where
  "client_send T B e b c =
     (if \<not> envelope_is_valid T e \<or> \<not> envelope_has_destination e then returns (False, b, c)
      else
        let (t, c) = now c;
            e = envelope_mark_attempt t e
        in do { (sent, b) \<leftarrow> be_send B b e; returns (sent, b, c) })"

definition client_send_to ::
    "('t, 'd) time_api \<Rightarrow> ('b, 't) backend \<Rightarrow> string \<Rightarrow> u16 \<Rightarrow> message \<Rightarrow> 'b \<Rightarrow> 't clock \<Rightarrow>
     (bool \<times> 'b \<times> 't clock) exec" where
  "client_send_to T B host port m b c =
     (if host = [] \<or> port = 0 \<or> \<not> message_is_valid m then returns (False, b, c)
      else
        let (t, c) = now c;
            e = envelope_outbound T t m host port
        in client_send T B e b c)"

definition client_send_announce ::
    "('t, 'd) time_api \<Rightarrow> ('b, 't) backend \<Rightarrow> string \<Rightarrow> u16 \<Rightarrow> string \<Rightarrow> bytes \<Rightarrow> 'b \<Rightarrow> 't clock \<Rightarrow>
     (bool \<times> 'b \<times> 't clock) exec" where
  "client_send_announce T B host port from payload b c =
     client_send_to T B host port (message_announce from payload) b c"

definition client_send_probe ::
    "('t, 'd) time_api \<Rightarrow> ('b, 't) backend \<Rightarrow> string \<Rightarrow> u16 \<Rightarrow> string \<Rightarrow> 'b \<Rightarrow> 't clock \<Rightarrow>
     (bool \<times> 'b \<times> 't clock) exec" where
  "client_send_probe T B host port from b c =
     client_send_to T B host port (message_probe from) b c"

definition client_send_reply ::
    "('t, 'd) time_api \<Rightarrow> ('b, 't) backend \<Rightarrow> string \<Rightarrow> u16 \<Rightarrow> string \<Rightarrow> bytes \<Rightarrow> 'b \<Rightarrow> 't clock \<Rightarrow>
     (bool \<times> 'b \<times> 't clock) exec" where
  "client_send_reply T B host port from payload b c =
     client_send_to T B host port (message_reply from payload) b c"

definition client_is_running :: "('b, 't) backend \<Rightarrow> 'b \<Rightarrow> bool" where
  "client_is_running B b = be_is_running B b"

definition client_running :: "('b, 't) backend \<Rightarrow> 'b \<Rightarrow> bool" where
  "client_running B b = client_is_running B b"

section \<open>server/DiscoveryServer.hpp\<close>

definition server_start :: "('b, 't) backend \<Rightarrow> 'b \<Rightarrow> (bool \<times> 'b) exec" where
  "server_start B b = be_start B b"

definition server_stop :: "('b, 't) backend \<Rightarrow> 'b \<Rightarrow> 'b" where
  "server_stop B b = be_stop B b"

definition server_is_running :: "('b, 't) backend \<Rightarrow> 'b \<Rightarrow> bool" where
  "server_is_running B b = be_is_running B b"

definition server_running :: "('b, 't) backend \<Rightarrow> 'b \<Rightarrow> bool" where
  "server_running B b = server_is_running B b"

definition server_poll ::
    "('b, 't) backend \<Rightarrow> 'b \<Rightarrow> 't clock \<Rightarrow> ('t envelope option \<times> 'b \<times> 't clock) exec" where
  "server_poll B b c = be_poll B b c"

lemmas server_defs = server_start_def server_stop_def server_is_running_def server_poll_def

section \<open>The contract of a backend\<close>

text \<open>
  \<open>start\<close> reports whether the backend now runs and \<open>stop\<close> ends it; sending and polling
  neither start nor stop it, do nothing when it is stopped, and only read the clock
  forward; what \<open>send\<close> accepts has a valid message and a destination, and what \<open>poll\<close>
  delivers has a valid message and a source.
\<close>

locale discovery_backend =
  fixes B :: "('b, 't) backend"
  assumes start_outcome: "be_start B b = Some (ok, b') \<Longrightarrow> be_is_running B b' = ok"
    and start_again: "be_is_running B b \<Longrightarrow> be_start B b = Some (True, b)"
    and stop_ends: "\<not> be_is_running B (be_stop B b)"
    and send_stopped: "\<not> be_is_running B b \<Longrightarrow> be_send B b e = Some (False, b)"
    and send_keeps: "be_send B b e = Some (ok, b') \<Longrightarrow> be_is_running B b' = be_is_running B b"
    and send_accepts: "be_send B b e = Some (True, b') \<Longrightarrow>
      message_is_valid (env_message e) \<and> envelope_has_destination e"
    and poll_stopped: "\<not> be_is_running B b \<Longrightarrow> be_poll B b c = Some (None, b, c)"
    and poll_keeps: "be_poll B b c = Some (got, b', c') \<Longrightarrow>
      be_is_running B b' = be_is_running B b \<and> readings c' = readings c \<and> ticks c \<le> ticks c'"
    and poll_delivers: "be_poll B b c = Some (Some e, b', c') \<Longrightarrow>
      message_is_valid (env_message e) \<and> envelope_has_source e"
begin

lemma client_send_stopped:
  "\<not> be_is_running B b \<Longrightarrow> client_send T B e b c = Some (ok, b', c') \<Longrightarrow> \<not> ok \<and> b' = b"
  by (auto simp: client_send_def send_stopped Let_def split: if_splits prod.splits)

lemma client_send_keeps:
  "client_send T B e b c = Some (ok, b', c') \<Longrightarrow>
   be_is_running B b' = be_is_running B b \<and> readings c' = readings c \<and> ticks c \<le> ticks c'"
  by (auto simp: client_send_def now_def Let_def bind_eq_Some_conv dest: send_keeps
      split: if_splits prod.splits)

lemma client_send_needs_running:
  "client_send T B e b c = Some (True, b', c') \<Longrightarrow> be_is_running B b"
  using client_send_stopped by blast

lemma client_send_to_keeps:
  "client_send_to T B host port m b c = Some (ok, b', c') \<Longrightarrow>
   be_is_running B b' = be_is_running B b \<and> readings c' = readings c"
  by (auto simp: client_send_to_def now_def Let_def dest: client_send_keeps split: if_splits)

end

text \<open>A rejected envelope never reaches the backend, and an accepted one is marked once.\<close>

lemma client_send_rejects:
  "\<not> (envelope_is_valid T e \<and> envelope_has_destination e) \<Longrightarrow>
   client_send T B e b c = Some (False, b, c)"
  by (auto simp: client_send_def)

lemma client_send_forwards:
  "envelope_is_valid T e \<Longrightarrow> envelope_has_destination e \<Longrightarrow>
   client_send T B e b c =
     map_option (\<lambda>(sent, b'). (sent, b', snd (now c)))
       (be_send B b (envelope_mark_attempt (fst (now c)) e))"
  by (cases "be_send B b (envelope_mark_attempt (fst (now c)) e)")
     (auto simp: client_send_def Let_def now_def)

text \<open>\<open>send_to\<close> is \<open>send\<close> of the envelope it builds: its own checks are those of \<open>send\<close>.\<close>

lemma client_send_to_eq:
  assumes "ts_is_valid T (fst (now c))"
  shows "client_send_to T B host port m b c =
    (if host = [] \<or> port = 0 \<or> \<not> message_is_valid m then Some (False, b, c)
     else map_option (\<lambda>(sent, b'). (sent, b', snd (now (snd (now c)))))
       (be_send B b (envelope_mark_attempt (fst (now (snd (now c))))
          (envelope_outbound T (fst (now c)) m host port))))"
  using assms
  by (simp add: client_send_to_def Let_def client_send_forwards outbound_envelope now_def)

end
