(* ===== verification/Unordered_Map.thy ===== *)
theory Unordered_Map
  imports Prelude
begin

text \<open>
  \<open>std::unordered_map\<close>, as far as the sources use it.  A map is the list of its entries
  in iteration order.  The standard fixes which entries a map holds but not their order: an
  insertion may rehash and put the entries in any order, while assignment through an
  existing key, access through a pointer and \<open>erase\<close> keep the order of the other entries.
  The order after an insertion is therefore an argument \<open>layout\<close> of the operations that
  insert, a rearrangement of the list (\<open>layout_ok\<close>); results about the registry hold for
  every layout.

  The locale \<open>keyed_store\<close> is the contract the registry relies on; it is interpreted on
  these operations as \<open>um\<close>.
\<close>

section \<open>The operations\<close>

type_synonym ('k, 'v) umap = "('k \<times> 'v) list"
type_synonym ('k, 'v) layout = "('k, 'v) umap \<Rightarrow> ('k, 'v) umap"

definition layout_ok :: "('k, 'v) layout \<Rightarrow> bool" where
  "layout_ok L \<longleftrightarrow> (\<forall>m. mset (L m) = mset m)"

definition um_wf :: "('k, 'v) umap \<Rightarrow> bool" where
  "um_wf m \<longleftrightarrow> distinct (map fst m)"

definition um_find :: "('k, 'v) umap \<Rightarrow> 'k \<Rightarrow> 'v option" where
  "um_find m k = map_of m k"

definition um_modify :: "('k, 'v) umap \<Rightarrow> 'k \<Rightarrow> ('v \<Rightarrow> 'v) \<Rightarrow> ('k, 'v) umap" where
  "um_modify m k f = map (\<lambda>(k', v). (k', if k' = k then f v else v)) m"

text \<open>\<open>m[k] = v\<close>.\<close>

definition um_assign :: "('k, 'v) layout \<Rightarrow> ('k, 'v) umap \<Rightarrow> 'k \<Rightarrow> 'v \<Rightarrow> ('k, 'v) umap" where
  "um_assign L m k v =
     (case um_find m k of
        Some _ \<Rightarrow> um_modify m k (\<lambda>_. v)
      | None \<Rightarrow> L (m @ [(k, v)]))"

text \<open>\<open>m.erase(k)\<close>, with the number of entries removed.\<close>

definition um_erase :: "('k, 'v) umap \<Rightarrow> 'k \<Rightarrow> ('k, 'v) umap \<times> nat" where
  "um_erase m k = (filter (\<lambda>(k', _). k' \<noteq> k) m, length (filter (\<lambda>(k', _). k' = k) m))"

section \<open>The contract\<close>

locale keyed_store =
  fixes good :: "'l \<Rightarrow> bool"
    and invar :: "'m \<Rightarrow> bool"
    and lookup :: "'m \<Rightarrow> 'k \<Rightarrow> 'v option"
    and assign :: "'l \<Rightarrow> 'm \<Rightarrow> 'k \<Rightarrow> 'v \<Rightarrow> 'm"
    and modify :: "'m \<Rightarrow> 'k \<Rightarrow> ('v \<Rightarrow> 'v) \<Rightarrow> 'm"
    and erase :: "'m \<Rightarrow> 'k \<Rightarrow> 'm \<times> nat"
    and entries :: "'m \<Rightarrow> ('k \<times> 'v) list"
  assumes entries_distinct: "invar m \<Longrightarrow> distinct (map fst (entries m))"
    and entries_lookup: "invar m \<Longrightarrow> (k, v) \<in> set (entries m) \<longleftrightarrow> lookup m k = Some v"
    and invar_assign: "good l \<Longrightarrow> invar m \<Longrightarrow> invar (assign l m k v)"
    and lookup_assign: "good l \<Longrightarrow> invar m \<Longrightarrow> lookup (assign l m k v) = (lookup m)(k \<mapsto> v)"
    and invar_modify: "invar m \<Longrightarrow> invar (modify m k f)"
    and lookup_modify:
      "invar m \<Longrightarrow> lookup (modify m k f) = (lookup m)(k := map_option f (lookup m k))"
    and invar_erase: "invar m \<Longrightarrow> invar (fst (erase m k))"
    and lookup_erase: "invar m \<Longrightarrow> lookup (fst (erase m k)) = (lookup m)(k := None)"
    and erase_count: "invar m \<Longrightarrow> snd (erase m k) = (if lookup m k = None then 0 else 1)"
begin

definition all_values :: "('k \<Rightarrow> 'v \<Rightarrow> bool) \<Rightarrow> 'm \<Rightarrow> bool" where
  "all_values P m \<longleftrightarrow> (\<forall>k v. lookup m k = Some v \<longrightarrow> P k v)"

lemma all_valuesD: "all_values P m \<Longrightarrow> lookup m k = Some v \<Longrightarrow> P k v"
  by (simp add: all_values_def)

lemma all_values_entries: "invar m \<Longrightarrow> all_values P m \<longleftrightarrow> (\<forall>(k, v) \<in> set (entries m). P k v)"
  by (auto simp: all_values_def entries_lookup)

lemma all_values_assign:
  "good l \<Longrightarrow> invar m \<Longrightarrow> all_values P m \<Longrightarrow> P k v \<Longrightarrow> all_values P (assign l m k v)"
  by (simp add: all_values_def lookup_assign)

lemma all_values_modify:
  "invar m \<Longrightarrow> all_values P m \<Longrightarrow> (\<And>v. lookup m k = Some v \<Longrightarrow> P k v \<Longrightarrow> P k (f v)) \<Longrightarrow>
   all_values P (modify m k f)"
  by (auto simp: all_values_def lookup_modify)

lemma all_values_erase: "invar m \<Longrightarrow> all_values P m \<Longrightarrow> all_values P (fst (erase m k))"
  by (simp add: all_values_def lookup_erase)

lemma size_entries: "invar m \<Longrightarrow> length (entries m) = card (dom (lookup m))"
proof -
  assume m: "invar m"
  have "dom (lookup m) = fst ` set (entries m)"
    using entries_lookup [OF m] by (force simp: dom_def)
  then show ?thesis
    using distinct_card [OF entries_distinct [OF m]] by simp
qed

lemma finite_dom: "invar m \<Longrightarrow> finite (dom (lookup m))"
proof -
  assume m: "invar m"
  have "dom (lookup m) = fst ` set (entries m)"
    using entries_lookup [OF m] by (force simp: dom_def)
  then show ?thesis by simp
qed

lemma size_assign:
  assumes "good l" and "invar m"
  shows "length (entries (assign l m k v)) =
    (if lookup m k = None then Suc (length (entries m)) else length (entries m))"
  using assms finite_dom [of m]
  by (auto simp: size_entries invar_assign lookup_assign insert_absorb domI card_insert_if)

lemma size_modify: "invar m \<Longrightarrow> length (entries (modify m k f)) = length (entries m)"
proof -
  assume m: "invar m"
  have "dom (lookup (modify m k f)) = dom (lookup m)"
    by (auto simp: lookup_modify [OF m])
  then show ?thesis by (simp add: size_entries m invar_modify)
qed

lemma size_erase: "invar m \<Longrightarrow>
  length (entries (fst (erase m k))) + snd (erase m k) = length (entries m)"
proof -
  assume m: "invar m"
  show ?thesis
    using finite_dom [OF m] card_Suc_Diff1 [of "dom (lookup m)" k]
    by (auto simp: size_entries m invar_erase lookup_erase erase_count domIff)
qed

end

section \<open>The operations keep the contract\<close>

lemma um_find_modify:
  "um_find (um_modify m k f) = (um_find m)(k := map_option f (um_find m k))"
  by (rule ext, induction m) (auto simp: um_find_def um_modify_def)

lemma um_find_mset:
  assumes "um_wf m" and "mset m' = mset m"
  shows "um_wf m'" and "um_find m' = um_find m"
proof -
  have "mset (map fst m') = mset (map fst m)"
    using assms(2) by (metis mset_map)
  then show wf: "um_wf m'"
    using assms(1) unfolding um_wf_def by (metis mset_eq_imp_distinct_iff)
  show "um_find m' = um_find m"
  proof
    fix k
    have "set m' = set m" using assms(2) by (metis set_mset_mset)
    then show "um_find m' k = um_find m k"
      using map_of_inject_set [of m' m] wf assms(1) by (simp add: um_find_def um_wf_def)
  qed
qed

lemma um_snoc:
  assumes "um_wf m" and "um_find m k = None"
  shows "um_wf (m @ [(k, v)])" and "um_find (m @ [(k, v)]) = (um_find m)(k \<mapsto> v)"
proof -
  show "um_wf (m @ [(k, v)])"
    using assms by (auto simp: um_wf_def um_find_def map_of_eq_None_iff)
  show "um_find (m @ [(k, v)]) = (um_find m)(k \<mapsto> v)"
  proof
    fix x
    show "um_find (m @ [(k, v)]) x = ((um_find m)(k \<mapsto> v)) x"
      using assms(2) by (cases "um_find m x") (auto simp: um_find_def map_add_def)
  qed
qed

interpretation um: keyed_store layout_ok um_wf um_find um_assign um_modify um_erase "\<lambda>m. m"
proof unfold_locales
  fix m :: "('k, 'v) umap" and k v and f :: "'v \<Rightarrow> 'v" and L :: "('k, 'v) layout"
  assume wf: "um_wf m"
  then show "distinct (map fst m)" by (simp add: um_wf_def)
  show "(k, v) \<in> set m \<longleftrightarrow> um_find m k = Some v"
    using wf by (simp add: um_wf_def um_find_def)
  show modify_wf: "um_wf (um_modify m k f)" for f
    using wf by (simp add: um_wf_def um_modify_def comp_def case_prod_unfold)
  show "um_find (um_modify m k f) = (um_find m)(k := map_option f (um_find m k))"
    by (rule um_find_modify)
  show "um_wf (fst (um_erase m k))"
    using wf by (simp add: um_wf_def um_erase_def distinct_map_filter)
  show "um_find (fst (um_erase m k)) = (um_find m)(k := None)"
    by (rule ext, induction m) (auto simp: um_find_def um_erase_def)
  show "snd (um_erase m k) = (if um_find m k = None then 0 else 1)"
    using wf
    by (induction m) (auto simp: um_wf_def um_find_def um_erase_def filter_empty_conv
        map_of_eq_None_iff image_iff)
  assume L: "layout_ok L"
  show "um_wf (um_assign L m k v)"
    using L wf modify_wf um_find_mset(1) [OF um_snoc(1) [OF wf]]
    by (simp add: um_assign_def layout_ok_def split: option.splits)
  show "um_find (um_assign L m k v) = (um_find m)(k \<mapsto> v)"
  proof (cases "um_find m k")
    case None
    then show ?thesis
      using L um_find_mset(2) [OF um_snoc(1) [OF wf None, of v]] um_snoc(2) [OF wf None, of v]
      by (simp add: um_assign_def layout_ok_def)
  next
    case (Some w)
    then show ?thesis by (simp add: um_assign_def um_find_modify)
  qed
qed

end
