(* ===== verification/Registry.thy ===== *)
theory Registry
  imports Unordered_Map Peers
begin

text \<open>
  \<open>peer/DiscoveryRegistry.hpp\<close>: the peers this node knows, by node id.  A pointer that
  \<open>find\<close> returns is followed by \<open>um_modify\<close>; \<open>Timestamp::now()\<close> reads the clock that the
  operations thread; insertions take the layout of the hash map.
\<close>

type_synonym 't registry = "(string, 't discovered_peer) umap"
type_synonym 't registry_layout = "(string, 't discovered_peer) layout"

section \<open>Insertion\<close>

text \<open>Both overloads of \<open>upsert\<close>.\<close>

definition registry_upsert ::
    "('t, 'd) time_api \<Rightarrow> 't registry_layout \<Rightarrow> 't registry \<Rightarrow> 't discovered_peer \<Rightarrow>
     't registry" where
  "registry_upsert T L r p =
     (if \<not> peer_is_valid T p then r else um_assign L r (peer_node_id p) p)"

definition registry_find :: "'t registry \<Rightarrow> string \<Rightarrow> 't discovered_peer option" where
  "registry_find r node_id = um_find r node_id"

text \<open>
  The non-const \<open>find\<close> returns a pointer into the map; this is the registry after the caller has used it
  to write the peer that it points to (nothing happens when there is none).
\<close>

definition registry_write :: "'t registry \<Rightarrow> string \<Rightarrow> ('t discovered_peer \<Rightarrow> 't discovered_peer) \<Rightarrow> 't registry" where
  "registry_write r node_id f =
     (case registry_find r node_id of
        None \<Rightarrow> r
      | Some _ \<Rightarrow> um_modify r node_id f)"

definition registry_upsert_announcement ::
    "('t, 'd) time_api \<Rightarrow> 't registry_layout \<Rightarrow> 't registry \<Rightarrow> 't announcement \<Rightarrow> 't clock \<Rightarrow>
     't registry \<times> 't clock" where
  "registry_upsert_announcement T L r a c =
     (if \<not> announcement_is_valid T a then (r, c)
      else
        (case registry_find r (ann_node_id a) of
           Some _ \<Rightarrow>
             let (t, c) = now c
             in (um_modify r (ann_node_id a) (peer_update t a), c)
         | None \<Rightarrow>
             let (t, c) = now c;
                 p = make_discovered_peer t a;
                 (t, c) = now c;
                 p = peer_mark_alive t p
             in (registry_upsert T L r p, c)))"

section \<open>Lookup and removal\<close>

definition registry_contains :: "'t registry \<Rightarrow> string \<Rightarrow> bool" where
  "registry_contains r node_id \<longleftrightarrow> um_find r node_id \<noteq> None"

definition registry_get :: "'t registry \<Rightarrow> string \<Rightarrow> 't discovered_peer option" where
  "registry_get r node_id = um_find r node_id"

definition registry_erase :: "'t registry \<Rightarrow> string \<Rightarrow> bool \<times> 't registry" where
  "registry_erase r node_id = (let (r, n) = um_erase r node_id in (n > 0, r))"

section \<open>State updates of one peer\<close>

definition registry_set_state ::
    "'t registry \<Rightarrow> string \<Rightarrow> peer_state \<Rightarrow> 't clock \<Rightarrow> bool \<times> 't registry \<times> 't clock" where
  "registry_set_state r node_id st c =
     (if \<not> peer_state_is_valid st then (False, r, c)
      else
        (case registry_find r node_id of
           None \<Rightarrow> (False, r, c)
         | Some _ \<Rightarrow>
             let (t, c) = now c
             in (True, um_modify r node_id (\<lambda>p. peer_touch t (p\<lparr>dp_state := st\<rparr>)), c)))"

definition registry_mark_discovered ::
    "'t registry \<Rightarrow> string \<Rightarrow> 't clock \<Rightarrow> bool \<times> 't registry \<times> 't clock" where
  "registry_mark_discovered r node_id c =
     (case registry_find r node_id of
        None \<Rightarrow> (False, r, c)
      | Some _ \<Rightarrow> let (t, c) = now c in (True, um_modify r node_id (peer_mark_discovered t), c))"

definition registry_mark_alive ::
    "'t registry \<Rightarrow> string \<Rightarrow> 't clock \<Rightarrow> bool \<times> 't registry \<times> 't clock" where
  "registry_mark_alive r node_id c =
     (case registry_find r node_id of
        None \<Rightarrow> (False, r, c)
      | Some _ \<Rightarrow> let (t, c) = now c in (True, um_modify r node_id (peer_mark_alive t), c))"

definition registry_mark_stale ::
    "'t registry \<Rightarrow> string \<Rightarrow> 't clock \<Rightarrow> bool \<times> 't registry \<times> 't clock" where
  "registry_mark_stale r node_id c =
     (case registry_find r node_id of
        None \<Rightarrow> (False, r, c)
      | Some _ \<Rightarrow> let (t, c) = now c in (True, um_modify r node_id (peer_mark_stale t), c))"

definition registry_mark_expired ::
    "'t registry \<Rightarrow> string \<Rightarrow> 't clock \<Rightarrow> bool \<times> 't registry \<times> 't clock" where
  "registry_mark_expired r node_id c =
     (case registry_find r node_id of
        None \<Rightarrow> (False, r, c)
      | Some _ \<Rightarrow> let (t, c) = now c in (True, um_modify r node_id (peer_mark_expired t), c))"

definition registry_touch ::
    "'t registry \<Rightarrow> string \<Rightarrow> 't clock \<Rightarrow> bool \<times> 't registry \<times> 't clock" where
  "registry_touch r node_id c =
     (case registry_find r node_id of
        None \<Rightarrow> (False, r, c)
      | Some _ \<Rightarrow> let (t, c) = now c in (True, um_modify r node_id (peer_touch t), c))"

definition registry_touch_at ::
    "('t, 'd) time_api \<Rightarrow> 't registry \<Rightarrow> string \<Rightarrow> 't \<Rightarrow> bool \<times> 't registry" where
  "registry_touch_at T r node_id timestamp =
     (if \<not> ts_is_valid T timestamp then (False, r)
      else
        (case registry_find r node_id of
           None \<Rightarrow> (False, r)
         | Some _ \<Rightarrow> (True, um_modify r node_id (\<lambda>p. p\<lparr>dp_last_seen_at := timestamp\<rparr>))))"

definition registry_mark_error ::
    "'t registry \<Rightarrow> string \<Rightarrow> 't clock \<Rightarrow> bool \<times> 't registry \<times> 't clock" where
  "registry_mark_error r node_id c =
     (case registry_find r node_id of
        None \<Rightarrow> (False, r, c)
      | Some _ \<Rightarrow> let (t, c) = now c in (True, um_modify r node_id (peer_mark_error t), c))"

section \<open>Ageing\<close>

text \<open>
  The body of the loop of \<open>refresh_states\<close> for one peer: how many changes it counts and
  the new peer.  The age is a signed 64-bit difference.
\<close>

definition refresh_peer ::
    "('t, 'd) time_api \<Rightarrow> 't \<Rightarrow> 'd \<Rightarrow> 'd \<Rightarrow> 't discovered_peer \<Rightarrow>
     (nat \<times> 't discovered_peer) exec" where
  "refresh_peer T t stale_after expire_after p =
     (if \<not> ts_is_valid T (dp_last_seen_at p) then returns (0, p)
      else do {
        age \<leftarrow> i64_sub (ts_millis T t) (ts_millis T (dp_last_seen_at p));
        if sint (dur_millis T expire_after) \<le> sint age \<and> dp_state p \<noteq> PS_Expired
        then returns (1, p\<lparr>dp_state := PS_Expired\<rparr>)
        else if sint (dur_millis T stale_after) \<le> sint age \<and> dp_state p \<noteq> PS_Stale
        then returns (1, p\<lparr>dp_state := PS_Stale\<rparr>)
        else returns (0, p)
      })"

fun refresh_entries ::
    "('t, 'd) time_api \<Rightarrow> 't \<Rightarrow> 'd \<Rightarrow> 'd \<Rightarrow> 't registry \<Rightarrow> nat \<Rightarrow> (nat \<times> 't registry) exec" where
  "refresh_entries T t stale_after expire_after [] changed = returns (changed, [])"
| "refresh_entries T t stale_after expire_after ((k, p) # r) changed = do {
     (n, p') \<leftarrow> refresh_peer T t stale_after expire_after p;
     (changed', r') \<leftarrow> refresh_entries T t stale_after expire_after r (changed + n);
     returns (changed', (k, p') # r')
   }"

definition refresh_states ::
    "('t, 'd) time_api \<Rightarrow> 't registry \<Rightarrow> 't \<Rightarrow> 'd \<Rightarrow> 'd \<Rightarrow> (nat \<times> 't registry) exec" where
  "refresh_states T r t stale_after expire_after =
     (if \<not> ts_is_valid T t then returns (0, r)
      else refresh_entries T t stale_after expire_after r 0)"

text \<open>The iterator loop of \<open>prune_expired\<close>.\<close>

fun prune_loop :: "'t registry \<Rightarrow> nat \<Rightarrow> nat \<times> 't registry" where
  "prune_loop [] removed = (removed, [])"
| "prune_loop ((k, p) # r) removed =
     (if peer_expired p then prune_loop r (removed + 1)
      else let (removed', r') = prune_loop r removed in (removed', (k, p) # r'))"

definition prune_expired :: "'t registry \<Rightarrow> nat \<times> 't registry" where
  "prune_expired r = prune_loop r 0"

section \<open>Inspection\<close>

definition registry_size :: "'t registry \<Rightarrow> nat" where
  "registry_size r = length r"

definition registry_empty :: "'t registry \<Rightarrow> bool" where
  "registry_empty r \<longleftrightarrow> r = []"

definition registry_clear :: "'t registry \<Rightarrow> 't registry" where
  "registry_clear r = []"

definition registry_entries :: "'t registry \<Rightarrow> 't registry" where
  "registry_entries r = r"

definition registry_all :: "'t registry \<Rightarrow> 't discovered_peer list" where
  "registry_all r = map snd r"

definition transport_peers :: "'x transport_api \<Rightarrow> 't registry \<Rightarrow> peer_info list" where
  "transport_peers X r =
     [to_peer_info p. (_, p) \<leftarrow> r, \<not> peer_expired p \<and> peer_info_is_valid X (to_peer_info p)]"

definition available_peers :: "'t registry \<Rightarrow> 't discovered_peer list" where
  "available_peers r = [p. (_, p) \<leftarrow> r, peer_available p]"

definition by_state :: "'t registry \<Rightarrow> peer_state \<Rightarrow> 't discovered_peer list" where
  "by_state r st = [p. (_, p) \<leftarrow> r, dp_state p = st]"

definition alive_peers :: "'t registry \<Rightarrow> 't discovered_peer list" where
  "alive_peers r = by_state r PS_Alive"

definition stale_peers :: "'t registry \<Rightarrow> 't discovered_peer list" where
  "stale_peers r = by_state r PS_Stale"

definition expired_peers :: "'t registry \<Rightarrow> 't discovered_peer list" where
  "expired_peers r = by_state r PS_Expired"

end
