(* ===== verification/Wire.thy ===== *)
theory Wire
  imports Messages
begin

text \<open>
  The fields of the two binary formats, and the contract between a writer and its reader.

  \<open>DiscoveryEncoder\<close>, \<open>DiscoveryDecoder\<close> and \<open>DiscoveryEngine\<close> each have private
  helpers that write or read a size-prefixed string or byte vector; the integers go
  through the store serializer, a parameter.  A reader works at an offset of a buffer it
  does not own: reading outside the buffer is undefined behaviour, so readers are in the
  \<open>exec\<close> monad and build their result from \<open>slice\<close>.

  The locale \<open>wire_field\<close> is the contract of one field, \<open>wire_format\<close> the contract of
  a whole message; both are interpreted on the code's readers and writers.
\<close>

section \<open>Contracts\<close>

locale wire_field =
  fixes good :: "'s \<Rightarrow> bool"
    and fits :: "'a \<Rightarrow> bool"
    and put :: "'s \<Rightarrow> bytes \<Rightarrow> 'a \<Rightarrow> bytes"
    and get :: "'s \<Rightarrow> bytes \<Rightarrow> nat \<Rightarrow> ('a \<times> nat) option exec"
  assumes put_append: "good s \<Longrightarrow> put s b v = b @ put s [] v"
    and get_put: "good s \<Longrightarrow> fits v \<Longrightarrow>
      get s (xs @ put s [] v @ ys) (length xs) = Some (Some (v, length xs + length (put s [] v)))"
    and get_defined: "good s \<Longrightarrow> get s d off \<noteq> None"
    and get_sound: "good s \<Longrightarrow> get s d off = Some (Some (v, off')) \<Longrightarrow>
      off \<le> off' \<and> off' \<le> length d \<and> fits v \<and> take (off' - off) (drop off d) = put s [] v"
begin

text \<open>Reading a field that follows \<open>pre\<close> and precedes \<open>rest\<close>.\<close>

lemma get_here:
  assumes "good s" and "fits v" and "d = pre @ put s [] v @ rest" and "off = length pre"
  shows "get s d off = Some (Some (v, off + length (put s [] v)))"
  using assms by (simp add: get_put)

text \<open>
  After reading the fields up to \<open>off\<close>, whose encoding is \<open>enc\<close>, one more field extends
  the encoding: the invariant by which a decoder is shown to be the inverse of its encoder.
\<close>

lemma get_extends:
  assumes "good s" and "get s d off = Some (Some (v, off'))" and "take off d = enc"
    and "off \<le> length d"
  shows "take off' d = enc @ put s [] v \<and> off' \<le> length d \<and> fits v"
proof -
  from get_sound [OF assms(1,2)] have le: "off \<le> off'" "off' \<le> length d" and "fits v"
    and piece: "take (off' - off) (drop off d) = put s [] v"
    by auto
  have "take off' d = take off d @ take (off' - off) (drop off d)"
    using le by (simp flip: take_add)
  with assms(3) piece le \<open>fits v\<close> show ?thesis by simp
qed

lemma get_undefined_never: "good s \<Longrightarrow> \<exists>r. get s d off = Some r"
  using get_defined by blast

lemma put_inject:
  assumes "good s" and "fits v" and "fits w" and "put s b v = put s b w"
  shows "v = w"
proof -
  have "put s [] v = put s [] w"
    using assms(4) put_append [OF assms(1), of b v] put_append [OF assms(1), of b w] by simp
  with get_put [OF assms(1,2), of "[]" "[]"] get_put [OF assms(1,3), of "[]" "[]"]
  show ?thesis by simp
qed

text \<open>No encoding is a proper prefix of another one.\<close>

lemma put_prefix_free:
  assumes "good s" and "fits v" and "fits w" and "put s [] v @ xs = put s [] w @ ys"
  shows "v = w" and "xs = ys"
proof -
  show "v = w"
    using get_put [OF assms(1,2), of "[]" xs] get_put [OF assms(1,3), of "[]" ys] assms(4) by simp
  with assms(4) show "xs = ys" by simp
qed

end

locale wire_format =
  fixes good :: "'s \<Rightarrow> bool"
    and fits :: "'s \<Rightarrow> 'a \<Rightarrow> bool"
    and enc :: "'s \<Rightarrow> 'a \<Rightarrow> bytes"
    and dec :: "'s \<Rightarrow> bytes \<Rightarrow> 'a option exec"
  assumes dec_defined: "good s \<Longrightarrow> dec s d \<noteq> None"
    and dec_enc: "good s \<Longrightarrow> fits s v \<Longrightarrow> dec s (enc s v) = Some (Some v)"
    and enc_dec: "good s \<Longrightarrow> dec s d = Some (Some v) \<Longrightarrow> fits s v \<and> enc s v = d"
begin

lemma dec_iff:
  assumes "good s"
  shows "dec s d = Some (Some v) \<longleftrightarrow> fits s v \<and> d = enc s v"
  using dec_enc [OF assms, of v] enc_dec [OF assms, of d v] by auto

lemma dec_reject_iff:
  assumes "good s"
  shows "dec s d = Some None \<longleftrightarrow> (\<nexists>v. fits s v \<and> d = enc s v)"
proof (cases "dec s d")
  case None
  with dec_defined [OF assms, of d] show ?thesis by simp
next
  case (Some r)
  with dec_iff [OF assms, of d] show ?thesis by (cases r) auto
qed

lemma enc_inject:
  assumes "good s" and "fits s v" and "fits s w" and "enc s v = enc s w"
  shows "v = w"
  using dec_enc [OF assms(1,2)] dec_enc [OF assms(1,3)] assms(4) by (metis option.inject)

lemma dec_inject:
  assumes "good s" and "dec s d = Some (Some v)" and "dec s d' = Some (Some v)"
  shows "d = d'"
  using enc_dec [OF assms(1,2)] enc_dec [OF assms(1,3)] by simp

end

section \<open>Writers: \<open>append_string\<close> and \<open>append_bytes\<close>\<close>

text \<open>
  \<open>DiscoveryEncoder::append_string\<close>, \<open>DiscoveryEncoder::append_bytes\<close> and
  \<open>DiscoveryEngine::append_string\<close>.  The size is cast to \<open>uint32_t\<close>, which drops the
  high bits of a longer value's size.
\<close>

definition append_bytes :: "serializer \<Rightarrow> bytes \<Rightarrow> bytes \<Rightarrow> bytes" where
  "append_bytes S buffer v = ser_append_u32 S buffer (word_of_nat (length v)) @ v"

definition append_string :: "serializer \<Rightarrow> bytes \<Rightarrow> string \<Rightarrow> bytes" where
  "append_string S buffer v =
     ser_append_u32 S buffer (word_of_nat (length v)) @ bytes_of_string v"

definition engine_append_string :: "serializer \<Rightarrow> bytes \<Rightarrow> string \<Rightarrow> bytes" where
  "engine_append_string S buffer v =
     ser_append_u32 S buffer (word_of_nat (length v)) @ bytes_of_string v"

section \<open>Readers\<close>

text \<open>\<open>DiscoveryDecoder::read_u8\<close>, \<open>read_string\<close> and \<open>read_bytes\<close>.\<close>

definition read_u8 :: "serializer \<Rightarrow> bytes \<Rightarrow> nat \<Rightarrow> (u8 \<times> nat) option exec" where
  "read_u8 S data off =
     (if \<not> ser_can_read S data off 1 then returns None
      else do { v \<leftarrow> slice data off 1; returns (Some (hd v, off + 1)) })"

definition read_string :: "serializer \<Rightarrow> bytes \<Rightarrow> nat \<Rightarrow> (string \<times> nat) option exec" where
  "read_string S data off =
     (case ser_read_u32 S data off of
        None \<Rightarrow> returns None
      | Some (len, off) \<Rightarrow>
          if \<not> ser_can_read S data off (unat len) then returns None
          else do { v \<leftarrow> slice data off (unat len);
                    returns (Some (string_of_bytes v, off + unat len)) })"

definition read_bytes :: "serializer \<Rightarrow> bytes \<Rightarrow> nat \<Rightarrow> (bytes \<times> nat) option exec" where
  "read_bytes S data off =
     (case ser_read_u32 S data off of
        None \<Rightarrow> returns None
      | Some (len, off) \<Rightarrow>
          if \<not> ser_can_read S data off (unat len) then returns None
          else do { v \<leftarrow> slice data off (unat len); returns (Some (v, off + unat len)) })"

text \<open>\<open>DiscoveryEngine::read_string\<close>, a second copy of the same helper.\<close>

definition engine_read_string :: "serializer \<Rightarrow> bytes \<Rightarrow> nat \<Rightarrow> (string \<times> nat) option exec" where
  "engine_read_string S buffer off =
     (case ser_read_u32 S buffer off of
        None \<Rightarrow> returns None
      | Some (sz, off) \<Rightarrow>
          if \<not> ser_can_read S buffer off (unat sz) then returns None
          else do { v \<leftarrow> slice buffer off (unat sz);
                    returns (Some (string_of_bytes v, off + unat sz)) })"

lemma engine_helpers_same:
  "engine_append_string = append_string" "engine_read_string = read_string"
  by (simp_all add: fun_eq_iff engine_append_string_def append_string_def engine_read_string_def
      read_string_def)

text \<open>A string field is a byte field read as characters.\<close>

lemma append_string_bytes: "append_string S b v = append_bytes S b (bytes_of_string v)"
  by (simp add: append_string_def append_bytes_def)

lemma read_string_bytes:
  "read_string S d off =
     map_option (map_option (\<lambda>(v, off'). (string_of_bytes v, off'))) (read_bytes S d off)"
  by (auto simp: read_string_def read_bytes_def slice_def split: option.splits)

section \<open>The readers and writers keep the contract\<close>

text \<open>Sizes that survive the cast to \<open>uint32_t\<close>.\<close>

definition u32_sized :: "'a list \<Rightarrow> bool" where
  "u32_sized xs \<longleftrightarrow> length xs < 2 ^ 32"

lemma unat_u32_size: "u32_sized xs \<Longrightarrow> unat (word_of_nat (length xs) :: u32) = length xs"
  by (simp add: u32_sized_def unsigned_of_nat take_bit_nat_eq_self)

lemma u32_sized_bytes_of_string [simp]: "u32_sized (bytes_of_string s) = u32_sized s"
  by (simp add: u32_sized_def)

lemma length_append_bytes:
  "serializer_ok S \<Longrightarrow> length (append_bytes S b v) = length b + 4 + length v"
  by (subst append_bytes_def, subst fixed_widthD(1) [OF serializer_okD(2)])
     (auto simp: fixed_widthD(2) [OF serializer_okD(2)])

text \<open>An integer field: the serializer's own reader, which never leaves the buffer.\<close>

definition read_u16 :: "serializer \<Rightarrow> bytes \<Rightarrow> nat \<Rightarrow> (u16 \<times> nat) option exec" where
  "read_u16 S data off = returns (ser_read_u16 S data off)"

definition read_i64 :: "serializer \<Rightarrow> bytes \<Rightarrow> nat \<Rightarrow> (i64 \<times> nat) option exec" where
  "read_i64 S data off = returns (ser_read_i64 S data off)"

lemma fixed_width_field:
  assumes "\<And>s. good s \<Longrightarrow> fixed_width n (put s) (get s)"
  shows "wire_field good (\<lambda>_. True) put (\<lambda>s d off. Some (get s d off))"
proof
  fix s b v d off off' xs ys
  assume "good s"
  note fw = fixed_widthD [OF assms [OF this]]
  show "put s b v = b @ put s [] v" by (rule fw(1))
  show "Some (get s (xs @ put s [] v @ ys) (length xs)) =
      Some (Some (v, length xs + length (put s [] v)))"
    by (simp add: fw(2) fw(3))
  show "Some (get s d off) \<noteq> None" by simp
  show "off \<le> off' \<and> off' \<le> length d \<and> True \<and> take (off' - off) (drop off d) = put s [] v"
    if "Some (get s d off) = Some (Some (v, off'))"
    using fw(4) [of d off v off'] that by auto
qed

interpretation u16f: wire_field serializer_ok "\<lambda>_. True" ser_append_u16 read_u16
  unfolding read_u16_def by (rule fixed_width_field) (rule serializer_okD)

interpretation i64f: wire_field serializer_ok "\<lambda>_. True" ser_append_i64 read_i64
  unfolding read_i64_def by (rule fixed_width_field) (rule serializer_okD)

text \<open>A byte, pushed to the end of the buffer by the encoder.\<close>

definition push_u8 :: "serializer \<Rightarrow> bytes \<Rightarrow> u8 \<Rightarrow> bytes" where
  "push_u8 S buffer v = buffer @ [v]"

interpretation u8f: wire_field serializer_ok "\<lambda>_. True" push_u8 read_u8
proof
  fix s b v d off off' and xs ys :: bytes
  assume s: "serializer_ok s"
  note can = serializer_okD(4) [OF s]
  show "push_u8 s b v = b @ push_u8 s [] v" by (simp add: push_u8_def)
  show "read_u8 s (xs @ push_u8 s [] v @ ys) (length xs) =
      Some (Some (v, length xs + length (push_u8 s [] v)))"
    by (simp add: read_u8_def can push_u8_def slice_def)
  show "read_u8 s d off \<noteq> None"
    by (simp add: read_u8_def can slice_def)
  show "off \<le> off' \<and> off' \<le> length d \<and> True \<and> take (off' - off) (drop off d) = push_u8 s [] v"
    if "read_u8 s d off = Some (Some (v, off'))"
    using that
    by (auto simp: read_u8_def can push_u8_def slice_def take_Suc split: if_splits)
qed

interpretation bytesf: wire_field serializer_ok u32_sized append_bytes read_bytes
proof
  fix s b v d off off' and xs ys :: bytes
  assume s: "serializer_ok s"
  note can = serializer_okD(4) [OF s]
    and fw = fixed_widthD [OF serializer_okD(2) [OF s]]
  show put: "append_bytes s b v = b @ append_bytes s [] v" for b v
    by (simp add: append_bytes_def fw(1) [of b])
  show "read_bytes s d off \<noteq> None"
    by (auto simp: read_bytes_def can slice_def split: option.splits)
  show "read_bytes s (xs @ append_bytes s [] v @ ys) (length xs) =
      Some (Some (v, length xs + length (append_bytes s [] v)))"
    if "u32_sized v"
    using unat_u32_size [OF that]
    by (simp add: read_bytes_def append_bytes_def fw(2) fw(3) can slice_def)
  show "off \<le> off' \<and> off' \<le> length d \<and> u32_sized v \<and>
      take (off' - off) (drop off d) = append_bytes s [] v"
    if got: "read_bytes s d off = Some (Some (v, off'))"
  proof -
    from got obtain len mid where len: "ser_read_u32 s d off = Some (len, mid)"
      and fit: "mid + unat len \<le> length d"
      and v: "v = take (unat len) (drop mid d)" and off': "off' = mid + unat len"
      by (auto simp: read_bytes_def can slice_def split: option.splits if_splits)
    from fw(4) [OF len] have mid: "mid = off + 4" "take 4 (drop off d) = ser_append_u32 s [] len"
      by auto
    have n: "length v = unat len" using v fit by simp
    have "off' - off = 4 + unat len" and "mid = 4 + off" using off' mid(1) by simp_all
    then have "take (off' - off) (drop off d) = take 4 (drop off d) @ take (unat len) (drop mid d)"
      by (simp only: take_add drop_drop)
    then show ?thesis
      using off' mid fit n v unsigned_less [of len, where ?'a = nat]
      by (simp add: append_bytes_def u32_sized_def)
  qed
qed

interpretation stringf: wire_field serializer_ok u32_sized append_string read_string
proof
  fix s b v d off off' and xs ys :: bytes
  assume s: "serializer_ok s"
  show "append_string s b v = b @ append_string s [] v"
    by (simp add: append_string_bytes bytesf.put_append [OF s, of b])
  show "read_string s d off \<noteq> None"
    by (simp add: read_string_bytes bytesf.get_defined [OF s])
  show "read_string s (xs @ append_string s [] v @ ys) (length xs) =
      Some (Some (v, length xs + length (append_string s [] v)))"
    if "u32_sized v"
    using that by (simp add: read_string_bytes append_string_bytes bytesf.get_put [OF s])
  show "off \<le> off' \<and> off' \<le> length d \<and> u32_sized v \<and>
      take (off' - off) (drop off d) = append_string s [] v"
    if "read_string s d off = Some (Some (v, off'))"
  proof -
    from that obtain bs where bs: "read_bytes s d off = Some (Some (bs, off'))"
      and v: "v = string_of_bytes bs"
      by (auto simp: read_string_bytes)
    from bytesf.get_sound [OF s bs] v show ?thesis
      by (simp add: append_string_bytes u32_sized_def)
  qed
qed

end
