(* ===== verification/Codec.thy ===== *)
theory Codec
  imports Wire
begin

text \<open>
  The message codec: \<open>encoding/DiscoveryEncoder.hpp\<close> and \<open>encoding/DiscoveryDecoder.hpp\<close>.
  The decoder runs on bytes from the network.  Shown here: it never reads outside the
  buffer, it inverts the encoder, and it accepts nothing but encodings of valid messages.
\<close>

section \<open>Encoder\<close>

definition encode_message :: "serializer \<Rightarrow> message \<Rightarrow> bytes" where
  "encode_message S m =
     (if \<not> message_is_valid m then []
      else
        let buffer = push_u8 S [] (message_type_to_u8 (msg_type m));
            buffer = append_string S buffer (msg_from m);
            buffer = append_string S buffer (msg_to m);
            buffer = append_string S buffer (msg_correlation m);
            buffer = append_bytes S buffer (msg_payload m)
        in buffer)"

definition make_datagram :: "serializer \<Rightarrow> message \<Rightarrow> string \<Rightarrow> u16 \<Rightarrow> datagram" where
  "make_datagram S m host port =
     (if host = [] \<or> port = 0 then datagram_default
      else
        let payload = encode_message S m
        in if payload = [] then datagram_default else make_datagram_of host port payload)"

section \<open>Decoder\<close>

definition minimum_message_size :: nat where
  "minimum_message_size = 1 + 4 + 4 + 4 + 4"

definition decode_message :: "serializer \<Rightarrow> bytes \<Rightarrow> message option exec" where
  "decode_message S data =
     (if length data < minimum_message_size then returns None
      else
        and_then (read_u8 S data 0) (\<lambda>(raw_type, off).
        let m = message_default\<lparr>msg_type := message_type_of_u8 raw_type\<rparr> in
        and_then (read_string S data off) (\<lambda>(from, off).
        let m = m\<lparr>msg_from := from\<rparr> in
        and_then (read_string S data off) (\<lambda>(to, off).
        let m = m\<lparr>msg_to := to\<rparr> in
        and_then (read_string S data off) (\<lambda>(correlation, off).
        let m = m\<lparr>msg_correlation := correlation\<rparr> in
        and_then (read_bytes S data off) (\<lambda>(payload, off).
        let m = m\<lparr>msg_payload := payload\<rparr> in
        if off \<noteq> length data then returns None
        else if \<not> message_is_valid m then returns None
        else returns (Some m)))))))"

text \<open>The overload for a pointer and a size: \<open>None\<close> is \<open>nullptr\<close>.\<close>

definition decode_message_ptr :: "serializer \<Rightarrow> bytes option \<Rightarrow> message option exec" where
  "decode_message_ptr S data =
     (case data of None \<Rightarrow> returns None | Some d \<Rightarrow> decode_message S d)"

text \<open>The overload for a vector.\<close>

definition decode_message_buffer :: "serializer \<Rightarrow> bytes \<Rightarrow> message option exec" where
  "decode_message_buffer S buffer =
     (if buffer = [] then returns None else decode_message S buffer)"

definition decode_datagram :: "serializer \<Rightarrow> datagram \<Rightarrow> message option exec" where
  "decode_datagram S d =
     (if \<not> datagram_is_valid d then returns None else decode_message_buffer S (dg_payload d))"

section \<open>The codec keeps its contract\<close>

text \<open>A message whose parts survive the 32-bit size prefixes.\<close>

definition message_fits :: "message \<Rightarrow> bool" where
  "message_fits m \<longleftrightarrow>
     message_is_valid m \<and> u32_sized (msg_from m) \<and> u32_sized (msg_to m) \<and>
     u32_sized (msg_correlation m) \<and> u32_sized (msg_payload m)"

lemma encode_message_concat:
  assumes "serializer_ok S" and "message_is_valid m"
  shows "encode_message S m =
    push_u8 S [] (message_type_to_u8 (msg_type m)) @ append_string S [] (msg_from m) @
    append_string S [] (msg_to m) @ append_string S [] (msg_correlation m) @
    append_bytes S [] (msg_payload m)"
proof -
  note S = assms(1)
  show ?thesis
    unfolding encode_message_def Let_def
    by (subst bytesf.put_append [OF S], subst stringf.put_append [OF S],
        subst stringf.put_append [OF S], subst stringf.put_append [OF S]) (simp add: assms(2))
qed

lemma length_append_string:
  "serializer_ok S \<Longrightarrow> length (append_string S b v) = length b + 4 + length v"
  by (simp add: append_string_bytes length_append_bytes)

lemma length_encode_message:
  assumes "serializer_ok S" and "message_is_valid m"
  shows "length (encode_message S m) =
    minimum_message_size + length (msg_from m) + length (msg_to m) +
    length (msg_correlation m) + length (msg_payload m)"
  using assms
  by (simp add: encode_message_concat length_append_string length_append_bytes push_u8_def
      minimum_message_size_def)

lemma decode_message_no_fault:
  assumes S: "serializer_ok S"
  shows "\<exists>r. decode_message S d = Some r"
  unfolding decode_message_def Let_def
  by (auto intro!: and_then_defined simp: u8f.get_undefined_never [OF S]
      stringf.get_undefined_never [OF S] bytesf.get_undefined_never [OF S] split: prod.splits)

lemma decode_encode_message:
  assumes S: "serializer_ok S" and m: "message_fits m"
  shows "decode_message S (encode_message S m) = Some (Some m)"
proof -
  have valid: "message_is_valid m" and sizes: "u32_sized (msg_from m)" "u32_sized (msg_to m)"
      "u32_sized (msg_correlation m)" "u32_sized (msg_payload m)"
    using m by (auto simp: message_fits_def)
  have type: "message_type_of_u8 (message_type_to_u8 (msg_type m)) = msg_type m"
    using valid by (simp add: message_is_valid_def message_type_of_to_u8)
  let ?ty = "push_u8 S [] (message_type_to_u8 (msg_type m))"
  let ?a = "append_string S [] (msg_from m)"
  let ?b = "append_string S [] (msg_to m)"
  let ?c = "append_string S [] (msg_correlation m)"
  let ?p = "append_bytes S [] (msg_payload m)"
  define d where "d = encode_message S m"
  have d: "d = ?ty @ ?a @ ?b @ ?c @ ?p"
    by (simp only: d_def encode_message_concat [OF S valid])
  define o1 o2 o3 o4 where "o1 = length ?ty" and "o2 = o1 + length ?a"
    and "o3 = o2 + length ?b" and "o4 = o3 + length ?c"
  note offs = this
  have r0: "read_u8 S d 0 = Some (Some (message_type_to_u8 (msg_type m), o1))"
    using u8f.get_here [OF S, where d = d and pre = "[]" and off = 0] by (simp add: d offs)
  have r1: "read_string S d o1 = Some (Some (msg_from m, o2))"
    using stringf.get_here [OF S sizes(1), of d ?ty _ o1] by (simp add: d offs)
  have r2: "read_string S d o2 = Some (Some (msg_to m, o3))"
    using stringf.get_here [OF S sizes(2), of d "?ty @ ?a" _ o2] by (simp add: d offs)
  have r3: "read_string S d o3 = Some (Some (msg_correlation m, o4))"
    using stringf.get_here [OF S sizes(3), of d "?ty @ ?a @ ?b" _ o3]
    by (simp add: d offs add.assoc)
  have r4: "read_bytes S d o4 = Some (Some (msg_payload m, length d))"
    using bytesf.get_here [OF S sizes(4), of d "?ty @ ?a @ ?b @ ?c" "[]" o4]
    by (simp add: d offs add.assoc)
  have eta: "\<lparr>msg_type = msg_type m, msg_from = msg_from m, msg_to = msg_to m,
      msg_correlation = msg_correlation m, msg_payload = msg_payload m\<rparr> = m"
    by simp
  have "minimum_message_size \<le> length d"
    by (simp add: d_def length_encode_message [OF S valid])
  then have "decode_message S d = Some (Some m)"
    unfolding decode_message_def
    by (simp add: Let_def r0 r1 r2 r3 r4 type message_default_def valid eta)
  then show ?thesis by (simp only: d_def)
qed

text \<open>
  The converse: what the decoder accepts is the encoding of its result.  Each field read
  extends the part of the buffer that is known to be an encoding (\<open>get_extends\<close>).
\<close>

lemma encode_decode_message:
  assumes S: "serializer_ok S" and got: "decode_message S d = Some (Some m)"
  shows "message_fits m \<and> encode_message S m = d"
proof -
  obtain ty o1 src o2 dst o3 corr o4 pay where
    r0: "read_u8 S d 0 = Some (Some (ty, o1))" and
    r1: "read_string S d o1 = Some (Some (src, o2))" and
    r2: "read_string S d o2 = Some (Some (dst, o3))" and
    r3: "read_string S d o3 = Some (Some (corr, o4))" and
    r4: "read_bytes S d o4 = Some (Some (pay, length d))" and
    m: "m = \<lparr>msg_type = message_type_of_u8 ty, msg_from = src, msg_to = dst,
          msg_correlation = corr, msg_payload = pay\<rparr>" and valid: "message_is_valid m"
    using got unfolding decode_message_def
    by (auto simp: Let_def and_then_eq_value message_default_def split: if_splits)
  let ?ty = "push_u8 S [] ty"
  let ?a = "append_string S [] src"
  let ?b = "append_string S [] dst"
  let ?c = "append_string S [] corr"
  have e0: "take o1 d = ?ty" "o1 \<le> length d"
    using u8f.get_extends [OF S r0] by auto
  have e1: "take o2 d = ?ty @ ?a" "o2 \<le> length d" "u32_sized src"
    using stringf.get_extends [OF S r1 e0] by auto
  have e2: "take o3 d = (?ty @ ?a) @ ?b" "o3 \<le> length d" "u32_sized dst"
    using stringf.get_extends [OF S r2 e1(1,2)] by auto
  have e3: "take o4 d = ((?ty @ ?a) @ ?b) @ ?c" "o4 \<le> length d" "u32_sized corr"
    using stringf.get_extends [OF S r3 e2(1,2)] by auto
  have "d = (((?ty @ ?a) @ ?b) @ ?c) @ append_bytes S [] pay" and "u32_sized pay"
    using bytesf.get_extends [OF S r4 e3(1,2)] by auto
  then show ?thesis
    using e1(3) e2(3) e3(3) valid encode_message_concat [OF S valid] m
    by (simp add: message_fits_def)
qed

interpretation msg: wire_format serializer_ok "\<lambda>_. message_fits" encode_message decode_message
  by unfold_locales
    (auto dest: decode_message_no_fault decode_encode_message encode_decode_message)

text \<open>A message that begins a longer encoding is that encoding: the format is prefix free.\<close>

lemma encode_message_prefix_free:
  assumes S: "serializer_ok S" and m: "message_fits m" and m': "message_fits m'"
    and eq: "encode_message S m @ rest = encode_message S m'"
  shows "m = m'" and "rest = []"
proof -
  have valid: "message_is_valid m" "message_is_valid m'"
    and sizes: "u32_sized (msg_from m)" "u32_sized (msg_to m)" "u32_sized (msg_correlation m)"
      "u32_sized (msg_payload m)" "u32_sized (msg_from m')" "u32_sized (msg_to m')"
      "u32_sized (msg_correlation m')" "u32_sized (msg_payload m')"
    using m m' by (auto simp: message_fits_def)
  note eq0 = eq [unfolded encode_message_concat [OF S valid(1)] encode_message_concat [OF S valid(2)]
      append_assoc]
  note eq1 = u8f.put_prefix_free [OF S TrueI TrueI eq0]
  note eq2 = stringf.put_prefix_free [OF S sizes(1,5) eq1(2)]
  note eq3 = stringf.put_prefix_free [OF S sizes(2,6) eq2(2)]
  note eq4 = stringf.put_prefix_free [OF S sizes(3,7) eq3(2)]
  note eq5 = bytesf.put_prefix_free [OF S sizes(4,8), of rest "[]"]
  have "msg_type m = msg_type m'"
    using eq1(1) valid message_type_of_to_u8 by (metis message_is_valid_def)
  with eq2(1) eq3(1) eq4(1) eq5 eq4(2) show "m = m'" and "rest = []" by simp_all
qed

text \<open>Hence a datagram that was cut short is never taken for another message.\<close>

lemma decode_prefix:
  assumes S: "serializer_ok S" and m: "message_fits m"
    and got: "decode_message S (take n (encode_message S m)) = Some (Some m')"
  shows "m' = m"
proof -
  from encode_decode_message [OF S got] have m': "message_fits m'"
    and enc: "encode_message S m' = take n (encode_message S m)" by simp_all
  have "encode_message S m' @ drop n (encode_message S m) = encode_message S m"
    by (simp add: enc)
  from encode_message_prefix_free(1) [OF S m' m this] show ?thesis .
qed

text \<open>So an encoding that is cut off is refused.\<close>

lemma decode_truncated:
  assumes "serializer_ok S" and "message_fits m" and "n < length (encode_message S m)"
  shows "decode_message S (take n (encode_message S m)) = Some None"
proof -
  obtain r where r: "decode_message S (take n (encode_message S m)) = Some r"
    using decode_message_no_fault [OF assms(1)] by blast
  have "r = None"
  proof (rule ccontr)
    assume "r \<noteq> None"
    with r obtain m' where got: "decode_message S (take n (encode_message S m)) = Some (Some m')" by auto
    from encode_decode_message [OF assms(1) this] decode_prefix [OF assms(1,2) this]
    have "encode_message S m = take n (encode_message S m)" by simp
    then have "length (encode_message S m) \<le> n" by (metis length_take min.cobounded2)
    with assms(3) show False by simp
  qed
  with r show ?thesis by simp
qed

text \<open>Datagrams.\<close>

lemma encode_message_empty_iff:
  "serializer_ok S \<Longrightarrow> encode_message S m = [] \<longleftrightarrow> \<not> message_is_valid m"
  using length_encode_message [of S m]
  by (auto simp: minimum_message_size_def encode_message_def)

lemma make_datagram_valid_iff:
  assumes "serializer_ok S"
  shows "datagram_is_valid (make_datagram S m host port) \<longleftrightarrow>
    host \<noteq> [] \<and> port \<noteq> 0 \<and> message_is_valid m"
  using encode_message_empty_iff [OF assms, of m]
  by (auto simp: make_datagram_def Let_def datagram_defs)

end
