(* ===== verification/Announcement_Codec.thy ===== *)
theory Announcement_Codec
  imports Wire
begin

text \<open>
  The payload of announce and reply messages: \<open>DiscoveryEngine::encode_announcement\<close> and
  both overloads of \<open>DiscoveryEngine::decode_announcement\<close>, with the engine's own string
  helpers.
\<close>

definition encode_announcement ::
    "('t, 'd) time_api \<Rightarrow> serializer \<Rightarrow> 't announcement \<Rightarrow> bytes" where
  "encode_announcement T S a =
     (if \<not> announcement_is_valid T a then []
      else
        let buffer = engine_append_string S [] (ann_node_id a);
            buffer = engine_append_string S buffer (ann_host a);
            buffer = ser_append_u16 S buffer (ann_port a);
            buffer = ser_append_i64 S buffer (ts_millis T (ann_timestamp a))
        in buffer)"

definition decode_announcement ::
    "('t, 'd) time_api \<Rightarrow> serializer \<Rightarrow> bytes \<Rightarrow> 't announcement option exec" where
  "decode_announcement T S buffer =
     (let a = announcement_default T in
      and_then (engine_read_string S buffer 0) (\<lambda>(node_id, off).
      let a = a\<lparr>ann_node_id := node_id\<rparr> in
      and_then (engine_read_string S buffer off) (\<lambda>(host, off).
      let a = a\<lparr>ann_host := host\<rparr> in
      and_then (read_u16 S buffer off) (\<lambda>(port, off).
      let a = a\<lparr>ann_port := port\<rparr> in
      and_then (read_i64 S buffer off) (\<lambda>(timestamp_millis, off).
      let a = a\<lparr>ann_timestamp := ts_from_millis T timestamp_millis\<rparr> in
      if off \<noteq> length buffer then returns None
      else if \<not> announcement_is_valid T a then returns None
      else returns (Some a))))))"

definition decode_announcement_buffer ::
    "('t, 'd) time_api \<Rightarrow> serializer \<Rightarrow> bytes \<Rightarrow> 't announcement option exec" where
  "decode_announcement_buffer T S buffer =
     (if buffer = [] then returns None else decode_announcement T S buffer)"

section \<open>The codec keeps its contract\<close>

definition announcement_fits :: "('t, 'd) time_api \<Rightarrow> 't announcement \<Rightarrow> bool" where
  "announcement_fits T a \<longleftrightarrow>
     announcement_is_valid T a \<and> u32_sized (ann_node_id a) \<and> u32_sized (ann_host a)"

lemma encode_announcement_concat:
  assumes S: "serializer_ok S" and "announcement_is_valid T a"
  shows "encode_announcement T S a =
    append_string S [] (ann_node_id a) @ append_string S [] (ann_host a) @
    ser_append_u16 S [] (ann_port a) @ ser_append_i64 S [] (ts_millis T (ann_timestamp a))"
  unfolding encode_announcement_def Let_def engine_helpers_same
  by (subst i64f.put_append [OF S], subst u16f.put_append [OF S],
      subst stringf.put_append [OF S]) (simp add: assms(2))

lemma decode_announcement_no_fault:
  assumes S: "serializer_ok S"
  shows "\<exists>r. decode_announcement T S d = Some r"
  unfolding decode_announcement_def Let_def engine_helpers_same
  by (auto intro!: and_then_defined simp: u16f.get_undefined_never [OF S]
      stringf.get_undefined_never [OF S] i64f.get_undefined_never [OF S] split: prod.splits)

lemma decode_encode_announcement:
  assumes T: "timestamp_ok T" and S: "serializer_ok S" and a: "announcement_fits T a"
  shows "decode_announcement T S (encode_announcement T S a) = Some (Some a)"
proof -
  have valid: "announcement_is_valid T a" and sizes: "u32_sized (ann_node_id a)"
      "u32_sized (ann_host a)"
    using a by (auto simp: announcement_fits_def)
  let ?n = "append_string S [] (ann_node_id a)"
  let ?h = "append_string S [] (ann_host a)"
  let ?p = "ser_append_u16 S [] (ann_port a)"
  let ?t = "ser_append_i64 S [] (ts_millis T (ann_timestamp a))"
  define d where "d = encode_announcement T S a"
  have d: "d = ?n @ ?h @ ?p @ ?t"
    by (simp only: d_def encode_announcement_concat [OF S valid])
  define o1 o2 o3 where "o1 = length ?n" and "o2 = o1 + length ?h" and "o3 = o2 + length ?p"
  note offs = this
  have r0: "read_string S d 0 = Some (Some (ann_node_id a, o1))"
    using stringf.get_here [OF S sizes(1), of d "[]" _ 0] by (simp add: d offs)
  have r1: "read_string S d o1 = Some (Some (ann_host a, o2))"
    using stringf.get_here [OF S sizes(2), of d ?n _ o1] by (simp add: d offs)
  have r2: "read_u16 S d o2 = Some (Some (ann_port a, o3))"
    using u16f.get_here [OF S, where d = d and pre = "?n @ ?h" and off = o2]
    by (simp add: d offs)
  have r3: "read_i64 S d o3 = Some (Some (ts_millis T (ann_timestamp a), length d))"
    using i64f.get_here [OF S, where d = d and pre = "?n @ ?h @ ?p" and off = o3 and rest = "[]"]
    by (simp add: d offs add.assoc)
  have eta: "\<lparr>ann_node_id = ann_node_id a, ann_host = ann_host a, ann_port = ann_port a,
      ann_timestamp = ann_timestamp a\<rparr> = a"
    by simp
  have "decode_announcement T S d = Some (Some a)"
    unfolding decode_announcement_def engine_helpers_same
    by (simp add: Let_def r0 r1 r2 r3 announcement_default_def timestamp_okD(2) [OF T] valid eta)
  then show ?thesis by (simp only: d_def)
qed

lemma encode_decode_announcement:
  assumes T: "timestamp_ok T" and S: "serializer_ok S"
    and got: "decode_announcement T S d = Some (Some a)"
  shows "announcement_fits T a \<and> encode_announcement T S a = d"
proof -
  obtain n o1 h o2 p o3 t where
    r0: "read_string S d 0 = Some (Some (n, o1))" and
    r1: "read_string S d o1 = Some (Some (h, o2))" and
    r2: "read_u16 S d o2 = Some (Some (p, o3))" and
    r3: "read_i64 S d o3 = Some (Some (t, length d))" and
    a: "a = \<lparr>ann_node_id = n, ann_host = h, ann_port = p, ann_timestamp = ts_from_millis T t\<rparr>"
    and valid: "announcement_is_valid T a"
    using got unfolding decode_announcement_def engine_helpers_same
    by (auto simp: Let_def and_then_eq_value announcement_default_def split: if_splits)
  let ?n = "append_string S [] n"
  let ?h = "append_string S [] h"
  let ?p = "ser_append_u16 S [] p"
  have e0: "take o1 d = ?n" "o1 \<le> length d" "u32_sized n"
    using stringf.get_extends [OF S r0] by auto
  have e1: "take o2 d = ?n @ ?h" "o2 \<le> length d" "u32_sized h"
    using stringf.get_extends [OF S r1 e0(1,2)] by auto
  have e2: "take o3 d = (?n @ ?h) @ ?p" "o3 \<le> length d"
    using u16f.get_extends [OF S r2 e1(1,2)] by auto
  have "d = ((?n @ ?h) @ ?p) @ ser_append_i64 S [] t"
    using i64f.get_extends [OF S r3 e2] by auto
  then show ?thesis
    using e0(3) e1(3) valid encode_announcement_concat [OF S valid] a
    by (simp add: announcement_fits_def timestamp_okD(3) [OF T])
qed

interpretation ann: wire_format "\<lambda>(T, S). timestamp_ok T \<and> serializer_ok S"
    "\<lambda>(T, S). announcement_fits T" "\<lambda>(T, S). encode_announcement T S"
    "\<lambda>(T, S). decode_announcement T S"
  by unfold_locales
    (auto dest: decode_announcement_no_fault decode_encode_announcement encode_decode_announcement)

lemma length_encode_announcement:
  assumes "serializer_ok S" and "announcement_is_valid T a"
  shows "length (encode_announcement T S a) = 18 + length (ann_node_id a) + length (ann_host a)"
  using assms
  by (simp add: encode_announcement_concat append_string_bytes length_append_bytes
      fixed_widthD(2) [OF serializer_okD(1)] fixed_widthD(2) [OF serializer_okD(3)])

lemma encode_announcement_empty_iff:
  "serializer_ok S \<Longrightarrow> encode_announcement T S a = [] \<longleftrightarrow> \<not> announcement_is_valid T a"
  using length_encode_announcement [of S T a] by (auto simp: encode_announcement_def)

lemma decode_announcement_buffer_valid:
  "decode_announcement_buffer T S d = Some (Some a) \<Longrightarrow> announcement_is_valid T a"
  by (auto simp: decode_announcement_buffer_def decode_announcement_def Let_def and_then_eq_value
      split: if_splits)

lemma decode_announcement_buffer_eq:
  assumes "timestamp_ok T" and "serializer_ok S"
  shows "decode_announcement_buffer T S d = decode_announcement T S d"
proof (cases "d = []")
  case True
  have "decode_announcement T S [] \<noteq> Some (Some a)" for a
    using encode_decode_announcement [OF assms, of "[]" a] encode_announcement_empty_iff [OF assms(2)]
    by (auto simp: announcement_fits_def)
  with decode_announcement_no_fault [OF assms(2), of T "[]"]
  show ?thesis
    by (auto simp: True decode_announcement_buffer_def) (metis option.exhaust)
qed (simp add: decode_announcement_buffer_def)

end
