(* ===== verification/Engine.thy ===== *)
theory Engine
  imports Backend Registry Codec Announcement_Codec "HOL-Library.Signed_Division"
begin

text \<open>
  \<open>engine/DiscoveryEngine.hpp\<close>: the engine that ties the backend, the registry and the
  transport engine together.  The engine's members are \<open>engine\<close>; the objects it refers to
  (backend, transport engine) and the clock it reads are the rest of \<open>system\<close>; the context,
  which it only reads, is an argument, and so is \<open>env\<close>, the code behind its interfaces.
\<close>

section \<open>State\<close>

record 't engine =
  eng_status :: discovery_status
  eng_registry :: "'t registry"
  eng_last_announce_at :: 't

record ('t, 'b, 'x) system = "'t engine" +
  sys_backend :: 'b
  sys_transport :: 'x
  sys_clock :: "'t clock"

record ('t, 'd, 'b, 'x) env =
  api_time :: "('t, 'd) time_api"
  api_serializer :: serializer
  api_backend :: "('b, 't) backend"
  api_transport :: "'x transport_api"
  api_layout :: "'t registry_layout"

definition make_system :: "('t, 'd) time_api \<Rightarrow> 'b \<Rightarrow> 'x \<Rightarrow> 't clock \<Rightarrow> ('t, 'b, 'x) system" where
  "make_system T b x c =
     \<lparr>eng_status = DS_Stopped, eng_registry = [], eng_last_announce_at = ts_default T,
      sys_backend = b, sys_transport = x, sys_clock = c\<rparr>"

text \<open>\<open>Timestamp::now()\<close> in a method of the engine, and a call of \<open>client_.send\<close>.\<close>

definition sys_now :: "('t, 'b, 'x) system \<Rightarrow> 't \<times> ('t, 'b, 'x) system" where
  "sys_now s = (let (t, c) = now (sys_clock s) in (t, s\<lparr>sys_clock := c\<rparr>))"

definition sys_send ::
    "('t, 'd, 'b, 'x) env \<Rightarrow> 't envelope \<Rightarrow> ('t, 'b, 'x) system \<Rightarrow>
     (bool \<times> ('t, 'b, 'x) system) exec" where
  "sys_send E e s = do {
     (sent, b, c) \<leftarrow> client_send (api_time E) (api_backend E) e (sys_backend s) (sys_clock s);
     returns (sent, s\<lparr>sys_backend := b, sys_clock := c\<rparr>)
   }"

section \<open>Lifecycle\<close>

definition engine_start ::
    "('t, 'd, 'b, 'x) env \<Rightarrow> 'd discovery_context \<Rightarrow> ('t, 'b, 'x) system \<Rightarrow>
     (bool \<times> ('t, 'b, 'x) system) exec" where
  "engine_start E ctx s =
     (if status_is_running (eng_status s) then returns (True, s)
      else if \<not> context_is_valid (api_time E) ctx then returns (False, s\<lparr>eng_status := DS_Failed\<rparr>)
      else do {
        let s = s\<lparr>eng_status := DS_Starting\<rparr>;
        (ok, b) \<leftarrow> server_start (api_backend E) (sys_backend s);
        let s = s\<lparr>sys_backend := b\<rparr>;
        if \<not> ok then returns (False, s\<lparr>eng_status := DS_Failed\<rparr>)
        else do {
          let s = s\<lparr>eng_last_announce_at := ts_default (api_time E)\<rparr>;
          returns (True, s\<lparr>eng_status := DS_Running\<rparr>)
        }
      })"

definition engine_stop ::
    "('t, 'd, 'b, 'x) env \<Rightarrow> ('t, 'b, 'x) system \<Rightarrow> ('t, 'b, 'x) system" where
  "engine_stop E s =
     (if eng_status s = DS_Stopped then s
      else
        let s = s\<lparr>eng_status := DS_Stopping\<rparr>;
            s = s\<lparr>sys_backend := server_stop (api_backend E) (sys_backend s)\<rparr>;
            s = s\<lparr>eng_registry := registry_clear (eng_registry s)\<rparr>;
            s = s\<lparr>eng_last_announce_at := ts_default (api_time E)\<rparr>
        in s\<lparr>eng_status := DS_Stopped\<rparr>)"

definition engine_status :: "('t, 'b, 'x) system \<Rightarrow> discovery_status" where
  "engine_status s = eng_status s"

definition engine_is_running :: "('t, 'd, 'b, 'x) env \<Rightarrow> ('t, 'b, 'x) system \<Rightarrow> bool" where
  "engine_is_running E s \<longleftrightarrow>
     status_is_running (eng_status s) \<and> be_is_running (api_backend E) (sys_backend s)"

definition engine_running :: "('t, 'd, 'b, 'x) env \<Rightarrow> ('t, 'b, 'x) system \<Rightarrow> bool" where
  "engine_running E s = engine_is_running E s"

section \<open>Outbound messages\<close>

definition local_node_id :: "('t, 'd, 'b, 'x) env \<Rightarrow> 'd discovery_context \<Rightarrow> string" where
  "local_node_id E ctx =
     (case config_checked (api_time E) ctx of Inl _ \<Rightarrow> [] | Inr c \<Rightarrow> cfg_node_id c)"

definition make_local_announcement ::
    "('t, 'd, 'b, 'x) env \<Rightarrow> 'd discovery_context \<Rightarrow> ('t, 'b, 'x) system \<Rightarrow>
     't announcement \<times> ('t, 'b, 'x) system" where
  "make_local_announcement E ctx s =
     (case config_checked (api_time E) ctx of
        Inl _ \<Rightarrow> (announcement_default (api_time E), s)
      | Inr c \<Rightarrow>
          let (t, s) = sys_now s
          in (make_announcement t (local_node_id E ctx) (cfg_announce_host c)
                (cfg_announce_port c), s))"

text \<open>\<open>std::to_string\<close> of an \<open>int64_t\<close>.\<close>

fun decimal :: "nat \<Rightarrow> string" where
  "decimal n = (if n < 10 then [] else decimal (n div 10)) @ [char_of (48 + n mod 10)]"

declare decimal.simps [simp del]

definition int_to_string :: "int \<Rightarrow> string" where
  "int_to_string i = (if i < 0 then ''-'' @ decimal (nat (- i)) else decimal (nat i))"

definition make_correlation_id ::
    "('t, 'd, 'b, 'x) env \<Rightarrow> string \<Rightarrow> ('t, 'b, 'x) system \<Rightarrow> string \<times> ('t, 'b, 'x) system" where
  "make_correlation_id E prefix s =
     (let (t, s) = sys_now s
      in (prefix @ ''-'' @ int_to_string (sint (ts_millis (api_time E) t)), s))"

definition make_announce_message ::
    "('t, 'd, 'b, 'x) env \<Rightarrow> 'd discovery_context \<Rightarrow> ('t, 'b, 'x) system \<Rightarrow>
     message \<times> ('t, 'b, 'x) system" where
  "make_announce_message E ctx s =
     (let (a, s) = make_local_announcement E ctx s;
          payload = encode_announcement (api_time E) (api_serializer E) a;
          m = message_announce (local_node_id E ctx) payload;
          (cid, s) = make_correlation_id E ''announce'' s
      in (m\<lparr>msg_correlation := cid\<rparr>, s))"

definition make_probe_message ::
    "('t, 'd, 'b, 'x) env \<Rightarrow> 'd discovery_context \<Rightarrow> ('t, 'b, 'x) system \<Rightarrow>
     message \<times> ('t, 'b, 'x) system" where
  "make_probe_message E ctx s =
     (let m = message_probe (local_node_id E ctx);
          (cid, s) = make_correlation_id E ''probe'' s
      in (m\<lparr>msg_correlation := cid\<rparr>, s))"

definition make_reply_message ::
    "('t, 'd, 'b, 'x) env \<Rightarrow> 'd discovery_context \<Rightarrow> string \<Rightarrow> string \<Rightarrow> ('t, 'b, 'x) system \<Rightarrow>
     message \<times> ('t, 'b, 'x) system" where
  "make_reply_message E ctx to_node_id correlation_id s =
     (let (a, s) = make_local_announcement E ctx s;
          payload = encode_announcement (api_time E) (api_serializer E) a;
          m = message_reply (local_node_id E ctx) payload;
          m = m\<lparr>msg_to := to_node_id\<rparr>
      in (m\<lparr>msg_correlation := correlation_id\<rparr>, s))"

definition make_outbound_envelope ::
    "('t, 'd, 'b, 'x) env \<Rightarrow> message \<Rightarrow> string \<Rightarrow> u16 \<Rightarrow> ('t, 'b, 'x) system \<Rightarrow>
     't envelope \<times> ('t, 'b, 'x) system" where
  "make_outbound_envelope E m host port s =
     (let (t, s) = sys_now s in (envelope_outbound (api_time E) t m host port, s))"

definition announce_now ::
    "('t, 'd, 'b, 'x) env \<Rightarrow> 'd discovery_context \<Rightarrow> ('t, 'b, 'x) system \<Rightarrow>
     (bool \<times> ('t, 'b, 'x) system) exec" where
  "announce_now E ctx s =
     (if \<not> engine_is_running E s then returns (False, s)
      else
        (case config_checked (api_time E) ctx of
           Inl _ \<Rightarrow> returns (False, s)
         | Inr c \<Rightarrow>
             let (m, s) = make_announce_message E ctx s;
                 (e, s) = make_outbound_envelope E m (cfg_broadcast_host c)
                            (cfg_broadcast_port c) s
             in do {
               (sent, s) \<leftarrow> sys_send E e s;
               if sent then
                 let (t, s) = sys_now s in returns (sent, s\<lparr>eng_last_announce_at := t\<rparr>)
               else returns (sent, s)
             }))"

definition probe_now ::
    "('t, 'd, 'b, 'x) env \<Rightarrow> 'd discovery_context \<Rightarrow> ('t, 'b, 'x) system \<Rightarrow>
     (bool \<times> ('t, 'b, 'x) system) exec" where
  "probe_now E ctx s =
     (if \<not> engine_is_running E s then returns (False, s)
      else
        (case config_checked (api_time E) ctx of
           Inl _ \<Rightarrow> returns (False, s)
         | Inr c \<Rightarrow>
             let (m, s) = make_probe_message E ctx s;
                 (e, s) = make_outbound_envelope E m (cfg_broadcast_host c)
                            (cfg_broadcast_port c) s
             in sys_send E e s))"

definition maybe_announce ::
    "('t, 'd, 'b, 'x) env \<Rightarrow> 'd discovery_context \<Rightarrow> ('t, 'b, 'x) system \<Rightarrow>
     ('t, 'b, 'x) system exec" where
  "maybe_announce E ctx s =
     (case config_checked (api_time E) ctx of
        Inl _ \<Rightarrow> returns s
      | Inr c \<Rightarrow>
          let (t, s) = sys_now s in do {
            due \<leftarrow> (if \<not> ts_is_valid (api_time E) (eng_last_announce_at s) then returns True
                   else do {
                     elapsed \<leftarrow> i64_sub (ts_millis (api_time E) t)
                                  (ts_millis (api_time E) (eng_last_announce_at s));
                     returns (sint (dur_millis (api_time E) (cfg_announce_interval c)) \<le> sint elapsed)
                   });
            if due then do { (_, s) \<leftarrow> announce_now E ctx s; returns s } else returns s
          })"

section \<open>The registry\<close>

text \<open>\<open>peer_ttl.millis() / 2\<close> truncates toward zero.\<close>

definition stale_after :: "('t, 'd) time_api \<Rightarrow> 'd config \<Rightarrow> 'd" where
  "stale_after T c =
     dur_from_millis T (word_of_int (sint (dur_millis T (cfg_peer_ttl c)) sdiv 2))"

definition refresh_peer_states ::
    "('t, 'd, 'b, 'x) env \<Rightarrow> 'd discovery_context \<Rightarrow> ('t, 'b, 'x) system \<Rightarrow>
     ('t, 'b, 'x) system exec" where
  "refresh_peer_states E ctx s =
     (case config_checked (api_time E) ctx of
        Inl _ \<Rightarrow> returns s
      | Inr c \<Rightarrow>
          let (t, s) = sys_now s in do {
            (_, r) \<leftarrow> refresh_states (api_time E) (eng_registry s) t
                        (stale_after (api_time E) c) (cfg_peer_ttl c);
            returns (s\<lparr>eng_registry := r\<rparr>)
          })"

definition upsert_discovered_peer ::
    "('t, 'd, 'b, 'x) env \<Rightarrow> 't announcement \<Rightarrow> ('t, 'b, 'x) system \<Rightarrow> ('t, 'b, 'x) system" where
  "upsert_discovered_peer E a s =
     (let (r, c) = registry_upsert_announcement (api_time E) (api_layout E) (eng_registry s) a
                     (sys_clock s)
      in s\<lparr>eng_registry := r, sys_clock := c\<rparr>)"

definition integrate_with_transport ::
    "('t, 'd, 'b, 'x) env \<Rightarrow> 'd discovery_context \<Rightarrow> 't announcement \<Rightarrow> ('t, 'b, 'x) system \<Rightarrow>
     ('t, 'b, 'x) system" where
  "integrate_with_transport E ctx a s =
     (let p = \<lparr>pi_node_id = ann_node_id a, pi_host = ann_host a, pi_port = ann_port a\<rparr>;
          X = api_transport E
      in if \<not> peer_info_is_valid X p then s
         else
           (case transport_checked X (sys_transport s) ctx of
              Inl _ \<Rightarrow> s
            | Inr _ \<Rightarrow>
                if tr_contains X (sys_transport s) (pi_node_id p) then s
                else s\<lparr>sys_transport := tr_connect_peer X (sys_transport s) p\<rparr>))"

section \<open>Inbound messages\<close>

definition handle_announce ::
    "('t, 'd, 'b, 'x) env \<Rightarrow> 'd discovery_context \<Rightarrow> 't envelope \<Rightarrow> ('t, 'b, 'x) system \<Rightarrow>
     (bool \<times> ('t, 'b, 'x) system) exec" where
  "handle_announce E ctx e s = do {
     a \<leftarrow> decode_announcement_buffer (api_time E) (api_serializer E)
            (msg_payload (env_message e));
     (case a of
        None \<Rightarrow> returns (False, s)
      | Some a \<Rightarrow>
          if \<not> announcement_is_valid (api_time E) a then returns (False, s)
          else if ann_node_id a = local_node_id E ctx then returns (False, s)
          else do {
            let s = upsert_discovered_peer E a s;
            let s = integrate_with_transport E ctx a s;
            returns (True, s)
          })
   }"

definition handle_probe ::
    "('t, 'd, 'b, 'x) env \<Rightarrow> 'd discovery_context \<Rightarrow> 't envelope \<Rightarrow> ('t, 'b, 'x) system \<Rightarrow>
     (bool \<times> ('t, 'b, 'x) system) exec" where
  "handle_probe E ctx e s =
     (if \<not> envelope_has_source e then returns (False, s)
      else
        let (m, s) = make_reply_message E ctx (msg_from (env_message e))
                       (msg_correlation (env_message e)) s;
            (out, s) = make_outbound_envelope E m (env_from_host e) (env_from_port e) s
        in sys_send E out s)"

definition handle_reply ::
    "('t, 'd, 'b, 'x) env \<Rightarrow> 'd discovery_context \<Rightarrow> 't envelope \<Rightarrow> ('t, 'b, 'x) system \<Rightarrow>
     (bool \<times> ('t, 'b, 'x) system) exec" where
  "handle_reply E ctx e s = do {
     a \<leftarrow> decode_announcement_buffer (api_time E) (api_serializer E)
            (msg_payload (env_message e));
     (case a of
        None \<Rightarrow> returns (False, s)
      | Some a \<Rightarrow>
          if \<not> announcement_is_valid (api_time E) a then returns (False, s)
          else if ann_node_id a = local_node_id E ctx then returns (False, s)
          else do {
            let s = upsert_discovered_peer E a s;
            let s = integrate_with_transport E ctx a s;
            returns (True, s)
          })
   }"

text \<open>The second half of \<open>poll_once\<close>: what becomes of the envelope that \<open>poll\<close> returned.\<close>

definition handle_inbound ::
    "('t, 'd, 'b, 'x) env \<Rightarrow> 'd discovery_context \<Rightarrow> 't envelope option \<Rightarrow>
     ('t, 'b, 'x) system \<Rightarrow> (bool \<times> ('t, 'b, 'x) system) exec" where
  "handle_inbound E ctx inbound s =
     (case inbound of
        None \<Rightarrow> returns (False, s)
      | Some e \<Rightarrow>
          if \<not> message_is_valid (env_message e) then returns (False, s)
          else if msg_from (env_message e) = local_node_id E ctx then returns (False, s)
          else
            (case msg_type (env_message e) of
               MT_Announce \<Rightarrow> handle_announce E ctx e s
             | MT_Probe \<Rightarrow> handle_probe E ctx e s
             | MT_Reply \<Rightarrow> handle_reply E ctx e s
             | _ \<Rightarrow> returns (False, s)))"

definition poll_once ::
    "('t, 'd, 'b, 'x) env \<Rightarrow> 'd discovery_context \<Rightarrow> ('t, 'b, 'x) system \<Rightarrow>
     (bool \<times> ('t, 'b, 'x) system) exec" where
  "poll_once E ctx s =
     (if \<not> engine_is_running E s then returns (False, s)
      else do {
        s \<leftarrow> maybe_announce E ctx s;
        s \<leftarrow> refresh_peer_states E ctx s;
        (inbound, b, c) \<leftarrow> server_poll (api_backend E) (sys_backend s) (sys_clock s);
        let s = s\<lparr>sys_backend := b, sys_clock := c\<rparr>;
        handle_inbound E ctx inbound s
      })"

text \<open>The loop of \<open>poll_many\<close>, with the iterations left and the count so far.\<close>

fun poll_loop ::
    "('t, 'd, 'b, 'x) env \<Rightarrow> 'd discovery_context \<Rightarrow> nat \<Rightarrow> nat \<Rightarrow> ('t, 'b, 'x) system \<Rightarrow>
     (nat \<times> ('t, 'b, 'x) system) exec" where
  "poll_loop E ctx 0 processed s = returns (processed, s)"
| "poll_loop E ctx (Suc left) processed s = do {
     (ok, s) \<leftarrow> poll_once E ctx s;
     if \<not> ok then returns (processed, s) else poll_loop E ctx left (processed + 1) s
   }"

definition poll_many ::
    "('t, 'd, 'b, 'x) env \<Rightarrow> 'd discovery_context \<Rightarrow> nat \<Rightarrow> ('t, 'b, 'x) system \<Rightarrow>
     (nat \<times> ('t, 'b, 'x) system) exec" where
  "poll_many E ctx max_messages s = poll_loop E ctx max_messages 0 s"

section \<open>Inspection\<close>

definition engine_peers :: "('t, 'b, 'x) system \<Rightarrow> 't registry" where
  "engine_peers s = eng_registry s"

definition available_transport_peers ::
    "('t, 'd, 'b, 'x) env \<Rightarrow> ('t, 'b, 'x) system \<Rightarrow> peer_info list" where
  "available_transport_peers E s = transport_peers (api_transport E) (eng_registry s)"

definition alive_transport_peers ::
    "('t, 'd, 'b, 'x) env \<Rightarrow> ('t, 'b, 'x) system \<Rightarrow> peer_info list" where
  "alive_transport_peers E s =
     [to_peer_info p. p \<leftarrow> alive_peers (eng_registry s),
        peer_info_is_valid (api_transport E) (to_peer_info p)]"

end
