(* ===== verification/Registry_Proofs.thy ===== *)
theory Registry_Proofs
  imports Registry
begin

text \<open>
  What the registry promises.  The abstract registry is the finite map \<open>um_find r\<close> from
  node ids to peers; every operation is related to an update of that map, for every layout
  of the hash table.  The invariant \<open>registry_wf\<close> (one entry per id, filed under its own
  id, valid) holds in every state that the public operations can reach.
\<close>

section \<open>The invariant\<close>

definition registry_wf :: "('t, 'd) time_api \<Rightarrow> 't registry \<Rightarrow> bool" where
  "registry_wf T r \<longleftrightarrow>
     um_wf r \<and> (\<forall>(k, p) \<in> set r. peer_node_id p = k \<and> peer_is_valid T p)"

lemma registry_wf_um: "registry_wf T r \<Longrightarrow> um_wf r"
  by (simp add: registry_wf_def)

lemma registry_wf_values:
  "registry_wf T r \<longleftrightarrow>
     um_wf r \<and> um.all_values (\<lambda>k p. peer_node_id p = k \<and> peer_is_valid T p) r"
  by (auto simp: registry_wf_def um.all_values_entries)

lemma registry_wfD:
  assumes "registry_wf T r" and "um_find r k = Some p"
  shows "peer_node_id p = k" and "peer_is_valid T p"
  using assms um.all_valuesD [of "\<lambda>k p. peer_node_id p = k \<and> peer_is_valid T p" r k p]
  by (auto simp: registry_wf_values)

lemma registry_wf_empty [simp]: "registry_wf T []"
  by (simp add: registry_wf_def um_wf_def)

lemma registry_wf_assign:
  "layout_ok L \<Longrightarrow> registry_wf T r \<Longrightarrow> peer_is_valid T p \<Longrightarrow>
   registry_wf T (um_assign L r (peer_node_id p) p)"
  by (simp add: registry_wf_values um.invar_assign um.all_values_assign)

lemma registry_wf_modify:
  assumes "registry_wf T r"
    and "\<And>p. um_find r k = Some p \<Longrightarrow> peer_node_id p = k \<Longrightarrow> peer_is_valid T p \<Longrightarrow>
      peer_node_id (f p) = k \<and> peer_is_valid T (f p)"
  shows "registry_wf T (um_modify r k f)"
  using assms by (auto simp: registry_wf_values um.invar_modify intro!: um.all_values_modify)

text \<open>A rewriting of every entry that keeps ids and validity (the loop of \<open>refresh_states\<close>).\<close>

definition entrywise :: "('v \<Rightarrow> 'v \<Rightarrow> bool) \<Rightarrow> ('k, 'v) umap \<Rightarrow> ('k, 'v) umap \<Rightarrow> bool" where
  "entrywise R m m' \<longleftrightarrow> list_all2 (\<lambda>(k, v) (k', v'). k' = k \<and> R v v') m m'"

lemma entrywise_simps [simp]:
  "entrywise R [] m' \<longleftrightarrow> m' = []"
  "entrywise R ((k, v) # m) m' \<longleftrightarrow> (\<exists>v' m''. m' = (k, v') # m'' \<and> R v v' \<and> entrywise R m m'')"
  by (auto simp: entrywise_def list_all2_Cons1)

lemma entrywise_keys: "entrywise R m m' \<Longrightarrow> map fst m' = map fst m"
  unfolding entrywise_def by (induction rule: list_all2_induct) auto

lemma entrywise_find:
  "entrywise R m m' \<Longrightarrow> rel_option R (um_find m k) (um_find m' k)"
  unfolding entrywise_def um_find_def by (induction rule: list_all2_induct) auto

lemma entrywise_values:
  "entrywise R m m' \<Longrightarrow> (\<And>k v v'. P k v \<Longrightarrow> R v v' \<Longrightarrow> P k v') \<Longrightarrow>
   \<forall>(k, v) \<in> set m. P k v \<Longrightarrow> \<forall>(k, v) \<in> set m'. P k v"
  unfolding entrywise_def by (induction rule: list_all2_induct) auto

lemma registry_wf_entrywise:
  assumes "registry_wf T r" and "entrywise R r r'"
    and "\<And>p p'. R p p' \<Longrightarrow> peer_node_id p' = peer_node_id p \<and>
      (peer_is_valid T p \<longrightarrow> peer_is_valid T p')"
  shows "registry_wf T r'"
  using assms(1) entrywise_keys [OF assms(2)]
    entrywise_values [OF assms(2), of "\<lambda>k p. peer_node_id p = k \<and> peer_is_valid T p"] assms(3)
  by (auto simp: registry_wf_def um_wf_def)

lemma peer_marks_node_id [simp]:
  "peer_node_id (peer_touch t p) = peer_node_id p"
  "peer_node_id (peer_mark_discovered t p) = peer_node_id p"
  "peer_node_id (peer_mark_alive t p) = peer_node_id p"
  "peer_node_id (peer_mark_stale t p) = peer_node_id p"
  "peer_node_id (peer_mark_expired t p) = peer_node_id p"
  "peer_node_id (peer_mark_error t p) = peer_node_id p"
  "peer_node_id (peer_update t a p) = ann_node_id a"
  by (simp_all add: peer_node_id_def)

lemma peer_state_update_simps [simp]:
  "peer_node_id (p\<lparr>dp_state := st\<rparr>) = peer_node_id p"
  "peer_node_id (p\<lparr>dp_last_seen_at := t\<rparr>) = peer_node_id p"
  "peer_is_valid T (p\<lparr>dp_last_seen_at := t\<rparr>) = peer_is_valid T p"
  "peer_is_valid T (p\<lparr>dp_state := st\<rparr>) \<longleftrightarrow>
     announcement_is_valid T (dp_announcement p) \<and> peer_state_is_valid st"
  by (simp_all add: peer_node_id_def peer_is_valid_def)

lemma peer_validD: "peer_is_valid T p \<Longrightarrow> announcement_is_valid T (dp_announcement p)"
  by (simp add: peer_is_valid_def)

section \<open>Insertion of an announcement\<close>

text \<open>The peer that \<open>upsert_announcement\<close> files: a refreshed one or a new one.\<close>

definition announced_peer ::
    "'t registry \<Rightarrow> 't announcement \<Rightarrow> 't clock \<Rightarrow> 't discovered_peer" where
  "announced_peer r a c =
     (case um_find r (ann_node_id a) of
        Some p \<Rightarrow> peer_update (readings c (ticks c)) a p
      | None \<Rightarrow>
          peer_mark_alive (readings c (Suc (ticks c)))
            (make_discovered_peer (readings c (ticks c)) a))"

lemma announced_peer_simps:
  "dp_announcement (announced_peer r a c) = a"
  "dp_state (announced_peer r a c) = PS_Alive"
  "peer_node_id (announced_peer r a c) = ann_node_id a"
  by (auto simp: announced_peer_def peer_node_id_def split: option.splits)

lemma upsert_announcement_invalid:
  "\<not> announcement_is_valid T a \<Longrightarrow> registry_upsert_announcement T L r a c = (r, c)"
  by (simp add: registry_upsert_announcement_def)

lemma upsert_announcement_lookup:
  assumes "layout_ok L" and "um_wf r" and "announcement_is_valid T a"
  shows "um_find (fst (registry_upsert_announcement T L r a c)) =
    (um_find r)(ann_node_id a \<mapsto> announced_peer r a c)"
proof (cases "um_find r (ann_node_id a)")
  case None
  with assms show ?thesis
    by (simp add: registry_upsert_announcement_def registry_find_def announced_peer_def Let_def
        registry_upsert_def now_def peer_node_id_def um.lookup_assign)
next
  case (Some p)
  with assms show ?thesis
    by (simp add: registry_upsert_announcement_def registry_find_def announced_peer_def Let_def
        now_def um.lookup_modify)
qed

lemma upsert_announcement_wf:
  assumes "layout_ok L" and "registry_wf T r"
  shows "registry_wf T (fst (registry_upsert_announcement T L r a c))"
proof (cases "announcement_is_valid T a")
  case True
  show ?thesis
  proof (cases "um_find r (ann_node_id a)")
    case None
    with True show ?thesis
      using registry_wf_assign [OF assms, of "announced_peer r a c"]
      by (simp add: registry_upsert_announcement_def registry_find_def Let_def now_def
          registry_upsert_def announced_peer_def)
  next
    case (Some p)
    with True assms(2) show ?thesis
      by (auto simp: registry_upsert_announcement_def registry_find_def Let_def now_def
          intro!: registry_wf_modify)
  qed
qed (simp add: assms upsert_announcement_invalid)

lemma upsert_announcement_clock:
  "readings (snd (registry_upsert_announcement T L r a c)) = readings c"
  by (simp add: registry_upsert_announcement_def Let_def now_def split: option.splits)

lemma upsert_wf:
  "layout_ok L \<Longrightarrow> registry_wf T r \<Longrightarrow> registry_wf T (registry_upsert T L r p)"
  by (simp add: registry_upsert_def registry_wf_assign)

section \<open>Updates of one peer\<close>

text \<open>
  The seven operations that look a peer up and write through the pointer have one shape:
  nothing happens to an unknown id, and a known peer is rewritten in place.
\<close>

lemmas registry_update_defs =
  registry_mark_discovered_def registry_mark_alive_def registry_mark_stale_def
  registry_mark_expired_def registry_touch_def registry_mark_error_def registry_set_state_def
  registry_find_def

definition registry_rewrites ::
    "('t discovered_peer \<Rightarrow> 't discovered_peer) \<Rightarrow> 't registry \<Rightarrow> string \<Rightarrow> bool \<times> 't registry \<Rightarrow>
     bool" where
  "registry_rewrites f r k res \<longleftrightarrow>
     res = (if um_find r k = None then (False, r) else (True, um_modify r k f))"

lemma registry_rewrites_lookup:
  assumes "registry_rewrites f r k (b, r')" and "um_wf r"
  shows "um_find r' = (um_find r)(k := map_option f (um_find r k))"
    and "b \<longleftrightarrow> um_find r k \<noteq> None"
  using assms
  by (auto simp: registry_rewrites_def um.lookup_modify fun_upd_idem split: if_splits)

lemma registry_rewrites_wf:
  assumes "registry_rewrites f r k (b, r')" and "registry_wf T r"
    and "\<And>p. peer_is_valid T p \<Longrightarrow> peer_node_id (f p) = peer_node_id p \<and> peer_is_valid T (f p)"
  shows "registry_wf T r'"
  using assms by (auto simp: registry_rewrites_def intro!: registry_wf_modify split: if_splits)

lemma registry_updates_rewrite:
  fixes c :: "'t clock" and r :: "'t registry"
  defines "t \<equiv> readings c (ticks c)"
  shows "\<exists>b r' c'. registry_mark_discovered r k c = (b, r', c') \<and>
      registry_rewrites (peer_mark_discovered t) r k (b, r')"
    and "\<exists>b r' c'. registry_mark_alive r k c = (b, r', c') \<and>
      registry_rewrites (peer_mark_alive t) r k (b, r')"
    and "\<exists>b r' c'. registry_mark_stale r k c = (b, r', c') \<and>
      registry_rewrites (peer_mark_stale t) r k (b, r')"
    and "\<exists>b r' c'. registry_mark_expired r k c = (b, r', c') \<and>
      registry_rewrites (peer_mark_expired t) r k (b, r')"
    and "\<exists>b r' c'. registry_touch r k c = (b, r', c') \<and>
      registry_rewrites (peer_touch t) r k (b, r')"
    and "\<exists>b r' c'. registry_mark_error r k c = (b, r', c') \<and>
      registry_rewrites (peer_mark_error t) r k (b, r')"
    and "peer_state_is_valid st \<Longrightarrow> \<exists>b r' c'. registry_set_state r k st c = (b, r', c') \<and>
      registry_rewrites (\<lambda>p. peer_touch t (p\<lparr>dp_state := st\<rparr>)) r k (b, r')"
  by (auto simp: registry_update_defs registry_rewrites_def t_def now_def Let_def
      split: option.splits)

section \<open>Ageing\<close>

text \<open>
  The age of a peer in milliseconds at time \<open>t\<close>, and what \<open>refresh_states\<close> documents:
  at \<open>expire_after\<close> a peer is expired, at \<open>stale_after\<close> it is stale, before that its state
  stays as it is.
\<close>

definition peer_age :: "('t, 'd) time_api \<Rightarrow> 't \<Rightarrow> 't discovered_peer \<Rightarrow> int" where
  "peer_age T t p = sint (ts_millis T t) - sint (ts_millis T (dp_last_seen_at p))"

definition documented_state :: "int \<Rightarrow> int \<Rightarrow> int \<Rightarrow> peer_state \<Rightarrow> peer_state" where
  "documented_state stale expire age st =
     (if expire \<le> age then PS_Expired else if stale \<le> age then PS_Stale else st)"

text \<open>The state that one pass of the loop gives a peer that has been seen.\<close>

definition refreshed_state :: "int \<Rightarrow> int \<Rightarrow> int \<Rightarrow> peer_state \<Rightarrow> peer_state" where
  "refreshed_state stale expire age st =
     (if expire \<le> age \<and> st \<noteq> PS_Expired then PS_Expired
      else if stale \<le> age \<and> st \<noteq> PS_Stale then PS_Stale else st)"

lemma refreshed_state_documented:
  "st \<noteq> PS_Expired \<Longrightarrow> refreshed_state stale expire age st = documented_state stale expire age st"
  by (simp add: refreshed_state_def documented_state_def)

lemma refreshed_state_expired:
  "stale \<le> age \<Longrightarrow> refreshed_state stale expire age PS_Expired = PS_Stale"
  by (simp add: refreshed_state_def)

definition refreshed_peer ::
    "('t, 'd) time_api \<Rightarrow> 't \<Rightarrow> 'd \<Rightarrow> 'd \<Rightarrow> 't discovered_peer \<Rightarrow> 't discovered_peer" where
  "refreshed_peer T t stale_after expire_after p =
     (if ts_is_valid T (dp_last_seen_at p)
      then p\<lparr>dp_state := refreshed_state (sint (dur_millis T stale_after))
               (sint (dur_millis T expire_after)) (peer_age T t p) (dp_state p)\<rparr>
      else p)"

lemma refresh_peer_frame:
  assumes "refresh_peer T t stale_after expire_after p = Some (n, p')"
  shows "peer_node_id p' = peer_node_id p \<and> (peer_is_valid T p \<longrightarrow> peer_is_valid T p') \<and>
    dp_announcement p' = dp_announcement p \<and> dp_last_seen_at p' = dp_last_seen_at p \<and>
    dp_error_count p' = dp_error_count p"
  using assms
  by (auto simp: refresh_peer_def peer_state_is_valid_def bind_eq_Some_conv dest: peer_validD
      split: if_splits)

lemma refresh_entries_entrywise:
  "refresh_entries T t s e r n = Some (n', r') \<Longrightarrow>
   entrywise (\<lambda>p p'. \<exists>m. refresh_peer T t s e p = Some (m, p')) r r'"
proof (induction T t s e r n arbitrary: n' r' rule: refresh_entries.induct)
  case (2 T t s e k p r n)
  then show ?case by (fastforce simp: bind_eq_Some_conv split: prod.splits)
qed simp

lemma refresh_states_wf:
  assumes "registry_wf T r" and "refresh_states T r t s e = Some (n, r')"
  shows "registry_wf T r'"
proof (cases "ts_is_valid T t")
  case True
  then have "refresh_entries T t s e r 0 = Some (n, r')"
    using assms(2) by (simp add: refresh_states_def)
  from refresh_entries_entrywise [OF this] show ?thesis
    by (rule registry_wf_entrywise [OF assms(1)]) (auto dest: refresh_peer_frame)
qed (use assms in \<open>simp add: refresh_states_def\<close>)

text \<open>With valid timestamps the subtraction cannot overflow and the loop is a map.\<close>

lemma refresh_peer_eq:
  assumes "timestamp_ok T" and "ts_is_valid T t"
  shows "refresh_peer T t s e p =
    Some (if dp_state (refreshed_peer T t s e p) = dp_state p then 0 else 1,
          refreshed_peer T t s e p)"
proof (cases "ts_is_valid T (dp_last_seen_at p)")
  case True
  note nonneg = timestamp_okD(4) [OF assms] timestamp_okD(4) [OF assms(1) True]
  show ?thesis
    using True i64_sub_nonneg [OF nonneg]
    by (auto simp: refresh_peer_def refreshed_peer_def refreshed_state_def peer_age_def)
qed (simp add: refresh_peer_def refreshed_peer_def)

lemma refresh_entries_eq:
  assumes "timestamp_ok T" and "ts_is_valid T t"
  shows "refresh_entries T t s e r n =
    Some (n + length (filter (\<lambda>(k, p). dp_state (refreshed_peer T t s e p) \<noteq> dp_state p) r),
          map (\<lambda>(k, p). (k, refreshed_peer T t s e p)) r)"
  by (induction r arbitrary: n) (auto simp: refresh_peer_eq [OF assms])

lemma refresh_states_eq:
  assumes "timestamp_ok T" and "ts_is_valid T t"
  shows "refresh_states T r t s e =
    Some (length (filter (\<lambda>(k, p). dp_state (refreshed_peer T t s e p) \<noteq> dp_state p) r),
          map (\<lambda>(k, p). (k, refreshed_peer T t s e p)) r)"
  by (simp add: refresh_states_def refresh_entries_eq [OF assms] assms(2))

lemma um_find_map:
  "um_find (map (\<lambda>(k, v). (k, f v)) m) k = map_option f (um_find m k)"
  by (induction m) (auto simp: um_find_def)

section \<open>Removal\<close>

lemma prune_loop_eq:
  "prune_loop r n =
     (n + length (filter (\<lambda>(k, p). peer_expired p) r), filter (\<lambda>(k, p). \<not> peer_expired p) r)"
  by (induction r n rule: prune_loop.induct) auto

lemma prune_expired_eq:
  "prune_expired r =
     (length (filter (\<lambda>(k, p). peer_expired p) r), filter (\<lambda>(k, p). \<not> peer_expired p) r)"
  by (simp add: prune_expired_def prune_loop_eq)

lemma registry_wf_filter: "registry_wf T r \<Longrightarrow> registry_wf T (filter P r)"
  by (auto simp: registry_wf_def um_wf_def distinct_map_filter)

lemma um_find_filter:
  "um_wf m \<Longrightarrow> um_find (filter (\<lambda>(k, v). P v) m) k =
     (case um_find m k of None \<Rightarrow> None | Some v \<Rightarrow> if P v then Some v else None)"
  by (induction m) (auto simp: um_find_def um_wf_def map_of_eq_None_iff image_iff
      split: option.splits)

lemma registry_erase_wf: "registry_wf T r \<Longrightarrow> registry_wf T (snd (registry_erase r k))"
  by (simp add: registry_erase_def um_erase_def registry_wf_filter)

section \<open>Histories\<close>

text \<open>
  A write through the pointer of \<open>find\<close> that keeps the id and the validity of the peer, as all its
  operations but \<open>clear\<close>, \<open>update\<close> and plain assignments do.
\<close>

definition keeps_identity ::
    "('t, 'd) time_api \<Rightarrow> ('t discovered_peer \<Rightarrow> 't discovered_peer) \<Rightarrow> bool" where
  "keeps_identity T f \<longleftrightarrow>
     (\<forall>p. peer_is_valid T p \<longrightarrow> peer_node_id (f p) = peer_node_id p \<and> peer_is_valid T (f p))"

lemma registry_write_wf:
  "registry_wf T r \<Longrightarrow> keeps_identity T f \<Longrightarrow> registry_wf T (registry_write r k f)"
  by (auto simp: registry_write_def keeps_identity_def intro!: registry_wf_modify split: option.splits)

text \<open>Other writes break the invariant: \<open>find(id)->clear()\<close> leaves an invalid peer under \<open>id\<close>.\<close>

lemma registry_clear_through_find:
  assumes "um_find r k = Some p" and "k \<noteq> []"
  shows "\<not> registry_wf T (registry_write r k (peer_clear T))"
proof
  assume wf: "registry_wf T (registry_write r k (peer_clear T))"
  have "um_find (registry_write r k (peer_clear T)) k = Some (peer_clear T p)"
    using assms(1) by (simp add: registry_write_def registry_find_def um_find_modify)
  from registry_wfD(1) [OF wf this] assms(2) show False
    by (simp add: peer_clear_def peer_node_id_def announcement_clear_def)
qed

text \<open>
  One step is one call of a public operation that writes the registry, with whatever
  arguments, layout and clock; \<open>clock_moves\<close> is the rest of the program reading the clock.
\<close>

inductive registry_step ::
    "('t, 'd) time_api \<Rightarrow> 't registry \<times> 't clock \<Rightarrow> 't registry \<times> 't clock \<Rightarrow> bool"
  for T where
    upserts: "layout_ok L \<Longrightarrow> registry_step T (r, c) (registry_upsert T L r p, c)"
  | announces: "layout_ok L \<Longrightarrow>
      registry_step T (r, c) (registry_upsert_announcement T L r a c)"
  | erases: "registry_step T (r, c) (snd (registry_erase r k), c)"
  | sets_state: "registry_step T (r, c) (snd (registry_set_state r k st c))"
  | marks_discovered: "registry_step T (r, c) (snd (registry_mark_discovered r k c))"
  | marks_alive: "registry_step T (r, c) (snd (registry_mark_alive r k c))"
  | marks_stale: "registry_step T (r, c) (snd (registry_mark_stale r k c))"
  | marks_expired: "registry_step T (r, c) (snd (registry_mark_expired r k c))"
  | marks_error: "registry_step T (r, c) (snd (registry_mark_error r k c))"
  | touches: "registry_step T (r, c) (snd (registry_touch r k c))"
  | touches_at: "registry_step T (r, c) (snd (registry_touch_at T r k t), c)"
  | refreshes: "refresh_states T r t s e = Some (n, r') \<Longrightarrow> registry_step T (r, c) (r', c)"
  | prunes: "registry_step T (r, c) (snd (prune_expired r), c)"
  | clears: "registry_step T (r, c) (registry_clear r, c)"
  | writes: "keeps_identity T f \<Longrightarrow> registry_step T (r, c) (registry_write r k f, c)"
  | clock_moves: "registry_step T (r, c) (r, c')"

inductive registry_reachable :: "('t, 'd) time_api \<Rightarrow> 't registry \<times> 't clock \<Rightarrow> bool"
  for T where
    starts: "registry_reachable T ([], c)"
  | steps: "registry_reachable T s \<Longrightarrow> registry_step T s s' \<Longrightarrow> registry_reachable T s'"

lemma registry_update_wf:
  assumes "\<exists>b r' c'. f = (b, r', c') \<and> registry_rewrites g r k (b, r')"
    and "registry_wf T r"
    and "\<And>p. peer_is_valid T p \<Longrightarrow> peer_node_id (g p) = peer_node_id p \<and> peer_is_valid T (g p)"
  shows "registry_wf T (fst (snd f))"
  using assms registry_rewrites_wf by fastforce

lemma registry_touch_at_wf:
  "registry_wf T r \<Longrightarrow> registry_wf T (snd (registry_touch_at T r k t))"
  by (auto simp: registry_touch_at_def intro!: registry_wf_modify split: option.splits)

lemma registry_set_state_wf:
  assumes "registry_wf T r"
  shows "registry_wf T (fst (snd (registry_set_state r k st c)))"
proof (cases "peer_state_is_valid st")
  case True
  show ?thesis
    by (rule registry_update_wf [OF registry_updates_rewrite(7) [OF True] assms])
       (auto simp: True dest: peer_validD)
qed (simp add: registry_set_state_def assms)

lemma registry_marks_wf:
  assumes "registry_wf T r"
  shows "registry_wf T (fst (snd (registry_mark_discovered r k c)))"
    and "registry_wf T (fst (snd (registry_mark_alive r k c)))"
    and "registry_wf T (fst (snd (registry_mark_stale r k c)))"
    and "registry_wf T (fst (snd (registry_mark_expired r k c)))"
    and "registry_wf T (fst (snd (registry_touch r k c)))"
    and "registry_wf T (fst (snd (registry_mark_error r k c)))"
  by (rule registry_update_wf [OF registry_updates_rewrite(1) assms]
      registry_update_wf [OF registry_updates_rewrite(2) assms]
      registry_update_wf [OF registry_updates_rewrite(3) assms]
      registry_update_wf [OF registry_updates_rewrite(4) assms]
      registry_update_wf [OF registry_updates_rewrite(5) assms]
      registry_update_wf [OF registry_updates_rewrite(6) assms]; simp add: peer_validD)+

lemma registry_step_wf:
  "registry_step T s s' \<Longrightarrow> registry_wf T (fst s) \<Longrightarrow> registry_wf T (fst s')"
proof (induction rule: registry_step.induct)
  case (prunes r c)
  then show ?case by (simp add: prune_expired_eq registry_wf_filter)
qed (auto simp: upsert_wf upsert_announcement_wf registry_erase_wf registry_set_state_wf
    registry_touch_at_wf refresh_states_wf registry_clear_def registry_marks_wf registry_write_wf)

lemma registry_reachable_wf: "registry_reachable T s \<Longrightarrow> registry_wf T (fst s)"
  by (induction rule: registry_reachable.induct) (auto intro: registry_step_wf)

end
