(* ===== verification/Engine_Proofs.thy ===== *)
theory Engine_Proofs
  imports Engine Registry_Proofs
begin

text \<open>
  What the engine promises, for every backend that keeps the contract of \<open>Backend\<close>: the
  locale \<open>discovery_node\<close> is an engine on such a backend.  Every operation of a running
  engine is a sequence of three kinds of effects (\<open>engine_effect\<close>): it talks through the
  backend, ages the registry, or learns a peer that is not itself.  The invariant
  \<open>engine_inv\<close> is proved once for the effects and holds in every reachable state.
\<close>

section \<open>Effects\<close>

text \<open>The parts of the system that sending and reading the clock may change.\<close>

definition talks ::
    "('t, 'd, 'b, 'x) env \<Rightarrow> ('t, 'b, 'x) system \<Rightarrow> ('t, 'b, 'x) system \<Rightarrow> bool" where
  "talks E s s' \<longleftrightarrow>
     eng_status s' = eng_status s \<and> eng_registry s' = eng_registry s \<and>
     sys_transport s' = sys_transport s \<and>
     be_is_running (api_backend E) (sys_backend s') =
       be_is_running (api_backend E) (sys_backend s) \<and>
     readings (sys_clock s') = readings (sys_clock s) \<and>
     ticks (sys_clock s) \<le> ticks (sys_clock s') \<and>
     eng_last_announce_at s' \<in> insert (eng_last_announce_at s) (range (readings (sys_clock s)))"

lemma talks_refl [simp]: "talks E s s"
  by (simp add: talks_def)

lemma talks_trans: "talks E s s' \<Longrightarrow> talks E s' s'' \<Longrightarrow> talks E s s''"
  by (auto simp: talks_def)

lemma talksD:
  assumes "talks E s s'"
  shows "eng_status s' = eng_status s" and "eng_registry s' = eng_registry s"
    and "sys_transport s' = sys_transport s"
    and "be_is_running (api_backend E) (sys_backend s') =
      be_is_running (api_backend E) (sys_backend s)"
    and "readings (sys_clock s') = readings (sys_clock s)"
    and "ticks (sys_clock s) \<le> ticks (sys_clock s')"
  using assms by (auto simp: talks_def)

lemma sys_now_talks:
  "sys_now s = (t, s') \<Longrightarrow> talks E s s' \<and> t = readings (sys_clock s) (ticks (sys_clock s))"
  by (auto simp: talks_def sys_now_def now_def)

lemma talks_set_last:
  "talks E s s' \<Longrightarrow> t \<in> range (readings (sys_clock s)) \<Longrightarrow>
   talks E s (s'\<lparr>eng_last_announce_at := t\<rparr>)"
  by (auto simp: talks_def)

text \<open>The message builders only read the clock.\<close>

lemma make_local_announcement_talks:
  "make_local_announcement E ctx s = (a, s') \<Longrightarrow> talks E s s'"
  by (auto simp: make_local_announcement_def dest: sys_now_talks [where E = E] split: sum.splits prod.splits)

lemma make_correlation_id_talks: "make_correlation_id E p s = (a, s') \<Longrightarrow> talks E s s'"
  by (auto simp: make_correlation_id_def dest: sys_now_talks [where E = E] split: prod.splits)

lemma make_announce_message_talks: "make_announce_message E ctx s = (m, s') \<Longrightarrow> talks E s s'"
  by (auto simp: make_announce_message_def Let_def split: prod.splits
      dest!: make_local_announcement_talks make_correlation_id_talks intro: talks_trans)

lemma make_probe_message_talks: "make_probe_message E ctx s = (m, s') \<Longrightarrow> talks E s s'"
  by (auto simp: make_probe_message_def Let_def split: prod.splits
      dest!: make_correlation_id_talks)

lemma make_reply_message_talks: "make_reply_message E ctx i j s = (m, s') \<Longrightarrow> talks E s s'"
  by (auto simp: make_reply_message_def Let_def split: prod.splits
      dest!: make_local_announcement_talks)

lemma make_outbound_envelope_talks:
  "make_outbound_envelope E m h p s = (e, s') \<Longrightarrow> talks E s s'"
  by (auto simp: make_outbound_envelope_def dest: sys_now_talks [where E = E] split: prod.splits)

lemmas builders_talk =
  make_announce_message_talks make_probe_message_talks make_reply_message_talks
  make_outbound_envelope_talks

text \<open>One effect of an operation of a running engine.\<close>

inductive engine_effect ::
    "('t, 'd, 'b, 'x) env \<Rightarrow> 'd discovery_context \<Rightarrow> ('t, 'b, 'x) system \<Rightarrow>
     ('t, 'b, 'x) system \<Rightarrow> bool"
  for E ctx where
    talking: "talks E s s' \<Longrightarrow> engine_effect E ctx s s'"
  | ageing: "t \<in> range (readings (sys_clock s)) \<Longrightarrow> config_checked (api_time E) ctx = Inr c \<Longrightarrow>
      refresh_states (api_time E) (eng_registry s) t (stale_after (api_time E) c) (cfg_peer_ttl c) =
        Some (n, r) \<Longrightarrow>
      engine_effect E ctx s (s\<lparr>eng_registry := r\<rparr>)"
  | learning: "announcement_is_valid (api_time E) a \<Longrightarrow> ann_node_id a \<noteq> local_node_id E ctx \<Longrightarrow>
      engine_effect E ctx s
        (integrate_with_transport E ctx a (upsert_discovered_peer E a s))"

abbreviation engine_effects where
  "engine_effects E ctx \<equiv> (engine_effect E ctx)\<^sup>*\<^sup>*"

lemma talks_effects: "talks E s s' \<Longrightarrow> engine_effects E ctx s s'"
  by (blast intro: talking)

lemma refresh_peer_states_effects:
  "refresh_peer_states E ctx s = Some s' \<Longrightarrow> engine_effects E ctx s s'"
  by (auto simp: refresh_peer_states_def bind_eq_Some_conv Let_def dest!: sys_now_talks [where E = E]
      split: sum.splits prod.splits simp: talksD(5)
      intro!: rtranclp.rtrancl_into_rtrancl [OF talks_effects] ageing)

lemma learn_effects:
  assumes "announcement_is_valid (api_time E) a" and "ann_node_id a \<noteq> local_node_id E ctx"
  shows "engine_effects E ctx s (integrate_with_transport E ctx a (upsert_discovered_peer E a s))"
  using learning [OF assms] by blast

lemma handle_announce_effects:
  "handle_announce E ctx e s = Some (ok, s') \<Longrightarrow> engine_effects E ctx s s'"
  by (auto simp: handle_announce_def bind_eq_Some_conv Let_def intro: learn_effects
      split: option.splits if_splits)

lemma handle_reply_announce: "handle_reply = handle_announce"
  by (intro ext) (simp add: handle_reply_def handle_announce_def)

section \<open>The invariant\<close>

definition engine_inv ::
    "('t, 'd, 'b, 'x) env \<Rightarrow> 'd discovery_context \<Rightarrow> ('t, 'b, 'x) system \<Rightarrow> bool" where
  "engine_inv E ctx s \<longleftrightarrow>
     eng_status s \<in> {DS_Stopped, DS_Running, DS_Failed} \<and>
     (be_is_running (api_backend E) (sys_backend s) \<longleftrightarrow> eng_status s = DS_Running) \<and>
     (eng_status s = DS_Running \<longrightarrow> context_is_valid (api_time E) ctx) \<and>
     (eng_status s \<noteq> DS_Running \<longrightarrow> eng_registry s = []) \<and>
     registry_wf (api_time E) (eng_registry s) \<and>
     um_find (eng_registry s) (local_node_id E ctx) = None"

text \<open>Every peer has been seen at a time that the clock gave, and the clock only gives valid times.\<close>

definition peers_seen :: "('t, 'd, 'b, 'x) env \<Rightarrow> ('t, 'b, 'x) system \<Rightarrow> bool" where
  "peers_seen E s \<longleftrightarrow>
     clock_ok (api_time E) (sys_clock s) \<and>
     (\<forall>k p. um_find (eng_registry s) k = Some p \<longrightarrow> dp_last_seen_at p \<in> range (readings (sys_clock s)))"

lemma peers_seenD:
  assumes "peers_seen E s"
  shows "clock_ok (api_time E) (sys_clock s)"
    and "um_find (eng_registry s) k = Some p \<Longrightarrow> dp_last_seen_at p \<in> range (readings (sys_clock s))"
    and "um_find (eng_registry s) k = Some p \<Longrightarrow> ts_is_valid (api_time E) (dp_last_seen_at p)"
proof -
  show "clock_ok (api_time E) (sys_clock s)" using assms by (simp add: peers_seen_def)
  show seen: "dp_last_seen_at p \<in> range (readings (sys_clock s))" if "um_find (eng_registry s) k = Some p"
    using assms that by (simp add: peers_seen_def)
  show "ts_is_valid (api_time E) (dp_last_seen_at p)" if "um_find (eng_registry s) k = Some p"
    using seen [OF that] assms by (auto simp: peers_seen_def clock_ok_def)
qed

lemma integrate_frame:
  "eng_status (integrate_with_transport E ctx a s) = eng_status s"
  "eng_registry (integrate_with_transport E ctx a s) = eng_registry s"
  "eng_last_announce_at (integrate_with_transport E ctx a s) = eng_last_announce_at s"
  "sys_backend (integrate_with_transport E ctx a s) = sys_backend s"
  "sys_clock (integrate_with_transport E ctx a s) = sys_clock s"
  by (auto simp: integrate_with_transport_def Let_def split: sum.splits)

lemma upsert_discovered_frame:
  "eng_status (upsert_discovered_peer E a s) = eng_status s"
  "eng_registry (upsert_discovered_peer E a s) =
     fst (registry_upsert_announcement (api_time E) (api_layout E) (eng_registry s) a (sys_clock s))"
  "eng_last_announce_at (upsert_discovered_peer E a s) = eng_last_announce_at s"
  "sys_backend (upsert_discovered_peer E a s) = sys_backend s"
  "sys_transport (upsert_discovered_peer E a s) = sys_transport s"
  "readings (sys_clock (upsert_discovered_peer E a s)) = readings (sys_clock s)"
  using upsert_announcement_clock [of "api_time E" "api_layout E" "eng_registry s" a "sys_clock s"]
  by (auto simp: upsert_discovered_peer_def split: prod.splits)

lemmas learn_frame = integrate_frame upsert_discovered_frame

lemma refresh_find_None:
  assumes "refresh_states T r t u v = Some (n, r')"
  shows "um_find r' k = None \<longleftrightarrow> um_find r k = None"
proof (cases "ts_is_valid T t")
  case True
  then have "refresh_entries T t u v r 0 = Some (n, r')"
    using assms by (simp add: refresh_states_def)
  from entrywise_find [OF refresh_entries_entrywise [OF this], of k] show ?thesis
    by (auto simp: option_rel_Some1 elim: option.rel_cases)
qed (use assms in \<open>simp add: refresh_states_def\<close>)

lemma engine_effect_inv:
  assumes "layout_ok (api_layout E)" and "engine_effect E ctx s s'" and "engine_inv E ctx s"
    and "eng_status s = DS_Running"
  shows "engine_inv E ctx s' \<and> eng_status s' = DS_Running"
  using assms(2)
proof cases
  case talking
  with assms show ?thesis by (auto simp: engine_inv_def talksD)
next
  case (ageing t c n r)
  with assms show ?thesis
    by (auto simp: engine_inv_def refresh_find_None dest: refresh_states_wf)
next
  case (learning a)
  with assms show ?thesis
    by (auto simp: engine_inv_def learn_frame upsert_announcement_wf registry_wf_um
        upsert_announcement_lookup)
qed

lemma refresh_find_seen:
  assumes "refresh_states T r t u v = Some (n, r')" and "um_find r' k = Some p'"
  shows "\<exists>p. um_find r k = Some p \<and> dp_last_seen_at p' = dp_last_seen_at p"
proof (cases "ts_is_valid T t")
  case True
  then have "refresh_entries T t u v r 0 = Some (n, r')"
    using assms by (simp add: refresh_states_def)
  from entrywise_find [OF refresh_entries_entrywise [OF this], of k] assms(2) show ?thesis
    by (auto simp: option_rel_Some2 dest: refresh_peer_frame)
qed (use assms in \<open>simp add: refresh_states_def\<close>)

lemma announced_peer_seen: "dp_last_seen_at (announced_peer r a c) \<in> range (readings c)"
  by (auto simp: announced_peer_def split: option.splits)

lemma engine_effect_seen:
  assumes "layout_ok (api_layout E)" and "engine_effect E ctx s s'" and "um_wf (eng_registry s)"
    and "peers_seen E s"
  shows "peers_seen E s'"
  using assms(2)
proof cases
  case talking
  with assms show ?thesis by (auto simp: peers_seen_def talksD clock_ok_def)
next
  case (ageing t c n r)
  with assms show ?thesis by (fastforce simp: peers_seen_def dest: refresh_find_seen)
next
  case (learning a)
  with assms show ?thesis
    by (auto simp: peers_seen_def learn_frame upsert_announcement_lookup announced_peer_seen
        clock_ok_def split: if_splits)
qed

lemma engine_effects_inv:
  "engine_effects E ctx s s' \<Longrightarrow> layout_ok (api_layout E) \<Longrightarrow> engine_inv E ctx s \<Longrightarrow>
   eng_status s = DS_Running \<Longrightarrow> engine_inv E ctx s' \<and> eng_status s' = DS_Running"
  by (induction rule: rtranclp_induct) (auto dest: engine_effect_inv)

lemma engine_effects_seen:
  "engine_effects E ctx s s' \<Longrightarrow> layout_ok (api_layout E) \<Longrightarrow> engine_inv E ctx s \<Longrightarrow>
   eng_status s = DS_Running \<Longrightarrow> peers_seen E s \<Longrightarrow> peers_seen E s'"
proof (induction rule: rtranclp_induct)
  case (step y z)
  then show ?case
    using engine_effects_inv [OF step.hyps(1)] engine_effect_seen [OF _ step.hyps(2)]
    by (auto simp: engine_inv_def dest: registry_wf_um)
qed

text \<open>No effect removes a peer.\<close>

lemma engine_effect_keeps:
  assumes "layout_ok (api_layout E)" and "engine_effect E ctx s s'" and "um_wf (eng_registry s)"
    and "um_find (eng_registry s) k \<noteq> None"
  shows "um_find (eng_registry s') k \<noteq> None"
  using assms(2)
proof cases
  case (learning a)
  with assms show ?thesis
    by (simp add: learn_frame upsert_announcement_lookup del: not_None_eq)
qed (use assms in \<open>simp_all add: talksD refresh_find_None del: not_None_eq\<close>)

lemma engine_effects_keep:
  "engine_effects E ctx s s' \<Longrightarrow> layout_ok (api_layout E) \<Longrightarrow> engine_inv E ctx s \<Longrightarrow>
   eng_status s = DS_Running \<Longrightarrow> um_find (eng_registry s) k \<noteq> None \<Longrightarrow>
   um_find (eng_registry s') k \<noteq> None"
proof (induction rule: rtranclp_induct)
  case (step y z)
  then have "um_wf (eng_registry y)"
    using engine_effects_inv [OF step.hyps(1)] by (auto simp: engine_inv_def dest: registry_wf_um)
  then show ?case
    by (rule engine_effect_keeps [OF step.prems(1) step.hyps(2) _ step.IH [OF step.prems]])
qed

text \<open>
  While the readings of the clock lie closer together than the time after which peers turn stale,
  a peer that is alive stays alive.
\<close>

definition brief_clock :: "('t, 'd) time_api \<Rightarrow> 'd discovery_context \<Rightarrow> 't clock \<Rightarrow> bool" where
  "brief_clock T ctx clk \<longleftrightarrow>
     (\<forall>c. config_checked T ctx = Inr c \<longrightarrow>
        (\<forall>i j. sint (ts_millis T (readings clk i)) - sint (ts_millis T (readings clk j)) <
           min (sint (dur_millis T (stale_after T c))) (sint (dur_millis T (cfg_peer_ttl c)))))"

definition knows_alive :: "('t, 'b, 'x) system \<Rightarrow> string \<Rightarrow> bool" where
  "knows_alive s k \<longleftrightarrow> (\<exists>p. um_find (eng_registry s) k = Some p \<and> dp_state p = PS_Alive)"

lemma engine_effect_alive:
  assumes T: "timestamp_ok (api_time E)" and L: "layout_ok (api_layout E)"
    and brief: "brief_clock (api_time E) ctx (sys_clock s)" and seen: "peers_seen E s"
    and wf: "um_wf (eng_registry s)" and known: "knows_alive s k" and step: "engine_effect E ctx s s'"
  shows "knows_alive s' k"
  using step
proof cases
  case talking
  with known show ?thesis by (simp add: knows_alive_def talksD)
next
  case (learning a)
  with known wf L show ?thesis
    by (auto simp: knows_alive_def learn_frame upsert_announcement_lookup announced_peer_simps)
next
  case (ageing t c n r)
  obtain p where p: "um_find (eng_registry s) k = Some p" "dp_state p = PS_Alive"
    using known by (auto simp: knows_alive_def)
  obtain i where t: "t = readings (sys_clock s) i" using ageing(2) by blast
  obtain j where last: "dp_last_seen_at p = readings (sys_clock s) j"
    using peers_seenD(2) [OF seen p(1)] by blast
  have valid: "ts_is_valid (api_time E) t" "ts_is_valid (api_time E) (dp_last_seen_at p)"
    using peers_seenD(1) [OF seen] by (simp_all add: t last clock_ok_def)
  have "um_find r k = Some (refreshed_peer (api_time E) t (stale_after (api_time E) c) (cfg_peer_ttl c) p)"
    using ageing(4) p(1) by (auto simp: refresh_states_eq [OF T valid(1)] um_find_map)
  moreover have "dp_state (refreshed_peer (api_time E) t (stale_after (api_time E) c) (cfg_peer_ttl c) p) = PS_Alive"
  proof -
    have "peer_age (api_time E) t p <
        min (sint (dur_millis (api_time E) (stale_after (api_time E) c)))
          (sint (dur_millis (api_time E) (cfg_peer_ttl c)))"
      using brief ageing(3) unfolding brief_clock_def peer_age_def t last by blast
    then show ?thesis using p(2) by (simp add: refreshed_peer_def refreshed_state_def)
  qed
  ultimately show ?thesis by (simp add: ageing(1) knows_alive_def)
qed

lemma engine_effect_clock:
  "engine_effect E ctx s s' \<Longrightarrow> readings (sys_clock s') = readings (sys_clock s)"
  by (induction rule: engine_effect.induct) (auto simp: talksD learn_frame)

lemma effects_clock:
  "engine_effects E ctx s s' \<Longrightarrow> readings (sys_clock s') = readings (sys_clock s)"
  by (induction rule: rtranclp_induct) (auto dest: engine_effect_clock)

lemma engine_effects_alive:
  "engine_effects E ctx s s' \<Longrightarrow> timestamp_ok (api_time E) \<Longrightarrow> layout_ok (api_layout E) \<Longrightarrow>
   brief_clock (api_time E) ctx (sys_clock s) \<Longrightarrow> engine_inv E ctx s \<Longrightarrow> eng_status s = DS_Running \<Longrightarrow>
   peers_seen E s \<Longrightarrow> knows_alive s k \<Longrightarrow> knows_alive s' k"
proof (induction rule: rtranclp_induct)
  case (step y z)
  have "engine_inv E ctx y" using engine_effects_inv [OF step.hyps(1)] step.prems by blast
  then have "um_wf (eng_registry y)" by (auto simp: engine_inv_def dest: registry_wf_um)
  moreover have "peers_seen E y" using engine_effects_seen [OF step.hyps(1)] step.prems by blast
  moreover have "brief_clock (api_time E) ctx (sys_clock y)"
    using step.prems(3) effects_clock [OF step.hyps(1)] by (simp add: brief_clock_def)
  ultimately show ?case
    using engine_effect_alive [OF step.prems(1,2)] step.IH [OF step.prems] step.hyps(2) by blast
qed

section \<open>An engine on a backend that keeps its contract\<close>

locale discovery_node = discovery_backend "api_backend E"
  for E :: "('t, 'd, 'b, 'x) env"
begin

lemma sys_send_talks: "sys_send E e s = Some (ok, s') \<Longrightarrow> talks E s s'"
  by (auto simp: sys_send_def bind_eq_Some_conv talks_def dest: client_send_keeps)

lemma announce_now_talks:
  assumes "announce_now E ctx s = Some (ok, s')"
  shows "talks E s s'"
proof (cases "engine_is_running E s \<and> (\<exists>c. config_checked (api_time E) ctx = Inr c)")
  case True
  then obtain c where c: "config_checked (api_time E) ctx = Inr c" by blast
  obtain m s1 where m: "make_announce_message E ctx s = (m, s1)" by fastforce
  obtain e s2 where e: "make_outbound_envelope E m (cfg_broadcast_host c) (cfg_broadcast_port c) s1
      = (e, s2)" by fastforce
  from True assms c m e obtain sent s3 where send: "sys_send E e s2 = Some (sent, s3)"
    and rest: "(if sent then let (t, s) = sys_now s3 in Some (sent, s\<lparr>eng_last_announce_at := t\<rparr>)
      else Some (sent, s3)) = Some (ok, s')"
    by (simp add: announce_now_def bind_eq_Some_conv split: prod.splits) blast
  have t3: "talks E s s3"
    using m e send by (blast intro: talks_trans builders_talk sys_send_talks)
  obtain t s4 where now3: "sys_now s3 = (t, s4)" by fastforce
  from sys_now_talks [OF this, where E = E] t3
  have "talks E s s4" "t \<in> range (readings (sys_clock s))"
    by (auto dest: talks_trans simp: talksD(5))
  with t3 rest now3 show ?thesis by (auto intro: talks_set_last split: if_splits)
next
  case False
  with assms show ?thesis by (auto simp: announce_now_def split: sum.splits)
qed

lemma probe_now_talks: "probe_now E ctx s = Some (ok, s') \<Longrightarrow> talks E s s'"
  by (auto simp: probe_now_def Let_def split: if_splits sum.splits prod.splits
      dest!: make_probe_message_talks make_outbound_envelope_talks sys_send_talks
      intro: talks_trans)

lemma handle_probe_talks: "handle_probe E ctx e s = Some (ok, s') \<Longrightarrow> talks E s s'"
  by (auto simp: handle_probe_def Let_def split: if_splits prod.splits
      dest!: make_reply_message_talks make_outbound_envelope_talks sys_send_talks
      intro: talks_trans)

lemma maybe_announce_talks: "maybe_announce E ctx s = Some s' \<Longrightarrow> talks E s s'"
  by (auto simp: maybe_announce_def Let_def bind_eq_Some_conv
      split: sum.splits prod.splits if_splits
      dest!: sys_now_talks [where E = E] announce_now_talks intro: talks_trans)

lemma poll_talks:
  "server_poll (api_backend E) (sys_backend s) (sys_clock s) = Some (got, b, c) \<Longrightarrow>
   talks E s (s\<lparr>sys_backend := b, sys_clock := c\<rparr>)"
  by (auto simp: server_poll_def talks_def dest: poll_keeps)

lemma handle_inbound_effects:
  "handle_inbound E ctx got s = Some (ok, s') \<Longrightarrow> engine_effects E ctx s s'"
  unfolding handle_inbound_def handle_reply_announce
  by (auto split: option.splits if_splits message_type.splits
      intro: handle_announce_effects talks_effects [OF handle_probe_talks])

lemma poll_once_running:
  assumes "engine_is_running E s" and "poll_once E ctx s = Some (ok, s')"
  obtains s1 s2 got b c where "maybe_announce E ctx s = Some s1"
    and "refresh_peer_states E ctx s1 = Some s2"
    and "server_poll (api_backend E) (sys_backend s2) (sys_clock s2) = Some (got, b, c)"
    and "handle_inbound E ctx got (s2\<lparr>sys_backend := b, sys_clock := c\<rparr>) = Some (ok, s')"
  using assms by (auto simp: poll_once_def bind_eq_Some_conv)

lemma poll_once_effects:
  assumes "poll_once E ctx s = Some (ok, s')"
  shows "engine_effects E ctx s s'"
proof (cases "engine_is_running E s")
  case True
  from poll_once_running [OF this assms] obtain s1 s2 got b c where
    s1: "maybe_announce E ctx s = Some s1" and
    s2: "refresh_peer_states E ctx s1 = Some s2" and
    got: "server_poll (api_backend E) (sys_backend s2) (sys_clock s2) = Some (got, b, c)" and
    rest: "handle_inbound E ctx got (s2\<lparr>sys_backend := b, sys_clock := c\<rparr>) = Some (ok, s')"
    by metis
  show ?thesis
    using talks_effects [OF maybe_announce_talks [OF s1]] refresh_peer_states_effects [OF s2]
      talks_effects [OF poll_talks [OF got]] handle_inbound_effects [OF rest]
    by (meson rtranclp_trans)
qed (use assms in \<open>simp add: poll_once_def\<close>)

lemma poll_loop_effects:
  "poll_loop E ctx left processed s = Some (n, s') \<Longrightarrow> engine_effects E ctx s s'"
proof (induction left arbitrary: processed s)
  case (Suc left)
  then obtain ok s1 where one: "poll_once E ctx s = Some (ok, s1)"
    and rest: "(if ok then poll_loop E ctx left (processed + 1) s1 else Some (processed, s1)) =
      Some (n, s')"
    by (auto simp: bind_eq_Some_conv split: if_splits)
  from poll_once_effects [OF one] rest show ?case
    by (auto split: if_splits dest!: Suc.IH intro: rtranclp_trans)
qed simp

lemma not_running_nothing:
  assumes "\<not> engine_is_running E s"
  shows "announce_now E ctx s = Some (False, s)" and "probe_now E ctx s = Some (False, s)"
    and "poll_once E ctx s = Some (False, s)" and "poll_many E ctx n s = Some (0, s)"
  using assms
  by (simp_all add: announce_now_def probe_now_def poll_once_def poll_many_def, cases n)
    (simp_all add: poll_once_def)

lemma engine_start_outcome:
  assumes "engine_inv E ctx s" and "engine_start E ctx s = Some (ok, s')"
  shows "engine_inv E ctx s'" and "ok \<longleftrightarrow> engine_is_running E s'"
    and "eng_status s' = (if ok then DS_Running else DS_Failed)"
    and "ok \<Longrightarrow> context_is_valid (api_time E) ctx"
  using assms
  by (auto simp: engine_start_def engine_inv_def engine_is_running_def status_is_running_def
      server_defs Let_def bind_eq_Some_conv split: if_splits dest: start_outcome)

lemma engine_stop_outcome:
  assumes "engine_inv E ctx s"
  shows "engine_inv E ctx (engine_stop E s)" and "eng_status (engine_stop E s) = DS_Stopped"
    and "eng_registry (engine_stop E s) = []" and "\<not> engine_is_running E (engine_stop E s)"
    and "\<not> be_is_running (api_backend E) (sys_backend (engine_stop E s))"
  using assms
  by (auto simp: engine_stop_def engine_inv_def engine_is_running_def status_is_running_def
      server_defs Let_def registry_clear_def stop_ends um_find_def)

lemma engine_inv_running: "engine_inv E ctx s \<Longrightarrow> engine_is_running E s \<longleftrightarrow> eng_status s = DS_Running"
  by (auto simp: engine_inv_def engine_is_running_def status_is_running_def)

end

section \<open>Histories\<close>

text \<open>
  A history of an engine is any sequence of calls of its public operations, with any layout
  of the hash map at each call.
\<close>

inductive engine_step ::
    "('t, 'd, 'b, 'x) env \<Rightarrow> 'd discovery_context \<Rightarrow> ('t, 'b, 'x) system \<Rightarrow>
     ('t, 'b, 'x) system \<Rightarrow> bool"
  for E ctx where
    started: "engine_start E ctx s = Some (ok, s') \<Longrightarrow> engine_step E ctx s s'"
  | stopped: "engine_step E ctx s (engine_stop E s)"
  | announced: "announce_now E ctx s = Some (ok, s') \<Longrightarrow> engine_step E ctx s s'"
  | probed: "probe_now E ctx s = Some (ok, s') \<Longrightarrow> engine_step E ctx s s'"
  | polled: "layout_ok L \<Longrightarrow> poll_once (E\<lparr>api_layout := L\<rparr>) ctx s = Some (ok, s') \<Longrightarrow>
      engine_step E ctx s s'"
  | polled_many: "layout_ok L \<Longrightarrow> poll_many (E\<lparr>api_layout := L\<rparr>) ctx n s = Some (k, s') \<Longrightarrow>
      engine_step E ctx s s'"

inductive engine_reachable ::
    "('t, 'd, 'b, 'x) env \<Rightarrow> 'd discovery_context \<Rightarrow> ('t, 'b, 'x) system \<Rightarrow> bool"
  for E ctx where
    created: "\<not> be_is_running (api_backend E) b \<Longrightarrow>
      engine_reachable E ctx (make_system (api_time E) b x c)"
  | continued: "engine_reachable E ctx s \<Longrightarrow> engine_step E ctx s s' \<Longrightarrow> engine_reachable E ctx s'"

lemma peers_seen_layout [simp]: "peers_seen (E\<lparr>api_layout := L\<rparr>) s = peers_seen E s"
  by (simp add: peers_seen_def)

lemma engine_inv_layout [simp]: "engine_inv (E\<lparr>api_layout := L\<rparr>) ctx s = engine_inv E ctx s"
  by (simp add: engine_inv_def local_node_id_def)

lemma engine_is_running_layout [simp]:
  "engine_is_running (E\<lparr>api_layout := L\<rparr>) s = engine_is_running E s"
  by (simp add: engine_is_running_def)

context discovery_node
begin

lemma node_layout: "discovery_node (E\<lparr>api_layout := L\<rparr>)"
  using discovery_backend_axioms by (simp add: discovery_node_def)

lemma running_effects_inv:
  assumes "engine_inv E ctx s" and "engine_effects (E\<lparr>api_layout := L\<rparr>) ctx s s'" and "layout_ok L"
    and "engine_is_running E s"
  shows "engine_inv E ctx s'"
  using engine_effects_inv [OF assms(2)] assms by (simp add: engine_inv_running)

lemma talks_inv: "engine_inv E ctx s \<Longrightarrow> talks E s s' \<Longrightarrow> engine_inv E ctx s'"
  by (auto simp: engine_inv_def talksD)

lemma engine_step_inv:
  assumes "engine_step E ctx s s'" and inv: "engine_inv E ctx s"
  shows "engine_inv E ctx s'"
  using assms(1)
proof cases
  case (polled L ok)
  show ?thesis
  proof (cases "engine_is_running E s")
    case True
    from polled(2) have "engine_effects (E\<lparr>api_layout := L\<rparr>) ctx s s'"
      by (rule discovery_node.poll_once_effects [OF node_layout])
    then show ?thesis by (rule running_effects_inv [OF inv _ polled(1) True])
  next
    case False
    with polled inv discovery_node.not_running_nothing(3) [OF node_layout, of L s ctx]
    show ?thesis by simp
  qed
next
  case (polled_many L n k)
  show ?thesis
  proof (cases "engine_is_running E s")
    case True
    from polled_many(2) have "engine_effects (E\<lparr>api_layout := L\<rparr>) ctx s s'"
      unfolding poll_many_def by (rule discovery_node.poll_loop_effects [OF node_layout])
    then show ?thesis by (rule running_effects_inv [OF inv _ polled_many(1) True])
  next
    case False
    with polled_many inv discovery_node.not_running_nothing(4) [OF node_layout, of L s ctx n]
    show ?thesis by simp
  qed
qed (use inv in \<open>auto intro: engine_start_outcome engine_stop_outcome talks_inv
    announce_now_talks probe_now_talks\<close>)

lemma engine_reachable_inv: "engine_reachable E ctx s \<Longrightarrow> engine_inv E ctx s"
proof (induction rule: engine_reachable.induct)
  case (created b x c)
  then show ?case by (simp add: engine_inv_def make_system_def um_find_def)
qed (rule engine_step_inv)

text \<open>Only \<open>stop\<close> takes a peer out of the registry.\<close>

lemma engine_step_keeps:
  assumes inv: "engine_inv E ctx s" and step: "engine_step E ctx s s'"
    and known: "um_find (eng_registry s) k \<noteq> None"
  shows "s' = engine_stop E s \<or> um_find (eng_registry s') k \<noteq> None"
proof -
  have status: "eng_status s = DS_Running"
    using inv known by (auto simp: engine_inv_def um_find_def)
  have kept: "um_find (eng_registry s') k \<noteq> None"
    if "engine_effects (E\<lparr>api_layout := L\<rparr>) ctx s s'" and "layout_ok L" for L
    using engine_effects_keep [OF that(1)] that(2) inv status known by simp
  show ?thesis
    using step
  proof cases
    case (started ok)
    then show ?thesis using status known by (simp add: engine_start_def status_is_running_def)
  next
    case (polled L ok)
    then show ?thesis using kept discovery_node.poll_once_effects [OF node_layout] by blast
  next
    case (polled_many L n m)
    then show ?thesis
      unfolding poll_many_def using kept discovery_node.poll_loop_effects [OF node_layout] by blast
  qed (use known in \<open>auto dest!: announce_now_talks probe_now_talks simp: talksD(2)\<close>)
qed

end

end
