(* ===== verification/Engine_Behaviour.thy ===== *)
theory Engine_Behaviour
  imports Engine_Proofs
begin

text \<open>
  What one call of the engine does, in full: the envelope it hands to the backend and the
  state it leaves, when the announcement timer is due, which peers the registry learns and
  what the transport engine is told, that no call has undefined behaviour, and how many
  messages \<open>poll_many\<close> handles.
\<close>

section \<open>The clock of a system\<close>

definition time_at :: "('t, 'b, 'x) system \<Rightarrow> nat \<Rightarrow> 't" where
  "time_at s i = readings (sys_clock s) (ticks (sys_clock s) + i)"

definition advance :: "nat \<Rightarrow> ('t, 'b, 'x) system \<Rightarrow> ('t, 'b, 'x) system" where
  "advance n s = s\<lparr>sys_clock := (sys_clock s)\<lparr>ticks := ticks (sys_clock s) + n\<rparr>\<rparr>"

lemma advance_simps [simp]:
  "advance 0 s = s"
  "advance m (advance n s) = advance (n + m) s"
  "eng_status (advance n s) = eng_status s"
  "eng_registry (advance n s) = eng_registry s"
  "eng_last_announce_at (advance n s) = eng_last_announce_at s"
  "sys_backend (advance n s) = sys_backend s"
  "sys_transport (advance n s) = sys_transport s"
  "readings (sys_clock (advance n s)) = readings (sys_clock s)"
  "ticks (sys_clock (advance n s)) = ticks (sys_clock s) + n"
  "time_at (advance n s) i = time_at s (n + i)"
  "clock_ok T (sys_clock (advance n s)) = clock_ok T (sys_clock s)"
  "engine_is_running E (advance n s) = engine_is_running E s"
  by (simp_all add: advance_def time_at_def clock_ok_def engine_is_running_def add.assoc)

lemma sys_now_eq: "sys_now s = (time_at s 0, advance 1 s)"
  by (simp add: sys_now_def now_def time_at_def advance_def)

lemma now_sys_clock: "now (sys_clock s) = (time_at s 0, sys_clock (advance 1 s))"
  by (simp add: now_def time_at_def advance_def)

lemma clock_ok_time_at: "clock_ok T (sys_clock s) \<Longrightarrow> ts_is_valid T (time_at s i)"
  by (simp add: clock_ok_def time_at_def)

section \<open>Outbound messages\<close>

definition local_announcement :: "'d config \<Rightarrow> 't \<Rightarrow> 't announcement" where
  "local_announcement c t = make_announcement t (cfg_node_id c) (cfg_announce_host c) (cfg_announce_port c)"

definition announce_message_at ::
    "('t, 'd, 'b, 'x) env \<Rightarrow> 'd config \<Rightarrow> 't \<Rightarrow> 't \<Rightarrow> message" where
  "announce_message_at E c t t' =
     \<lparr>msg_type = MT_Announce, msg_from = cfg_node_id c, msg_to = [],
      msg_correlation = ''announce-'' @ int_to_string (sint (ts_millis (api_time E) t')),
      msg_payload = encode_announcement (api_time E) (api_serializer E) (local_announcement c t)\<rparr>"

definition probe_message_at :: "('t, 'd, 'b, 'x) env \<Rightarrow> 'd config \<Rightarrow> 't \<Rightarrow> message" where
  "probe_message_at E c t =
     \<lparr>msg_type = MT_Probe, msg_from = cfg_node_id c, msg_to = [],
      msg_correlation = ''probe-'' @ int_to_string (sint (ts_millis (api_time E) t)),
      msg_payload = []\<rparr>"

definition reply_message_at ::
    "('t, 'd, 'b, 'x) env \<Rightarrow> 'd config \<Rightarrow> message \<Rightarrow> 't \<Rightarrow> message" where
  "reply_message_at E c m t =
     \<lparr>msg_type = MT_Reply, msg_from = cfg_node_id c, msg_to = msg_from m,
      msg_correlation = msg_correlation m,
      msg_payload = encode_announcement (api_time E) (api_serializer E) (local_announcement c t)\<rparr>"

text \<open>The envelope of the first attempt to send a message.\<close>

definition first_attempt ::
    "('t, 'd, 'b, 'x) env \<Rightarrow> message \<Rightarrow> string \<Rightarrow> u16 \<Rightarrow> 't \<Rightarrow> 't \<Rightarrow> 't envelope" where
  "first_attempt E m host port made tried =
     envelope_mark_attempt tried (envelope_outbound (api_time E) made m host port)"

lemma local_node_id_config: "config_checked (api_time E) ctx = Inr c \<Longrightarrow> local_node_id E ctx = cfg_node_id c"
  by (simp add: local_node_id_def)

lemma config_valid_parts:
  assumes "config_checked T ctx = Inr c"
  shows "cfg_node_id c \<noteq> []" and "cfg_broadcast_host c \<noteq> []" and "cfg_broadcast_port c \<noteq> 0"
    and "cfg_announce_host c \<noteq> []" and "cfg_announce_port c \<noteq> 0"
    and "0 < sint (dur_millis T (cfg_announce_interval c))"
    and "0 < sint (dur_millis T (cfg_peer_ttl c))" and "0 < cfg_max_datagram_size c"
  using assms by (auto simp: config_checked_Inr config_is_valid_def)

lemma local_announcement_valid:
  "config_checked T ctx = Inr c \<Longrightarrow> ts_is_valid T t \<Longrightarrow>
   announcement_is_valid T (local_announcement c t)"
  by (simp add: local_announcement_def make_announcement_def announcement_is_valid_def
      config_valid_parts)

lemma make_local_announcement_eq:
  "config_checked (api_time E) ctx = Inr c \<Longrightarrow>
   make_local_announcement E ctx s = (local_announcement c (time_at s 0), advance 1 s)"
  by (simp add: make_local_announcement_def sys_now_eq local_announcement_def local_node_id_config)

lemma make_messages_eq:
  assumes "config_checked (api_time E) ctx = Inr c"
  shows "make_announce_message E ctx s = (announce_message_at E c (time_at s 0) (time_at s 1), advance 2 s)"
    and "make_probe_message E ctx s = (probe_message_at E c (time_at s 0), advance 1 s)"
    and "make_reply_message E ctx (msg_from m) (msg_correlation m) s =
      (reply_message_at E c m (time_at s 0), advance 1 s)"
  by (simp_all add: make_announce_message_def make_probe_message_def make_reply_message_def
      make_local_announcement_eq [OF assms] make_correlation_id_def sys_now_eq message_defs
      announce_message_at_def probe_message_at_def reply_message_at_def
      local_node_id_config [OF assms])

lemma engine_messages_valid:
  "config_checked T ctx = Inr c \<Longrightarrow> message_is_valid (announce_message_at E c t t')"
  "config_checked T ctx = Inr c \<Longrightarrow> message_is_valid (probe_message_at E c t)"
  "config_checked T ctx = Inr c \<Longrightarrow> message_is_valid (reply_message_at E c m t)"
  by (simp_all add: announce_message_at_def probe_message_at_def reply_message_at_def
      message_is_valid_def message_type_is_valid_def config_valid_parts(1))

lemma sys_send_eq:
  assumes "message_is_valid m" and "ts_is_valid (api_time E) made" and "host \<noteq> []" and "port \<noteq> 0"
  shows "sys_send E (envelope_outbound (api_time E) made m host port) s =
    map_option (\<lambda>(sent, b). (sent, (advance 1 s)\<lparr>sys_backend := b\<rparr>))
      (be_send (api_backend E) (sys_backend s) (first_attempt E m host port made (time_at s 0)))"
proof -
  have "client_send (api_time E) (api_backend E) (envelope_outbound (api_time E) made m host port)
      (sys_backend s) (sys_clock s) =
    map_option (\<lambda>(sent, b). (sent, b, sys_clock (advance 1 s)))
      (be_send (api_backend E) (sys_backend s) (first_attempt E m host port made (time_at s 0)))"
    using assms by (simp add: client_send_forwards outbound_envelope now_sys_clock first_attempt_def)
  then show ?thesis
    by (cases "be_send (api_backend E) (sys_backend s) (first_attempt E m host port made (time_at s 0))")
      (auto simp: sys_send_def advance_def)
qed

text \<open>
  \<open>announce_now\<close>: five clock readings (the announcement, the correlation id, the envelope,
  the attempt, and after a successful send the announcement timer).
\<close>

lemma announce_now_eq:
  assumes run: "engine_is_running E s" and c: "config_checked (api_time E) ctx = Inr c"
    and clock: "clock_ok (api_time E) (sys_clock s)"
  shows "announce_now E ctx s =
    map_option (\<lambda>(sent, b).
        (sent, (advance (if sent then 5 else 4) s)
           \<lparr>sys_backend := b,
            eng_last_announce_at := if sent then time_at s 4 else eng_last_announce_at s\<rparr>))
      (be_send (api_backend E) (sys_backend s)
        (first_attempt E (announce_message_at E c (time_at s 0) (time_at s 1))
          (cfg_broadcast_host c) (cfg_broadcast_port c) (time_at s 2) (time_at s 3)))"
  (is "_ = map_option _ ?send")
proof (cases ?send)
  case None
  with assms show ?thesis
    by (simp add: announce_now_def make_messages_eq make_outbound_envelope_def sys_now_eq
        sys_send_eq engine_messages_valid clock_ok_time_at config_valid_parts)
next
  case (Some r)
  then obtain sent b where "?send = Some (sent, b)" by (cases r) auto
  with assms show ?thesis
    by (simp add: announce_now_def make_messages_eq make_outbound_envelope_def sys_now_eq
        sys_send_eq engine_messages_valid clock_ok_time_at config_valid_parts)
      (simp add: advance_def time_at_def)
qed

lemma announce_now_success:
  assumes run: "engine_is_running E s" and c: "config_checked (api_time E) ctx = Inr c"
    and clock: "clock_ok (api_time E) (sys_clock s)"
    and sent: "announce_now E ctx s = Some (True, s')"
  shows "eng_last_announce_at s' = time_at s 4 \<and> ticks (sys_clock s') = ticks (sys_clock s) + 5"
proof (cases "be_send (api_backend E) (sys_backend s)
    (first_attempt E (announce_message_at E c (time_at s 0) (time_at s 1))
      (cfg_broadcast_host c) (cfg_broadcast_port c) (time_at s 2) (time_at s 3))")
  case None
  with announce_now_eq [OF run c clock] sent show ?thesis by simp
next
  case (Some r)
  with announce_now_eq [OF run c clock] sent show ?thesis
    by (cases r) (auto simp: advance_def)
qed

lemma probe_now_eq:
  assumes run: "engine_is_running E s" and c: "config_checked (api_time E) ctx = Inr c"
    and clock: "clock_ok (api_time E) (sys_clock s)"
  shows "probe_now E ctx s =
    map_option (\<lambda>(sent, b). (sent, (advance 3 s)\<lparr>sys_backend := b\<rparr>))
      (be_send (api_backend E) (sys_backend s)
        (first_attempt E (probe_message_at E c (time_at s 0))
          (cfg_broadcast_host c) (cfg_broadcast_port c) (time_at s 1) (time_at s 2)))"
  using assms
  by (simp add: probe_now_def make_messages_eq make_outbound_envelope_def sys_now_eq
      sys_send_eq engine_messages_valid clock_ok_time_at config_valid_parts eval_nat_numeral)

text \<open>
  \<open>handle_probe\<close> answers the sender of the datagram, addresses the reply to the prober and
  repeats its correlation id.
\<close>

lemma handle_probe_eq:
  assumes src: "envelope_has_source e" and c: "config_checked (api_time E) ctx = Inr c"
    and clock: "clock_ok (api_time E) (sys_clock s)"
  shows "handle_probe E ctx e s =
    map_option (\<lambda>(sent, b). (sent, (advance 3 s)\<lparr>sys_backend := b\<rparr>))
      (be_send (api_backend E) (sys_backend s)
        (first_attempt E (reply_message_at E c (env_message e) (time_at s 0))
          (env_from_host e) (env_from_port e) (time_at s 1) (time_at s 2)))"
  using assms
  by (simp add: handle_probe_def make_messages_eq make_outbound_envelope_def sys_now_eq
      sys_send_eq engine_messages_valid clock_ok_time_at config_valid_parts envelope_has_source_def
      eval_nat_numeral)

section \<open>The announcement timer\<close>

definition announce_due :: "('t, 'd, 'b, 'x) env \<Rightarrow> 'd config \<Rightarrow> ('t, 'b, 'x) system \<Rightarrow> bool" where
  "announce_due E c s \<longleftrightarrow>
     \<not> ts_is_valid (api_time E) (eng_last_announce_at s) \<or>
     sint (dur_millis (api_time E) (cfg_announce_interval c)) \<le>
       sint (ts_millis (api_time E) (time_at s 0)) -
       sint (ts_millis (api_time E) (eng_last_announce_at s))"

lemma maybe_announce_eq:
  assumes T: "timestamp_ok (api_time E)" and c: "config_checked (api_time E) ctx = Inr c"
    and clock: "clock_ok (api_time E) (sys_clock s)"
  shows "maybe_announce E ctx s =
    (if announce_due E c s then map_option snd (announce_now E ctx (advance 1 s))
     else Some (advance 1 s))"
proof (cases "ts_is_valid (api_time E) (eng_last_announce_at s)")
  case True
  note nonneg = timestamp_okD(4) [OF T clock_ok_time_at [OF clock]] timestamp_okD(4) [OF T True]
  show ?thesis
    using True c i64_sub_nonneg [OF nonneg(1) [of 0] nonneg(2)]
    by (cases "announce_now E ctx (advance (Suc 0) s)")
      (auto simp: maybe_announce_def sys_now_eq announce_due_def)
next
  case False
  then show ?thesis
    using c by (cases "announce_now E ctx (advance (Suc 0) s)")
      (auto simp: maybe_announce_def sys_now_eq announce_due_def)
qed

section \<open>Ageing\<close>

lemma stale_after_half:
  assumes "duration_ok T" and "0 < sint (dur_millis T (cfg_peer_ttl c))"
  shows "sint (dur_millis T (stale_after T c)) = sint (dur_millis T (cfg_peer_ttl c)) div 2"
proof -
  let ?ttl = "sint (dur_millis T (cfg_peer_ttl c))"
  have "?ttl sdiv 2 = ?ttl div 2"
    using assms(2) by (simp add: signed_divide_int_def)
  moreover have "sint (word_of_int (?ttl div 2) :: i64) = ?ttl div 2"
    using sint_i64_bounds [of "dur_millis T (cfg_peer_ttl c)"] assms(2)
    by (simp add: sint_word_ariths signed_take_bit_int_eq_self sint_sbintrunc')
  ultimately show ?thesis
    using assms(1) by (simp add: stale_after_def duration_ok_def)
qed

section \<open>Learning a peer\<close>

lemma handle_announce_eq:
  assumes "timestamp_ok (api_time E)" and "serializer_ok (api_serializer E)"
    and got: "decode_announcement (api_time E) (api_serializer E) (msg_payload (env_message e)) = Some r"
  shows "handle_announce E ctx e s =
    Some (case r of
        None \<Rightarrow> (False, s)
      | Some a \<Rightarrow>
          if ann_node_id a = local_node_id E ctx then (False, s)
          else (True, integrate_with_transport E ctx a (upsert_discovered_peer E a s)))"
proof -
  have buf: "decode_announcement_buffer (api_time E) (api_serializer E)
      (msg_payload (env_message e)) = Some r"
    by (simp add: decode_announcement_buffer_eq [OF assms(1,2)] got)
  then show ?thesis
    using decode_announcement_buffer_valid [of "api_time E" "api_serializer E"]
    by (auto simp: handle_announce_def split: option.splits)
qed

text \<open>
  What the transport engine may be told while a call runs: nothing, or one \<open>connect_peer\<close> of
  a valid peer that it does not have yet, while it runs; the registry then holds that peer.
\<close>

definition connects ::
    "('t, 'd, 'b, 'x) env \<Rightarrow> 'd discovery_context \<Rightarrow> ('t, 'b, 'x) system \<Rightarrow>
     ('t, 'b, 'x) system \<Rightarrow> bool" where
  "connects E ctx s s' \<longleftrightarrow>
     (\<exists>p. sys_transport s' = tr_connect_peer (api_transport E) (sys_transport s) (to_peer_info p) \<and>
        tr_is_running (api_transport E) (sys_transport s) \<and>
        peer_info_is_valid (api_transport E) (to_peer_info p) \<and>
        \<not> tr_contains (api_transport E) (sys_transport s) (peer_node_id p) \<and>
        peer_node_id p \<noteq> local_node_id E ctx \<and> dp_state p = PS_Alive \<and>
        um_find (eng_registry s') (peer_node_id p) = Some p)"

lemma learning_transport:
  assumes "layout_ok (api_layout E)" and wf: "registry_wf (api_time E) (eng_registry s)"
    and valid: "announcement_is_valid (api_time E) a" and other: "ann_node_id a \<noteq> local_node_id E ctx"
  defines "s' \<equiv> integrate_with_transport E ctx a (upsert_discovered_peer E a s)"
  shows "sys_transport s' = sys_transport s \<or> connects E ctx s s'"
proof (cases "sys_transport s' = sys_transport s")
  case False
  let ?p = "announced_peer (eng_registry s) a (sys_clock s)"
  have p: "to_peer_info ?p = \<lparr>pi_node_id = ann_node_id a, pi_host = ann_host a, pi_port = ann_port a\<rparr>"
      "peer_node_id ?p = ann_node_id a" "dp_state ?p = PS_Alive"
    by (simp_all add: to_peer_info_def announced_peer_simps)
  have "um_find (eng_registry s') (peer_node_id ?p) = Some ?p"
    using upsert_announcement_lookup [OF assms(1) registry_wf_um [OF wf] valid, of "sys_clock s"]
    by (simp add: s'_def learn_frame p)
  moreover have "sys_transport s' = tr_connect_peer (api_transport E) (sys_transport s) (to_peer_info ?p) \<and>
      tr_is_running (api_transport E) (sys_transport s) \<and>
      peer_info_is_valid (api_transport E) (to_peer_info ?p) \<and>
      \<not> tr_contains (api_transport E) (sys_transport s) (ann_node_id a)"
    using False unfolding s'_def p
    by (cases "transport_checked (api_transport E) (sys_transport s) ctx")
      (auto simp: integrate_with_transport_def Let_def upsert_discovered_frame
        dest: transport_checked_Inr [THEN iffD1] split: if_splits)
  ultimately show ?thesis
    unfolding connects_def using p other by metis
qed simp

lemma handle_announce_transport:
  assumes "layout_ok (api_layout E)" and "registry_wf (api_time E) (eng_registry s)"
    and "handle_announce E ctx e s = Some (ok, s')"
  shows "sys_transport s' = sys_transport s \<or> connects E ctx s s'"
  using assms(3) learning_transport [OF assms(1,2), of _ ctx]
  by (auto simp: handle_announce_def bind_eq_Some_conv Let_def split: option.splits if_splits)

context discovery_node
begin

lemma handle_inbound_transport:
  assumes "layout_ok (api_layout E)" and "registry_wf (api_time E) (eng_registry s)"
    and "handle_inbound E ctx got s = Some (ok, s')"
  shows "sys_transport s' = sys_transport s \<or> connects E ctx s s'"
  using assms(3) handle_announce_transport [OF assms(1,2)] talksD(3) [OF handle_probe_talks]
  unfolding handle_inbound_def handle_reply_announce
  by (auto split: option.splits if_splits message_type.splits)

lemma refresh_peer_states_frame:
  assumes "refresh_peer_states E ctx s = Some s'"
  shows "sys_transport s' = sys_transport s"
    and "registry_wf (api_time E) (eng_registry s) \<Longrightarrow> registry_wf (api_time E) (eng_registry s')"
  using assms
  by (auto simp: refresh_peer_states_def bind_eq_Some_conv Let_def sys_now_eq
      dest: refresh_states_wf split: sum.splits)

lemma poll_once_transport:
  assumes "layout_ok (api_layout E)" and inv: "engine_inv E ctx s"
    and got: "poll_once E ctx s = Some (ok, s')"
  shows "sys_transport s' = sys_transport s \<or> connects E ctx s s'"
proof (cases "engine_is_running E s")
  case True
  from poll_once_running [OF this got] obtain s1 s2 got b c where
    s1: "maybe_announce E ctx s = Some s1" and
    s2: "refresh_peer_states E ctx s1 = Some s2" and
    rest: "handle_inbound E ctx got (s2\<lparr>sys_backend := b, sys_clock := c\<rparr>) = Some (ok, s')"
    by metis
  note t1 = maybe_announce_talks [OF s1]
  have "registry_wf (api_time E) (eng_registry s2)"
    using inv refresh_peer_states_frame(2) [OF s2] by (simp add: engine_inv_def talksD(2) [OF t1])
  with handle_inbound_transport [OF assms(1) _ rest]
  show ?thesis
    by (simp add: connects_def refresh_peer_states_frame(1) [OF s2] talksD(3) [OF t1])
qed (use got in \<open>simp add: poll_once_def\<close>)

end

section \<open>No undefined behaviour\<close>

definition backend_returns :: "('b, 't) backend \<Rightarrow> bool" where
  "backend_returns B \<longleftrightarrow>
     (\<forall>b. be_start B b \<noteq> None) \<and> (\<forall>b e. be_send B b e \<noteq> None) \<and> (\<forall>b c. be_poll B b c \<noteq> None)"

lemma sys_send_returns: "backend_returns (api_backend E) \<Longrightarrow> sys_send E e s \<noteq> None"
  by (auto simp: sys_send_def client_send_def now_def backend_returns_def Let_def
      bind_eq_None_conv simp del: not_None_eq split: prod.splits if_splits)

lemma engine_start_returns:
  "backend_returns (api_backend E) \<Longrightarrow> engine_start E ctx s \<noteq> None"
  by (auto simp: engine_start_def server_defs backend_returns_def Let_def bind_eq_None_conv
      simp del: not_None_eq split: prod.splits)

lemma announce_now_returns:
  assumes "backend_returns (api_backend E)"
  shows "announce_now E ctx s \<noteq> None"
  using sys_send_returns [OF assms]
  by (auto simp: announce_now_def Let_def bind_eq_None_conv simp del: not_None_eq split: sum.splits prod.splits)

lemma probe_now_returns:
  assumes "backend_returns (api_backend E)"
  shows "probe_now E ctx s \<noteq> None"
  using sys_send_returns [OF assms]
  by (auto simp: probe_now_def Let_def split: sum.splits prod.splits)

lemma handle_probe_returns:
  assumes "backend_returns (api_backend E)"
  shows "handle_probe E ctx e s \<noteq> None"
  using sys_send_returns [OF assms] by (auto simp: handle_probe_def Let_def split: prod.splits)

lemma handle_announce_returns:
  assumes "timestamp_ok (api_time E)" and "serializer_ok (api_serializer E)"
  shows "handle_announce E ctx e s \<noteq> None"
  using decode_announcement_no_fault [OF assms(2), of "api_time E" "msg_payload (env_message e)"]
    handle_announce_eq [OF assms] by auto

lemma handle_inbound_returns:
  assumes "timestamp_ok (api_time E)" and "serializer_ok (api_serializer E)"
    and "backend_returns (api_backend E)"
  shows "handle_inbound E ctx got s \<noteq> None"
  using handle_announce_returns [OF assms(1,2)] handle_probe_returns [OF assms(3)]
  unfolding handle_inbound_def handle_reply_announce
  by (simp del: not_None_eq split: option.splits message_type.splits)

lemma maybe_announce_returns:
  assumes "timestamp_ok (api_time E)" and "backend_returns (api_backend E)"
    and "clock_ok (api_time E) (sys_clock s)"
  shows "maybe_announce E ctx s \<noteq> None"
proof (cases "config_checked (api_time E) ctx")
  case (Inr c)
  from maybe_announce_eq [OF assms(1) Inr assms(3)] announce_now_returns [OF assms(2)]
  show ?thesis by (simp del: not_None_eq)
qed (simp add: maybe_announce_def)

lemma refresh_peer_states_returns:
  assumes "timestamp_ok (api_time E)" and "clock_ok (api_time E) (sys_clock s)"
  shows "\<exists>r. refresh_peer_states E ctx s = Some r"
  using refresh_states_eq [OF assms(1) clock_ok_time_at [OF assms(2)]]
  by (auto simp: refresh_peer_states_def sys_now_eq split: sum.splits)

context discovery_node
begin

lemma poll_once_returns:
  assumes T: "timestamp_ok (api_time E)" and S: "serializer_ok (api_serializer E)"
    and B: "backend_returns (api_backend E)" and clock: "clock_ok (api_time E) (sys_clock s)"
  shows "\<exists>ok s'. poll_once E ctx s = Some (ok, s') \<and> clock_ok (api_time E) (sys_clock s')"
proof (cases "engine_is_running E s")
  case True
  obtain s1 where s1: "maybe_announce E ctx s = Some s1"
    using maybe_announce_returns [OF T B clock] by blast
  have "clock_ok (api_time E) (sys_clock s1)"
    using clock talksD(5) [OF maybe_announce_talks [OF s1]] by (simp add: clock_ok_def)
  then obtain s2 where s2: "refresh_peer_states E ctx s1 = Some s2"
    using refresh_peer_states_returns [OF T] by blast
  obtain got b c where got: "server_poll (api_backend E) (sys_backend s2) (sys_clock s2) =
      Some (got, b, c)"
    using B by (force simp: backend_returns_def server_poll_def)
  obtain ok s' where "handle_inbound E ctx got (s2\<lparr>sys_backend := b, sys_clock := c\<rparr>) = Some (ok, s')"
    using handle_inbound_returns [OF T S B] by force
  then have run: "poll_once E ctx s = Some (ok, s')"
    using True s1 s2 got by (simp add: poll_once_def)
  from effects_clock [OF poll_once_effects [OF this]] clock run show ?thesis
    by (auto simp: clock_ok_def)
qed (auto simp: poll_once_def clock)

lemma poll_loop_returns:
  assumes T: "timestamp_ok (api_time E)" and S: "serializer_ok (api_serializer E)"
    and B: "backend_returns (api_backend E)"
  shows "clock_ok (api_time E) (sys_clock s) \<Longrightarrow>
    \<exists>k s'. poll_loop E ctx n m s = Some (k, s') \<and> m \<le> k \<and> k \<le> m + n"
proof (induction n arbitrary: m s)
  case (Suc n)
  obtain ok s' where one: "poll_once E ctx s = Some (ok, s')"
    and c: "clock_ok (api_time E) (sys_clock s')"
    using poll_once_returns [OF T S B Suc.prems] by blast
  from one Suc.IH [OF c, of "m + 1"] show ?case by auto
qed simp

lemma poll_many_returns:
  assumes T: "timestamp_ok (api_time E)" and S: "serializer_ok (api_serializer E)"
    and B: "backend_returns (api_backend E)" and clock: "clock_ok (api_time E) (sys_clock s)"
  shows "\<exists>k s'. poll_many E ctx n s = Some (k, s') \<and> k \<le> n"
  using poll_loop_returns [OF T S B clock, of ctx n 0] by (simp add: poll_many_def)

end

end
