(* ===== verification/Platform.thy ===== *)
theory Platform
  imports Messages
begin

text \<open>
  The socket that the UDP backend is compiled against.  \<open>UdpDiscoveryBackend.hpp\<close> chooses the
  namespace \<open>os_windows\<close> or \<open>os_linux\<close> under one name, \<open>platform\<close>, and uses the same
  methods of either \<open>UdpSocket\<close> class.  A platform is the record of these methods over the
  state \<open>'s\<close> of a socket; the locale \<open>socket_platform\<close> is what the backend relies on.
\<close>

record ('d, 's) platform =
  pf_open :: "'s \<Rightarrow> bool \<times> 's"
  pf_close :: "'s \<Rightarrow> 's"
  pf_bind :: "'s \<Rightarrow> string \<Rightarrow> u16 \<Rightarrow> bool \<times> 's"
  pf_set_reuse_addr :: "'s \<Rightarrow> bool \<Rightarrow> bool \<times> 's"
  pf_set_broadcast :: "'s \<Rightarrow> bool \<Rightarrow> bool \<times> 's"
  pf_set_recv_timeout :: "'s \<Rightarrow> 'd \<Rightarrow> bool \<times> 's"
  pf_set_send_timeout :: "'s \<Rightarrow> 'd \<Rightarrow> bool \<times> 's"
  pf_send_datagram :: "'s \<Rightarrow> datagram \<Rightarrow> (nat \<times> 's) exec"
  pf_recv_datagram :: "'s \<Rightarrow> nat \<Rightarrow> (datagram \<times> 's) exec"

text \<open>
  The contract of a socket: \<open>valid\<close> is \<open>is_valid\<close>, the ownership of a descriptor.  Opening
  owns one exactly when it succeeds, closing gives it up, and binding, setting options, sending
  and receiving keep it.
\<close>

locale socket_platform =
  fixes P :: "('d, 's) platform"
    and valid :: "'s \<Rightarrow> bool"
  assumes open_valid: "pf_open P s = (ok, s') \<Longrightarrow> valid s' = ok"
    and close_invalid: "\<not> valid (pf_close P s)"
    and bind_valid: "valid s \<Longrightarrow> pf_bind P s host port = (ok, s') \<Longrightarrow> valid s'"
    and reuse_addr_valid: "pf_set_reuse_addr P s b = (ok, s') \<Longrightarrow> valid s' = valid s"
    and broadcast_valid: "pf_set_broadcast P s b = (ok, s') \<Longrightarrow> valid s' = valid s"
    and recv_timeout_valid: "pf_set_recv_timeout P s d = (ok, s') \<Longrightarrow> valid s' = valid s"
    and send_timeout_valid: "pf_set_send_timeout P s d = (ok, s') \<Longrightarrow> valid s' = valid s"
    and send_valid: "pf_send_datagram P s g = Some (sent, s') \<Longrightarrow> valid s' = valid s"
    and recv_valid: "pf_recv_datagram P s limit = Some (g, s') \<Longrightarrow> valid s' = valid s"

text \<open>Sending and receiving always return.\<close>

definition platform_returns :: "('d, 's) platform \<Rightarrow> bool" where
  "platform_returns P \<longleftrightarrow>
     (\<forall>s d. pf_send_datagram P s d \<noteq> None) \<and> (\<forall>s n. pf_recv_datagram P s n \<noteq> None)"

text \<open>
  One platform acts as another one seen through \<open>as\<close>, when the condition \<open>good\<close> holds.
\<close>

locale platform_simulation =
  fixes P :: "('d, 's) platform"
    and Q :: "('d, 'r) platform"
    and as :: "'s \<Rightarrow> 'r"
    and good :: bool
  assumes sim_open: "good \<Longrightarrow> pf_open Q (as s) = apsnd as (pf_open P s)"
    and sim_close: "good \<Longrightarrow> pf_close Q (as s) = as (pf_close P s)"
    and sim_bind: "good \<Longrightarrow> pf_bind Q (as s) host port = apsnd as (pf_bind P s host port)"
    and sim_reuse_addr: "good \<Longrightarrow> pf_set_reuse_addr Q (as s) b = apsnd as (pf_set_reuse_addr P s b)"
    and sim_broadcast: "good \<Longrightarrow> pf_set_broadcast Q (as s) b = apsnd as (pf_set_broadcast P s b)"
    and sim_recv_timeout: "good \<Longrightarrow>
      pf_set_recv_timeout Q (as s) d = apsnd as (pf_set_recv_timeout P s d)"
    and sim_send_timeout: "good \<Longrightarrow>
      pf_set_send_timeout Q (as s) d = apsnd as (pf_set_send_timeout P s d)"
    and sim_send: "good \<Longrightarrow>
      pf_send_datagram Q (as s) g = map_option (apsnd as) (pf_send_datagram P s g)"
    and sim_recv: "good \<Longrightarrow>
      pf_recv_datagram Q (as s) n = map_option (apsnd as) (pf_recv_datagram P s n)"

end
