(* ===== verification/Udp_Socket.thy ===== *)
theory Udp_Socket
  imports Platform
begin

text \<open>
  \<open>platform/linux/UdpSocket.cpp\<close> and its header: a RAII wrapper around one IPv4 UDP socket.
  The operating system is a parameter: a kernel state \<open>'k\<close> and the calls that the wrapper
  makes (\<open>kernel_api\<close>).  A blocked call that a signal interrupts is retried without bound, so
  the two retry loops are partial functions: not returning is \<open>None\<close>.
\<close>

section \<open>The system calls\<close>

text \<open>\<open>sockaddr_in\<close> with \<open>sin_family = AF_INET\<close>; the port is in network byte order.\<close>

record sockaddr =
  sin_port :: u16
  sin_addr :: u32

record timeval =
  tv_sec :: int
  tv_usec :: int

datatype sockopt =
    SO_REUSEADDR int
  | SO_BROADCAST int
  | SO_RCVTIMEO timeval
  | SO_SNDTIMEO timeval

text \<open>
  The result of \<open>sendto\<close> and \<open>recvfrom\<close> is their return value, whether \<open>errno\<close> is
  \<open>EINTR\<close> when it is negative, and for \<open>recvfrom\<close> the bytes it stored and the sender.
\<close>

record 'k kernel_api =
  sys_socket :: "'k \<Rightarrow> int \<times> 'k"
  sys_bind :: "'k \<Rightarrow> int \<Rightarrow> sockaddr \<Rightarrow> int \<times> 'k"
  sys_sendto :: "'k \<Rightarrow> int \<Rightarrow> bytes \<Rightarrow> sockaddr \<Rightarrow> int \<times> bool \<times> 'k"
  sys_recvfrom :: "'k \<Rightarrow> int \<Rightarrow> nat \<Rightarrow> int \<times> bool \<times> bytes \<times> sockaddr \<times> 'k"
  sys_close :: "'k \<Rightarrow> int \<Rightarrow> 'k"
  sys_setsockopt :: "'k \<Rightarrow> int \<Rightarrow> sockopt \<Rightarrow> int \<times> 'k"
  inet_pton :: "string \<Rightarrow> u32 option"
  inet_ntop :: "u32 \<Rightarrow> string option"
  htons :: "u16 \<Rightarrow> u16"
  ntohs :: "u16 \<Rightarrow> u16"

text \<open>What the kernel documents: a receive stores no more than it was given room for.\<close>

definition kernel_ok :: "'k kernel_api \<Rightarrow> bool" where
  "kernel_ok K \<longleftrightarrow>
     (\<forall>k fd n received eintr stored from k'.
        sys_recvfrom K k fd n = (received, eintr, stored, from, k') \<longrightarrow>
        received \<le> int n \<and> length stored \<le> n)"

section \<open>Helpers of the anonymous namespace\<close>

text \<open>\<open>host.c_str()\<close> ends at the first NUL.\<close>

definition c_str :: "string \<Rightarrow> string" where
  "c_str s = takeWhile (\<lambda>c. c \<noteq> CHR 0x00) s"

definition make_sockaddr :: "'k kernel_api \<Rightarrow> string \<Rightarrow> u16 \<Rightarrow> sockaddr option" where
  "make_sockaddr K host port =
     (case inet_pton K (c_str host) of
        None \<Rightarrow> None
      | Some a \<Rightarrow> Some \<lparr>sin_port = htons K port, sin_addr = a\<rparr>)"

definition make_timeval :: "('t, 'd) time_api \<Rightarrow> 'd \<Rightarrow> timeval" where
  "make_timeval T timeout =
     (let millis = sint (dur_millis T timeout)
      in if millis \<le> 0 then \<lparr>tv_sec = 0, tv_usec = 0\<rparr>
         else \<lparr>tv_sec = millis div 1000, tv_usec = (millis mod 1000) * 1000\<rparr>)"

section \<open>UdpSocket\<close>

record 'k udp_socket =
  sock_fd :: int
  sock_kernel :: 'k

definition socket_default :: "'k \<Rightarrow> 'k udp_socket" where
  "socket_default k = \<lparr>sock_fd = - 1, sock_kernel = k\<rparr>"

definition socket_adopt :: "int \<Rightarrow> 'k \<Rightarrow> 'k udp_socket" where
  "socket_adopt fd k = \<lparr>sock_fd = fd, sock_kernel = k\<rparr>"

definition socket_is_valid :: "'k udp_socket \<Rightarrow> bool" where
  "socket_is_valid s \<longleftrightarrow> 0 \<le> sock_fd s"

definition socket_valid :: "'k udp_socket \<Rightarrow> bool" where
  "socket_valid s = socket_is_valid s"

definition socket_fd :: "'k udp_socket \<Rightarrow> int" where
  "socket_fd s = sock_fd s"

definition socket_close :: "'k kernel_api \<Rightarrow> 'k udp_socket \<Rightarrow> 'k udp_socket" where
  "socket_close K s =
     (if sock_fd s < 0 then s
      else s\<lparr>sock_kernel := sys_close K (sock_kernel s) (sock_fd s), sock_fd := - 1\<rparr>)"

definition socket_destroy :: "'k kernel_api \<Rightarrow> 'k udp_socket \<Rightarrow> 'k udp_socket" where
  "socket_destroy K s = socket_close K s"

text \<open>
  Move construction and move assignment of distinct objects: the pair of the descriptors of
  the target and of the source afterwards.
\<close>

definition socket_move :: "int \<Rightarrow> int \<times> int" where
  "socket_move other_fd = (other_fd, - 1)"

definition socket_move_assign ::
    "'k kernel_api \<Rightarrow> 'k udp_socket \<Rightarrow> int \<Rightarrow> 'k udp_socket \<times> int" where
  "socket_move_assign K s other_fd = ((socket_close K s)\<lparr>sock_fd := other_fd\<rparr>, - 1)"

definition socket_open :: "'k kernel_api \<Rightarrow> 'k udp_socket \<Rightarrow> bool \<times> 'k udp_socket" where
  "socket_open K s =
     (let s = socket_close K s;
          (fd, k) = sys_socket K (sock_kernel s)
      in (0 \<le> fd, \<lparr>sock_fd = fd, sock_kernel = k\<rparr>))"

definition socket_bind ::
    "'k kernel_api \<Rightarrow> 'k udp_socket \<Rightarrow> string \<Rightarrow> u16 \<Rightarrow> bool \<times> 'k udp_socket" where
  "socket_bind K s host port =
     (let (ok, s) = (if socket_is_valid s then (True, s) else socket_open K s)
      in if \<not> ok then (False, s)
         else
           (case make_sockaddr K host port of
              None \<Rightarrow> (False, s)
            | Some addr \<Rightarrow>
                let (r, k) = sys_bind K (sock_kernel s) (sock_fd s) addr
                in (r = 0, s\<lparr>sock_kernel := k\<rparr>)))"

partial_function (option) send_loop ::
    "'k kernel_api \<Rightarrow> int \<Rightarrow> bytes \<Rightarrow> sockaddr \<Rightarrow> 'k \<Rightarrow> (nat \<times> 'k) exec" where
  "send_loop K fd data addr k =
     (case sys_sendto K k fd data addr of (sent, eintr, k) \<Rightarrow>
        if sent < 0 then (if eintr then send_loop K fd data addr k else returns (0, k))
        else returns (nat sent, k))"

definition socket_send_to ::
    "'k kernel_api \<Rightarrow> 'k udp_socket \<Rightarrow> string \<Rightarrow> u16 \<Rightarrow> bytes option \<Rightarrow> (nat \<times> 'k udp_socket) exec"
  where
  "socket_send_to K s host port data =
     (case data of
        None \<Rightarrow> returns (0, s)
      | Some bs \<Rightarrow>
          if \<not> socket_is_valid s \<or> length bs = 0 then returns (0, s)
          else
            (case make_sockaddr K host port of
               None \<Rightarrow> returns (0, s)
             | Some addr \<Rightarrow> do {
                 (n, k) \<leftarrow> send_loop K (sock_fd s) bs addr (sock_kernel s);
                 returns (n, s\<lparr>sock_kernel := k\<rparr>)
               }))"

definition socket_send_datagram ::
    "'k kernel_api \<Rightarrow> 'k udp_socket \<Rightarrow> datagram \<Rightarrow> (nat \<times> 'k udp_socket) exec" where
  "socket_send_datagram K s d =
     (if \<not> datagram_is_valid d then returns (0, s)
      else socket_send_to K s (dg_host d) (dg_port d) (Some (dg_payload d)))"

text \<open>
  The buffer has \<open>max_size\<close> bytes; copying \<open>received\<close> of them is defined when they are
  inside it.
\<close>

partial_function (option) recv_loop ::
    "'k kernel_api \<Rightarrow> int \<Rightarrow> nat \<Rightarrow> 'k \<Rightarrow> (datagram \<times> 'k) exec" where
  "recv_loop K fd max_size k =
     (case sys_recvfrom K k fd max_size of (received, eintr, stored, from_addr, k) \<Rightarrow>
        if received < 0 then
          (if eintr then recv_loop K fd max_size k else returns (datagram_default, k))
        else if received = 0 then returns (datagram_default, k)
        else
          (case inet_ntop K (sin_addr from_addr) of
             None \<Rightarrow> returns (datagram_default, k)
           | Some ip \<Rightarrow> do {
               payload \<leftarrow> slice (stored @ replicate (max_size - length stored) 0) 0 (nat received);
               returns (make_datagram_of (c_str ip) (ntohs K (sin_port from_addr)) payload, k)
             }))"

definition socket_recv_datagram ::
    "'k kernel_api \<Rightarrow> 'k udp_socket \<Rightarrow> nat \<Rightarrow> (datagram \<times> 'k udp_socket) exec" where
  "socket_recv_datagram K s max_size =
     (if \<not> socket_is_valid s \<or> max_size = 0 then returns (datagram_default, s)
      else do {
        (d, k) \<leftarrow> recv_loop K (sock_fd s) max_size (sock_kernel s);
        returns (d, s\<lparr>sock_kernel := k\<rparr>)
      })"

definition socket_setsockopt ::
    "'k kernel_api \<Rightarrow> 'k udp_socket \<Rightarrow> sockopt \<Rightarrow> bool \<times> 'k udp_socket" where
  "socket_setsockopt K s opt =
     (if \<not> socket_is_valid s then (False, s)
      else let (r, k) = sys_setsockopt K (sock_kernel s) (sock_fd s) opt
           in (r = 0, s\<lparr>sock_kernel := k\<rparr>))"

definition set_reuse_addr ::
    "'k kernel_api \<Rightarrow> 'k udp_socket \<Rightarrow> bool \<Rightarrow> bool \<times> 'k udp_socket" where
  "set_reuse_addr K s enabled = socket_setsockopt K s (SO_REUSEADDR (if enabled then 1 else 0))"

definition set_broadcast ::
    "'k kernel_api \<Rightarrow> 'k udp_socket \<Rightarrow> bool \<Rightarrow> bool \<times> 'k udp_socket" where
  "set_broadcast K s enabled = socket_setsockopt K s (SO_BROADCAST (if enabled then 1 else 0))"

definition set_recv_timeout ::
    "('t, 'd) time_api \<Rightarrow> 'k kernel_api \<Rightarrow> 'k udp_socket \<Rightarrow> 'd \<Rightarrow> bool \<times> 'k udp_socket" where
  "set_recv_timeout T K s timeout = socket_setsockopt K s (SO_RCVTIMEO (make_timeval T timeout))"

definition set_send_timeout ::
    "('t, 'd) time_api \<Rightarrow> 'k kernel_api \<Rightarrow> 'k udp_socket \<Rightarrow> 'd \<Rightarrow> bool \<times> 'k udp_socket" where
  "set_send_timeout T K s timeout = socket_setsockopt K s (SO_SNDTIMEO (make_timeval T timeout))"

text \<open>The millisecond overloads of the header cast a \<open>uint64_t\<close> to the signed count.\<close>

definition set_recv_timeout_ms ::
    "('t, 'd) time_api \<Rightarrow> 'k kernel_api \<Rightarrow> 'k udp_socket \<Rightarrow> 64 word \<Rightarrow> bool \<times> 'k udp_socket" where
  "set_recv_timeout_ms T K s timeout_ms = set_recv_timeout T K s (dur_from_millis T timeout_ms)"

definition set_send_timeout_ms ::
    "('t, 'd) time_api \<Rightarrow> 'k kernel_api \<Rightarrow> 'k udp_socket \<Rightarrow> 64 word \<Rightarrow> bool \<times> 'k udp_socket" where
  "set_send_timeout_ms T K s timeout_ms = set_send_timeout T K s (dur_from_millis T timeout_ms)"

section \<open>Facts\<close>

lemma socket_close_closed [simp]: "\<not> socket_is_valid (socket_close K s)"
  by (simp add: socket_close_def socket_is_valid_def)

text \<open>A descriptor is closed once: closing again, or closing a moved-from socket, is no call.\<close>

lemma socket_close_again [simp]: "socket_close K (socket_close K s) = socket_close K s"
  by (simp add: socket_close_def)

lemma socket_moved_from_close: "socket_close K (socket_adopt (snd (socket_move fd)) k) =
    socket_adopt (snd (socket_move fd)) k"
  by (simp add: socket_close_def socket_adopt_def socket_move_def)

lemma socket_open_valid: "socket_open K s = (ok, s') \<Longrightarrow> socket_is_valid s' = ok"
  by (auto simp: socket_open_def socket_is_valid_def Let_def split: prod.splits)

lemma socket_setsockopt_fd: "sock_fd (snd (socket_setsockopt K s opt)) = sock_fd s"
  by (auto simp: socket_setsockopt_def split: prod.splits)

lemmas socket_option_defs =
  set_reuse_addr_def set_broadcast_def set_recv_timeout_def set_send_timeout_def

lemma socket_options_closed:
  assumes "\<not> socket_is_valid s"
  shows "set_reuse_addr K s b = (False, s)" and "set_broadcast K s b = (False, s)"
    and "set_recv_timeout T K s d = (False, s)" and "set_send_timeout T K s d = (False, s)"
  using assms by (simp_all add: socket_option_defs socket_setsockopt_def)

lemma make_timeval_exact:
  assumes "0 < sint (dur_millis T d)"
  shows "0 \<le> tv_usec (make_timeval T d)" and "tv_usec (make_timeval T d) < 1000000"
    and "1000 * tv_sec (make_timeval T d) + tv_usec (make_timeval T d) div 1000 =
      sint (dur_millis T d)"
  using assms pos_mod_bound [of 1000 "sint (dur_millis T d)"]
    pos_mod_sign [of 1000 "sint (dur_millis T d)"]
  by (simp_all add: make_timeval_def Let_def del: pos_mod_bound pos_mod_sign)

text \<open>
  The retry loops return exactly when some attempt is not interrupted.
\<close>

inductive send_settles :: "'k kernel_api \<Rightarrow> int \<Rightarrow> bytes \<Rightarrow> sockaddr \<Rightarrow> 'k \<Rightarrow> bool"
  for K fd data addr where
    sent_or_failed: "sys_sendto K k fd data addr = (sent, eintr, k') \<Longrightarrow>
      \<not> (sent < 0 \<and> eintr) \<Longrightarrow> send_settles K fd data addr k"
  | interrupted: "sys_sendto K k fd data addr = (sent, True, k') \<Longrightarrow> sent < 0 \<Longrightarrow>
      send_settles K fd data addr k' \<Longrightarrow> send_settles K fd data addr k"

lemma send_loop_returns: "send_settles K fd data addr k \<Longrightarrow> \<exists>r. send_loop K fd data addr k = Some r"
  by (induction rule: send_settles.induct) (subst send_loop.simps, auto)+

lemma send_loop_settles:
  assumes ret: "send_loop K fd data addr k = Some r"
  shows "send_settles K fd data addr k"
proof (rule send_loop.raw_induct [where P = "\<lambda>K fd data addr k r. send_settles K fd data addr k",
      OF _ ret])
  fix f :: "'a kernel_api \<Rightarrow> int \<Rightarrow> bytes \<Rightarrow> sockaddr \<Rightarrow> 'a \<Rightarrow> (nat \<times> 'a) option" and K fd data addr k r
  assume IH: "\<And>K fd data addr k r. f K fd data addr k = Some r \<Longrightarrow> send_settles K fd data addr k"
    and eq: "(case sys_sendto K k fd data addr of (sent, eintr, k) \<Rightarrow>
        if sent < 0 then (if eintr then f K fd data addr k else Some (0, k))
        else Some (nat sent, k)) = Some r"
  obtain sent eintr k' where call: "sys_sendto K k fd data addr = (sent, eintr, k')"
    by (metis prod_cases3)
  show "send_settles K fd data addr k"
  proof (cases "sent < 0 \<and> eintr")
    case True
    with eq call have "f K fd data addr k' = Some r" by simp
    with True call show ?thesis by (auto intro: interrupted IH)
  next
    case False
    with call show ?thesis by (rule sent_or_failed)
  qed
qed

inductive recv_settles :: "'k kernel_api \<Rightarrow> int \<Rightarrow> nat \<Rightarrow> 'k \<Rightarrow> bool"
  for K fd n where
    received_or_failed: "sys_recvfrom K k fd n = (received, eintr, stored, from, k') \<Longrightarrow>
      \<not> (received < 0 \<and> eintr) \<Longrightarrow> recv_settles K fd n k"
  | interrupted_recv: "sys_recvfrom K k fd n = (received, True, stored, from, k') \<Longrightarrow>
      received < 0 \<Longrightarrow> recv_settles K fd n k' \<Longrightarrow> recv_settles K fd n k"

text \<open>
  With a kernel that stores no more than it has room for, the copy out of the receive
  buffer is always inside it, and the datagram holds at most \<open>n\<close> bytes.
\<close>

definition recv_outcome :: "nat \<Rightarrow> datagram \<Rightarrow> bool" where
  "recv_outcome n d \<longleftrightarrow> d = datagram_default \<or> (dg_payload d \<noteq> [] \<and> length (dg_payload d) \<le> n)"

lemma recv_loop_returns:
  assumes K: "kernel_ok K"
  shows "recv_settles K fd n k \<Longrightarrow> \<exists>d k'. recv_loop K fd n k = Some (d, k') \<and> recv_outcome n d"
proof (induction rule: recv_settles.induct)
  case (received_or_failed k received eintr stored "from" k')
  then have "received \<le> int n" "length stored \<le> n"
    using K received_or_failed(1) unfolding kernel_ok_def by blast+
  then have "nat received \<le> length (stored @ replicate (n - length stored) 0)" "nat received \<le> n"
    by auto
  with received_or_failed show ?case
    by (subst recv_loop.simps)
       (auto simp: slice_def recv_outcome_def make_datagram_of_def split: option.splits)
next
  case (interrupted_recv k received stored "from" k')
  then show ?case by (subst recv_loop.simps) simp
qed

text \<open>A kernel whose calls are not interrupted for ever.\<close>

definition kernel_settles :: "'k kernel_api \<Rightarrow> bool" where
  "kernel_settles K \<longleftrightarrow>
     (\<forall>k fd data addr. send_settles K fd data addr k) \<and> (\<forall>k fd n. recv_settles K fd n k)"

lemma kernel_settlesD:
  assumes "kernel_settles K"
  shows "send_loop K fd data addr k \<noteq> None"
    and "kernel_ok K \<Longrightarrow> recv_loop K fd n k \<noteq> None"
  using assms send_loop_returns [of K fd data addr k] recv_loop_returns [of K fd n k]
  by (auto simp: kernel_settles_def)

lemma socket_send_returns:
  assumes "kernel_settles K"
  shows "socket_send_datagram K s d \<noteq> None"
  using kernel_settlesD(1) [OF assms]
  by (simp add: socket_send_datagram_def socket_send_to_def bind_eq_None_conv case_prod_unfold
      del: not_None_eq split: option.splits)

lemma socket_recv_returns:
  assumes "kernel_ok K" and "kernel_settles K"
  shows "socket_recv_datagram K s n \<noteq> None"
  using kernel_settlesD(2) [OF assms(2,1)]
  by (simp add: socket_recv_datagram_def bind_eq_None_conv case_prod_unfold del: not_None_eq)

section \<open>The platform\<close>

text \<open>\<open>namespace platform = os_linux\<close> in the header of the backend.\<close>

definition linux_platform ::
    "('t, 'd) time_api \<Rightarrow> 'k kernel_api \<Rightarrow> ('d, 'k udp_socket) platform" where
  "linux_platform T K =
     \<lparr>pf_open = socket_open K, pf_close = socket_close K, pf_bind = socket_bind K,
      pf_set_reuse_addr = set_reuse_addr K, pf_set_broadcast = set_broadcast K,
      pf_set_recv_timeout = set_recv_timeout T K, pf_set_send_timeout = set_send_timeout T K,
      pf_send_datagram = socket_send_datagram K, pf_recv_datagram = socket_recv_datagram K\<rparr>"

lemma linux_platform_simps [simp]:
  "pf_open (linux_platform T K) = socket_open K"
  "pf_close (linux_platform T K) = socket_close K"
  "pf_bind (linux_platform T K) = socket_bind K"
  "pf_set_reuse_addr (linux_platform T K) = set_reuse_addr K"
  "pf_set_broadcast (linux_platform T K) = set_broadcast K"
  "pf_set_recv_timeout (linux_platform T K) = set_recv_timeout T K"
  "pf_set_send_timeout (linux_platform T K) = set_send_timeout T K"
  "pf_send_datagram (linux_platform T K) = socket_send_datagram K"
  "pf_recv_datagram (linux_platform T K) = socket_recv_datagram K"
  by (simp_all add: linux_platform_def)

lemma socket_transfer_valid:
  "socket_send_datagram K s d = Some (n, s') \<Longrightarrow> socket_is_valid s' = socket_is_valid s"
  "socket_recv_datagram K s limit = Some (d', s') \<Longrightarrow> socket_is_valid s' = socket_is_valid s"
  by (auto simp: socket_send_datagram_def socket_send_to_def socket_recv_datagram_def
      socket_is_valid_def bind_eq_Some_conv split: option.splits prod.splits if_splits)

interpretation linux: socket_platform "linux_platform T K" socket_is_valid
  by unfold_locales
    (auto simp: socket_option_defs socket_setsockopt_def socket_bind_def
      dest: socket_open_valid socket_transfer_valid
      split: option.splits prod.splits if_splits, simp_all add: socket_is_valid_def)

lemma linux_returns: "kernel_ok K \<Longrightarrow> kernel_settles K \<Longrightarrow> platform_returns (linux_platform T K)"
  unfolding platform_returns_def linux_platform_simps
  using socket_send_returns socket_recv_returns by blast

end
