(* ===== verification/Windows_Socket.thy ===== *)
theory Windows_Socket
  imports Udp_Socket
begin

text \<open>
  \<open>platform/windows/UdpSocket.cpp\<close> and its header: the socket class over Winsock.  It differs
  from the Linux class in the handle (an unsigned \<open>SOCKET\<close> with one invalid value), in sending
  and receiving at most \<open>INT_MAX\<close> bytes per call, in not retrying a call, and in its timeouts,
  which are \<open>DWORD\<close> milliseconds.

  The last section reduces it to the Linux class: seen through \<open>as_posix\<close>, every method acts
  as the method of the Linux class does on the kernel \<open>posix_of W\<close>.
\<close>

section \<open>Winsock\<close>

type_synonym handle = "64 word"

definition INVALID_SOCKET :: handle where "INVALID_SOCKET = - 1"

definition SOCKET_ERROR :: int where "SOCKET_ERROR = - 1"

datatype win_sockopt =
    WSO_REUSEADDR int
  | WSO_BROADCAST int
  | WSO_RCVTIMEO u32
  | WSO_SNDTIMEO u32

record 'w winsock_api =
  ws_socket :: "'w \<Rightarrow> handle \<times> 'w"
  ws_bind :: "'w \<Rightarrow> handle \<Rightarrow> sockaddr \<Rightarrow> int \<times> 'w"
  ws_sendto :: "'w \<Rightarrow> handle \<Rightarrow> bytes \<Rightarrow> sockaddr \<Rightarrow> int \<times> 'w"
  ws_recvfrom :: "'w \<Rightarrow> handle \<Rightarrow> nat \<Rightarrow> int \<times> bytes \<times> sockaddr \<times> 'w"
  ws_closesocket :: "'w \<Rightarrow> handle \<Rightarrow> 'w"
  ws_setsockopt :: "'w \<Rightarrow> handle \<Rightarrow> win_sockopt \<Rightarrow> int \<times> 'w"
  ws_inet_pton :: "string \<Rightarrow> u32 option"
  ws_inet_ntop :: "u32 \<Rightarrow> string option"
  ws_htons :: "u16 \<Rightarrow> u16"
  ws_ntohs :: "u16 \<Rightarrow> u16"

text \<open>
  What Winsock documents: a transfer reports an error or the number of bytes, which is at
  most the length that it was given, and stores no more than that.
\<close>

definition winsock_ok :: "'w winsock_api \<Rightarrow> bool" where
  "winsock_ok W \<longleftrightarrow>
     (\<forall>k h data addr sent k'. ws_sendto W k h data addr = (sent, k') \<longrightarrow>
        sent = SOCKET_ERROR \<or> 0 \<le> sent \<and> sent \<le> int (length data)) \<and>
     (\<forall>k h n received stored addr k'. ws_recvfrom W k h n = (received, stored, addr, k') \<longrightarrow>
        (received = SOCKET_ERROR \<or> 0 \<le> received \<and> received \<le> int n) \<and> length stored \<le> n)"

section \<open>Helpers of the anonymous namespace\<close>

definition win_make_sockaddr :: "'w winsock_api \<Rightarrow> string \<Rightarrow> u16 \<Rightarrow> sockaddr option" where
  "win_make_sockaddr W host port =
     (case ws_inet_pton W (c_str host) of
        None \<Rightarrow> None
      | Some a \<Rightarrow> Some \<lparr>sin_port = ws_htons W port, sin_addr = a\<rparr>)"

definition make_timeout_ms :: "('t, 'd) time_api \<Rightarrow> 'd \<Rightarrow> u32" where
  "make_timeout_ms T timeout =
     (let millis = sint (dur_millis T timeout)
      in if millis \<le> 0 then 0
         else if 2 ^ 32 - 1 < millis then word_of_int (2 ^ 32 - 1)
         else word_of_int millis)"

definition chunk_size :: "nat \<Rightarrow> nat" where
  "chunk_size remaining = min remaining (2 ^ 31 - 1)"

section \<open>UdpSocket\<close>

record 'w win_socket =
  win_handle :: handle
  win_kernel :: 'w

definition win_default :: "'w \<Rightarrow> 'w win_socket" where
  "win_default k = \<lparr>win_handle = INVALID_SOCKET, win_kernel = k\<rparr>"

definition win_adopt :: "handle \<Rightarrow> 'w \<Rightarrow> 'w win_socket" where
  "win_adopt h k = \<lparr>win_handle = h, win_kernel = k\<rparr>"

definition win_is_valid :: "'w win_socket \<Rightarrow> bool" where
  "win_is_valid s \<longleftrightarrow> win_handle s \<noteq> INVALID_SOCKET"

definition win_valid :: "'w win_socket \<Rightarrow> bool" where
  "win_valid s = win_is_valid s"

definition win_close :: "'w winsock_api \<Rightarrow> 'w win_socket \<Rightarrow> 'w win_socket" where
  "win_close W s =
     (if win_handle s = INVALID_SOCKET then s
      else s\<lparr>win_kernel := ws_closesocket W (win_kernel s) (win_handle s),
             win_handle := INVALID_SOCKET\<rparr>)"

definition win_destroy :: "'w winsock_api \<Rightarrow> 'w win_socket \<Rightarrow> 'w win_socket" where
  "win_destroy W s = win_close W s"

text \<open>Move construction and assignment: the target's and the source's handle afterwards.\<close>

definition win_move :: "handle \<Rightarrow> handle \<times> handle" where
  "win_move other = (other, INVALID_SOCKET)"

definition win_move_assign ::
    "'w winsock_api \<Rightarrow> 'w win_socket \<Rightarrow> handle \<Rightarrow> 'w win_socket \<times> handle" where
  "win_move_assign W s other = ((win_close W s)\<lparr>win_handle := other\<rparr>, INVALID_SOCKET)"

definition win_open :: "'w winsock_api \<Rightarrow> 'w win_socket \<Rightarrow> bool \<times> 'w win_socket" where
  "win_open W s =
     (let s = win_close W s;
          (h, k) = ws_socket W (win_kernel s)
      in (h \<noteq> INVALID_SOCKET, \<lparr>win_handle = h, win_kernel = k\<rparr>))"

definition win_bind ::
    "'w winsock_api \<Rightarrow> 'w win_socket \<Rightarrow> string \<Rightarrow> u16 \<Rightarrow> bool \<times> 'w win_socket" where
  "win_bind W s host port =
     (let (ok, s) = (if win_is_valid s then (True, s) else win_open W s)
      in if \<not> ok then (False, s)
         else
           (case win_make_sockaddr W host port of
              None \<Rightarrow> (False, s)
            | Some addr \<Rightarrow>
                let (r, k) = ws_bind W (win_kernel s) (win_handle s) addr
                in (r = 0, s\<lparr>win_kernel := k\<rparr>)))"

text \<open>The result of \<open>sendto\<close> is cast to \<open>size_t\<close>.\<close>

definition win_send_to ::
    "'w winsock_api \<Rightarrow> 'w win_socket \<Rightarrow> string \<Rightarrow> u16 \<Rightarrow> bytes option \<Rightarrow> nat \<times> 'w win_socket"
  where
  "win_send_to W s host port data =
     (case data of
        None \<Rightarrow> (0, s)
      | Some bs \<Rightarrow>
          if \<not> win_is_valid s \<or> length bs = 0 then (0, s)
          else
            (case win_make_sockaddr W host port of
               None \<Rightarrow> (0, s)
             | Some addr \<Rightarrow>
                 let (sent, k) = ws_sendto W (win_kernel s) (win_handle s)
                                   (take (chunk_size (length bs)) bs) addr;
                     s = s\<lparr>win_kernel := k\<rparr>
                 in if sent = SOCKET_ERROR then (0, s)
                    else (unat (word_of_int sent :: 64 word), s)))"

definition win_send_datagram ::
    "'w winsock_api \<Rightarrow> 'w win_socket \<Rightarrow> datagram \<Rightarrow> nat \<times> 'w win_socket" where
  "win_send_datagram W s d =
     (if \<not> datagram_is_valid d then (0, s)
      else win_send_to W s (dg_host d) (dg_port d) (Some (dg_payload d)))"

text \<open>
  A negative count other than the error would be an impossible size for the payload: the
  vector throws, so there is no result.
\<close>

definition win_recv_datagram ::
    "'w winsock_api \<Rightarrow> 'w win_socket \<Rightarrow> nat \<Rightarrow> (datagram \<times> 'w win_socket) exec" where
  "win_recv_datagram W s max_size =
     (if \<not> win_is_valid s \<or> max_size = 0 then returns (datagram_default, s)
      else
        (case ws_recvfrom W (win_kernel s) (win_handle s) (chunk_size max_size) of
           (received, stored, from_addr, k) \<Rightarrow>
             let s = s\<lparr>win_kernel := k\<rparr> in
             if received = SOCKET_ERROR \<or> received = 0 then returns (datagram_default, s)
             else
               (case ws_inet_ntop W (sin_addr from_addr) of
                  None \<Rightarrow> returns (datagram_default, s)
                | Some ip \<Rightarrow>
                    if received < 0 then None
                    else do {
                      payload \<leftarrow> slice (stored @ replicate (max_size - length stored) 0) 0
                                   (nat received);
                      returns (make_datagram_of (c_str ip) (ws_ntohs W (sin_port from_addr)) payload, s)
                    })))"

definition win_setsockopt ::
    "'w winsock_api \<Rightarrow> 'w win_socket \<Rightarrow> win_sockopt \<Rightarrow> bool \<times> 'w win_socket" where
  "win_setsockopt W s opt =
     (if \<not> win_is_valid s then (False, s)
      else let (r, k) = ws_setsockopt W (win_kernel s) (win_handle s) opt
           in (r = 0, s\<lparr>win_kernel := k\<rparr>))"

definition win_set_reuse_addr ::
    "'w winsock_api \<Rightarrow> 'w win_socket \<Rightarrow> bool \<Rightarrow> bool \<times> 'w win_socket" where
  "win_set_reuse_addr W s enabled = win_setsockopt W s (WSO_REUSEADDR (if enabled then 1 else 0))"

definition win_set_broadcast ::
    "'w winsock_api \<Rightarrow> 'w win_socket \<Rightarrow> bool \<Rightarrow> bool \<times> 'w win_socket" where
  "win_set_broadcast W s enabled = win_setsockopt W s (WSO_BROADCAST (if enabled then 1 else 0))"

definition win_set_recv_timeout ::
    "('t, 'd) time_api \<Rightarrow> 'w winsock_api \<Rightarrow> 'w win_socket \<Rightarrow> 'd \<Rightarrow> bool \<times> 'w win_socket" where
  "win_set_recv_timeout T W s timeout = win_setsockopt W s (WSO_RCVTIMEO (make_timeout_ms T timeout))"

definition win_set_send_timeout ::
    "('t, 'd) time_api \<Rightarrow> 'w winsock_api \<Rightarrow> 'w win_socket \<Rightarrow> 'd \<Rightarrow> bool \<times> 'w win_socket" where
  "win_set_send_timeout T W s timeout = win_setsockopt W s (WSO_SNDTIMEO (make_timeout_ms T timeout))"

definition win_set_recv_timeout_ms ::
    "('t, 'd) time_api \<Rightarrow> 'w winsock_api \<Rightarrow> 'w win_socket \<Rightarrow> 64 word \<Rightarrow> bool \<times> 'w win_socket" where
  "win_set_recv_timeout_ms T W s timeout_ms =
     win_set_recv_timeout T W s (dur_from_millis T timeout_ms)"

definition win_set_send_timeout_ms ::
    "('t, 'd) time_api \<Rightarrow> 'w winsock_api \<Rightarrow> 'w win_socket \<Rightarrow> 64 word \<Rightarrow> bool \<times> 'w win_socket" where
  "win_set_send_timeout_ms T W s timeout_ms =
     win_set_send_timeout T W s (dur_from_millis T timeout_ms)"

definition win_native_handle :: "'w win_socket \<Rightarrow> handle" where
  "win_native_handle s = win_handle s"

text \<open>\<open>namespace platform = os_windows\<close> in the header of the backend.\<close>

definition windows_platform ::
    "('t, 'd) time_api \<Rightarrow> 'w winsock_api \<Rightarrow> ('d, 'w win_socket) platform" where
  "windows_platform T W =
     \<lparr>pf_open = win_open W, pf_close = win_close W, pf_bind = win_bind W,
      pf_set_reuse_addr = win_set_reuse_addr W, pf_set_broadcast = win_set_broadcast W,
      pf_set_recv_timeout = win_set_recv_timeout T W,
      pf_set_send_timeout = win_set_send_timeout T W,
      pf_send_datagram = (\<lambda>s d. returns (win_send_datagram W s d)),
      pf_recv_datagram = win_recv_datagram W\<rparr>"

section \<open>The contract of a socket\<close>

lemma windows_platform_simps [simp]:
  "pf_open (windows_platform T W) = win_open W"
  "pf_close (windows_platform T W) = win_close W"
  "pf_bind (windows_platform T W) = win_bind W"
  "pf_set_reuse_addr (windows_platform T W) = win_set_reuse_addr W"
  "pf_set_broadcast (windows_platform T W) = win_set_broadcast W"
  "pf_set_recv_timeout (windows_platform T W) = win_set_recv_timeout T W"
  "pf_set_send_timeout (windows_platform T W) = win_set_send_timeout T W"
  "pf_send_datagram (windows_platform T W) s d = Some (win_send_datagram W s d)"
  "pf_recv_datagram (windows_platform T W) = win_recv_datagram W"
  by (simp_all add: windows_platform_def)

lemmas win_option_defs = win_set_reuse_addr_def win_set_broadcast_def win_set_recv_timeout_def
  win_set_send_timeout_def

lemma win_close_closed [simp]: "\<not> win_is_valid (win_close W s)"
  by (simp add: win_close_def win_is_valid_def)

lemma win_close_again [simp]: "win_close W (win_close W s) = win_close W s"
  by (simp add: win_close_def)

lemma win_open_valid: "win_open W s = (ok, s') \<Longrightarrow> win_is_valid s' = ok"
  by (auto simp: win_open_def win_is_valid_def Let_def split: prod.splits)

lemma win_transfer_valid:
  "win_send_datagram W s d = (n, s') \<Longrightarrow> win_is_valid s' = win_is_valid s"
  "win_recv_datagram W s limit = Some (d, s') \<Longrightarrow> win_is_valid s' = win_is_valid s"
  by (auto simp: win_send_datagram_def win_send_to_def win_recv_datagram_def win_is_valid_def Let_def
      bind_eq_Some_conv split: option.splits prod.splits if_splits)

interpretation windows: socket_platform "windows_platform T W" win_is_valid
  by unfold_locales
    (auto simp: win_option_defs win_setsockopt_def win_bind_def
      dest: win_open_valid win_transfer_valid(2) win_transfer_valid(1) [of W]
      split: option.splits prod.splits if_splits, simp_all add: win_is_valid_def)

text \<open>A transfer is never larger than its limit, so the copy stays inside the buffer.\<close>

lemma winsock_recv_bounds:
  assumes "winsock_ok W" and "ws_recvfrom W k h n = (received, stored, addr, k')"
    and "received \<noteq> SOCKET_ERROR"
  shows "0 \<le> received" and "nat received \<le> n" and "length stored \<le> n"
  using assms unfolding winsock_ok_def by fastforce+

lemma chunk_size_le [simp]: "chunk_size n \<le> n" "chunk_size n < 2 ^ 31"
  by (simp_all add: chunk_size_def)

lemma win_recv_returns:
  assumes "winsock_ok W"
  shows "win_recv_datagram W s n \<noteq> None"
proof -
  obtain received stored addr k where call:
      "ws_recvfrom W (win_kernel s) (win_handle s) (chunk_size n) = (received, stored, addr, k)"
    by (metis prod_cases4)
  have "slice (stored @ replicate (n - length stored) 0) 0 (nat received) \<noteq> None \<and> 0 \<le> received"
    if "received \<noteq> SOCKET_ERROR"
    using winsock_recv_bounds(1) [OF assms call that]
      le_trans [OF winsock_recv_bounds(2) [OF assms call that] chunk_size_le(1)]
    by (simp add: slice_def)
  with call show ?thesis
    by (auto simp: win_recv_datagram_def Let_def split: option.splits)
qed

lemma windows_returns: "winsock_ok W \<Longrightarrow> platform_returns (windows_platform T W)"
  using win_recv_returns [of W] by (simp add: platform_returns_def del: not_None_eq)

section \<open>Reduction to the Linux class\<close>

text \<open>
  \<open>posix_of W\<close> offers Winsock through the calls that the Linux class makes: handles become
  descriptors, a call is limited to one chunk, a \<open>timeval\<close> becomes milliseconds, and no call
  is ever interrupted by a signal.
\<close>

definition fd_of :: "handle \<Rightarrow> int" where
  "fd_of h = (if h = INVALID_SOCKET then - 1 else uint h)"

definition handle_of :: "int \<Rightarrow> handle" where
  "handle_of fd = word_of_int fd"

definition timeval_ms :: "timeval \<Rightarrow> u32" where
  "timeval_ms tv = word_of_int (min (2 ^ 32 - 1) (1000 * tv_sec tv + tv_usec tv div 1000))"

fun win_option :: "sockopt \<Rightarrow> win_sockopt" where
  "win_option (SO_REUSEADDR v) = WSO_REUSEADDR v"
| "win_option (SO_BROADCAST v) = WSO_BROADCAST v"
| "win_option (SO_RCVTIMEO tv) = WSO_RCVTIMEO (timeval_ms tv)"
| "win_option (SO_SNDTIMEO tv) = WSO_SNDTIMEO (timeval_ms tv)"

definition posix_of :: "'w winsock_api \<Rightarrow> 'w kernel_api" where
  "posix_of W =
     \<lparr>sys_socket = (\<lambda>k. apfst fd_of (ws_socket W k)),
      sys_bind = (\<lambda>k fd addr. ws_bind W k (handle_of fd) addr),
      sys_sendto = (\<lambda>k fd data addr.
        case ws_sendto W k (handle_of fd) (take (chunk_size (length data)) data) addr of
          (sent, k) \<Rightarrow> (sent, False, k)),
      sys_recvfrom = (\<lambda>k fd n.
        case ws_recvfrom W k (handle_of fd) (chunk_size n) of
          (received, stored, addr, k) \<Rightarrow> (received, False, stored, addr, k)),
      sys_close = (\<lambda>k fd. ws_closesocket W k (handle_of fd)),
      sys_setsockopt = (\<lambda>k fd opt. ws_setsockopt W k (handle_of fd) (win_option opt)),
      inet_pton = ws_inet_pton W, inet_ntop = ws_inet_ntop W,
      htons = ws_htons W, ntohs = ws_ntohs W\<rparr>"

lemma posix_of_simps [simp]:
  "inet_pton (posix_of W) = ws_inet_pton W" "inet_ntop (posix_of W) = ws_inet_ntop W"
  "htons (posix_of W) = ws_htons W" "ntohs (posix_of W) = ws_ntohs W"
  by (simp_all add: posix_of_def)

definition as_posix :: "'w win_socket \<Rightarrow> 'w udp_socket" where
  "as_posix s = \<lparr>sock_fd = fd_of (win_handle s), sock_kernel = win_kernel s\<rparr>"

lemma fd_of_simps [simp]:
  "handle_of (fd_of h) = h" "fd_of h < 0 \<longleftrightarrow> h = INVALID_SOCKET" "0 \<le> fd_of h \<longleftrightarrow> h \<noteq> INVALID_SOCKET"
  "fd_of INVALID_SOCKET = - 1"
  by (auto simp: fd_of_def handle_of_def INVALID_SOCKET_def)

lemma as_posix_simps [simp]:
  "socket_is_valid (as_posix s) = win_is_valid s"
  "sock_fd (as_posix s) = fd_of (win_handle s)"
  "sock_kernel (as_posix s) = win_kernel s"
  "(as_posix s)\<lparr>sock_kernel := k\<rparr> = as_posix (s\<lparr>win_kernel := k\<rparr>)"
  by (simp_all add: as_posix_def socket_is_valid_def win_is_valid_def)

lemma as_posix_close: "as_posix (win_close W s) = socket_close (posix_of W) (as_posix s)"
  by (simp add: win_close_def socket_close_def as_posix_def posix_of_def)

lemma as_posix_open: "apsnd as_posix (win_open W s) = socket_open (posix_of W) (as_posix s)"
  by (simp add: win_open_def socket_open_def Let_def as_posix_close [symmetric] split: prod.splits)
    (simp add: posix_of_def as_posix_def)

lemma posix_of_sockaddr [simp]: "make_sockaddr (posix_of W) host port = win_make_sockaddr W host port"
  by (simp add: make_sockaddr_def win_make_sockaddr_def split: option.splits)

lemma as_posix_bind:
  "apsnd as_posix (win_bind W s host port) = socket_bind (posix_of W) (as_posix s) host port"
proof -
  have bind: "sys_bind (posix_of W) k (fd_of h) a = ws_bind W k h a" for k h a
    by (simp add: posix_of_def)
  obtain ok s' where "win_open W s = (ok, s')" by fastforce
  with as_posix_open [of W s] show ?thesis
    by (auto simp: win_bind_def socket_bind_def bind split: option.splits prod.splits)
qed

lemma timeval_ms_exact: "timeval_ms (make_timeval T d) = make_timeout_ms T d"
proof (cases "0 < sint (dur_millis T d)")
  case True
  with make_timeval_exact(3) [OF True] show ?thesis
    by (auto simp: timeval_ms_def make_timeout_ms_def Let_def min_def)
next
  case False
  then show ?thesis
    by (simp add: timeval_ms_def make_timeout_ms_def make_timeval_def)
qed

lemma as_posix_options:
  "apsnd as_posix (win_set_reuse_addr W s b) = set_reuse_addr (posix_of W) (as_posix s) b"
  "apsnd as_posix (win_set_broadcast W s b) = set_broadcast (posix_of W) (as_posix s) b"
  "apsnd as_posix (win_set_recv_timeout T W s d) = set_recv_timeout T (posix_of W) (as_posix s) d"
  "apsnd as_posix (win_set_send_timeout T W s d) = set_send_timeout T (posix_of W) (as_posix s) d"
proof -
  have "apsnd as_posix (win_setsockopt W s (win_option opt)) =
      socket_setsockopt (posix_of W) (as_posix s) opt" for opt
    by (simp add: win_setsockopt_def socket_setsockopt_def split: prod.splits)
      (simp add: posix_of_def)
  from this [of "SO_REUSEADDR _"] this [of "SO_BROADCAST _"] this [of "SO_RCVTIMEO _"]
    this [of "SO_SNDTIMEO _"]
  show
    "apsnd as_posix (win_set_reuse_addr W s b) = set_reuse_addr (posix_of W) (as_posix s) b"
    "apsnd as_posix (win_set_broadcast W s b) = set_broadcast (posix_of W) (as_posix s) b"
    "apsnd as_posix (win_set_recv_timeout T W s d) = set_recv_timeout T (posix_of W) (as_posix s) d"
    "apsnd as_posix (win_set_send_timeout T W s d) = set_send_timeout T (posix_of W) (as_posix s) d"
    by (simp_all add: win_option_defs socket_option_defs timeval_ms_exact [symmetric] flip: win_option.simps)
qed

text \<open>
  Transfers agree when Winsock keeps its documentation.  No call of \<open>posix_of W\<close> is
  interrupted, so the retry loops of the Linux class run once.
\<close>

lemma as_posix_send:
  assumes "winsock_ok W"
  shows "Some (apsnd as_posix (win_send_datagram W s d)) =
    socket_send_datagram (posix_of W) (as_posix s) d"
proof -
  have once: "send_loop (posix_of W) fd bs addr k =
      (case ws_sendto W k (handle_of fd) (take (chunk_size (length bs)) bs) addr of
        (sent, k) \<Rightarrow> Some (if sent < 0 then 0 else nat sent, k))" for fd bs addr k
    by (subst send_loop.simps) (simp add: posix_of_def split: prod.splits)
  have cast: "unat (word_of_int sent :: 64 word) = nat sent \<and> (sent = SOCKET_ERROR \<longleftrightarrow> sent < 0)"
    if call: "ws_sendto W k h (take (chunk_size (length bs)) bs) addr = (sent, k')"
      and ne: "sent \<noteq> SOCKET_ERROR" for k h bs addr sent k'
  proof -
    from assms call ne have "0 \<le> sent" "sent \<le> int (length (take (chunk_size (length bs)) bs))"
      unfolding winsock_ok_def by blast+
    moreover have "int (chunk_size (length bs)) < 2 ^ 31"
      using chunk_size_le(2) [of "length bs"] by simp
    ultimately have "0 \<le> sent" "sent < 2 ^ 64" by simp_all
    then show ?thesis
      by (simp add: SOCKET_ERROR_def unsigned_of_int take_bit_int_eq_self)
  qed
  show ?thesis
    by (auto simp: win_send_datagram_def socket_send_datagram_def win_send_to_def socket_send_to_def
        once cast Let_def split: option.splits prod.splits) (auto simp: SOCKET_ERROR_def dest: cast)
qed

lemma as_posix_recv:
  assumes "winsock_ok W"
  shows "map_option (apsnd as_posix) (win_recv_datagram W s n) =
    socket_recv_datagram (posix_of W) (as_posix s) n"
proof -
  obtain received stored addr k where call:
      "ws_recvfrom W (win_kernel s) (win_handle s) (chunk_size n) = (received, stored, addr, k)"
    by (metis prod_cases4)
  then have sys: "sys_recvfrom (posix_of W) (win_kernel s) (fd_of (win_handle s)) n =
      (received, False, stored, addr, k)"
    by (simp add: posix_of_def)
  have neg: "received < 0 \<longleftrightarrow> received = SOCKET_ERROR"
    using winsock_recv_bounds(1) [OF assms call] by (cases "received = SOCKET_ERROR")
      (auto simp: SOCKET_ERROR_def)
  have "recv_loop (posix_of W) (fd_of (win_handle s)) n (win_kernel s) =
      (if received = SOCKET_ERROR \<or> received = 0 then Some (datagram_default, k)
       else case ws_inet_ntop W (sin_addr addr) of
          None \<Rightarrow> Some (datagram_default, k)
        | Some ip \<Rightarrow>
            map_option (\<lambda>p. (make_datagram_of (c_str ip) (ws_ntohs W (sin_port addr)) p, k))
              (slice (stored @ replicate (n - length stored) 0) 0 (nat received)))"
    by (subst recv_loop.simps)
      (auto simp: sys neg map_conv_bind_option comp_def split: option.splits)
  then show ?thesis
    by (auto simp: win_recv_datagram_def socket_recv_datagram_def call neg Let_def bind_map_option
        map_conv_bind_option comp_def split: option.splits)
qed

lemma posix_of_ok: "winsock_ok W \<Longrightarrow> kernel_ok (posix_of W)"
  unfolding kernel_ok_def
proof (intro allI impI)
  fix k fd n received eintr stored addr k'
  assume "winsock_ok W" and "sys_recvfrom (posix_of W) k fd n = (received, eintr, stored, addr, k')"
  then have "ws_recvfrom W k (handle_of fd) (chunk_size n) = (received, stored, addr, k')" "winsock_ok W"
    by (simp_all add: posix_of_def split: prod.splits)
  then have "received \<le> int (chunk_size n) \<and> length stored \<le> chunk_size n"
    unfolding winsock_ok_def by (fastforce simp: SOCKET_ERROR_def)
  then show "received \<le> int n \<and> length stored \<le> n"
    by (meson chunk_size_le(1) le_trans of_nat_le_iff order_trans)
qed

lemma posix_of_settles: "kernel_settles (posix_of W)"
  unfolding kernel_settles_def
proof (intro conjI allI)
  fix k fd data addr n
  obtain r e k' where "sys_sendto (posix_of W) k fd data addr = (r, e, k')" by (metis prod_cases3)
  then show "send_settles (posix_of W) fd data addr k"
    by (rule send_settles.sent_or_failed)
      (use \<open>_ = (r, e, k')\<close> in \<open>auto simp: posix_of_def split: prod.splits\<close>)
  obtain q e' stored src k'' where "sys_recvfrom (posix_of W) k fd n = (q, e', stored, src, k'')"
    by (metis prod_cases5)
  then show "recv_settles (posix_of W) fd n k"
    by (rule recv_settles.received_or_failed)
      (use \<open>_ = (q, e', stored, src, k'')\<close> in \<open>auto simp: posix_of_def split: prod.splits\<close>)
qed

interpretation win_posix: platform_simulation "windows_platform T W"
    "linux_platform T (posix_of W)" as_posix "winsock_ok W"
  by unfold_locales
    (simp_all add: as_posix_open as_posix_close as_posix_bind as_posix_options as_posix_recv
      as_posix_send [symmetric])

end
