(* ===== verification/Udp_Backend.thy ===== *)
theory Udp_Backend
  imports Backend Codec Udp_Socket Windows_Socket
begin

text \<open>
  \<open>backend/UdpDiscoveryBackend.hpp\<close>: the backend over one UDP socket of the platform it is
  compiled for.  It is the instance of the interface of \<open>Backend\<close>; the interpretation \<open>udp\<close>
  shows that it keeps the contract, for every serializer, clock library and platform.
\<close>

record ('d, 's) udp_backend =
  ub_config :: "'d config"
  ub_running :: bool
  ub_socket :: 's

definition make_udp_backend :: "'d config \<Rightarrow> 's \<Rightarrow> ('d, 's) udp_backend" where
  "make_udp_backend c s = \<lparr>ub_config = c, ub_running = False, ub_socket = s\<rparr>"

definition configure_socket ::
    "('d, 's) platform \<Rightarrow> ('d, 's) udp_backend \<Rightarrow> bool \<times> ('d, 's) udp_backend"
  where
  "configure_socket P b =
     (let (ok, s) = pf_set_reuse_addr P (ub_socket b) True; b = b\<lparr>ub_socket := s\<rparr> in
      if \<not> ok then (False, b) else
      let (ok, s) = pf_set_broadcast P (ub_socket b) (cfg_enable_broadcast (ub_config b));
          b = b\<lparr>ub_socket := s\<rparr> in
      if \<not> ok then (False, b) else
      let (ok, s) = pf_set_recv_timeout P (ub_socket b) (cfg_announce_interval (ub_config b));
          b = b\<lparr>ub_socket := s\<rparr> in
      if \<not> ok then (False, b) else
      let (ok, s) = pf_set_send_timeout P (ub_socket b) (cfg_announce_interval (ub_config b));
          b = b\<lparr>ub_socket := s\<rparr> in
      if \<not> ok then (False, b) else (True, b))"

definition udp_start ::
    "('t, 'd) time_api \<Rightarrow> ('d, 's) platform \<Rightarrow> ('d, 's) udp_backend \<Rightarrow>
     (bool \<times> ('d, 's) udp_backend) exec" where
  "udp_start T P b =
     (if ub_running b then returns (True, b)
      else if \<not> config_is_valid T (ub_config b) then returns (False, b)
      else
        let (ok, s) = pf_open P (ub_socket b); b = b\<lparr>ub_socket := s\<rparr> in
        if \<not> ok then returns (False, b) else
        let (ok, b) = configure_socket P b in
        if \<not> ok then returns (False, b\<lparr>ub_socket := pf_close P (ub_socket b)\<rparr>) else
        let (ok, s) = pf_bind P (ub_socket b) (cfg_bind_host (ub_config b))
                        (cfg_bind_port (ub_config b));
            b = b\<lparr>ub_socket := s\<rparr> in
        if \<not> ok then returns (False, b\<lparr>ub_socket := pf_close P (ub_socket b)\<rparr>)
        else returns (True, b\<lparr>ub_running := True\<rparr>))"

definition udp_stop :: "('d, 's) platform \<Rightarrow> ('d, 's) udp_backend \<Rightarrow> ('d, 's) udp_backend" where
  "udp_stop P b = b\<lparr>ub_running := False, ub_socket := pf_close P (ub_socket b)\<rparr>"

definition udp_is_running :: "('d, 's) udp_backend \<Rightarrow> bool" where
  "udp_is_running b = ub_running b"

definition udp_send ::
    "('t, 'd) time_api \<Rightarrow> serializer \<Rightarrow> ('d, 's) platform \<Rightarrow> ('d, 's) udp_backend \<Rightarrow> 't envelope \<Rightarrow>
     (bool \<times> ('d, 's) udp_backend) exec" where
  "udp_send T S P b e =
     (if \<not> ub_running b \<or> \<not> envelope_is_valid T e \<or> \<not> envelope_has_destination e
      then returns (False, b)
      else
        let d = make_datagram S (env_message e) (env_to_host e) (env_to_port e) in
        if \<not> datagram_is_valid d then returns (False, b)
        else do {
          (sent, s) \<leftarrow> pf_send_datagram P (ub_socket b) d;
          returns (sent = length (dg_payload d), b\<lparr>ub_socket := s\<rparr>)
        })"

definition udp_poll ::
    "('t, 'd) time_api \<Rightarrow> serializer \<Rightarrow> ('d, 's) platform \<Rightarrow> ('d, 's) udp_backend \<Rightarrow> 't clock \<Rightarrow>
     ('t envelope option \<times> ('d, 's) udp_backend \<times> 't clock) exec" where
  "udp_poll T S P b c =
     (if \<not> ub_running b then returns (None, b, c)
      else do {
        (d, s) \<leftarrow> pf_recv_datagram P (ub_socket b) (cfg_max_datagram_size (ub_config b));
        let b = b\<lparr>ub_socket := s\<rparr>;
        if \<not> datagram_is_valid d then returns (None, b, c)
        else do {
          m \<leftarrow> decode_datagram S d;
          (case m of
             None \<Rightarrow> returns (None, b, c)
           | Some m \<Rightarrow>
               let (t, c) = now c;
                   e = envelope_of_message T t m;
                   e = e\<lparr>env_from_host := dg_host d\<rparr>;
                   e = e\<lparr>env_from_port := dg_port d\<rparr>;
                   (t, c) = now c;
                   e = e\<lparr>env_timestamp := t\<rparr>
               in returns (Some e, b, c))
        }
      })"

definition udp_config :: "('d, 's) udp_backend \<Rightarrow> 'd config" where
  "udp_config b = ub_config b"

text \<open>The class as an implementation of the interface.\<close>

definition udp_backend_api ::
    "('t, 'd) time_api \<Rightarrow> serializer \<Rightarrow> ('d, 's) platform \<Rightarrow> (('d, 's) udp_backend, 't) backend" where
  "udp_backend_api T S P =
     \<lparr>be_start = udp_start T P, be_stop = udp_stop P, be_is_running = udp_is_running,
      be_send = udp_send T S P, be_poll = udp_poll T S P\<rparr>"

section \<open>The backend keeps the contract\<close>

lemma udp_backend_api_simps [simp]:
  "be_start (udp_backend_api T S P) = udp_start T P"
  "be_stop (udp_backend_api T S P) = udp_stop P"
  "be_is_running (udp_backend_api T S P) = udp_is_running"
  "be_send (udp_backend_api T S P) = udp_send T S P"
  "be_poll (udp_backend_api T S P) = udp_poll T S P"
  by (simp_all add: udp_backend_api_def)

lemma configure_socket_frame:
  "configure_socket P b = (ok, b') \<Longrightarrow>
   ub_config b' = ub_config b \<and> ub_running b' = ub_running b"
  by (auto simp: configure_socket_def Let_def split: prod.splits if_splits)

lemma decode_datagram_valid:
  "decode_datagram S d = Some (Some m) \<Longrightarrow> message_is_valid m"
  by (auto simp: decode_datagram_def decode_message_buffer_def decode_message_def Let_def
      and_then_eq_value split: if_splits)

lemma make_datagram_message_valid:
  "datagram_is_valid (make_datagram S m host port) \<Longrightarrow> message_is_valid m"
  by (auto simp: make_datagram_def encode_message_def datagram_defs split: if_splits)

lemma udp_poll_cases:
  assumes "udp_poll T S P b c = Some (got, b', c')"
  shows "ub_running b' = ub_running b \<and> ub_config b' = ub_config b \<and> readings c' = readings c \<and>
    ticks c \<le> ticks c' \<and>
    (case got of None \<Rightarrow> True | Some e \<Rightarrow>
       \<exists>d m. datagram_is_valid d \<and> decode_datagram S d = Some (Some m) \<and> env_message e = m \<and>
         env_from_host e = dg_host d \<and> env_from_port e = dg_port d \<and>
         env_timestamp e = readings c (Suc (ticks c)))"
  using assms
  by (auto simp: udp_poll_def bind_eq_Some_conv now_def Let_def envelope_of_message_def
      split: if_splits option.splits prod.splits)

interpretation udp: discovery_backend "udp_backend_api T S P"
proof
  fix b b' :: "('b, 'c) udp_backend" and e :: "'a envelope" and c c' :: "'a clock" and ok got
  show "be_is_running (udp_backend_api T S P) b' = ok"
    if "be_start (udp_backend_api T S P) b = Some (ok, b')"
    using that
    by (auto simp: udp_start_def udp_is_running_def Let_def dest: configure_socket_frame
        split: if_splits prod.splits)
  show "be_start (udp_backend_api T S P) b = Some (True, b)"
    if "be_is_running (udp_backend_api T S P) b"
    using that by (simp add: udp_start_def udp_is_running_def)
  show "\<not> be_is_running (udp_backend_api T S P) (be_stop (udp_backend_api T S P) b)"
    by (simp add: udp_stop_def udp_is_running_def)
  show "be_send (udp_backend_api T S P) b e = Some (False, b)"
    if "\<not> be_is_running (udp_backend_api T S P) b"
    using that by (simp add: udp_send_def udp_is_running_def)
  show "be_is_running (udp_backend_api T S P) b' = be_is_running (udp_backend_api T S P) b"
    if "be_send (udp_backend_api T S P) b e = Some (ok, b')"
    using that by (auto simp: udp_send_def udp_is_running_def Let_def bind_eq_Some_conv
        split: if_splits)
  show "message_is_valid (env_message e) \<and> envelope_has_destination e"
    if "be_send (udp_backend_api T S P) b e = Some (True, b')"
    using that by (auto simp: udp_send_def Let_def dest: make_datagram_message_valid
        split: if_splits)
  show "be_poll (udp_backend_api T S P) b c = Some (None, b, c)"
    if "\<not> be_is_running (udp_backend_api T S P) b"
    using that by (simp add: udp_poll_def udp_is_running_def)
  show "be_is_running (udp_backend_api T S P) b' = be_is_running (udp_backend_api T S P) b \<and>
      readings c' = readings c \<and> ticks c \<le> ticks c'"
    if "be_poll (udp_backend_api T S P) b c = Some (got, b', c')"
    using udp_poll_cases [of T S P b c got b' c'] that by (simp add: udp_is_running_def)
  show "message_is_valid (env_message e) \<and> envelope_has_source e"
    if "be_poll (udp_backend_api T S P) b c = Some (Some e, b', c')"
    using udp_poll_cases [of T S P b c "Some e" b' c'] that
    by (auto simp: datagram_is_valid_def datagram_has_endpoint_def envelope_has_source_def
        dest: decode_datagram_valid)
qed

section \<open>Starting\<close>

text \<open>
  On every platform that keeps the contract of a socket, a start that fails gives the
  descriptor up again, and one that succeeds owns it.
\<close>

context socket_platform
begin

lemma configure_valid: "configure_socket P b = (ok, b') \<Longrightarrow> valid (ub_socket b') = valid (ub_socket b)"
  by (auto simp: configure_socket_def Let_def split: prod.splits if_splits
      dest!: reuse_addr_valid broadcast_valid recv_timeout_valid send_timeout_valid)

lemma udp_start_outcome:
  "\<exists>ok b'. udp_start T P b = Some (ok, b') \<and> ub_config b' = ub_config b \<and>
     ok = udp_is_running b' \<and>
     (udp_is_running b \<longrightarrow> ok \<and> b' = b) \<and>
     (\<not> udp_is_running b \<and> ok \<longrightarrow> config_is_valid T (ub_config b) \<and> valid (ub_socket b')) \<and>
     (\<not> ok \<and> config_is_valid T (ub_config b) \<longrightarrow> \<not> valid (ub_socket b')) \<and>
     (\<not> udp_is_running b \<and> \<not> config_is_valid T (ub_config b) \<longrightarrow> b' = b)"
proof (cases "ub_running b \<or> \<not> config_is_valid T (ub_config b)")
  case False
  obtain ok1 s1 where o: "pf_open P (ub_socket b) = (ok1, s1)" by fastforce
  let ?b1 = "b\<lparr>ub_socket := s1\<rparr>"
  obtain ok2 b2 where cf: "configure_socket P ?b1 = (ok2, b2)" by fastforce
  obtain ok3 s3 where bd: "pf_bind P (ub_socket b2) (cfg_bind_host (ub_config b2))
      (cfg_bind_port (ub_config b2)) = (ok3, s3)" by fastforce
  have v1: "valid s1 = ok1" by (rule open_valid [OF o])
  then have v2: "valid (ub_socket b2) = ok1" using configure_valid [OF cf] by simp
  have v3: "valid s3" if ok1 using bind_valid [OF _ bd] v2 that by simp
  show ?thesis
    using False o cf bd v1 v3 configure_socket_frame [OF cf] close_invalid
    by (cases ok1; cases ok2; cases ok3) (auto simp: udp_start_def udp_is_running_def Let_def)
qed (auto simp: udp_start_def udp_is_running_def)

end

section \<open>Changing the platform\<close>

text \<open>
  The backend commutes with a simulation of its platform: the class behaves alike over both.
\<close>

definition map_backend :: "('s \<Rightarrow> 'r) \<Rightarrow> ('d, 's) udp_backend \<Rightarrow> ('d, 'r) udp_backend" where
  "map_backend as b =
     \<lparr>ub_config = ub_config b, ub_running = ub_running b, ub_socket = as (ub_socket b)\<rparr>"

lemma map_backend_simps [simp]:
  "ub_config (map_backend as b) = ub_config b"
  "ub_running (map_backend as b) = ub_running b"
  "ub_socket (map_backend as b) = as (ub_socket b)"
  "(map_backend as b)\<lparr>ub_socket := as s\<rparr> = map_backend as (b\<lparr>ub_socket := s\<rparr>)"
  "(map_backend as b)\<lparr>ub_running := r\<rparr> = map_backend as (b\<lparr>ub_running := r\<rparr>)"
  by (simp_all add: map_backend_def)

context platform_simulation
begin

lemma sim_configure:
  "good \<Longrightarrow> configure_socket Q (map_backend as b) = apsnd (map_backend as) (configure_socket P b)"
  by (auto simp: configure_socket_def Let_def sim_reuse_addr sim_broadcast sim_recv_timeout
      sim_send_timeout split: prod.splits)

lemma sim_udp_start:
  "good \<Longrightarrow>
   udp_start T Q (map_backend as b) = map_option (apsnd (map_backend as)) (udp_start T P b)"
  by (auto simp: udp_start_def Let_def sim_open sim_close sim_bind sim_configure split: prod.splits)

lemma sim_udp_stop: "good \<Longrightarrow> udp_stop Q (map_backend as b) = map_backend as (udp_stop P b)"
  by (simp add: udp_stop_def sim_close map_backend_def)

lemma sim_udp_send:
  "good \<Longrightarrow>
   udp_send T S Q (map_backend as b) e = map_option (apsnd (map_backend as)) (udp_send T S P b e)"
  by (cases "pf_send_datagram P (ub_socket b) (make_datagram S (env_message e) (env_to_host e) (env_to_port e))")
    (auto simp: udp_send_def Let_def sim_send)

lemma sim_udp_poll:
  "good \<Longrightarrow>
   udp_poll T S Q (map_backend as b) c =
     map_option (\<lambda>(e, b, c). (e, map_backend as b, c)) (udp_poll T S P b c)"
proof (cases "pf_recv_datagram P (ub_socket b) (cfg_max_datagram_size (ub_config b))")
  case (Some r)
  moreover obtain d s where "r = (d, s)" by fastforce
  moreover assume good
  ultimately show ?thesis
    by (cases "decode_datagram S d") (auto simp: udp_poll_def sim_recv now_def Let_def split: option.splits)
qed (simp add: udp_poll_def sim_recv)

end

end
