(* ===== verification/Service.thy ===== *)
theory Service
  imports Engine_Behaviour Udp_Backend
begin

text \<open>
  \<open>DiscoveryService.hpp\<close>: the public service, which owns the options, the configuration, the
  context, a UDP backend and the engine on it.  The contracts meet here: the engine is
  interpreted on the UDP backend (\<open>udp_node\<close>).
\<close>

section \<open>The engine on the UDP backend\<close>

definition udp_env ::
    "('t, 'd) time_api \<Rightarrow> serializer \<Rightarrow> ('d, 's) platform \<Rightarrow> 'x transport_api \<Rightarrow> 't registry_layout \<Rightarrow>
     ('t, 'd, ('d, 's) udp_backend, 'x) env" where
  "udp_env T S P X L =
     \<lparr>api_time = T, api_serializer = S, api_backend = udp_backend_api T S P, api_transport = X,
      api_layout = L\<rparr>"

lemma udp_env_simps [simp]:
  "api_time (udp_env T S P X L) = T"
  "api_serializer (udp_env T S P X L) = S"
  "api_backend (udp_env T S P X L) = udp_backend_api T S P"
  "api_transport (udp_env T S P X L) = X"
  "api_layout (udp_env T S P X L) = L"
  "(udp_env T S P X L)\<lparr>api_layout := L'\<rparr> = udp_env T S P X L'"
  by (simp_all add: udp_env_def)

interpretation udp_node: discovery_node "udp_env T S P X L"
  by (simp add: discovery_node_def udp.discovery_backend_axioms)

lemma decode_datagram_no_fault:
  "serializer_ok S \<Longrightarrow> decode_datagram S d \<noteq> None"
  using decode_message_no_fault [of S "dg_payload d"]
  by (auto simp: decode_datagram_def decode_message_buffer_def)

lemma udp_backend_returns:
  assumes S: "serializer_ok S" and P: "platform_returns P"
  shows "backend_returns (udp_backend_api T S P)"
proof -
  have "udp_start T P b \<noteq> None" for b
    by (auto simp: udp_start_def Let_def simp del: not_None_eq split: prod.splits)
  moreover have "udp_send T S P b e \<noteq> None" for b e
    using P
    by (auto simp: platform_returns_def udp_send_def Let_def bind_eq_None_conv simp del: not_None_eq split: prod.splits)
  moreover have "udp_poll T S P b c \<noteq> None" for b c
    using P decode_datagram_no_fault [OF S]
    by (auto simp: platform_returns_def udp_poll_def Let_def bind_eq_None_conv simp del: not_None_eq
        split: prod.splits option.splits)
  ultimately show ?thesis by (simp add: backend_returns_def del: not_None_eq)
qed

section \<open>DiscoveryService.hpp\<close>

text \<open>
  The type \<open>'f\<close> of the handler of \<open>onPeerFound\<close> is left open in the operations that do not call it.
  Here it is a function on the state \<open>'h\<close> of the program around the service and leaves the
  service alone (type \<open>service\<close>); handlers that call the service back are the subject of
  \<open>Reentrant\<close>.
\<close>

record ('t, 'd, 'x, 's, 'f) service_of =
  svc_options :: "'d options"
  svc_config :: "'d config"
  svc_context :: "'d discovery_context"
  svc_system :: "('t, ('d, 's) udp_backend, 'x) system"
  svc_on_peer_found :: "'f option"
  svc_known_peer_count :: nat

type_synonym ('t, 'd, 'x, 's, 'h) service =
  "('t, 'd, 'x, 's, 't public_peer \<Rightarrow> 'h \<Rightarrow> 'h) service_of"

definition make_service ::
    "('t, 'd) time_api \<Rightarrow> 'd options \<Rightarrow> 'x \<Rightarrow> 's \<Rightarrow> 't clock \<Rightarrow> ('t, 'd, 'x, 's, 'f) service_of" where
  "make_service T opts x s c =
     (let config = to_config T opts
      in \<lparr>svc_options = opts, svc_config = config, svc_context = make_context config,
          svc_system = make_system T (make_udp_backend config s) x c,
          svc_on_peer_found = None, svc_known_peer_count = 0\<rparr>)"

definition service_start ::
    "('t, 'd, ('d, 's) udp_backend, 'x) env \<Rightarrow> ('t, 'd, 'x, 's, 'f) service_of \<Rightarrow>
     (bool \<times> ('t, 'd, 'x, 's, 'f) service_of) exec" where
  "service_start E v =
     (if \<not> options_is_valid (api_time E) (svc_options v) then returns (False, v)
      else do {
        let v = v\<lparr>svc_known_peer_count := registry_size (engine_peers (svc_system v))\<rparr>;
        (ok, s) \<leftarrow> engine_start E (svc_context v) (svc_system v);
        returns (ok, v\<lparr>svc_system := s\<rparr>)
      })"

definition service_stop ::
    "('t, 'd, ('d, 's) udp_backend, 'x) env \<Rightarrow> ('t, 'd, 'x, 's, 'f) service_of \<Rightarrow>
     ('t, 'd, 'x, 's, 'f) service_of" where
  "service_stop E v =
     (let v = v\<lparr>svc_system := engine_stop E (svc_system v)\<rparr> in v\<lparr>svc_known_peer_count := 0\<rparr>)"

definition service_is_running ::
    "('t, 'd, ('d, 's) udp_backend, 'x) env \<Rightarrow> ('t, 'd, 'x, 's, 'f) service_of \<Rightarrow> bool" where
  "service_is_running E v = engine_is_running E (svc_system v)"

definition service_running ::
    "('t, 'd, ('d, 's) udp_backend, 'x) env \<Rightarrow> ('t, 'd, 'x, 's, 'f) service_of \<Rightarrow> bool" where
  "service_running E v = service_is_running E v"

text \<open>
  The accessors.  \<open>engine()\<close> gives mutable access, so a caller can also use the operations of
  the engine on its own (\<open>service_with_engine\<close> is the service afterwards).
\<close>

definition service_engine ::
    "('t, 'd, 'x, 's, 'f) service_of \<Rightarrow> ('t, ('d, 's) udp_backend, 'x) system" where
  "service_engine v = svc_system v"

definition service_with_engine ::
    "('t, 'd, 'x, 's, 'f) service_of \<Rightarrow> ('t, ('d, 's) udp_backend, 'x) system \<Rightarrow>
     ('t, 'd, 'x, 's, 'f) service_of" where
  "service_with_engine v s = v\<lparr>svc_system := s\<rparr>"

definition service_options :: "('t, 'd, 'x, 's, 'f) service_of \<Rightarrow> 'd options" where
  "service_options v = svc_options v"

definition service_config :: "('t, 'd, 'x, 's, 'f) service_of \<Rightarrow> 'd config" where
  "service_config v = svc_config v"

definition service_announce_now ::
    "('t, 'd, ('d, 's) udp_backend, 'x) env \<Rightarrow> ('t, 'd, 'x, 's, 'f) service_of \<Rightarrow>
     (bool \<times> ('t, 'd, 'x, 's, 'f) service_of) exec" where
  "service_announce_now E v = do {
     (ok, s) \<leftarrow> announce_now E (svc_context v) (svc_system v);
     returns (ok, v\<lparr>svc_system := s\<rparr>)
   }"

definition service_probe_now ::
    "('t, 'd, ('d, 's) udp_backend, 'x) env \<Rightarrow> ('t, 'd, 'x, 's, 'f) service_of \<Rightarrow>
     (bool \<times> ('t, 'd, 'x, 's, 'f) service_of) exec" where
  "service_probe_now E v = do {
     (ok, s) \<leftarrow> probe_now E (svc_context v) (svc_system v);
     returns (ok, v\<lparr>svc_system := s\<rparr>)
   }"

text \<open>The conversion reads the clock: the constructor of \<open>Peer\<close> stamps the current time.\<close>

definition to_public_peer :: "'t clock \<Rightarrow> 't discovered_peer \<Rightarrow> 't public_peer \<times> 't clock" where
  "to_public_peer c p = (let (t, c) = now c in (from_discovered_peer t p, c))"

fun public_peers_loop ::
    "('t, 'd) time_api \<Rightarrow> 't discovered_peer list \<Rightarrow> 't public_peer list \<Rightarrow> 't clock \<Rightarrow>
     't public_peer list \<times> 't clock" where
  "public_peers_loop T [] result c = (result, c)"
| "public_peers_loop T (p # ps) result c =
     (let (q, c) = to_public_peer c p
      in public_peers_loop T ps (if public_peer_is_valid T q then result @ [q] else result) c)"

definition service_peers ::
    "('t, 'd, ('d, 's) udp_backend, 'x) env \<Rightarrow> ('t, 'd, 'x, 's, 'f) service_of \<Rightarrow>
     't public_peer list \<times> ('t, 'd, 'x, 's, 'f) service_of" where
  "service_peers E v =
     (let (ps, c) = public_peers_loop (api_time E) (available_peers (engine_peers (svc_system v))) []
                      (sys_clock (svc_system v))
      in (ps, v\<lparr>svc_system := (svc_system v)\<lparr>sys_clock := c\<rparr>\<rparr>))"

definition service_on_peer_found ::
    "'f option \<Rightarrow> ('t, 'd, 'x, 's, 'f) service_of \<Rightarrow>
     ('t, 'd, 'x, 's, 'f) service_of" where
  "service_on_peer_found handler v = v\<lparr>svc_on_peer_found := handler\<rparr>"

text \<open>The loop of \<open>notify_new_peers\<close>, from index \<open>i\<close>.\<close>

function notify_loop ::
    "('t, 'd) time_api \<Rightarrow> ('t public_peer \<Rightarrow> 'h \<Rightarrow> 'h) \<Rightarrow> 't discovered_peer list \<Rightarrow> nat \<Rightarrow>
     't clock \<Rightarrow> 'h \<Rightarrow> 't clock \<times> 'h" where
  "notify_loop T f discovered i c h =
     (if i < length discovered then
        let (q, c) = to_public_peer c (discovered ! i);
            h = (if public_peer_is_valid T q then f q h else h)
        in notify_loop T f discovered (i + 1) c h
      else (c, h))"
  by pat_completeness auto
termination
  by (relation "measure (\<lambda>(T, f, discovered, i, c, h). length discovered - i)") auto

declare notify_loop.simps [simp del]

definition notify_new_peers ::
    "('t, 'd, ('d, 's) udp_backend, 'x) env \<Rightarrow> ('t, 'd, 'x, 's, 'h) service \<Rightarrow> 'h \<Rightarrow>
     ('t, 'd, 'x, 's, 'h) service \<times> 'h" where
  "notify_new_peers E v h =
     (let discovered = available_peers (engine_peers (svc_system v)) in
      case svc_on_peer_found v of
        None \<Rightarrow> (v\<lparr>svc_known_peer_count := length discovered\<rparr>, h)
      | Some f \<Rightarrow>
          if length discovered \<le> svc_known_peer_count v
          then (v\<lparr>svc_known_peer_count := length discovered\<rparr>, h)
          else
            let (c, h) = notify_loop (api_time E) f discovered (svc_known_peer_count v)
                           (sys_clock (svc_system v)) h;
                v = v\<lparr>svc_system := (svc_system v)\<lparr>sys_clock := c\<rparr>\<rparr>
            in (v\<lparr>svc_known_peer_count := length discovered\<rparr>, h))"

definition service_poll ::
    "('t, 'd, ('d, 's) udp_backend, 'x) env \<Rightarrow> ('t, 'd, 'x, 's, 'h) service \<Rightarrow> 'h \<Rightarrow>
     (bool \<times> ('t, 'd, 'x, 's, 'h) service \<times> 'h) exec" where
  "service_poll E v h = do {
     (processed, s) \<leftarrow> poll_once E (svc_context v) (svc_system v);
     let (v, h) = notify_new_peers E (v\<lparr>svc_system := s\<rparr>) h;
     returns (processed, v, h)
   }"

definition service_poll_many ::
    "('t, 'd, ('d, 's) udp_backend, 'x) env \<Rightarrow> nat \<Rightarrow> ('t, 'd, 'x, 's, 'h) service \<Rightarrow> 'h \<Rightarrow>
     (nat \<times> ('t, 'd, 'x, 's, 'h) service \<times> 'h) exec" where
  "service_poll_many E max_messages v h = do {
     (processed, s) \<leftarrow> poll_many E (svc_context v) max_messages (svc_system v);
     let (v, h) = notify_new_peers E (v\<lparr>svc_system := s\<rparr>) h;
     returns (processed, v, h)
   }"

end
