(* ===== verification/Service_Proofs.thy ===== *)
theory Service_Proofs
  imports Service
begin

text \<open>
  What the service shows its user: the list of public peers, which peers the handler is
  called with, and the invariant that ties the service to its engine.
\<close>

section \<open>Public peers\<close>

definition public_view :: "'t discovered_peer \<Rightarrow> 't public_peer" where
  "public_view p = from_discovered_peer (dp_last_seen_at p) p"

lemma to_public_peer_view: "fst (to_public_peer c p) = public_view p"
  by (simp add: to_public_peer_def now_def public_view_def from_discovered_peer_def
      make_public_peer_def)

lemma to_public_peer_clock:
  "readings (snd (to_public_peer c p)) = readings c" "ticks (snd (to_public_peer c p)) = Suc (ticks c)"
  by (simp_all add: to_public_peer_def now_def)

lemma public_peers_loop_eq:
  "fst (public_peers_loop T ps result c) =
     result @ filter (public_peer_is_valid T) (map public_view ps)"
proof (induction ps arbitrary: result c)
  case (Cons p ps)
  obtain q c' where q: "to_public_peer c p = (q, c')" by fastforce
  with to_public_peer_view [of c p] Cons.IH show ?case by (auto simp: q)
qed simp

text \<open>The handler sees the entries from index \<open>i\<close> on, in order, when they are valid.\<close>

lemma notify_loop_eq:
  "snd (notify_loop T f ps i c h) =
     fold f (filter (public_peer_is_valid T) (map public_view (drop i ps))) h"
proof (induction T f ps i c h rule: notify_loop.induct)
  case (1 T f ps i c h)
  obtain q c' where q: "to_public_peer c (ps ! i) = (q, c')" by fastforce
  with to_public_peer_view [of c "ps ! i"] have view: "public_view (ps ! i) = q" by simp
  show ?case
  proof (cases "i < length ps")
    case True
    then show ?thesis
      using 1 q view by (subst notify_loop.simps) (simp flip: Cons_nth_drop_Suc)
  qed (simp add: notify_loop.simps)
qed

lemma notify_new_peers_handler:
  "snd (notify_new_peers E v h) =
    (case svc_on_peer_found v of
       None \<Rightarrow> h
     | Some f \<Rightarrow>
         fold f (filter (public_peer_is_valid (api_time E)) (map public_view
           (drop (svc_known_peer_count v) (available_peers (eng_registry (svc_system v)))))) h)"
  by (simp add: notify_new_peers_def engine_peers_def Let_def case_prod_unfold notify_loop_eq
      split: option.splits)

lemma notify_new_peers_count:
  "svc_known_peer_count (fst (notify_new_peers E v h)) =
     length (available_peers (eng_registry (svc_system v)))"
  by (auto simp: notify_new_peers_def engine_peers_def Let_def split: option.splits prod.splits)

lemma notify_new_peers_frame:
  "eng_registry (svc_system (fst (notify_new_peers E v h))) = eng_registry (svc_system v)"
  by (auto simp: notify_new_peers_def Let_def split: option.splits prod.splits)

section \<open>Every available peer is shown\<close>

lemma available_peers_find:
  "um_wf r \<Longrightarrow> p \<in> set (available_peers r) \<Longrightarrow> \<exists>k. um_find r k = Some p \<and> peer_available p"
  by (auto simp: available_peers_def um_find_def um_wf_def intro: map_of_is_SomeI
      split: if_splits)

lemma available_ids_distinct:
  assumes "registry_wf T r"
  shows "distinct (map peer_node_id (available_peers r))"
proof -
  have keys: "map peer_node_id (available_peers rs) = map fst (filter (\<lambda>(k, p). peer_available p) rs)"
    if "\<forall>(k, p) \<in> set rs. peer_node_id p = k" for rs :: "'a registry"
    using that by (induction rs) (auto simp: available_peers_def)
  have "\<forall>(k, p) \<in> set r. peer_node_id p = k" using assms by (auto simp: registry_wf_def)
  with registry_wf_um [OF assms] show ?thesis by (simp add: keys um_wf_def distinct_map_filter)
qed

lemma available_peer_public:
  assumes inv: "engine_inv E ctx s" and seen: "peers_seen E s"
    and p: "p \<in> set (available_peers (eng_registry s))"
  shows "public_peer_is_valid (api_time E) (public_view p)"
proof -
  have wf: "registry_wf (api_time E) (eng_registry s)" using inv by (simp add: engine_inv_def)
  obtain k where k: "um_find (eng_registry s) k = Some p"
    using available_peers_find [OF registry_wf_um [OF wf] p] by blast
  with seen have "ts_is_valid (api_time E) (dp_last_seen_at p)"
    by (rule peers_seenD(3))
  then show ?thesis
    by (simp add: public_view_def public_peer_valid_iff [OF registry_wfD(2) [OF wf k]])
qed

lemma service_peers_eq:
  assumes "engine_inv E ctx (svc_system v)" and "peers_seen E (svc_system v)"
  shows "fst (service_peers E v) = map public_view (available_peers (eng_registry (svc_system v)))"
proof -
  let ?ps = "available_peers (eng_registry (svc_system v))"
  have all: "filter (public_peer_is_valid (api_time E)) (map public_view ?ps) = map public_view ?ps"
    using available_peer_public [OF assms] by (auto intro: filter_True)
  have "fst (service_peers E v) =
      fst (public_peers_loop (api_time E) ?ps [] (sys_clock (svc_system v)))"
    by (simp add: service_peers_def engine_peers_def Let_def case_prod_unfold)
  then show ?thesis by (simp only: public_peers_loop_eq all append_Nil)
qed

section \<open>Histories\<close>

text \<open>
  One call of a public method of the service, or of its engine through \<open>engine()\<close>.  The layout of the hash map after each
  insertion is not fixed: every polling call may meet another one.
\<close>

inductive service_step ::
    "('t, 'd) time_api \<Rightarrow> serializer \<Rightarrow> ('d, 's) platform \<Rightarrow> 'x transport_api \<Rightarrow>
     ('t, 'd, 'x, 's, 'h) service \<times> 'h \<Rightarrow> ('t, 'd, 'x, 's, 'h) service \<times> 'h \<Rightarrow> bool"
  for T S P X where
    service_starts: "service_start (udp_env T S P X L) v = Some (ok, v') \<Longrightarrow>
      service_step T S P X (v, h) (v', h)"
  | service_stops: "service_step T S P X (v, h) (service_stop (udp_env T S P X L) v, h)"
  | service_announces: "service_announce_now (udp_env T S P X L) v = Some (ok, v') \<Longrightarrow>
      service_step T S P X (v, h) (v', h)"
  | service_probes: "service_probe_now (udp_env T S P X L) v = Some (ok, v') \<Longrightarrow>
      service_step T S P X (v, h) (v', h)"
  | service_polls: "layout_ok L \<Longrightarrow> service_poll (udp_env T S P X L) v h = Some (ok, v', h') \<Longrightarrow>
      service_step T S P X (v, h) (v', h')"
  | service_polls_many: "layout_ok L \<Longrightarrow>
      service_poll_many (udp_env T S P X L) n v h = Some (k, v', h') \<Longrightarrow>
      service_step T S P X (v, h) (v', h')"
  | service_lists: "service_step T S P X (v, h) (snd (service_peers (udp_env T S P X L) v), h)"
  | service_handles: "service_step T S P X (v, h) (service_on_peer_found f v, h)"
  | service_engine_used: "engine_step (udp_env T S P X L) (svc_context v) (service_engine v) s \<Longrightarrow>
      service_step T S P X (v, h) (service_with_engine v s, h)"

inductive service_reachable ::
    "('t, 'd) time_api \<Rightarrow> serializer \<Rightarrow> ('d, 's) platform \<Rightarrow> 'x transport_api \<Rightarrow> 'd options \<Rightarrow>
     ('t, 'd, 'x, 's, 'h) service \<times> 'h \<Rightarrow> bool"
  for T S P X opts where
    service_created: "clock_ok T c \<Longrightarrow> service_reachable T S P X opts (make_service T opts x k c, h)"
  | service_continues: "service_reachable T S P X opts s \<Longrightarrow> service_step T S P X s s' \<Longrightarrow>
      service_reachable T S P X opts s'"

definition engine_ok ::
    "('t, 'd) time_api \<Rightarrow> serializer \<Rightarrow> ('d, 's) platform \<Rightarrow> 'x transport_api \<Rightarrow> 'd discovery_context \<Rightarrow>
     ('t, ('d, 's) udp_backend, 'x) system \<Rightarrow> bool" where
  "engine_ok T S P X ctx s \<longleftrightarrow>
     engine_inv (udp_env T S P X id) ctx s \<and> peers_seen (udp_env T S P X id) s"

definition service_inv ::
    "('t, 'd) time_api \<Rightarrow> serializer \<Rightarrow> ('d, 's) platform \<Rightarrow> 'x transport_api \<Rightarrow> 'd options \<Rightarrow>
     ('t, 'd, 'x, 's, 'f) service_of \<Rightarrow> bool" where
  "service_inv T S P X opts v \<longleftrightarrow>
     svc_options v = opts \<and> svc_config v = to_config T opts \<and>
     svc_context v = make_context (svc_config v) \<and>
     engine_ok T S P X (svc_context v) (svc_system v)"

text \<open>An engine call keeps both invariants of the engine.\<close>

lemma engine_ok_any:
  "engine_ok T S P X ctx s \<longleftrightarrow>
     engine_inv (udp_env T S P X L) ctx s \<and> peers_seen (udp_env T S P X L) s"
  by (simp add: engine_ok_def engine_inv_def peers_seen_def local_node_id_def)

lemma engine_ok_talks:
  assumes "engine_ok T S P X ctx s" and "talks (udp_env T S P X L) s s'"
  shows "engine_ok T S P X ctx s'"
  using assms(1) talksD [OF assms(2)]
  by (simp add: engine_ok_any [where L = L] engine_inv_def peers_seen_def clock_ok_def)

lemma engine_ok_effects:
  assumes "engine_ok T S P X ctx s" and "layout_ok L" and "engine_is_running (udp_env T S P X L) s"
    and "engine_effects (udp_env T S P X L) ctx s s'"
  shows "engine_ok T S P X ctx s'"
proof -
  let ?E = "udp_env T S P X L"
  note inv = assms(1) [unfolded engine_ok_any [where L = L]]
  have run: "eng_status s = DS_Running"
    using assms(3) by (simp add: engine_is_running_def status_is_running_def)
  show ?thesis
    unfolding engine_ok_any [where L = L]
    using inv engine_effects_inv [OF assms(4) _ _ run] engine_effects_seen [OF assms(4) _ _ run]
      assms(2)
    by simp
qed

lemma engine_ok_poll:
  assumes "engine_ok T S P X ctx s" and "layout_ok L"
  shows "poll_once (udp_env T S P X L) ctx s = Some (ok, s') \<Longrightarrow> engine_ok T S P X ctx s'"
    and "poll_many (udp_env T S P X L) ctx n s = Some (m, s') \<Longrightarrow> engine_ok T S P X ctx s'"
proof -
  let ?E = "udp_env T S P X L"
  note idle = udp_node.not_running_nothing [of T S P X L s ctx]
  show "engine_ok T S P X ctx s'" if "poll_once ?E ctx s = Some (ok, s')"
    using that idle(3) assms(1) engine_ok_effects [OF assms]
      udp_node.poll_once_effects [OF that]
    by (cases "engine_is_running ?E s") auto
  show "engine_ok T S P X ctx s'" if "poll_many ?E ctx n s = Some (m, s')"
    using that idle(4) assms(1) engine_ok_effects [OF assms]
      udp_node.poll_loop_effects [OF that [unfolded poll_many_def]]
    by (cases "engine_is_running ?E s") auto
qed

lemma engine_ok_start_stop:
  assumes "engine_ok T S P X ctx s"
  shows "engine_start (udp_env T S P X L) ctx s = Some (ok, s') \<Longrightarrow> engine_ok T S P X ctx s'"
    and "engine_ok T S P X ctx (engine_stop (udp_env T S P X L) s)"
proof -
  note ok_any = engine_ok_any [where L = L]
  note inv = assms [unfolded ok_any, THEN conjunct1] and seen = assms [unfolded ok_any, THEN conjunct2]
  show "engine_ok T S P X ctx s'" if start: "engine_start (udp_env T S P X L) ctx s = Some (ok, s')"
  proof -
    have "peers_seen (udp_env T S P X L) s'"
      using start seen
      by (auto simp: engine_start_def peers_seen_def Let_def bind_eq_Some_conv split: if_splits)
    with udp_node.engine_start_outcome(1) [OF inv start] show ?thesis by (simp add: ok_any)
  qed
  have "peers_seen (udp_env T S P X L) (engine_stop (udp_env T S P X L) s)"
    using seen by (auto simp: engine_stop_def peers_seen_def registry_clear_def um_find_def Let_def)
  with udp_node.engine_stop_outcome(1) [OF inv]
  show "engine_ok T S P X ctx (engine_stop (udp_env T S P X L) s)" by (simp add: ok_any)
qed

lemma engine_ok_step:
  assumes "engine_ok T S P X ctx s" and "engine_step (udp_env T S P X L) ctx s s'"
  shows "engine_ok T S P X ctx s'"
  using assms(2)
proof cases
  case (polled L' ok)
  then show ?thesis using engine_ok_poll(1) [OF assms(1)] by simp
next
  case (polled_many L' n k)
  then show ?thesis using engine_ok_poll(2) [OF assms(1)] by simp
qed (use assms(1) in \<open>auto intro: engine_ok_start_stop
    engine_ok_talks [OF _ udp_node.announce_now_talks] engine_ok_talks [OF _ udp_node.probe_now_talks]\<close>)

lemma clock_only_talks:
  "readings c = readings (sys_clock s) \<Longrightarrow> ticks (sys_clock s) \<le> ticks c \<Longrightarrow> talks E s (s\<lparr>sys_clock := c\<rparr>)"
  by (simp add: talks_def)

lemma public_peers_loop_clock:
  "readings (snd (public_peers_loop T ps result c)) = readings c \<and>
   ticks c \<le> ticks (snd (public_peers_loop T ps result c))"
proof (induction ps arbitrary: result c)
  case (Cons p ps)
  obtain q c' where q: "to_public_peer c p = (q, c')" by fastforce
  then have "readings c' = readings c" "ticks c' = Suc (ticks c)"
    using to_public_peer_clock [of c p] by simp_all
  then show ?case
    using Cons.IH [of "if public_peer_is_valid T q then result @ [q] else result" c'] by (simp add: q)
qed simp

lemma notify_loop_clock:
  "readings (fst (notify_loop T f ps i c h)) = readings c \<and> ticks c \<le> ticks (fst (notify_loop T f ps i c h))"
proof (induction "length ps - i" arbitrary: i c h)
  case (Suc n)
  obtain q c' where q: "to_public_peer c (ps ! i) = (q, c')" by fastforce
  then have "readings c' = readings c" "ticks c' = Suc (ticks c)"
    using to_public_peer_clock [of c "ps ! i"] by simp_all
  moreover have "n = length ps - (i + 1)" using Suc.hyps(2) by simp
  ultimately show ?case
    using Suc.hyps(1) [of "i + 1" c' "if public_peer_is_valid T q then f q h else h"]
    by (subst (1 2) notify_loop.simps) (auto simp: q)
qed (simp add: notify_loop.simps)

lemma notify_new_peers_talks:
  "talks E (svc_system v) (svc_system (fst (notify_new_peers E v h)))"
  by (auto simp: notify_new_peers_def Let_def case_prod_unfold notify_loop_clock
      intro: clock_only_talks split: option.splits)

lemma notify_new_peers_fixed:
  "svc_options (fst (notify_new_peers E v h)) = svc_options v"
  "svc_config (fst (notify_new_peers E v h)) = svc_config v"
  "svc_context (fst (notify_new_peers E v h)) = svc_context v"
  by (auto simp: notify_new_peers_def Let_def case_prod_unfold split: option.splits)

lemma notify_new_peers_on_found:
  "svc_on_peer_found (fst (notify_new_peers E v h)) = svc_on_peer_found v"
  by (auto simp: notify_new_peers_def Let_def case_prod_unfold split: option.splits)

lemma service_peers_talks:
  "talks E (svc_system v) (svc_system (snd (service_peers E v)))"
  by (auto simp: service_peers_def Let_def case_prod_unfold public_peers_loop_clock
      intro: clock_only_talks)

text \<open>Each call keeps the invariant, whatever kind of handler is installed.\<close>

lemma service_inv_system:
  "service_inv T S P X opts v \<Longrightarrow> engine_ok T S P X (svc_context v) s \<Longrightarrow>
   service_inv T S P X opts (v\<lparr>svc_system := s\<rparr>)"
  by (simp add: service_inv_def)

lemma service_inv_count [simp]:
  "service_inv T S P X opts (v\<lparr>svc_known_peer_count := n\<rparr>) = service_inv T S P X opts v"
  by (simp add: service_inv_def)

lemma service_inv_ok: "service_inv T S P X opts v \<Longrightarrow> engine_ok T S P X (svc_context v) (svc_system v)"
  by (metis service_inv_def)

lemma service_inv_calls:
  assumes inv: "service_inv T S P X opts v"
  shows "service_start (udp_env T S P X L) v = Some (ok, v') \<Longrightarrow> service_inv T S P X opts v'"
    and "service_inv T S P X opts (service_stop (udp_env T S P X L) v)"
    and "service_announce_now (udp_env T S P X L) v = Some (ok, v') \<Longrightarrow> service_inv T S P X opts v'"
    and "service_probe_now (udp_env T S P X L) v = Some (ok, v') \<Longrightarrow> service_inv T S P X opts v'"
    and "service_inv T S P X opts (snd (service_peers (udp_env T S P X L) v))"
proof -
  note sys = service_inv_system [OF inv] and ok = service_inv_ok [OF inv]
  show "service_inv T S P X opts v'" if "service_start (udp_env T S P X L) v = Some (ok, v')"
    using that inv sys [OF engine_ok_start_stop(1) [OF ok]]
    by (fastforce simp: service_start_def bind_eq_Some_conv Let_def service_inv_def split: if_splits)
  show "service_inv T S P X opts (service_stop (udp_env T S P X L) v)"
    using sys [OF engine_ok_start_stop(2) [OF ok]] by (simp add: service_stop_def Let_def)
  show "service_inv T S P X opts v'" if "service_announce_now (udp_env T S P X L) v = Some (ok, v')"
    using that sys [OF engine_ok_talks [OF ok udp_node.announce_now_talks]]
    by (auto simp: service_announce_now_def bind_eq_Some_conv)
  show "service_inv T S P X opts v'" if "service_probe_now (udp_env T S P X L) v = Some (ok, v')"
    using that sys [OF engine_ok_talks [OF ok udp_node.probe_now_talks]]
    by (auto simp: service_probe_now_def bind_eq_Some_conv)
  show "service_inv T S P X opts (snd (service_peers (udp_env T S P X L) v))"
    using sys [OF engine_ok_talks [OF ok service_peers_talks, of L]]
    by (simp add: service_peers_def Let_def case_prod_unfold)
qed

lemma service_inv_notify:
  "service_inv T S P X opts v \<Longrightarrow>
   service_inv T S P X opts (fst (notify_new_peers (udp_env T S P X L) v h))"
  using engine_ok_talks [OF service_inv_ok notify_new_peers_talks, of T S P X opts v L h]
  by (metis service_inv_def notify_new_peers_fixed)

lemma service_step_inv:
  "service_step T S P X vh vh' \<Longrightarrow> service_inv T S P X opts (fst vh) \<Longrightarrow>
   service_inv T S P X opts (fst vh')"
proof (induction rule: service_step.induct)
  case (service_polls L v h ok v' h')
  then obtain s where s: "poll_once (udp_env T S P X L) (svc_context v) (svc_system v) = Some (ok, s)"
    and v': "v' = fst (notify_new_peers (udp_env T S P X L) (v\<lparr>svc_system := s\<rparr>) h)"
    by (auto simp: service_poll_def bind_eq_Some_conv case_prod_unfold)
  show ?case
    using service_polls engine_ok_poll(1) [OF service_inv_ok _ s]
    by (auto simp: v' intro: service_inv_notify service_inv_system)
next
  case (service_polls_many L n v h k v' h')
  then obtain s where s: "poll_many (udp_env T S P X L) (svc_context v) n (svc_system v) = Some (k, s)"
    and v': "v' = fst (notify_new_peers (udp_env T S P X L) (v\<lparr>svc_system := s\<rparr>) h)"
    by (auto simp: service_poll_many_def bind_eq_Some_conv case_prod_unfold)
  show ?case
    using service_polls_many engine_ok_poll(2) [OF service_inv_ok _ s]
    by (auto simp: v' intro: service_inv_notify service_inv_system)
next
  case (service_engine_used L v s h)
  then show ?case
    by (auto simp: service_inv_def service_engine_def service_with_engine_def intro: engine_ok_step)
next
  case (service_handles v h f)
  then show ?case by (auto simp: service_on_peer_found_def service_inv_def)
qed (auto intro: service_inv_calls)

lemma service_created_inv:
  "clock_ok T c \<Longrightarrow> service_inv T S P X opts (make_service T opts x k c)"
  by (simp add: service_inv_def make_service_def Let_def engine_ok_def engine_inv_def peers_seen_def
      make_system_def make_udp_backend_def udp_is_running_def um_find_def)

lemma service_reachable_inv:
  "service_reachable T S P X opts vh \<Longrightarrow> service_inv T S P X opts (fst vh)"
  by (induction rule: service_reachable.induct) (auto simp: service_created_inv service_step_inv)

text \<open>The options decide whether the context is valid, and which node this is.\<close>

lemma service_local_node_id:
  assumes "service_inv T S P X opts v"
  shows "context_is_valid T (svc_context v) \<longleftrightarrow> options_is_valid T opts"
    and "options_is_valid T opts \<Longrightarrow> local_node_id (udp_env T S P X L) (svc_context v) = opt_node_id opts"
proof -
  note valid = to_config_valid [of T opts]
  then show "context_is_valid T (svc_context v) \<longleftrightarrow> options_is_valid T opts"
    using assms by (simp add: service_inv_def context_is_valid_def make_context_def)
  show "local_node_id (udp_env T S P X L) (svc_context v) = opt_node_id opts" if "options_is_valid T opts"
    using assms that valid
    by (simp add: service_inv_def local_node_id_def config_checked_def make_context_def)
      (simp add: to_config_def)
qed

text \<open>What the invariant says of the public service.\<close>

lemma service_inv_facts:
  assumes inv: "service_inv T S P X opts v"
  shows "svc_options v = opts \<and> svc_config v = to_config T opts \<and>
    (service_is_running (udp_env T S P X L) v \<longleftrightarrow> udp_is_running (sys_backend (svc_system v))) \<and>
    (service_is_running (udp_env T S P X L) v \<longrightarrow> options_is_valid T opts) \<and>
    (\<not> service_is_running (udp_env T S P X L) v \<longrightarrow> registry_size (engine_peers (svc_system v)) = 0) \<and>
    (options_is_valid T opts \<longrightarrow>
      registry_get (engine_peers (svc_system v)) (opt_node_id opts) = None)"
proof -
  have eng: "engine_inv (udp_env T S P X L) (svc_context v) (svc_system v)"
    using inv engine_ok_any [of T S P X "svc_context v" "svc_system v" L] by (auto simp: service_inv_def)
  show ?thesis
    using inv eng udp_node.engine_inv_running [OF eng] service_local_node_id [OF inv]
    by (auto simp: service_inv_def engine_inv_def service_is_running_def registry_size_def
        engine_peers_def registry_get_def)
qed

section \<open>The service returns\<close>

text \<open>On a platform whose transfers return, so does every public call, from every reachable state.\<close>

lemma service_calls_return_on:
  assumes "timestamp_ok T" and "serializer_ok S" and "platform_returns P"
    and "service_reachable T S P X opts (v, h)"
  shows "(\<exists>ok v'. service_start (udp_env T S P X L) v = Some (ok, v') \<and>
      (ok \<longrightarrow> service_is_running (udp_env T S P X L) v' \<and> options_is_valid T opts)) \<and>
    (\<exists>r. service_announce_now (udp_env T S P X L) v = Some r) \<and>
    (\<exists>r. service_probe_now (udp_env T S P X L) v = Some r) \<and>
    (\<exists>r. service_poll (udp_env T S P X L) v h = Some r) \<and>
    (\<exists>k r. service_poll_many (udp_env T S P X L) n v h = Some (k, r) \<and> k \<le> n)"
proof -
  let ?E = "udp_env T S P X L"
  from service_reachable_inv [OF assms(4)] have svc: "service_inv T S P X opts v" by simp
  then have eng: "engine_inv ?E (svc_context v) (svc_system v)" "peers_seen ?E (svc_system v)"
    using engine_ok_any [of T S P X "svc_context v" "svc_system v" L] by (auto simp: service_inv_def)
  then have clock: "clock_ok (api_time ?E) (sys_clock (svc_system v))" by (simp add: peers_seen_def)
  have TS: "timestamp_ok (api_time ?E)" "serializer_ok (api_serializer ?E)"
    using assms(1,2) by simp_all
  have B: "backend_returns (api_backend ?E)"
    using udp_backend_returns [OF assms(2,3)] by simp
  obtain ok s' where poll: "poll_once ?E (svc_context v) (svc_system v) = Some (ok, s')"
    using udp_node.poll_once_returns [OF TS B clock] by blast
  obtain k s'' where many: "poll_many ?E (svc_context v) n (svc_system v) = Some (k, s'')" "k \<le> n"
    using udp_node.poll_many_returns [OF TS B clock] by blast
  obtain ok1 s1 where start: "engine_start ?E (svc_context v) (svc_system v) = Some (ok1, s1)"
    using engine_start_returns [OF B] by fastforce
  have run: "ok1 \<longrightarrow> engine_is_running ?E s1"
    using udp_node.engine_start_outcome(2) [OF eng(1) start] by simp
  obtain a where ann: "announce_now ?E (svc_context v) (svc_system v) = Some a"
    using announce_now_returns [OF B] by fastforce
  obtain p where prb: "probe_now ?E (svc_context v) (svc_system v) = Some p"
    using probe_now_returns [OF B] by fastforce
  have "\<exists>ok v'. service_start ?E v = Some (ok, v') \<and>
      (ok \<longrightarrow> service_is_running ?E v' \<and> options_is_valid T opts)"
    using start run svc
    by (auto simp: service_start_def service_is_running_def service_inv_def)
  moreover have "\<exists>r. service_poll ?E v h = Some r"
    "\<exists>k r. service_poll_many ?E n v h = Some (k, r) \<and> k \<le> n"
    using poll many by (simp_all add: service_poll_def service_poll_many_def case_prod_unfold)
  ultimately show ?thesis
    using ann prb
    by (simp add: service_announce_now_def service_probe_now_def case_prod_unfold)
qed

end
