(* ===== verification/Instances.thy ===== *)
theory Instances
  imports Service_Proofs Udp_Socket
begin

text \<open>
  Concrete packages on which the results are exercised: a time library that counts
  milliseconds in an \<open>int64_t\<close>, a little-endian serializer, a transport engine that keeps
  the ids it was told to connect, and a kernel with one inbox and one outbox.  They only show
  that the hypotheses about external code can hold together; no result depends on them.
\<close>

section \<open>Time\<close>

definition demo_time :: "(i64, i64) time_api" where
  "demo_time =
     \<lparr>ts_default = 0, ts_is_valid = (\<lambda>t. 0 < sint t), ts_millis = (\<lambda>t. t),
      ts_from_millis = (\<lambda>m. m), dur_millis = (\<lambda>d. d), dur_from_millis = (\<lambda>m. m),
      dur_from_seconds = (\<lambda>s. 1000 * s)\<rparr>"

lemma demo_time_simps [simp]:
  "ts_default demo_time = 0"
  "ts_is_valid demo_time t \<longleftrightarrow> 0 < sint t"
  "ts_millis demo_time t = t"
  "ts_from_millis demo_time m = m"
  "dur_millis demo_time d = d"
  "dur_from_millis demo_time m = m"
  "dur_from_seconds demo_time s = 1000 * s"
  by (simp_all add: demo_time_def)

lemma demo_timestamp_ok [simp]: "timestamp_ok demo_time"
  by (simp add: timestamp_ok_def)

lemma demo_duration_ok [simp]: "duration_ok demo_time"
proof -
  have "sint (1000 * s) = 1000 * sint s" if "0 \<le> sint s" "sint s < 4294967296" for s :: i64
    using that by (simp add: sint_word_ariths signed_take_bit_int_eq_self)
  then show ?thesis by (simp add: duration_ok_def)
qed

definition demo_clock :: "i64 clock" where
  "demo_clock = \<lparr>readings = (\<lambda>_. 5000), ticks = 0\<rparr>"

lemma demo_clock_ok [simp]: "clock_ok demo_time demo_clock"
  by (simp add: clock_ok_def demo_clock_def)

section \<open>Serializer\<close>

fun put_digits :: "nat \<Rightarrow> nat \<Rightarrow> bytes" where
  "put_digits 0 k = []"
| "put_digits (Suc n) k = of_nat (k mod 256) # put_digits n (k div 256)"

fun get_digits :: "bytes \<Rightarrow> nat" where
  "get_digits [] = 0"
| "get_digits (b # bs) = unat b + 256 * get_digits bs"

definition demo_put :: "nat \<Rightarrow> bytes \<Rightarrow> 'a::len word \<Rightarrow> bytes" where
  "demo_put n b v = b @ put_digits n (unat v)"

definition demo_get :: "nat \<Rightarrow> bytes \<Rightarrow> nat \<Rightarrow> ('a::len word \<times> nat) option" where
  "demo_get n d off =
     (if off + n \<le> length d then Some (of_nat (get_digits (take n (drop off d))), off + n)
      else None)"

definition demo_serializer :: serializer where
  "demo_serializer =
     \<lparr>ser_append_u16 = demo_put 2, ser_append_u32 = demo_put 4, ser_append_i64 = demo_put 8,
      ser_can_read = (\<lambda>d off n. off + n \<le> length d), ser_read_u16 = demo_get 2,
      ser_read_u32 = demo_get 4, ser_read_i64 = demo_get 8\<rparr>"

lemma length_put_digits [simp]: "length (put_digits n k) = n"
  by (induction n k rule: put_digits.induct) auto

lemma get_put_digits: "get_digits (put_digits n k) = k mod 256 ^ n"
proof (induction n k rule: put_digits.induct)
  case (2 n k)
  then show ?case
    by (simp add: unsigned_of_nat take_bit_eq_mod mod_mult2_eq)
qed simp

lemma get_digits_less: "get_digits bs < 256 ^ length bs"
proof (induction bs)
  case (Cons b bs)
  then have "get_digits bs + 1 \<le> 256 ^ length bs" by simp
  then have "256 * get_digits bs + 256 \<le> 256 * 256 ^ length bs" by simp
  then show ?case using unat_byte_less [of b] by simp
qed simp

lemma put_get_digits: "put_digits (length bs) (get_digits bs) = bs"
proof (induction bs)
  case (Cons b bs)
  then show ?case using unat_byte_less [of b] by (simp add: mod_mult_self2)
qed simp

lemma demo_fixed_width:
  assumes "LENGTH('a) = 8 * n"
  shows "fixed_width n (demo_put n :: bytes \<Rightarrow> 'a::len word \<Rightarrow> bytes) (demo_get n)"
proof -
  have pow: "(2::nat) ^ LENGTH('a) = 256 ^ n" by (simp add: assms power_mult)
  have restore: "of_nat (unat v mod 256 ^ n) = v" for v :: "'a word"
    using unsigned_less [of v, where ?'a = nat] by (simp add: pow)
  have small: "unat (of_nat (get_digits bs) :: 'a word) = get_digits bs" if "length bs = n" for bs
    using get_digits_less [of bs] that by (simp add: unsigned_of_nat take_bit_eq_mod pow)
  have again: "put_digits n (unat (of_nat (get_digits (take n (drop off d))) :: 'a word)) =
      take n (drop off d)" if "off + n \<le> length d" for d off
  proof -
    have len: "length (take n (drop off d)) = n" using that by simp
    show ?thesis using put_get_digits [of "take n (drop off d)"] by (simp only: small [OF len] len)
  qed
  show ?thesis
    unfolding fixed_width_def demo_put_def demo_get_def
    by (auto simp: get_put_digits restore again)
qed

lemma demo_serializer_ok [simp]: "serializer_ok demo_serializer"
  by (simp add: serializer_ok_def demo_serializer_def demo_fixed_width)

section \<open>Transport\<close>

definition demo_transport :: "string list transport_api" where
  "demo_transport =
     \<lparr>tr_is_running = (\<lambda>_. True), tr_contains = (\<lambda>x i. i \<in> set x),
      tr_connect_peer = (\<lambda>x p. pi_node_id p # x),
      peer_info_is_valid = (\<lambda>p. pi_node_id p \<noteq> [] \<and> pi_host p \<noteq> [] \<and> pi_port p \<noteq> 0)\<rparr>"

section \<open>Kernel\<close>

type_synonym demo_state = "(bytes \<times> sockaddr) list \<times> (bytes \<times> sockaddr) list"

definition demo_kernel :: "demo_state kernel_api" where
  "demo_kernel =
     \<lparr>sys_socket = (\<lambda>k. (3, k)), sys_bind = (\<lambda>k fd a. (0, k)),
      sys_sendto = (\<lambda>(inbox, outbox) fd data a.
        (int (length data), False, (inbox, outbox @ [(data, a)]))),
      sys_recvfrom = (\<lambda>(inbox, outbox) fd n.
        case inbox of
          [] \<Rightarrow> (- 1, False, [], \<lparr>sin_port = 0, sin_addr = 0\<rparr>, (inbox, outbox))
        | (data, a) # rest \<Rightarrow>
            (int (min n (length data)), False, take n data, a, (rest, outbox))),
      sys_close = (\<lambda>k fd. k), sys_setsockopt = (\<lambda>k fd opt. (0, k)),
      inet_pton = (\<lambda>h. if h = [] then None else Some 1), inet_ntop = (\<lambda>a. Some ''10.0.0.2''),
      htons = (\<lambda>p. p), ntohs = (\<lambda>p. p)\<rparr>"

lemma demo_kernel_ok [simp]: "kernel_ok demo_kernel"
  by (auto simp: kernel_ok_def demo_kernel_def split: list.splits)

lemma demo_kernel_settles [simp]: "kernel_settles demo_kernel"
  unfolding kernel_settles_def
proof (intro conjI allI)
  fix k :: demo_state and fd data addr and n :: nat
  obtain r eintr k' where s: "sys_sendto demo_kernel k fd data addr = (r, eintr, k')"
    by (metis prod_cases3)
  then show "send_settles demo_kernel fd data addr k"
    by (rule send_settles.sent_or_failed) (use s in \<open>auto simp: demo_kernel_def split: prod.splits\<close>)
  obtain q eintr stored src k' where t: "sys_recvfrom demo_kernel k fd n = (q, eintr, stored, src, k')"
    by (metis prod_cases5)
  then show "recv_settles demo_kernel fd n k"
    by (rule recv_settles.received_or_failed)
      (use t in \<open>auto simp: demo_kernel_def split: prod.splits list.splits\<close>)
qed

text \<open>The same mailboxes behind Winsock.\<close>

definition demo_winsock :: "demo_state winsock_api" where
  "demo_winsock =
     \<lparr>ws_socket = (\<lambda>k. (3, k)), ws_bind = (\<lambda>k h a. (0, k)),
      ws_sendto = (\<lambda>(inbox, outbox) h data a. (int (length data), (inbox, outbox @ [(data, a)]))),
      ws_recvfrom = (\<lambda>(inbox, outbox) h n.
        case inbox of
          [] \<Rightarrow> (- 1, [], \<lparr>sin_port = 0, sin_addr = 0\<rparr>, (inbox, outbox))
        | (data, a) # rest \<Rightarrow> (int (min n (length data)), take n data, a, (rest, outbox))),
      ws_closesocket = (\<lambda>k h. k), ws_setsockopt = (\<lambda>k h opt. (0, k)),
      ws_inet_pton = (\<lambda>h. if h = [] then None else Some 1),
      ws_inet_ntop = (\<lambda>a. Some ''10.0.0.2''), ws_htons = (\<lambda>p. p), ws_ntohs = (\<lambda>p. p)\<rparr>"

lemma demo_winsock_ok [simp]: "winsock_ok demo_winsock"
  by (auto simp: winsock_ok_def demo_winsock_def SOCKET_ERROR_def split: list.splits)

section \<open>A node\<close>

definition demo_options :: "i64 options" where
  "demo_options = options_local demo_time ''node-a'' 9400 7000"

definition demo_config :: "i64 config" where
  "demo_config = to_config demo_time demo_options"

definition demo_context :: "i64 discovery_context" where
  "demo_context = make_context demo_config"

definition demo_platform :: "(i64, demo_state udp_socket) platform" where
  "demo_platform = linux_platform demo_time demo_kernel"

lemma demo_platform_simps [simp]:
  "pf_open demo_platform = socket_open demo_kernel"
  "pf_close demo_platform = socket_close demo_kernel"
  "pf_bind demo_platform = socket_bind demo_kernel"
  "pf_set_reuse_addr demo_platform = set_reuse_addr demo_kernel"
  "pf_set_broadcast demo_platform = set_broadcast demo_kernel"
  "pf_set_recv_timeout demo_platform = set_recv_timeout demo_time demo_kernel"
  "pf_set_send_timeout demo_platform = set_send_timeout demo_time demo_kernel"
  "pf_send_datagram demo_platform = socket_send_datagram demo_kernel"
  "pf_recv_datagram demo_platform = socket_recv_datagram demo_kernel"
  by (simp_all add: demo_platform_def)

definition demo_env :: "(i64, i64, (i64, demo_state udp_socket) udp_backend, string list) env" where
  "demo_env = udp_env demo_time demo_serializer demo_platform demo_transport id"

definition demo_backend :: "(i64, demo_state udp_socket) udp_backend" where
  "demo_backend = make_udp_backend demo_config (socket_default ([], []))"

definition demo_system :: "(i64, (i64, demo_state udp_socket) udp_backend, string list) system" where
  "demo_system = make_system demo_time demo_backend [] demo_clock"

lemma layout_id [simp]: "layout_ok id"
  by (simp add: layout_ok_def)

lemma demo_config_valid [simp]: "config_is_valid demo_time demo_config"
  by (simp add: config_is_valid_def demo_config_def demo_options_def to_config_def options_defs
      config_default_def)

lemma demo_config_checked [simp]: "config_checked demo_time demo_context = Inr demo_config"
  by (simp add: config_checked_Inr demo_context_def make_context_def)

definition demo_announcement :: "i64 announcement" where
  "demo_announcement = make_announcement 5000 ''node-b'' ''10.0.0.2'' 7001"

lemma demo_announcement_valid [simp]: "announcement_is_valid demo_time demo_announcement"
  by (simp add: announcement_is_valid_def demo_announcement_def make_announcement_def)

definition demo_running :: "(i64, (i64, demo_state udp_socket) udp_backend, string list) system" where
  "demo_running = demo_system\<lparr>eng_status := DS_Running,
     sys_backend := demo_backend\<lparr>ub_running := True, ub_socket := \<lparr>sock_fd = 3, sock_kernel = ([], [])\<rparr>\<rparr>\<rparr>"

lemma demo_running_facts [simp]:
  "clock_ok demo_time (sys_clock demo_running)"
  "engine_is_running demo_env demo_running"
  "sys_clock demo_running = demo_clock"
  "eng_registry demo_running = []"
  "sys_transport demo_running = []"
  by (simp_all add: demo_running_def demo_system_def make_system_def engine_is_running_def
      status_is_running_def demo_env_def udp_is_running_def)

end
