(* ===== verification/Codec_Properties.thy ===== *)
theory Codec_Properties
  imports Instances
begin

text \<open>
  The properties of the two codecs, the datagram layer and the client: what the decoders
  accept from the network, and what leaves the node.
\<close>

section \<open>Messages\<close>

text \<open>
  C2.  The message codec is exact: \<open>decode_message\<close> accepts a byte sequence with result \<open>m\<close> if
  and only if \<open>m\<close> is a valid message whose parts fit their 32-bit size prefixes and the bytes
  are exactly the encoding of \<open>m\<close>.  So decoding inverts encoding, every accepted message is
  valid, trailing or missing bytes are refused, and no message has two encodings.
\<close>

theorem message_codec_exact:
  assumes "serializer_ok S"
  shows "decode_message S d = Some (Some m) \<longleftrightarrow>
    message_is_valid m \<and> length (msg_from m) < 2 ^ 32 \<and> length (msg_to m) < 2 ^ 32 \<and>
    length (msg_correlation m) < 2 ^ 32 \<and> length (msg_payload m) < 2 ^ 32 \<and>
    encode_message S m = d"
  using msg.dec_iff [of S d m, OF assms] by (auto simp: message_fits_def u32_sized_def)

definition demo_message :: message where
  "demo_message = message_reply ''b'' [7, 8]"

theorem message_codec_exact_witness:
  "decode_message demo_serializer (encode_message demo_serializer demo_message) =
     Some (Some demo_message)"
  using message_codec_exact [OF demo_serializer_ok,
      of "encode_message demo_serializer demo_message" demo_message]
  by (simp add: demo_message_def message_defs message_is_valid_def message_type_is_valid_def)

text \<open>
  C18.  No input reads outside its buffer: on any bytes whatsoever, all four decoders of the
  message layer and both decoders of the announcement payload return, with a rejection or a
  valid value; the pointer overload also on \<open>nullptr\<close>.
\<close>

theorem decoders_total:
  assumes "serializer_ok S"
  shows "(\<exists>r. decode_message S d = Some r) \<and> (\<exists>r. decode_message_ptr S p = Some r) \<and>
    (\<exists>r. decode_message_buffer S d = Some r) \<and> (\<exists>r. decode_datagram S g = Some r) \<and>
    (\<exists>r. decode_announcement T S d = Some r) \<and>
    (\<exists>r. decode_announcement_buffer T S d = Some r)"
  using decode_message_no_fault [OF assms] decode_announcement_no_fault [OF assms]
  by (auto simp: decode_message_ptr_def decode_message_buffer_def decode_datagram_def
      decode_announcement_buffer_def split: option.splits)

theorem decoders_total_witness:
  "\<exists>r. decode_message demo_serializer [1, 255, 255, 255, 255, 0, 0, 0, 0, 0, 0, 0, 0, 0, 0, 0, 0] =
     Some r"
  using decoders_total [OF demo_serializer_ok] by blast

text \<open>
  C37.  A rejected message is never a fault of the encoder: bytes are refused exactly when they
  are the encoding of no message that fits, and a message that is not valid is encoded as the
  empty buffer, which no decoder accepts.
\<close>

theorem message_codec_rejects:
  assumes "serializer_ok S"
  shows "(decode_message S d = Some None \<longleftrightarrow>
      (\<forall>m. message_fits m \<longrightarrow> encode_message S m \<noteq> d)) \<and>
    (encode_message S m = [] \<longleftrightarrow> \<not> message_is_valid m) \<and>
    decode_message S [] = Some None \<and> decode_message_buffer S [] = Some None"
  using msg.dec_reject_iff [OF assms, of d] encode_message_empty_iff [OF assms, of m]
  by (auto simp: decode_message_def minimum_message_size_def decode_message_buffer_def)

theorem message_codec_rejects_witness:
  "encode_message demo_serializer message_default = []"
  using message_codec_rejects [OF demo_serializer_ok, of "[]" message_default]
  by (simp add: defaults_invalid)

text \<open>
  Each field of a message arrives unchanged and in its place: messages that fit have equal
  encodings only when they are equal, and the encoding has exactly 17 bytes more than the four
  variable fields together.
\<close>

lemma message_encoding_injective:
  assumes "serializer_ok S" and "message_fits m" and "message_fits m'"
  shows "(encode_message S m = encode_message S m' \<longleftrightarrow> m = m') \<and>
    length (encode_message S m) =
      17 + length (msg_from m) + length (msg_to m) + length (msg_correlation m) +
      length (msg_payload m)"
  using assms msg.enc_inject [OF assms] length_encode_message [OF assms(1), of m]
  by (auto simp: message_fits_def minimum_message_size_def)

lemma message_encoding_injective_witness:
  "encode_message demo_serializer (message_probe ''a'') \<noteq>
   encode_message demo_serializer (message_probe ''b'')"
  using message_encoding_injective [OF demo_serializer_ok, of "message_probe ''a''" "message_probe ''b''"]
  by (simp add: message_fits_def u32_sized_def message_defs message_is_valid_def
      message_type_is_valid_def)

section \<open>Announcements\<close>

text \<open>
  C17.  The announcement codec of the engine is exact in the same sense: it accepts exactly the
  encodings of valid announcements whose strings fit, the timestamp included.
\<close>

theorem announcement_codec_exact:
  assumes "timestamp_ok T" and "serializer_ok S"
  shows "decode_announcement_buffer T S d = Some (Some a) \<longleftrightarrow>
    announcement_is_valid T a \<and> length (ann_node_id a) < 2 ^ 32 \<and>
    length (ann_host a) < 2 ^ 32 \<and> encode_announcement T S a = d"
  using ann.dec_iff [of "(T, S)" d a] assms
  by (auto simp: decode_announcement_buffer_eq announcement_fits_def u32_sized_def)

theorem announcement_codec_exact_witness:
  "decode_announcement_buffer demo_time demo_serializer
     (encode_announcement demo_time demo_serializer demo_announcement) =
   Some (Some demo_announcement)"
  using announcement_codec_exact [OF demo_timestamp_ok demo_serializer_ok,
      of "encode_announcement demo_time demo_serializer demo_announcement" demo_announcement]
  by simp (simp add: demo_announcement_def make_announcement_def)

section \<open>Datagrams\<close>

text \<open>
  What one node sends another receives: the datagram that \<open>make_datagram\<close> builds for a
  message that fits and a real endpoint is valid, carries the endpoint, and decodes, under
  whatever source address it arrives, to the same message.
\<close>

lemma datagram_roundtrip:
  assumes "serializer_ok S" and "message_fits m" and "host \<noteq> []" and "port \<noteq> 0"
    and "from_host \<noteq> []" and "from_port \<noteq> 0"
  shows "datagram_is_valid (make_datagram S m host port) \<and>
    dg_host (make_datagram S m host port) = host \<and>
    dg_port (make_datagram S m host port) = port \<and>
    decode_datagram S (make_datagram_of from_host from_port
      (dg_payload (make_datagram S m host port))) = Some (Some m)"
proof -
  have ne: "encode_message S m \<noteq> []"
    using assms(1,2) by (simp add: encode_message_empty_iff message_fits_def)
  have dec: "decode_message S (encode_message S m) = Some (Some m)"
    by (rule decode_encode_message [OF assms(1,2)])
  show ?thesis
    using assms(3-) ne dec
    by (simp add: make_datagram_def Let_def datagram_defs decode_datagram_def
        decode_message_buffer_def)
qed

lemma datagram_roundtrip_witness:
  "decode_datagram demo_serializer (make_datagram_of ''10.0.0.9'' 9400
     (dg_payload (make_datagram demo_serializer demo_message ''10.0.0.2'' 9400))) =
   Some (Some demo_message)"
  using datagram_roundtrip [OF demo_serializer_ok, of demo_message "''10.0.0.2''" 9400 "''10.0.0.9''" 9400]
  by (simp add: message_fits_def u32_sized_def demo_message_def message_defs message_is_valid_def
      message_type_is_valid_def)

section \<open>Client\<close>

text \<open>
  \<open>DiscoveryClient::send_to\<close>, with a valid clock reading, refuses an empty host, port zero
  or an invalid message without touching backend or clock; anything else it hands to the
  backend exactly once, as a fresh envelope for that endpoint whose retry counter is 1, and
  reports the backend's answer.
\<close>

lemma client_send_to_spec:
  assumes "ts_is_valid T (readings c (ticks c))"
  shows "client_send_to T B host port m b c =
    (if host = [] \<or> port = 0 \<or> \<not> message_is_valid m then Some (False, b, c)
     else map_option (\<lambda>(sent, b'). (sent, b', c\<lparr>ticks := ticks c + 2\<rparr>))
       (be_send B b
         \<lparr>env_message = m, env_from_host = [], env_from_port = 0, env_to_host = host,
          env_to_port = port, env_timestamp = readings c (ticks c), env_retry_count = 1,
          env_last_attempt_at = readings c (ticks c + 1)\<rparr>))"
  using client_send_to_eq [of T c B host port m b] assms
  by (simp add: now_def envelope_defs envelope_mark_attempt_def)

lemma client_send_to_spec_witness:
  "client_send_to demo_time (udp_backend_api demo_time demo_serializer demo_platform) [] 9400
     demo_message demo_backend demo_clock = Some (False, demo_backend, demo_clock)"
  using client_send_to_spec [of demo_time demo_clock
      "udp_backend_api demo_time demo_serializer demo_platform" "[]" 9400 demo_message demo_backend]
  by (simp add: demo_clock_def)

text \<open>
  An attempt counts by one up to \<open>2 ^ 32 - 1\<close> and then starts again at zero; it stamps the
  attempt time and changes neither the message nor the endpoints nor the validity.
\<close>

lemma mark_attempt_wraps:
  "unat (env_retry_count (envelope_mark_attempt t e)) = (unat (env_retry_count e) + 1) mod 2 ^ 32 \<and>
   env_last_attempt_at (envelope_mark_attempt t e) = t \<and>
   env_message (envelope_mark_attempt t e) = env_message e \<and>
   envelope_has_destination (envelope_mark_attempt t e) = envelope_has_destination e \<and>
   envelope_is_valid T (envelope_mark_attempt t e) = envelope_is_valid T e \<and>
   (envelope_attempted (envelope_mark_attempt t e) \<longleftrightarrow> unat (env_retry_count e) \<noteq> 2 ^ 32 - 1)"
proof -
  have count: "unat (env_retry_count (envelope_mark_attempt t e)) =
      (unat (env_retry_count e) + 1) mod 2 ^ 32"
    by (simp add: envelope_mark_attempt_def unat_word_ariths)
  have "env_retry_count (envelope_mark_attempt t e) = 0 \<longleftrightarrow>
      unat (env_retry_count (envelope_mark_attempt t e)) = 0"
    by (simp add: unat_eq_zero)
  moreover have "unat (env_retry_count e) < 2 ^ 32"
    using unsigned_less [of "env_retry_count e", where ?'a = nat] by simp
  ultimately have "envelope_attempted (envelope_mark_attempt t e) \<longleftrightarrow>
      unat (env_retry_count e) \<noteq> 2 ^ 32 - 1"
    unfolding envelope_attempted_def word_neq_0_conv [symmetric] count
    by (auto simp: mod_Suc split: if_splits)
  then show ?thesis
    using count by (simp add: envelope_mark_attempt_def envelope_is_valid_def
        envelope_has_destination_def)
qed

end
