(* ===== verification/Registry_Properties.thy ===== *)
theory Registry_Properties
  imports Instances
begin

text \<open>
  The properties of the peer registry.  \<open>registry_get\<close> is the abstract view: the finite map
  from node ids to peers; the results hold for every layout of the hash map.
\<close>

lemma registry_get_find: "registry_get r = um_find r"
  by (rule ext) (simp add: registry_get_def)

definition demo_peer :: "i64 discovered_peer" where
  "demo_peer = make_discovered_peer 4000 (make_announcement 4000 ''b'' ''10.0.0.2'' 7001)"

definition demo_registry :: "i64 registry" where
  "demo_registry = [(''b'', demo_peer)]"

lemma demo_registry_facts [simp]:
  "peer_is_valid demo_time demo_peer"
  "registry_wf demo_time demo_registry"
  "um_wf demo_registry"
  "um_find demo_registry ''b'' = Some demo_peer"
  "dp_state demo_peer = PS_Discovered"
  "dp_last_seen_at demo_peer = 4000"
  by (simp_all add: demo_registry_def demo_peer_def registry_wf_def um_wf_def um_find_def
      announcement_is_valid_def make_announcement_def peer_node_id_def)

text \<open>
  C15.  Whatever sequence of public operations has been applied to a new registry, with any
  arguments, writes through the pointer of \<open>find\<close> that keep the id and the validity of the peer included, it holds at most one peer per node id, files every peer under its own id, and
  holds only valid peers; \<open>get\<close>, \<open>contains\<close>, \<open>all\<close> and \<open>size\<close> agree on what it holds.
\<close>

theorem registry_invariant:
  assumes "registry_reachable T (r, c)"
  shows "distinct (map peer_node_id (registry_all r)) \<and>
    (\<forall>k p. registry_get r k = Some p \<longrightarrow> peer_node_id p = k \<and> peer_is_valid T p) \<and>
    (\<forall>p. p \<in> set (registry_all r) \<longleftrightarrow> registry_get r (peer_node_id p) = Some p) \<and>
    (\<forall>k. registry_contains r k \<longleftrightarrow> registry_get r k \<noteq> None) \<and>
    registry_size r = card {k. registry_contains r k}"
proof -
  have wf: "registry_wf T r" using registry_reachable_wf [OF assms] by simp
  note um = registry_wf_um [OF wf]
  have keys: "map peer_node_id (registry_all r) = map fst r"
    using wf by (auto simp: registry_all_def registry_wf_def)
  have mem: "p \<in> set (registry_all r) \<longleftrightarrow> registry_get r (peer_node_id p) = Some p" for p
    using wf um by (force simp: registry_all_def registry_wf_def registry_get_def um_find_def um_wf_def)
  have size: "registry_size r = card {k. registry_contains r k}"
    using um.size_entries [OF um] by (simp add: registry_size_def registry_contains_def dom_def)
  show ?thesis
    using registry_wfD [OF wf] um mem size
    by (simp add: registry_get_find registry_contains_def keys um_wf_def)
qed

definition demo_learned :: "i64 registry \<times> i64 clock" where
  "demo_learned = registry_upsert_announcement demo_time id [] demo_announcement demo_clock"

lemma demo_learned_reachable: "registry_reachable demo_time (fst demo_learned, snd demo_learned)"
  unfolding demo_learned_def prod.collapse
  by (rule registry_reachable.steps [OF registry_reachable.starts registry_step.announces]) simp

theorem registry_invariant_witness:
  "registry_size (fst demo_learned) = card {k. registry_contains (fst demo_learned) k}"
  using registry_invariant [OF demo_learned_reachable] by blast

section \<open>Insertion\<close>

text \<open>
  C14.  \<open>upsert_announcement\<close> is the update of one key: an invalid announcement changes nothing;
  a valid one makes the peer with its id known, alive, with this announcement and a fresh time
  of last contact; a known peer keeps its error counter and a new one starts at zero; every
  other peer stays as it is, whatever the hash map does with the order of its entries, and the
  registry grows by one exactly when the id is new.
\<close>

theorem registry_upsert_announcement_spec:
  assumes "layout_ok L" and "registry_wf T r"
  shows "registry_get (fst (registry_upsert_announcement T L r a c)) =
      (if \<not> announcement_is_valid T a then registry_get r
       else (registry_get r)(ann_node_id a \<mapsto>
         \<lparr>dp_announcement = a, dp_state = PS_Alive,
          dp_last_seen_at =
            readings c (if registry_contains r (ann_node_id a) then ticks c else ticks c + 1),
          dp_error_count =
            (case registry_get r (ann_node_id a) of None \<Rightarrow> 0 | Some p \<Rightarrow> dp_error_count p)\<rparr>)) \<and>
    registry_wf T (fst (registry_upsert_announcement T L r a c)) \<and>
    registry_size (fst (registry_upsert_announcement T L r a c)) =
      registry_size r +
      (if announcement_is_valid T a \<and> \<not> registry_contains r (ann_node_id a) then 1 else 0)"
proof (cases "announcement_is_valid T a")
  case True
  note um = registry_wf_um [OF assms(2)]
  let ?r' = "fst (registry_upsert_announcement T L r a c)"
  have wf: "registry_wf T ?r'" by (rule upsert_announcement_wf [OF assms])
  have look: "um_find ?r' = (um_find r)(ann_node_id a \<mapsto> announced_peer r a c)"
    by (rule upsert_announcement_lookup [OF assms(1) um True])
  have p: "announced_peer r a c = \<lparr>dp_announcement = a, dp_state = PS_Alive,
      dp_last_seen_at =
        readings c (if registry_contains r (ann_node_id a) then ticks c else ticks c + 1),
      dp_error_count =
        (case registry_get r (ann_node_id a) of None \<Rightarrow> 0 | Some p \<Rightarrow> dp_error_count p)\<rparr>"
    by (auto simp: announced_peer_def registry_contains_def registry_get_def peer_mark_defs
        make_discovered_peer_def split: option.splits)
  have "length ?r' = card (dom (um_find ?r'))" "length r = card (dom (um_find r))"
    using um.size_entries [OF registry_wf_um [OF wf]] um.size_entries [OF um] by simp_all
  then have "length ?r' = length r + (if um_find r (ann_node_id a) = None then 1 else 0)"
    using um.finite_dom [OF um]
    by (auto simp: look domIff insert_absorb domI card_insert_if)
  then show ?thesis
    using True look wf p by (simp add: registry_get_find registry_size_def registry_contains_def)
qed (simp add: upsert_announcement_invalid assms)

theorem registry_upsert_announcement_spec_witness:
  "registry_size (fst (registry_upsert_announcement demo_time id demo_registry demo_announcement
     demo_clock)) = registry_size demo_registry + 1"
proof -
  have "\<not> registry_contains demo_registry (ann_node_id demo_announcement)"
    by (simp add: registry_contains_def demo_registry_def um_find_def demo_announcement_def
        make_announcement_def)
  with registry_upsert_announcement_spec [OF layout_id, of demo_time demo_registry
      demo_announcement demo_clock]
  show ?thesis by simp
qed

section \<open>Updates of one peer\<close>

definition updates_peer ::
    "('t discovered_peer \<Rightarrow> 't discovered_peer) \<Rightarrow> 't registry \<Rightarrow> string \<Rightarrow>
     bool \<times> 't registry \<times> 't clock \<Rightarrow> bool" where
  "updates_peer f r k res \<longleftrightarrow>
     (fst res \<longleftrightarrow> registry_contains r k) \<and>
     registry_get (fst (snd res)) = (registry_get r)(k := map_option f (registry_get r k)) \<and>
     map fst (fst (snd res)) = map fst r"

lemma rewrites_updates:
  assumes "\<exists>b r' c'. res = (b, r', c') \<and> registry_rewrites f r k (b, r')" and "um_wf r"
  shows "updates_peer f r k res"
proof -
  obtain b r' c' where res: "res = (b, r', c')" and rw: "registry_rewrites f r k (b, r')"
    using assms(1) by blast
  have "map fst r' = map fst r"
    using rw by (auto simp: registry_rewrites_def um_modify_def split: if_splits)
  with registry_rewrites_lookup [OF rw assms(2)] show ?thesis
    by (simp add: updates_peer_def res registry_get_find registry_contains_def)
qed

lemma peer_marks_as_updates:
  "peer_touch t = (\<lambda>p. p\<lparr>dp_last_seen_at := t\<rparr>)"
  "peer_mark_discovered t = (\<lambda>p. p\<lparr>dp_state := PS_Discovered, dp_last_seen_at := t\<rparr>)"
  "peer_mark_alive t = (\<lambda>p. p\<lparr>dp_state := PS_Alive, dp_last_seen_at := t\<rparr>)"
  "peer_mark_stale t = (\<lambda>p. p\<lparr>dp_state := PS_Stale, dp_last_seen_at := t\<rparr>)"
  "peer_mark_expired t = (\<lambda>p. p\<lparr>dp_state := PS_Expired, dp_last_seen_at := t\<rparr>)"
  "peer_mark_error t = (\<lambda>p. p\<lparr>dp_error_count := dp_error_count p + 1, dp_last_seen_at := t\<rparr>)"
  by (rule ext; simp add: peer_mark_defs)+

text \<open>
  The operations that change one peer report whether the id is known, change only that
  peer, and keep the order of the map: the marks set the state and refresh the time of last
  contact, \<open>touch\<close> only the time, \<open>mark_error\<close> also counts an error, and \<open>set_state\<close> refuses
  a state that is not one of the four proper ones without looking the peer up.
\<close>

lemma registry_peer_updates:
  assumes "um_wf r"
  shows "updates_peer (\<lambda>p. p\<lparr>dp_state := PS_Discovered, dp_last_seen_at := fst (now c)\<rparr>) r k
      (registry_mark_discovered r k c) \<and>
    updates_peer (\<lambda>p. p\<lparr>dp_state := PS_Alive, dp_last_seen_at := fst (now c)\<rparr>) r k
      (registry_mark_alive r k c) \<and>
    updates_peer (\<lambda>p. p\<lparr>dp_state := PS_Stale, dp_last_seen_at := fst (now c)\<rparr>) r k
      (registry_mark_stale r k c) \<and>
    updates_peer (\<lambda>p. p\<lparr>dp_state := PS_Expired, dp_last_seen_at := fst (now c)\<rparr>) r k
      (registry_mark_expired r k c) \<and>
    updates_peer (\<lambda>p. p\<lparr>dp_last_seen_at := fst (now c)\<rparr>) r k (registry_touch r k c) \<and>
    updates_peer (\<lambda>p. p\<lparr>dp_error_count := dp_error_count p + 1, dp_last_seen_at := fst (now c)\<rparr>)
      r k (registry_mark_error r k c) \<and>
    (if peer_state_is_valid st
     then updates_peer (\<lambda>p. p\<lparr>dp_state := st, dp_last_seen_at := fst (now c)\<rparr>) r k
       (registry_set_state r k st c)
     else registry_set_state r k st c = (False, r, c))"
proof -
  note rewritten = registry_updates_rewrite [where r = r and k = k and c = c]
  note updates = rewritten(1-6) [THEN rewrites_updates, OF assms, unfolded peer_marks_as_updates]
  have set_state: "updates_peer (\<lambda>p. p\<lparr>dp_state := st, dp_last_seen_at := fst (now c)\<rparr>) r k
      (registry_set_state r k st c)" if "peer_state_is_valid st"
    using rewritten(7) [OF that, THEN rewrites_updates, OF assms]
    by (simp add: peer_marks_as_updates)
  show ?thesis using updates set_state by (simp add: registry_set_state_def)
qed

lemma registry_peer_updates_witness:
  "fst (registry_mark_stale demo_registry ''b'' demo_clock) \<and>
   \<not> fst (registry_mark_stale demo_registry ''c'' demo_clock)"
proof -
  have "updates_peer (\<lambda>p. p\<lparr>dp_state := PS_Stale, dp_last_seen_at := fst (now demo_clock)\<rparr>)
      demo_registry k (registry_mark_stale demo_registry k demo_clock)" for k
    using registry_peer_updates [of demo_registry demo_clock k PS_Alive] by simp
  from this [of "''b''"] this [of "''c''"] show ?thesis
    by (simp add: updates_peer_def registry_contains_def demo_registry_def um_find_def)
qed

text \<open>
  \<open>erase\<close> and \<open>touch\<close> with a time argument: \<open>erase\<close> removes exactly the peer with this id
  and reports whether there was one; \<open>touch\<close> with an invalid time or an unknown id is refused
  and changes nothing, otherwise it sets the time of last contact of that peer only.
\<close>

lemma registry_erase_touch_at:
  assumes "um_wf r"
  shows "(fst (registry_erase r k) \<longleftrightarrow> registry_contains r k) \<and>
    registry_get (snd (registry_erase r k)) = (registry_get r)(k := None) \<and>
    (fst (registry_touch_at T r k t) \<longleftrightarrow> ts_is_valid T t \<and> registry_contains r k) \<and>
    registry_get (snd (registry_touch_at T r k t)) =
      (if ts_is_valid T t
       then (registry_get r)(k := map_option (\<lambda>p. p\<lparr>dp_last_seen_at := t\<rparr>) (registry_get r k))
       else registry_get r)"
  using um.lookup_erase [OF assms, of k] um.erase_count [OF assms, of k]
  by (auto simp: registry_erase_def registry_contains_def registry_get_find registry_touch_at_def
      registry_find_def um.lookup_modify [OF assms] fun_upd_idem case_prod_unfold Let_def
      split: option.splits)

lemma registry_erase_touch_at_witness:
  "registry_get (snd (registry_erase demo_registry ''b'')) ''b'' = None"
  using registry_erase_touch_at [of demo_registry "''b''" demo_time 0] by simp

section \<open>Ageing\<close>

text \<open>
  C11.  \<open>refresh_states\<close> at a valid time returns (its 64-bit subtraction cannot overflow) and
  rewrites, in place, only the states: a peer that was never seen keeps its state; a peer that is
  not expired becomes expired at \<open>expire_after\<close>, else stale at \<open>stale_after\<close>, else keeps its
  state; an expired one becomes stale at \<open>stale_after\<close>.  The result counts the changed states.
\<close>

theorem refresh_states_spec:
  assumes "timestamp_ok T" and "ts_is_valid T t"
  defines "age p \<equiv> sint (ts_millis T t) - sint (ts_millis T (dp_last_seen_at p))"
  shows "\<exists>n r'. refresh_states T r t stale expire = Some (n, r') \<and>
    map fst r' = map fst r \<and>
    n = length (filter (\<lambda>(p, p'). dp_state p' \<noteq> dp_state p) (zip (registry_all r) (registry_all r'))) \<and>
    (\<forall>k. registry_get r' k = map_option (\<lambda>p. p\<lparr>dp_state :=
        if \<not> ts_is_valid T (dp_last_seen_at p) then dp_state p
        else if dp_state p \<noteq> PS_Expired \<and> sint (dur_millis T expire) \<le> age p then PS_Expired
        else if sint (dur_millis T stale) \<le> age p then PS_Stale
        else dp_state p\<rparr>) (registry_get r k))"
proof -
  let ?f = "refreshed_peer T t stale expire"
  let ?r' = "map (\<lambda>(k, p). (k, ?f p)) r"
  have f: "?f = (\<lambda>p. p\<lparr>dp_state :=
        if \<not> ts_is_valid T (dp_last_seen_at p) then dp_state p
        else if dp_state p \<noteq> PS_Expired \<and> sint (dur_millis T expire) \<le> age p then PS_Expired
        else if sint (dur_millis T stale) \<le> age p then PS_Stale
        else dp_state p\<rparr>)"
    by (rule ext) (simp add: refreshed_peer_def refreshed_state_def peer_age_def age_def)
  have count: "length (filter (\<lambda>(k, p). dp_state (?f p) \<noteq> dp_state p) r) =
      length (filter (\<lambda>(p, p'). dp_state p' \<noteq> dp_state p) (zip (registry_all r) (registry_all ?r')))"
    by (induction r) (auto simp: registry_all_def)
  have keys: "map fst ?r' = map fst r" by (induction r) auto
  show ?thesis
    using refresh_states_eq [OF assms(1,2), of r stale expire] count keys
      um_find_map [of ?f r]
    by (simp add: registry_get_find flip: f)
qed

theorem refresh_states_spec_witness:
  "\<exists>n r'. refresh_states demo_time demo_registry 5000 1000 2000 = Some (n, r') \<and>
     registry_get r' ''b'' = Some (demo_peer\<lparr>dp_state := PS_Stale\<rparr>)"
  using refresh_states_spec [OF demo_timestamp_ok, of 5000 demo_registry 1000 2000]
  by (auto simp: registry_get_find)

text \<open>
  C30.  A refresh brings an expired peer back: an expired peer that has been silent for at least
  \<open>stale_after\<close> (so every peer that expired by age) is marked stale by the next refresh, and the
  list of transport peers, which leaves expired peers out, contains it again.
\<close>

theorem refresh_revives_expired:
  assumes "timestamp_ok T" and "ts_is_valid T t" and "um_wf r" and "registry_get r k = Some p"
    and "dp_state p = PS_Expired" and "ts_is_valid T (dp_last_seen_at p)"
    and "sint (dur_millis T stale) \<le>
      sint (ts_millis T t) - sint (ts_millis T (dp_last_seen_at p))"
    and "peer_info_is_valid X (to_peer_info p)"
  shows "\<exists>n r'. refresh_states T r t stale expire = Some (n, r') \<and> 0 < n \<and>
    registry_get r' k = Some (p\<lparr>dp_state := PS_Stale\<rparr>) \<and>
    to_peer_info p \<in> set (transport_peers X r')"
proof -
  let ?f = "refreshed_peer T t stale expire"
  let ?r' = "map (\<lambda>(k, p). (k, ?f p)) r"
  let ?q = "p\<lparr>dp_state := PS_Stale\<rparr>"
  have f: "?f p = ?q"
    using assms by (simp add: refreshed_peer_def refreshed_state_def peer_age_def)
  have mem: "(k, p) \<in> set r"
    using assms(3,4) by (simp add: registry_get_def um_find_def map_of_SomeD)
  have "(k, ?q) \<in> set ?r'" using mem f by force
  moreover have "to_peer_info ?q \<in> set (transport_peers X rs)" if "(k, ?q) \<in> set rs" for rs
    using that assms(8) by (induction rs) (auto simp: transport_peers_def peer_expired_def to_peer_info_def)
  ultimately have "to_peer_info ?q \<in> set (transport_peers X ?r')" by blast
  then have listed: "to_peer_info p \<in> set (transport_peers X ?r')" by (simp add: to_peer_info_def)
  have "(k, p) \<in> set (filter (\<lambda>(k, p). dp_state (?f p) \<noteq> dp_state p) r)"
    using mem f assms(5) by simp
  then have "0 < length (filter (\<lambda>(k, p). dp_state (?f p) \<noteq> dp_state p) r)"
    by (metis length_pos_if_in_set)
  then show ?thesis
    using refresh_states_eq [OF assms(1,2), of r stale expire] listed
      um_find_map [of ?f r k] assms(4) f
    by (auto simp: registry_get_find)
qed

definition demo_expired :: "i64 registry" where
  "demo_expired = [(''b'', demo_peer\<lparr>dp_state := PS_Expired\<rparr>)]"

theorem refresh_revives_expired_witness:
  "\<exists>n r'. refresh_states demo_time demo_expired 9000 1000 2000 = Some (n, r') \<and> 0 < n \<and>
     registry_get r' ''b'' = Some (demo_peer\<lparr>dp_state := PS_Stale\<rparr>) \<and>
     to_peer_info demo_peer \<in> set (transport_peers demo_transport r')"
  using refresh_revives_expired [OF demo_timestamp_ok, of 9000 demo_expired "''b''"
      "demo_peer\<lparr>dp_state := PS_Expired\<rparr>" 1000 demo_transport 2000]
  by (simp add: demo_expired_def um_wf_def registry_get_def um_find_def to_peer_info_def
      demo_transport_def demo_peer_def make_discovered_peer_def make_announcement_def)

section \<open>Removal and listings\<close>

text \<open>
  \<open>prune_expired\<close> removes exactly the expired peers, reports how many they were, keeps every
  other peer with its data and the order, and leaves nothing to prune.
\<close>

lemma prune_expired_spec:
  assumes "um_wf r"
  shows "registry_get (snd (prune_expired r)) =
      (\<lambda>k. case registry_get r k of None \<Rightarrow> None
        | Some p \<Rightarrow> if dp_state p = PS_Expired then None else Some p) \<and>
    fst (prune_expired r) = length (expired_peers r) \<and>
    registry_size (snd (prune_expired r)) + fst (prune_expired r) = registry_size r \<and>
    registry_all (snd (prune_expired r)) = filter (\<lambda>p. dp_state p \<noteq> PS_Expired) (registry_all r) \<and>
    prune_expired (snd (prune_expired r)) = (0, snd (prune_expired r))"
proof -
  have find: "um_find (filter (\<lambda>(k, p). \<not> peer_expired p) r) k =
      (case um_find r k of None \<Rightarrow> None | Some p \<Rightarrow> if dp_state p = PS_Expired then None else Some p)"
    for k
    by (subst um_find_filter [OF assms]) (auto simp: peer_expired_def split: option.splits)
  have count: "length (filter (\<lambda>(k, p). peer_expired p) r) = length (expired_peers r)"
    by (induction r) (auto simp: expired_peers_def by_state_def peer_expired_def)
  have size: "length (filter (\<lambda>(k, p). \<not> peer_expired p) r) +
      length (filter (\<lambda>(k, p). peer_expired p) r) = length r"
    by (induction r) auto
  have all: "map snd (filter (\<lambda>(k, p). \<not> peer_expired p) r) =
      filter (\<lambda>p. dp_state p \<noteq> PS_Expired) (map snd r)"
    by (induction r) (auto simp: peer_expired_def)
  have "filter (\<lambda>(k, p). peer_expired p) (filter (\<lambda>(k, p). \<not> peer_expired p) r) = []"
    by (induction r) auto
  then show ?thesis
    using find count size all
    by (simp add: prune_expired_eq registry_get_find fun_eq_iff registry_size_def registry_all_def)
qed

lemma prune_expired_spec_witness:
  "prune_expired (snd (prune_expired demo_expired)) = (0, snd (prune_expired demo_expired))"
  using prune_expired_spec [of demo_expired] by (simp add: demo_expired_def um_wf_def)

lemma listing_members:
  assumes "um_wf r"
  shows "p \<in> set [q. (_, q) \<leftarrow> r, P q] \<longleftrightarrow> (\<exists>k. registry_get r k = Some p \<and> P p)"
proof -
  have "(\<exists>k. registry_get r k = Some p) \<longleftrightarrow> (\<exists>k. (k, p) \<in> set r)"
    using assms by (auto simp: registry_get_def um_find_def um_wf_def dest: map_of_SomeD)
  moreover have "p \<in> set [q. (_, q) \<leftarrow> r, P q] \<longleftrightarrow> (\<exists>k. (k, p) \<in> set r) \<and> P p"
    by (induction r) auto
  ultimately show ?thesis by auto
qed

text \<open>
  C31.  The listings partition a well-formed registry: \<open>available_peers\<close> are the discovered and
  the alive ones, the four states together account for every peer, \<open>by_state\<close> lists exactly the
  peers of its state, and \<open>transport_peers\<close> lists the endpoint of every peer that is not
  expired and that the transport accepts, stale ones included.
\<close>

theorem registry_listings:
  assumes "registry_wf T r"
  shows "(\<forall>st p. p \<in> set (by_state r st) \<longleftrightarrow> (\<exists>k. registry_get r k = Some p \<and> dp_state p = st)) \<and>
    (\<forall>p. p \<in> set (available_peers r) \<longleftrightarrow>
      p \<in> set (by_state r PS_Discovered) \<or> p \<in> set (alive_peers r)) \<and>
    registry_size r = length (available_peers r) + length (stale_peers r) + length (expired_peers r) \<and>
    (\<forall>i. i \<in> set (transport_peers X r) \<longleftrightarrow>
      (\<exists>k p. registry_get r k = Some p \<and> dp_state p \<noteq> PS_Expired \<and> i = to_peer_info p \<and>
        peer_info_is_valid X i))"
proof -
  note um = registry_wf_um [OF assms]
  have state: "p \<in> set (by_state r st) \<longleftrightarrow> (\<exists>k. registry_get r k = Some p \<and> dp_state p = st)" for p st
    unfolding by_state_def by (rule listing_members [OF um])
  have avail: "p \<in> set (available_peers r) \<longleftrightarrow> (\<exists>k. registry_get r k = Some p \<and> peer_available p)" for p
    unfolding available_peers_def by (rule listing_members [OF um])
  have count: "length rs = length (available_peers rs) + length (stale_peers rs) + length (expired_peers rs)"
    if "\<forall>(k, p) \<in> set rs. peer_is_valid T p" for rs :: "'a registry"
    using that
    by (induction rs) (auto simp: available_peers_def stale_peers_def expired_peers_def by_state_def
        peer_available_def is_available_def peer_is_valid_def peer_state_is_valid_def)
  have "\<forall>(k, p) \<in> set r. peer_is_valid T p"
    using assms by (auto simp: registry_wf_def)
  from count [OF this] have size: "registry_size r =
      length (available_peers r) + length (stale_peers r) + length (expired_peers r)"
    by (simp add: registry_size_def)
  let ?P = "\<lambda>q. dp_state q \<noteq> PS_Expired \<and> peer_info_is_valid X (to_peer_info q)"
  have "i \<in> set (transport_peers X r) \<longleftrightarrow>
      (\<exists>p. p \<in> set [q. (_, q) \<leftarrow> r, ?P q] \<and> i = to_peer_info p)" for i
    by (induction r) (auto simp: transport_peers_def peer_expired_def)
  then have trans: "i \<in> set (transport_peers X r) \<longleftrightarrow>
      (\<exists>k p. registry_get r k = Some p \<and> dp_state p \<noteq> PS_Expired \<and> i = to_peer_info p \<and>
        peer_info_is_valid X i)" for i
    unfolding listing_members [OF um] by auto
  have "p \<in> set (available_peers r) \<longleftrightarrow>
      p \<in> set (by_state r PS_Discovered) \<or> p \<in> set (alive_peers r)" for p
    unfolding avail alive_peers_def state peer_available_def is_available_def by blast
  with state size trans show ?thesis by blast
qed

theorem registry_listings_witness:
  "registry_size demo_registry = length (available_peers demo_registry) +
     length (stale_peers demo_registry) + length (expired_peers demo_registry)"
  using registry_listings [of demo_time demo_registry demo_transport] by simp

end
