(* ===== verification/Exchange.thy ===== *)
theory Exchange
  imports Engine_Behaviour
begin

text \<open>
  Two nodes: the messages that one engine builds fit the wire format, so they arrive
  unchanged at another engine, which learns the sender.  These are the lemmas behind the
  exchange properties; they hold for any backend.
\<close>

section \<open>Engine messages fit the wire\<close>

lemma length_decimal: "n < 10 ^ Suc k \<Longrightarrow> length (decimal n) \<le> Suc k"
proof (induction k arbitrary: n)
  case 0
  then show ?case by (subst decimal.simps) simp
next
  case (Suc k)
  then have "n div 10 < 10 ^ Suc k" by (simp add: less_mult_imp_div_less)
  then have "length (decimal (n div 10)) \<le> Suc k" by (rule Suc.IH)
  then show ?case by (subst decimal.simps) simp
qed

lemma length_int_to_string: "length (int_to_string (sint (i :: i64))) \<le> 20"
proof -
  have "nat (- sint i) < 10 ^ Suc 18" "nat (sint i) < 10 ^ Suc 18"
    using sint_i64_bounds [of i] by auto
  from this [THEN length_decimal] show ?thesis by (simp add: int_to_string_def)
qed

text \<open>A configuration whose identity fits the 32-bit prefixes of payload and message.\<close>

definition identity_fits :: "'d config \<Rightarrow> bool" where
  "identity_fits c \<longleftrightarrow> length (cfg_node_id c) + length (cfg_announce_host c) + 18 < 2 ^ 32"

lemma local_announcement_fits:
  assumes "config_checked T ctx = Inr c" and "identity_fits c" and "ts_is_valid T t"
  shows "announcement_fits T (local_announcement c t)"
  using assms local_announcement_valid [OF assms(1,3)]
  by (simp add: announcement_fits_def u32_sized_def identity_fits_def local_announcement_def
      make_announcement_def)

lemma local_payload_sized:
  assumes "serializer_ok S" and "config_checked T ctx = Inr c" and "identity_fits c"
    and "ts_is_valid T t"
  shows "u32_sized (encode_announcement T S (local_announcement c t))"
  using length_encode_announcement [OF assms(1) local_announcement_valid [OF assms(2,4)]] assms(3)
  by (simp add: u32_sized_def identity_fits_def local_announcement_def make_announcement_def)

lemma engine_messages_fit:
  assumes "serializer_ok (api_serializer E)" and c: "config_checked (api_time E) ctx = Inr c"
    and "identity_fits c" and "ts_is_valid (api_time E) t"
  shows "message_fits (announce_message_at E c t t')"
    and "message_fits (probe_message_at E c t')"
    and "u32_sized (msg_from m) \<Longrightarrow> u32_sized (msg_correlation m) \<Longrightarrow>
      message_fits (reply_message_at E c m t)"
  using local_payload_sized [OF assms] engine_messages_valid [OF c] assms(3)
    length_int_to_string [of "ts_millis (api_time E) t'"]
  by (auto simp: message_fits_def announce_message_at_def probe_message_at_def reply_message_at_def
      u32_sized_def identity_fits_def)

section \<open>Arrival\<close>

text \<open>A message travels: encoded by one node, decoded by another from any source endpoint.\<close>

lemma message_travels:
  assumes "serializer_ok S" and "message_fits m" and "to_host \<noteq> []" and "to_port \<noteq> 0"
    and "from_host \<noteq> []" and "from_port \<noteq> 0"
  shows "decode_datagram S (make_datagram_of from_host from_port
      (dg_payload (make_datagram S m to_host to_port))) = Some (Some m)"
  using assms decode_encode_message [OF assms(1,2)]
  by (simp add: make_datagram_def Let_def datagram_defs decode_datagram_def message_fits_def
      encode_message_empty_iff decode_message_buffer_def)

text \<open>An announce or reply that carries the announcement of another node is learned.\<close>

lemma handle_inbound_learns:
  assumes T: "timestamp_ok (api_time E)" and S: "serializer_ok (api_serializer E)"
    and a: "announcement_fits (api_time E) a"
    and m: "message_is_valid (env_message e)"
      "msg_type (env_message e) = MT_Announce \<or> msg_type (env_message e) = MT_Reply"
      "msg_payload (env_message e) = encode_announcement (api_time E) (api_serializer E) a"
    and other: "msg_from (env_message e) \<noteq> local_node_id E ctx" "ann_node_id a \<noteq> local_node_id E ctx"
  shows "handle_inbound E ctx (Some e) s =
    Some (True, integrate_with_transport E ctx a (upsert_discovered_peer E a s))"
proof -
  have "decode_announcement (api_time E) (api_serializer E) (msg_payload (env_message e)) =
      Some (Some a)"
    by (simp only: m(3) decode_encode_announcement [OF T S a])
  from handle_announce_eq [OF T S this, of ctx s] other m(1,2) show ?thesis
    by (auto simp: handle_inbound_def handle_reply_announce)
qed

lemma learned_registry:
  assumes "layout_ok (api_layout E)" and "registry_wf (api_time E) (eng_registry s)"
    and "announcement_is_valid (api_time E) a"
  shows "um_find (eng_registry (integrate_with_transport E ctx a (upsert_discovered_peer E a s))) =
    (um_find (eng_registry s))
      (ann_node_id a \<mapsto> announced_peer (eng_registry s) a (sys_clock s))"
  using upsert_announcement_lookup [OF assms(1) registry_wf_um [OF assms(2)] assms(3)]
  by (simp add: learn_frame)

end
