(* ===== verification/Scenario.thy ===== *)
theory Scenario
  imports Instances Exchange
begin

text \<open>
  A concrete history on the packages of \<open>Instances\<close>: a node is created, started, and finds
  the announcement of a second node in its inbox.  One poll announces the node itself, learns
  the second one and connects the transport engine to it.  The witnesses of the invariants
  refer to the state that is reached.
\<close>

definition demo_config_b :: "i64 config" where
  "demo_config_b = to_config demo_time (options_local demo_time ''node-b'' 9400 7001)"

lemma demo_config_b_facts [simp]:
  "config_checked demo_time (make_context demo_config_b) = Inr demo_config_b"
  "identity_fits demo_config_b"
  "cfg_node_id demo_config_b = ''node-b''"
  "local_node_id (udp_env demo_time S P X L) demo_context = ''node-a''"
  by (simp_all add: config_checked_Inr make_context_def config_is_valid_def demo_config_b_def
      to_config_def options_defs config_default_def identity_fits_def local_node_id_def)
    (simp add: demo_config_def demo_options_def to_config_def options_defs)

lemma demo_config_fields [simp]:
  "cfg_node_id demo_config = ''node-a''" "cfg_bind_host demo_config = ''127.0.0.1''"
  "cfg_broadcast_host demo_config = ''127.0.0.1''" "cfg_broadcast_port demo_config = 9400"
  "cfg_max_datagram_size demo_config = 65536"
  by (simp_all add: demo_config_def demo_options_def to_config_def options_defs config_default_def)

lemma demo_c_str [simp]: "c_str ''127.0.0.1'' = ''127.0.0.1''"
  by (simp add: c_str_def)

lemma int_to_string_5000: "int_to_string 5000 = ''5000''"
proof -
  have "char_of (53 :: nat) = CHR ''5''" "char_of (48 :: nat) = CHR ''0''"
    by (simp_all add: char_of_def bit_0)
  then show ?thesis by (simp add: int_to_string_def decimal.simps)
qed

section \<open>The backend at work\<close>

definition demo_mail_of :: "i64 config \<Rightarrow> demo_state \<Rightarrow> (i64, demo_state udp_socket) udp_backend" where
  "demo_mail_of c k =
     \<lparr>ub_config = c, ub_running = True, ub_socket = \<lparr>sock_fd = 3, sock_kernel = k\<rparr>\<rparr>"

abbreviation demo_mail :: "demo_state \<Rightarrow> (i64, demo_state udp_socket) udp_backend" where
  "demo_mail \<equiv> demo_mail_of demo_config"

lemma demo_mail_running [simp]: "udp_is_running (demo_mail_of c k)"
  by (simp add: demo_mail_of_def udp_is_running_def)

lemma demo_backend_starts:
  assumes "config_is_valid demo_time c" and "c_str (cfg_bind_host c) \<noteq> []"
  shows "udp_start demo_time demo_platform (make_udp_backend c (socket_default k)) =
    Some (True, demo_mail_of c k)"
  using assms
  by (simp add: udp_start_def make_udp_backend_def socket_open_def socket_close_def
      socket_default_def configure_socket_def socket_option_defs socket_setsockopt_def
      socket_is_valid_def socket_bind_def make_sockaddr_def Let_def demo_kernel_def c_str_def
      demo_mail_of_def)

lemma demo_mail_send:
  assumes "message_is_valid (env_message e)" and "0 < sint (env_timestamp e)"
    and "c_str (env_to_host e) \<noteq> []" and "env_to_port e \<noteq> 0"
  shows "\<exists>outbox'. udp_send demo_time demo_serializer demo_platform (demo_mail_of c (inbox, outbox)) e =
    Some (True, demo_mail_of c (inbox, outbox'))"
proof -
  have "encode_message demo_serializer (env_message e) \<noteq> []"
    using assms(1) by (simp add: encode_message_empty_iff)
  moreover have "env_to_host e \<noteq> []" using assms(3) by (auto simp: c_str_def)
  ultimately show ?thesis using assms
    by (simp add: udp_send_def demo_mail_of_def envelope_is_valid_def envelope_has_destination_def
        make_datagram_def Let_def datagram_defs socket_send_datagram_def socket_send_to_def
        socket_is_valid_def make_sockaddr_def demo_kernel_def send_loop.simps)
qed

lemma demo_mail_poll:
  assumes fits: "message_fits m" and len: "length (encode_message demo_serializer m) \<le> 65536"
  shows "\<exists>e c'. udp_poll demo_time demo_serializer demo_platform
      (demo_mail ((encode_message demo_serializer m, \<lparr>sin_port = 9400, sin_addr = 1\<rparr>) # inbox, outbox)) c =
    Some (Some e, demo_mail (inbox, outbox), c') \<and> env_message e = m"
proof -
  let ?d = "encode_message demo_serializer m"
  have "?d \<noteq> []" using fits by (simp add: encode_message_empty_iff message_fits_def)
  then have dec: "datagram_is_valid (make_datagram_of ''10.0.0.2'' 9400 ?d)"
      "decode_datagram demo_serializer (make_datagram_of ''10.0.0.2'' 9400 ?d) = Some (Some m)"
    using decode_encode_message [OF demo_serializer_ok fits]
    by (simp_all add: decode_datagram_def decode_message_buffer_def datagram_defs)
  have "recv_loop demo_kernel 3 65536 ((?d, \<lparr>sin_port = 9400, sin_addr = 1\<rparr>) # inbox, outbox) =
      Some (make_datagram_of ''10.0.0.2'' 9400 ?d, (inbox, outbox))"
    by (subst recv_loop.simps)
      (use len \<open>?d \<noteq> []\<close> in \<open>simp add: demo_kernel_def slice_def c_str_def min_absorb2\<close>)
  with dec show ?thesis
    by (simp add: udp_poll_def demo_mail_of_def socket_recv_datagram_def socket_is_valid_def
        now_def Let_def envelope_of_message_def)
qed

section \<open>The history\<close>

definition demo_post :: message where
  "demo_post = announce_message_at demo_env demo_config_b 5000 5000"

definition demo_created_on ::
    "demo_state \<Rightarrow> (i64, (i64, demo_state udp_socket) udp_backend, string list) system" where
  "demo_created_on k = make_system demo_time
     (make_udp_backend demo_config (socket_default k)) [] demo_clock"

lemma demo_env_simps [simp]:
  "api_time demo_env = demo_time" "api_serializer demo_env = demo_serializer"
  "api_backend demo_env = udp_backend_api demo_time demo_serializer demo_platform"
  "api_transport demo_env = demo_transport" "api_layout demo_env = id"
  by (simp_all add: demo_env_def)

lemma demo_announcement_sized:
  assumes checked: "config_checked demo_time (make_context c) = Inr c" and fits: "identity_fits c"
    and small: "length (cfg_node_id c) \<le> 100" "length (cfg_announce_host c) \<le> 100"
  shows "message_fits (announce_message_at demo_env c 5000 5000)"
    and "length (encode_message demo_serializer (announce_message_at demo_env c 5000 5000)) \<le> 65536"
proof -
  let ?m = "announce_message_at demo_env c 5000 5000"
  have t: "ts_is_valid (api_time demo_env) 5000" by simp
  have c: "config_checked (api_time demo_env) (make_context c) = Inr c" using checked by simp
  show m: "message_fits ?m"
    by (rule engine_messages_fit(1) [OF _ c fits t]) simp
  have a: "announcement_is_valid demo_time (local_announcement c 5000)"
    by (rule local_announcement_valid [OF checked]) simp
  have "message_is_valid ?m" using m by (simp add: message_fits_def)
  note len = length_encode_message [OF demo_serializer_ok this]
    length_encode_announcement [OF demo_serializer_ok a]
  show "length (encode_message demo_serializer ?m) \<le> 65536"
    unfolding len(1) using small
    by (simp add: announce_message_at_def minimum_message_size_def int_to_string_5000 len(2))
      (simp add: local_announcement_def make_announcement_def)
qed

lemma demo_post_fits: "message_fits demo_post" "length (encode_message demo_serializer demo_post) \<le> 65536"
proof -
  have "cfg_announce_host demo_config_b = ''127.0.0.1''"
    by (simp add: demo_config_b_def to_config_def options_defs config_default_def)
  then show "message_fits demo_post" "length (encode_message demo_serializer demo_post) \<le> 65536"
    using demo_announcement_sized [of demo_config_b] by (simp_all add: demo_post_def)
qed

definition demo_started_on ::
    "demo_state \<Rightarrow> (i64, (i64, demo_state udp_socket) udp_backend, string list) system" where
  "demo_started_on k =
     (demo_created_on k)\<lparr>eng_status := DS_Running, sys_backend := demo_mail k\<rparr>"

lemma demo_started_facts [simp]:
  "eng_registry (demo_started_on k) = []" "sys_transport (demo_started_on k) = []"
  "sys_clock (demo_started_on k) = demo_clock" "eng_last_announce_at (demo_started_on k) = 0"
  "engine_is_running demo_env (demo_started_on k)"
  by (simp_all add: demo_started_on_def demo_created_on_def make_system_def engine_is_running_def
      status_is_running_def)

lemma demo_start:
  "engine_start demo_env demo_context (demo_created_on k) = Some (True, demo_started_on k)"
  by (simp add: engine_start_def demo_started_on_def demo_created_on_def make_system_def
      status_is_running_def context_is_valid_def demo_context_def make_context_def
      server_start_def demo_backend_starts Let_def)

lemma demo_started_reachable: "engine_reachable demo_env demo_context (demo_started_on k)"
proof -
  have "engine_reachable demo_env demo_context (demo_created_on k)"
    unfolding demo_created_on_def demo_env_simps(1) [symmetric]
    by (rule engine_reachable.created) (simp add: make_udp_backend_def udp_is_running_def)
  then show ?thesis
    using demo_start by (blast intro: engine_reachable.continued engine_step.started)
qed

text \<open>The node whose inbox holds the announcement of the second node.\<close>

abbreviation demo_created :: "(i64, (i64, demo_state udp_socket) udp_backend, string list) system" where
  "demo_created \<equiv> demo_created_on
     ([(encode_message demo_serializer demo_post, \<lparr>sin_port = 9400, sin_addr = 1\<rparr>)], [])"

abbreviation demo_started :: "(i64, (i64, demo_state udp_socket) udp_backend, string list) system" where
  "demo_started \<equiv> demo_started_on
     ([(encode_message demo_serializer demo_post, \<lparr>sin_port = 9400, sin_addr = 1\<rparr>)], [])"

lemma demo_announced:
  "\<exists>outbox. maybe_announce demo_env demo_context demo_started = Some ((advance 6 demo_started)
     \<lparr>sys_backend := demo_mail
        ([(encode_message demo_serializer demo_post, \<lparr>sin_port = 9400, sin_addr = 1\<rparr>)], outbox),
      eng_last_announce_at := 5000\<rparr>)"
proof -
  have T: "timestamp_ok (api_time demo_env)"
    and c: "config_checked (api_time demo_env) demo_context = Inr demo_config"
    and clock: "clock_ok (api_time demo_env) (sys_clock demo_started)" by simp_all
  have time: "time_at demo_started i = 5000" for i by (simp add: time_at_def demo_clock_def)
  have due: "announce_due demo_env demo_config demo_started" by (simp add: announce_due_def)
  have backend: "sys_backend (advance 1 demo_started) = demo_mail
      ([(encode_message demo_serializer demo_post, \<lparr>sin_port = 9400, sin_addr = 1\<rparr>)], [])"
    by (simp add: demo_started_on_def)
  let ?e = "first_attempt demo_env (announce_message_at demo_env demo_config 5000 5000)
      ''127.0.0.1'' 9400 5000 5000"
  have valid: "message_is_valid (announce_message_at demo_env demo_config 5000 5000)"
    by (rule engine_messages_valid(1) [OF c])
  obtain outbox where "udp_send demo_time demo_serializer demo_platform (demo_mail
      ([(encode_message demo_serializer demo_post, \<lparr>sin_port = 9400, sin_addr = 1\<rparr>)], [])) ?e =
    Some (True, demo_mail
      ([(encode_message demo_serializer demo_post, \<lparr>sin_port = 9400, sin_addr = 1\<rparr>)], outbox))"
    using demo_mail_send [of ?e demo_config] valid
    by (auto simp: first_attempt_def envelope_defs envelope_mark_attempt_def)
  then have "announce_now demo_env demo_context (advance 1 demo_started) = Some (True,
      (advance 6 demo_started)\<lparr>sys_backend := demo_mail
        ([(encode_message demo_serializer demo_post, \<lparr>sin_port = 9400, sin_addr = 1\<rparr>)], outbox),
      eng_last_announce_at := 5000\<rparr>)"
    by (subst announce_now_eq [OF _ c]) (simp_all add: time backend [simplified])
  then show ?thesis
    using maybe_announce_eq [OF T c clock] due by (intro exI [of _ outbox]) simp
qed

text \<open>After one poll the second node is known and connected.\<close>

lemma demo_history:
  "\<exists>s p. poll_once demo_env demo_context demo_started = Some (True, s) \<and>
     engine_reachable demo_env demo_context s \<and> engine_is_running demo_env s \<and>
     sys_transport s = [''node-b''] \<and>
     registry_get (engine_peers s) ''node-b'' = Some p \<and> dp_state p = PS_Alive"
proof -
  let ?k = "\<lambda>outbox. ([(encode_message demo_serializer demo_post, \<lparr>sin_port = 9400, sin_addr = 1\<rparr>)], outbox)"
  let ?a = "local_announcement demo_config_b 5000"
  obtain outbox where one: "maybe_announce demo_env demo_context demo_started =
      Some ((advance 6 demo_started)\<lparr>sys_backend := demo_mail (?k outbox), eng_last_announce_at := 5000\<rparr>)"
    using demo_announced by blast
  define s2 where "s2 = advance 1 ((advance 6 demo_started)
    \<lparr>sys_backend := demo_mail (?k outbox), eng_last_announce_at := 5000\<rparr>)"
  have two: "refresh_peer_states demo_env demo_context ((advance 6 demo_started)
      \<lparr>sys_backend := demo_mail (?k outbox), eng_last_announce_at := 5000\<rparr>) = Some s2"
    by (simp add: refresh_peer_states_def sys_now_eq refresh_states_def s2_def)
  obtain e c' where three: "udp_poll demo_time demo_serializer demo_platform (demo_mail (?k outbox))
      (sys_clock s2) = Some (Some e, demo_mail ([], outbox), c')" and e: "env_message e = demo_post"
    using demo_mail_poll [OF demo_post_fits] by blast
  let ?s3 = "s2\<lparr>sys_backend := demo_mail ([], outbox), sys_clock := c'\<rparr>"
  let ?s = "integrate_with_transport demo_env demo_context ?a (upsert_discovered_peer demo_env ?a ?s3)"
  have a: "announcement_fits demo_time ?a" "announcement_is_valid demo_time ?a"
    using local_announcement_fits [OF demo_config_b_facts(1,2), of 5000]
      local_announcement_valid [OF demo_config_b_facts(1), of 5000] by simp_all
  have fields: "?a = \<lparr>ann_node_id = ''node-b'', ann_host = ''127.0.0.1'', ann_port = 7001,
      ann_timestamp = 5000\<rparr>"
    by (simp add: local_announcement_def make_announcement_def demo_config_b_def to_config_def
        options_defs config_default_def)
  have "handle_inbound demo_env demo_context (Some e) ?s3 = Some (True, ?s)"
    by (rule handle_inbound_learns)
      (use a(1) demo_post_fits(1) in \<open>simp_all add: e message_fits_def demo_post_def
        announce_message_at_def local_node_id_config [of demo_env, OF demo_config_checked [folded demo_env_simps(1)]]
        local_announcement_def make_announcement_def\<close>)
  then have poll: "poll_once demo_env demo_context demo_started = Some (True, ?s)"
    using one two three by (simp add: poll_once_def server_poll_def s2_def)
  have frame: "eng_registry ?s3 = []" "sys_transport ?s3 = []" "eng_status ?s3 = DS_Running"
    by (simp_all add: s2_def) (simp add: demo_started_on_def)
  have transport: "sys_transport ?s = [''node-b'']"
    by (simp add: integrate_with_transport_def Let_def learn_frame frame transport_checked_def
        demo_transport_def fields demo_context_def make_context_def)
  have "um_find (eng_registry ?s) ''node-b'' = Some (announced_peer [] ?a c')"
    using learned_registry [of demo_env ?s3 ?a demo_context] a(2)
    by (simp add: frame fields registry_wf_empty)
  moreover have "engine_is_running demo_env ?s"
    by (simp add: engine_is_running_def learn_frame frame status_is_running_def)
  moreover have "engine_step demo_env demo_context demo_started ?s"
    by (rule engine_step.polled [of id]) (use poll in \<open>simp_all add: demo_env_def udp_env_def\<close>)
  ultimately show ?thesis
    using poll transport engine_reachable.continued [OF demo_started_reachable]
    by (auto simp: registry_get_def engine_peers_def announced_peer_simps)
qed

end
