(* ===== verification/Network_Properties.thy ===== *)
theory Network_Properties
  imports Scenario
begin

text \<open>
  The properties of the UDP backend, the socket wrapper on Linux, and the configuration that
  they are started with.
\<close>

section \<open>The UDP backend\<close>

text \<open>
  The UDP backend keeps the contract of \<open>IDiscoveryBackend\<close>: a stopped backend
  sends and delivers nothing and stays as it is; sending and polling never start or stop it; it
  accepts an envelope only when it runs, the envelope has a destination and its message is
  valid; and every envelope it delivers carries a valid message, the source endpoint of its
  datagram and a reading of the clock.
\<close>

lemma udp_backend_contract:
  "(\<not> udp_is_running b \<longrightarrow>
      udp_send T S P b e = Some (False, b) \<and> udp_poll T S P b c = Some (None, b, c)) \<and>
   (\<forall>ok b'. udp_send T S P b e = Some (ok, b') \<longrightarrow>
      udp_is_running b' = udp_is_running b \<and>
      (ok \<longrightarrow> udp_is_running b \<and> envelope_has_destination e \<and> message_is_valid (env_message e))) \<and>
   (\<forall>got b' c'. udp_poll T S P b c = Some (got, b', c') \<longrightarrow>
      udp_is_running b' = udp_is_running b \<and>
      (\<forall>m. got = Some m \<longrightarrow> udp_is_running b \<and> message_is_valid (env_message m) \<and>
        envelope_has_source m \<and> env_timestamp m \<in> range (readings c)))"
proof -
  have stopped: "udp_send T S P b e = Some (False, b) \<and> udp_poll T S P b c = Some (None, b, c)"
    if "\<not> udp_is_running b"
    using udp.send_stopped [where T = T and S = S and P = P and b = b and e = e]
      udp.poll_stopped [where T = T and S = S and P = P and b = b and c = c] that by simp
  have send: "udp_is_running b' = udp_is_running b \<and>
      (ok \<longrightarrow> udp_is_running b \<and> envelope_has_destination e \<and> message_is_valid (env_message e))"
    if s: "udp_send T S P b e = Some (ok, b')" for ok b'
    using udp.send_keeps [where T = T and S = S and P = P and b = b and e = e and ok = ok and b' = b']
      udp.send_accepts [where T = T and S = S and P = P and b = b and e = e and b' = b'] stopped s
    by (cases "udp_is_running b"; cases ok) simp_all
  have poll: "udp_is_running b' = udp_is_running b \<and>
      (\<forall>m. got = Some m \<longrightarrow> udp_is_running b \<and> message_is_valid (env_message m) \<and>
        envelope_has_source m \<and> env_timestamp m \<in> range (readings c))"
    if p: "udp_poll T S P b c = Some (got, b', c')" for got b' c'
  proof (cases got)
    case None
    then show ?thesis using udp_poll_cases [OF p] by (simp add: udp_is_running_def)
  next
    case (Some m)
    with p have "udp_is_running b" using stopped by (cases "udp_is_running b") simp_all
    then show ?thesis
      using Some udp_poll_cases [OF p] p
        udp.poll_delivers [where T = T and S = S and P = P and b = b and c = c and e = m and b' = b' and c' = c']
      by (auto simp: udp_is_running_def)
  qed
  from stopped send poll show ?thesis by blast
qed

lemma udp_backend_contract_witness:
  "\<exists>m b' c'. udp_poll demo_time demo_serializer demo_platform (demo_mail
       ([(encode_message demo_serializer demo_post, \<lparr>sin_port = 9400, sin_addr = 1\<rparr>)], [])) demo_clock =
     Some (Some m, b', c') \<and> udp_is_running b' \<and> message_is_valid (env_message m) \<and>
     envelope_has_source m"
  using demo_mail_poll [OF demo_post_fits, of "[]" "[]" demo_clock]
    udp_backend_contract [of _ demo_time demo_serializer demo_platform _ demo_clock] by blast

text \<open>The options that a start sets, in this order, and setting them until one is refused.\<close>

definition start_options :: "('t, 'd) time_api \<Rightarrow> 'd config \<Rightarrow> sockopt list" where
  "start_options T c =
     [SO_REUSEADDR 1, SO_BROADCAST (if cfg_enable_broadcast c then 1 else 0),
      SO_RCVTIMEO (make_timeval T (cfg_announce_interval c)),
      SO_SNDTIMEO (make_timeval T (cfg_announce_interval c))]"

fun options_set :: "'k kernel_api \<Rightarrow> int \<Rightarrow> sockopt list \<Rightarrow> 'k \<Rightarrow> bool \<times> 'k" where
  "options_set K fd [] k = (True, k)"
| "options_set K fd (opt # opts) k =
     (case sys_setsockopt K k fd opt of (r, k) \<Rightarrow> if r = 0 then options_set K fd opts k else (False, k))"

lemma configure_linux_socket:
  assumes "0 \<le> fd"
  shows "configure_socket (linux_platform T K) (b\<lparr>ub_socket := \<lparr>sock_fd = fd, sock_kernel = k\<rparr>\<rparr>) =
    (case options_set K fd (start_options T (ub_config b)) k of
       (ok, k) \<Rightarrow> (ok, b\<lparr>ub_socket := \<lparr>sock_fd = fd, sock_kernel = k\<rparr>\<rparr>))"
  using assms
  by (simp add: configure_socket_def linux_platform_def start_options_def set_reuse_addr_def
      set_broadcast_def set_recv_timeout_def set_send_timeout_def socket_setsockopt_def
      socket_is_valid_def split: prod.split)

text \<open>
  C29.  Starting the backend, exactly.  A running one is left alone and reports success; an invalid
  configuration fails and changes nothing.  Otherwise \<open>start\<close> closes the descriptor that the socket may
  still hold, creates a new one, sets the four options in their order and binds the configured
  address; it succeeds if and only if the kernel gives a descriptor, accepts all four
  options, the bind host is an address and the bind returns zero.  Then the backend runs on this
  descriptor; if anything else fails after the descriptor was created, the descriptor is closed, the socket
  is empty and the backend does not run.
\<close>

theorem udp_start_spec:
  fixes T :: "('t, 'd) time_api" and K :: "'k kernel_api" and b :: "('d, 'k udp_socket) udp_backend"
  defines "c \<equiv> ub_config b" and "opened \<equiv> sys_socket K (sock_kernel (socket_close K (ub_socket b)))"
  defines "fd \<equiv> fst opened" and "addr \<equiv> make_sockaddr K (cfg_bind_host c) (cfg_bind_port c)"
  defines "options \<equiv> options_set K fd (start_options T c) (snd opened)"
  defines "bound \<equiv> map_option (sys_bind K (snd options) fd) addr"
  shows "udp_start T (linux_platform T K) b = Some
    (if udp_is_running b then (True, b)
     else if \<not> config_is_valid T c then (False, b)
     else if fd < 0 then (False, b\<lparr>ub_socket := \<lparr>sock_fd = fd, sock_kernel = snd opened\<rparr>\<rparr>)
     else if fst options \<and> map_option fst bound = Some 0
     then (True, b\<lparr>ub_running := True, ub_socket := \<lparr>sock_fd = fd, sock_kernel = snd (the bound)\<rparr>\<rparr>)
     else
       (let k = (if fst options then case_option (snd options) snd bound else snd options)
        in (False, b\<lparr>ub_socket := \<lparr>sock_fd = - 1, sock_kernel = sys_close K k fd\<rparr>\<rparr>)))"
proof -
  obtain fd' k where k: "opened = (fd', k)" by fastforce
  obtain ok k2 where k2: "options = (ok, k2)" by fastforce
  note defs = c_def addr_def bound_def fd_def
  show ?thesis
    using k k2 configure_linux_socket [of fd' T K k b]
    by (auto simp: udp_start_def udp_is_running_def socket_open_def socket_bind_def socket_is_valid_def
        socket_close_def opened_def options_def defs linux_platform_def Let_def
        split: option.splits prod.splits)
qed

text \<open>The start succeeds on the example kernel, and fails with the descriptor closed when the bind is refused.\<close>

theorem udp_start_spec_witness:
  "(\<exists>b'. udp_start demo_time (linux_platform demo_time demo_kernel) demo_backend = Some (True, b') \<and>
      udp_is_running b' \<and> sock_fd (ub_socket b') = 3) \<and>
   (\<exists>b'. udp_start demo_time (linux_platform demo_time (demo_kernel\<lparr>sys_bind := \<lambda>k fd a. (- 1, k)\<rparr>)) demo_backend =
      Some (False, b') \<and> \<not> udp_is_running b' \<and> sock_fd (ub_socket b') = - 1)"
proof -
  have idle: "\<not> udp_is_running demo_backend" and c: "ub_config demo_backend = demo_config"
      "ub_socket demo_backend = \<lparr>sock_fd = - 1, sock_kernel = ([], [])\<rparr>" "c_str (cfg_bind_host demo_config) \<noteq> []"
    by (simp_all add: udp_is_running_def demo_backend_def make_udp_backend_def socket_default_def c_str_def)
  show ?thesis
    unfolding udp_start_spec
    using idle by (simp add: c socket_close_def demo_kernel_def start_options_def make_sockaddr_def
        udp_is_running_def)
qed

section \<open>The socket\<close>

text \<open>
  The retry loop of \<open>send_to\<close> returns exactly when some attempt is not interrupted by a
  signal: it returns for every kernel where that happens and for no other.
\<close>

lemma send_loop_terminates_iff:
  "(\<exists>r. send_loop K fd data addr k = Some r) \<longleftrightarrow> send_settles K fd data addr k"
  using send_loop_returns send_loop_settles by fast

text \<open>
  C38.  Receiving is safe: on a kernel that stores no more than it was given room for, and that
  does not interrupt for ever, \<open>recv_datagram\<close> returns; what it returns is the invalid default
  datagram, or has a payload of at least one and at most \<open>max_size\<close> bytes, so the copy never
  leaves the buffer; without a descriptor or with size zero there is no system call.
\<close>

theorem recv_datagram_bounded:
  assumes "kernel_ok K" and "kernel_settles K"
  shows "\<exists>d s'. socket_recv_datagram K s max_size = Some (d, s') \<and> sock_fd s' = sock_fd s \<and>
    (d = datagram_default \<or> 0 < length (dg_payload d) \<and> length (dg_payload d) \<le> max_size) \<and>
    (\<not> socket_is_valid s \<or> max_size = 0 \<longrightarrow> s' = s \<and> \<not> datagram_is_valid d)"
proof (cases "socket_is_valid s \<and> max_size \<noteq> 0")
  case True
  obtain d k' where "recv_loop K (sock_fd s) max_size (sock_kernel s) = Some (d, k')"
      "recv_outcome max_size d"
    using recv_loop_returns [OF assms(1), of "sock_fd s" max_size "sock_kernel s"]
      assms(2) [unfolded kernel_settles_def] by blast
  with True show ?thesis by (auto simp: socket_recv_datagram_def recv_outcome_def)
next
  case False
  then show ?thesis
    by (auto simp: socket_recv_datagram_def datagram_defs)
qed

theorem recv_datagram_bounded_witness:
  "\<exists>d s'. socket_recv_datagram demo_kernel
     \<lparr>sock_fd = 3, sock_kernel = ([([1, 2], \<lparr>sin_port = 9, sin_addr = 1\<rparr>)], [])\<rparr> 64 = Some (d, s') \<and>
     length (dg_payload d) \<le> 64"
proof -
  obtain d s' where "socket_recv_datagram demo_kernel
     \<lparr>sock_fd = 3, sock_kernel = ([([1, 2], \<lparr>sin_port = 9, sin_addr = 1\<rparr>)], [])\<rparr> 64 = Some (d, s')"
    "d = datagram_default \<or> 0 < length (dg_payload d) \<and> length (dg_payload d) \<le> 64"
    using recv_datagram_bounded [OF demo_kernel_ok demo_kernel_settles, of
      "\<lparr>sock_fd = 3, sock_kernel = ([([1, 2], \<lparr>sin_port = 9, sin_addr = 1\<rparr>)], [])\<rparr>" 64] by blast
  then show ?thesis by (auto simp: datagram_default_def)
qed

text \<open>
  Descriptors are owned once: opening a socket first closes the old descriptor, closing twice
  is one \<open>close\<close> call, destroying a socket closes it but does nothing to one that was closed or
  moved from, and setting any option or
  receiving on a closed socket makes no system call.
\<close>

lemma socket_ownership:
  "socket_close K (socket_close K s) = socket_close K s \<and>
   \<not> socket_is_valid (socket_close K s) \<and>
   (socket_is_valid s \<longrightarrow>
      sock_kernel (socket_close K s) = sys_close K (sock_kernel s) (sock_fd s)) \<and>
   socket_open K s = socket_open K (socket_close K s) \<and>
   socket_destroy K (socket_adopt (snd (socket_move fd)) k) = socket_adopt (snd (socket_move fd)) k \<and>
   socket_destroy K (socket_close K s) = socket_close K s \<and>
   \<not> socket_valid (socket_destroy K s) \<and>
   sock_kernel (fst (socket_move_assign K s fd)) = sock_kernel (socket_close K s) \<and>
   (\<not> socket_is_valid s \<longrightarrow>
      set_reuse_addr K s flag = (False, s) \<and> set_broadcast K s flag = (False, s) \<and>
      set_recv_timeout T K s d = (False, s) \<and> set_send_timeout T K s d = (False, s) \<and>
      socket_recv_datagram K s n = Some (datagram_default, s) \<and>
      socket_send_datagram K s g = Some (0, s))"
  using socket_options_closed(1,2) [of s K flag]
    socket_options_closed(3,4) [of s T K d] socket_moved_from_close [of K fd k]
  by (simp add: socket_destroy_def socket_valid_def socket_open_def socket_move_assign_def socket_recv_datagram_def
      socket_send_datagram_def socket_send_to_def)
    (simp add: socket_close_def socket_is_valid_def)

lemma socket_ownership_witness:
  "\<not> socket_is_valid (socket_close demo_kernel (socket_default ([], [])))"
  by (rule conjunct1 [OF conjunct2 [OF socket_ownership]])

text \<open>
  Timeouts: for every positive duration \<open>make_timeval\<close> is exact to the millisecond and a
  legal \<open>timeval\<close> (microseconds below one million); any other duration gives the zero value, which
  means no timeout.  On Windows the duration in milliseconds is clamped to the range of a
  \<open>DWORD\<close>.
\<close>

lemma make_timeval_spec:
  "(0 < sint (dur_millis T d) \<longrightarrow>
      1000000 * tv_sec (make_timeval T d) + tv_usec (make_timeval T d) =
        1000 * sint (dur_millis T d)) \<and>
   0 \<le> tv_sec (make_timeval T d) \<and> 0 \<le> tv_usec (make_timeval T d) \<and>
   tv_usec (make_timeval T d) < 1000000 \<and>
   (sint (dur_millis T d) \<le> 0 \<longrightarrow> make_timeval T d = \<lparr>tv_sec = 0, tv_usec = 0\<rparr>) \<and>
   uint (make_timeout_ms T d) = max 0 (min (sint (dur_millis T d)) (2 ^ 32 - 1))"
proof (cases "0 < sint (dur_millis T d)")
  case True
  have "1000000 * (m div 1000) + m mod 1000 * 1000 = 1000 * m" for m :: int
    using div_mult_mod_eq [of m 1000] by linarith
  moreover have word: "uint (word_of_int m :: u32) = m" if "0 \<le> m" "m \<le> 2 ^ 32 - 1" for m
    using that by (simp add: unsigned_of_int take_bit_int_eq_self)
  moreover have "uint (make_timeout_ms T d) = max 0 (min (sint (dur_millis T d)) (2 ^ 32 - 1))"
    using True word [of "sint (dur_millis T d)"] by (auto simp: make_timeout_ms_def Let_def min_def)
  ultimately show ?thesis using True make_timeval_exact(1,2) [OF True]
    by (simp add: make_timeval_def Let_def pos_imp_zdiv_nonneg_iff)
qed (simp add: make_timeval_def make_timeout_ms_def Let_def)

lemma make_timeval_spec_witness:
  "1000000 * tv_sec (make_timeval demo_time 2500) + tv_usec (make_timeval demo_time 2500) = 2500000"
  using make_timeval_spec [of demo_time 2500] by simp

section \<open>Configuration\<close>

text \<open>
  Options and configuration agree: \<open>to_config\<close> carries every option over, sets the datagram
  size to 64 KiB, and its result is valid exactly when the options are; and a context made
  from a configuration is valid exactly when its checked access succeeds and returns it.
\<close>

lemma options_config_agree:
  "(config_is_valid T (to_config T opt) \<longleftrightarrow> options_is_valid T opt) \<and>
   cfg_node_id (to_config T opt) = opt_node_id opt \<and>
   cfg_bind_host (to_config T opt) = opt_bind_host opt \<and>
   cfg_bind_port (to_config T opt) = opt_bind_port opt \<and>
   cfg_broadcast_host (to_config T opt) = opt_broadcast_host opt \<and>
   cfg_broadcast_port (to_config T opt) = opt_broadcast_port opt \<and>
   cfg_announce_host (to_config T opt) = opt_announce_host opt \<and>
   cfg_announce_port (to_config T opt) = opt_announce_port opt \<and>
   announce_interval_ms T (to_config T opt) = options_announce_interval_ms T opt \<and>
   peer_ttl_ms T (to_config T opt) = options_peer_ttl_ms T opt \<and>
   cfg_enable_broadcast (to_config T opt) = opt_enable_broadcast opt \<and>
   cfg_max_datagram_size (to_config T opt) = 65536 \<and>
   (context_is_valid T (make_context c) \<longleftrightarrow> config_checked T (make_context c) = Inr c) \<and>
   (context_is_valid T (make_context c) \<longleftrightarrow> config_is_valid T c)"
  by (auto simp: to_config_def config_is_valid_def options_is_valid_def config_default_def
      announce_interval_ms_def options_announce_interval_ms_def peer_ttl_ms_def
      options_peer_ttl_ms_def context_is_valid_def make_context_def config_checked_def)

text \<open>
  The presets: with documented durations, \<open>local\<close> and \<open>lan\<close> give valid options for every
  non-empty node id and non-zero ports, announce every 3 seconds and forget peers after 15; both
  announce the loopback address, and only \<open>lan\<close> binds and broadcasts beyond it.
\<close>

lemma option_presets:
  assumes "duration_ok T"
  shows "(options_is_valid T (options_local T i port announce) \<longleftrightarrow>
      i \<noteq> [] \<and> port \<noteq> 0 \<and> announce \<noteq> 0) \<and>
    (options_is_valid T (options_lan T i port announce) \<longleftrightarrow>
      i \<noteq> [] \<and> port \<noteq> 0 \<and> announce \<noteq> 0) \<and>
    sint (options_announce_interval_ms T (options_lan T i port announce)) = 3000 \<and>
    sint (options_peer_ttl_ms T (options_lan T i port announce)) = 15000 \<and>
    opt_announce_host (options_lan T i port announce) = ''127.0.0.1'' \<and>
    opt_bind_host (options_lan T i port announce) = ''0.0.0.0'' \<and>
    opt_broadcast_host (options_lan T i port announce) = ''255.255.255.255'' \<and>
    opt_bind_host (options_local T i port announce) = ''127.0.0.1'' \<and>
    opt_broadcast_host (options_local T i port announce) = ''127.0.0.1''"
  using default_durations [OF assms]
  by (auto simp: options_is_valid_def options_defs options_announce_interval_ms_def
      options_peer_ttl_ms_def)

lemma option_presets_witness:
  "options_is_valid demo_time (options_lan demo_time ''a'' 9400 7000)"
  using option_presets [OF demo_duration_ok, of "''a''" 9400 7000] by simp

end
