(* ===== verification/Engine_Properties.thy ===== *)
theory Engine_Properties
  imports Scenario
begin

text \<open>
  The properties of the engine.  They are stated for the engine on the UDP backend, over any
  kernel, serializer and transport engine; the results come from the contracts through the
  interpretation \<open>udp_node\<close>.
\<close>

section \<open>Histories\<close>

text \<open>
  C1.  Whatever sequence of public calls an engine on a UDP backend has served: at rest it is
  stopped, running or failed; the backend runs exactly when the engine does, and then the context
  is valid; an engine that does not run knows no peers; every peer is filed under its own
  id with valid data; and the node never lists itself.
\<close>

theorem engine_invariant:
  assumes "engine_reachable (udp_env T S P X L) ctx s"
  shows "eng_status s \<in> {DS_Stopped, DS_Running, DS_Failed} \<and>
    (udp_is_running (sys_backend s) \<longleftrightarrow> eng_status s = DS_Running) \<and>
    (engine_is_running (udp_env T S P X L) s \<longrightarrow> context_is_valid T ctx) \<and>
    (eng_status s \<noteq> DS_Running \<longrightarrow> registry_size (engine_peers s) = 0) \<and>
    (\<forall>k p. registry_get (engine_peers s) k = Some p \<longrightarrow>
      peer_node_id p = k \<and> peer_is_valid T p \<and> k \<noteq> local_node_id (udp_env T S P X L) ctx)"
proof -
  have inv: "engine_inv (udp_env T S P X L) ctx s"
    by (rule udp_node.engine_reachable_inv [OF assms])
  then have "registry_wf T (eng_registry s)" by (simp add: engine_inv_def)
  from registry_wfD [OF this] inv show ?thesis
    by (auto simp: engine_inv_def engine_is_running_def status_is_running_def registry_size_def
        engine_peers_def registry_get_def)
qed

theorem engine_invariant_witness:
  "\<exists>s p. engine_reachable demo_env demo_context s \<and> udp_is_running (sys_backend s) \<and>
     registry_get (engine_peers s) ''node-b'' = Some p \<and> peer_is_valid demo_time p"
proof -
  obtain s p where s: "engine_reachable demo_env demo_context s" "engine_is_running demo_env s"
      "registry_get (engine_peers s) ''node-b'' = Some p"
    using demo_history by blast
  with engine_invariant [OF s(1) [unfolded demo_env_def]] show ?thesis
    by (auto simp: engine_is_running_def)
qed

text \<open>
  Lifecycle.  In every reachable state: starting a running engine changes nothing and
  succeeds; \<open>start\<close> succeeds exactly when the engine runs afterwards, and a failed start leaves
  it failed with the backend stopped; an invalid context always fails; \<open>stop\<close> leaves a stopped
  engine, a stopped backend and an empty registry; while the engine does not run, announcing,
  probing and polling report failure and change nothing.
\<close>

lemma engine_lifecycle:
  assumes "engine_reachable (udp_env T S P X L) ctx s"
  shows "(eng_status s = DS_Running \<longrightarrow> engine_start (udp_env T S P X L) ctx s = Some (True, s)) \<and>
    (\<forall>ok s'. engine_start (udp_env T S P X L) ctx s = Some (ok, s') \<longrightarrow>
      ok = engine_is_running (udp_env T S P X L) s' \<and> ok = udp_is_running (sys_backend s') \<and>
      eng_status s' = (if ok then DS_Running else DS_Failed) \<and>
      (ok \<longrightarrow> context_is_valid T ctx)) \<and>
    (let s' = engine_stop (udp_env T S P X L) s in
      eng_status s' = DS_Stopped \<and> \<not> udp_is_running (sys_backend s') \<and>
      registry_size (engine_peers s') = 0) \<and>
    (\<not> engine_is_running (udp_env T S P X L) s \<longrightarrow>
      announce_now (udp_env T S P X L) ctx s = Some (False, s) \<and>
      probe_now (udp_env T S P X L) ctx s = Some (False, s) \<and>
      poll_once (udp_env T S P X L) ctx s = Some (False, s) \<and>
      poll_many (udp_env T S P X L) ctx n s = Some (0, s))"
proof -
  let ?E = "udp_env T S P X L"
  have inv: "engine_inv ?E ctx s" by (rule udp_node.engine_reachable_inv [OF assms])
  have start: "ok = engine_is_running ?E s' \<and> ok = udp_is_running (sys_backend s') \<and>
      eng_status s' = (if ok then DS_Running else DS_Failed) \<and> (ok \<longrightarrow> context_is_valid T ctx)"
    if "engine_start ?E ctx s = Some (ok, s')" for ok s'
    using udp_node.engine_start_outcome [OF inv that] by (auto simp: engine_inv_def)
  have again: "eng_status s = DS_Running \<longrightarrow> engine_start ?E ctx s = Some (True, s)"
    by (simp add: engine_start_def status_is_running_def)
  have stop: "let s' = engine_stop ?E s in eng_status s' = DS_Stopped \<and>
      \<not> udp_is_running (sys_backend s') \<and> registry_size (engine_peers s') = 0"
    using udp_node.engine_stop_outcome(2,3,5) [OF inv]
    by (simp add: Let_def registry_size_def engine_peers_def)
  from again start stop udp_node.not_running_nothing [of T S P X L s ctx] show ?thesis by blast
qed

lemma engine_lifecycle_witness:
  "engine_start demo_env demo_context demo_started = Some (True, demo_started) \<and>
   eng_status (engine_stop demo_env demo_started) = DS_Stopped"
  using engine_lifecycle [OF demo_started_reachable [unfolded demo_env_def], where n = 0]
  by (simp add: Let_def demo_started_on_def flip: demo_env_def)

section \<open>No undefined behaviour\<close>

text \<open>
  C10.  On a kernel that respects its receive buffers and does not interrupt a call for ever, with
  a serializer and clock as documented, no public call of the engine has undefined behaviour or
  hangs, in any state and for any bytes in the inbox: start, announce, probe and poll all return.
\<close>

theorem engine_calls_return:
  assumes "timestamp_ok T" and "serializer_ok S" and "kernel_ok K" and "kernel_settles K"
    and "clock_ok T (sys_clock s)"
  shows "(\<exists>r. engine_start (udp_env T S (linux_platform T K) X L) ctx s = Some r) \<and>
    (\<exists>r. announce_now (udp_env T S (linux_platform T K) X L) ctx s = Some r) \<and>
    (\<exists>r. probe_now (udp_env T S (linux_platform T K) X L) ctx s = Some r) \<and>
    (\<exists>r. poll_once (udp_env T S (linux_platform T K) X L) ctx s = Some r) \<and>
    (\<exists>k s'. poll_many (udp_env T S (linux_platform T K) X L) ctx n s = Some (k, s') \<and> k \<le> n)"
proof -
  let ?E = "udp_env T S (linux_platform T K) X L"
  have B: "backend_returns (api_backend ?E)"
    using udp_backend_returns [OF assms(2) linux_returns [OF assms(3,4)]] by simp
  have clock: "clock_ok (api_time ?E) (sys_clock s)" using assms(5) by simp
  have poll: "\<exists>ok s'. poll_once ?E ctx s = Some (ok, s')"
    using udp_node.poll_once_returns [of T S "linux_platform T K" X L, OF _ _ B clock] assms(1,2) by force
  have many: "\<exists>k s'. poll_many ?E ctx n s = Some (k, s') \<and> k \<le> n"
    using udp_node.poll_many_returns [of T S "linux_platform T K" X L, OF _ _ B clock] assms(1,2) by simp
  show ?thesis
    using engine_start_returns [OF B, of ctx s] many poll announce_now_returns [OF B, of ctx s]
      probe_now_returns [OF B, of ctx s] by auto
qed

theorem engine_calls_return_witness:
  "\<exists>k s'. poll_many demo_env demo_context 4 demo_running = Some (k, s') \<and> k \<le> 4"
  using engine_calls_return [OF demo_timestamp_ok demo_serializer_ok demo_kernel_ok
      demo_kernel_settles demo_running_facts(1), of demo_transport id demo_context 4]
  unfolding demo_env_def demo_platform_def by blast

section \<open>Sending\<close>

text \<open>
  C21.  What a running engine sends: \<open>announce_now\<close> gives the socket backend one envelope for
  the broadcast endpoint, whose message is of type announce from this node, carries the encoded
  announcement of the configured host and port, and has a correlation id made of the prefix and
  the time in milliseconds; the announcement timer is set, to the time after the send, exactly
  when the backend reports success, and nothing else of the engine changes.
\<close>

theorem announce_now_spec:
  assumes "engine_is_running (udp_env T S P X L) s"
    and "config_checked T ctx = Inr c" and "clock_ok T (sys_clock s)"
  defines "t i \<equiv> readings (sys_clock s) (ticks (sys_clock s) + i)"
  shows "announce_now (udp_env T S P X L) ctx s =
    map_option (\<lambda>(sent, b).
        (sent, s\<lparr>sys_clock := (sys_clock s)\<lparr>ticks := ticks (sys_clock s) + (if sent then 5 else 4)\<rparr>,
           sys_backend := b,
           eng_last_announce_at := if sent then t 4 else eng_last_announce_at s\<rparr>))
      (udp_send T S P (sys_backend s)
        \<lparr>env_message =
           \<lparr>msg_type = MT_Announce, msg_from = cfg_node_id c, msg_to = [],
            msg_correlation = ''announce-'' @ int_to_string (sint (ts_millis T (t 1))),
            msg_payload = encode_announcement T S
              \<lparr>ann_node_id = cfg_node_id c, ann_host = cfg_announce_host c,
               ann_port = cfg_announce_port c, ann_timestamp = t 0\<rparr>\<rparr>,
         env_from_host = [], env_from_port = 0, env_to_host = cfg_broadcast_host c,
         env_to_port = cfg_broadcast_port c, env_timestamp = t 2, env_retry_count = 1,
         env_last_attempt_at = t 3\<rparr>)"
proof -
  have t: "t = time_at s" by (rule ext) (simp add: t_def time_at_def)
  show ?thesis
    unfolding t using announce_now_eq [OF assms(1), of ctx c] assms(2,3)
    by (simp add: first_attempt_def announce_message_at_def local_announcement_def
        make_announcement_def envelope_defs envelope_mark_attempt_def advance_def)
qed

theorem announce_now_spec_witness:
  "\<exists>s'. announce_now demo_env demo_context demo_running = Some (True, s') \<and>
     eng_last_announce_at s' = 5000"
proof -
  have sent: "\<exists>b. udp_send demo_time demo_serializer demo_platform (sys_backend demo_running) e =
      Some (True, b)"
    if "message_is_valid (env_message e)" "0 < sint (env_timestamp e)"
      "env_to_host e = ''127.0.0.1''" "env_to_port e = 9400" for e
  proof -
    have "encode_message demo_serializer (env_message e) \<noteq> []"
      using that(1) by (simp add: encode_message_empty_iff)
    with that show ?thesis
      by (simp add: udp_send_def demo_running_def envelope_is_valid_def envelope_has_destination_def
          make_datagram_def Let_def datagram_defs socket_send_datagram_def socket_send_to_def
          socket_is_valid_def make_sockaddr_def demo_kernel_def c_str_def send_loop.simps)
  qed
  have result: "\<exists>s'. map_option F (udp_send demo_time demo_serializer demo_platform
        (sys_backend demo_running) e) = Some (True, s') \<and> eng_last_announce_at s' = 5000"
    if s: "\<exists>b. udp_send demo_time demo_serializer demo_platform (sys_backend demo_running) e = Some (True, b)"
      and F: "\<And>b. fst (F (True, b)) \<and> eng_last_announce_at (snd (F (True, b))) = 5000" for F and e
  proof -
    obtain b where b: "udp_send demo_time demo_serializer demo_platform (sys_backend demo_running) e =
        Some (True, b)" using s by blast
    obtain ok s' where "F (True, b) = (ok, s')" by fastforce
    with b F [of b] show ?thesis by simp
  qed
  show ?thesis
    unfolding demo_env_def
      announce_now_spec [OF demo_running_facts(2) [unfolded demo_env_def] demo_config_checked
        demo_running_facts(1)]
    by (rule result, rule sent)
      (simp_all add: message_is_valid_def message_type_is_valid_def demo_config_def demo_options_def
        to_config_def options_defs demo_clock_def)
qed

text \<open>
  C20.  Rate of announcements: before each poll the engine announces again only when it has never
  announced, or when the configured interval has passed since the last successful
  announcement; otherwise the only trace is one reading of the clock.  A successful announcement
  resets the timer to a time read after the message was handed over.
\<close>

theorem announce_rate:
  assumes "timestamp_ok T" and "config_checked T ctx = Inr c" and "clock_ok T (sys_clock s)"
  shows "maybe_announce (udp_env T S P X L) ctx s =
      (let t = readings (sys_clock s) (ticks (sys_clock s));
           s' = s\<lparr>sys_clock := (sys_clock s)\<lparr>ticks := ticks (sys_clock s) + 1\<rparr>\<rparr>
       in if ts_is_valid T (eng_last_announce_at s) \<and>
            sint (ts_millis T t) - sint (ts_millis T (eng_last_announce_at s)) <
              sint (dur_millis T (cfg_announce_interval c))
          then Some s'
          else map_option snd (announce_now (udp_env T S P X L) ctx s')) \<and>
    (\<forall>s'. announce_now (udp_env T S P X L) ctx s = Some (True, s') \<longrightarrow>
      eng_last_announce_at s' = readings (sys_clock s) (ticks (sys_clock s') - 1) \<and>
      ts_is_valid T (eng_last_announce_at s'))"
proof -
  let ?E = "udp_env T S P X L"
  have reset: "eng_last_announce_at s' = readings (sys_clock s) (ticks (sys_clock s') - 1) \<and>
      ts_is_valid T (eng_last_announce_at s')" if "announce_now ?E ctx s = Some (True, s')" for s'
  proof (cases "engine_is_running ?E s")
    case True
    from announce_now_success [OF True, of ctx c s'] that assms(2,3) show ?thesis
      by (simp add: time_at_def clock_ok_def add.commute)
  qed (use that in \<open>simp add: announce_now_def\<close>)
  have due: "announce_due ?E c s \<longleftrightarrow>
      \<not> (ts_is_valid T (eng_last_announce_at s) \<and>
        sint (ts_millis T (time_at s 0)) - sint (ts_millis T (eng_last_announce_at s)) <
          sint (dur_millis T (cfg_announce_interval c)))"
    by (auto simp: announce_due_def)
  have "maybe_announce ?E ctx s =
      (let t = readings (sys_clock s) (ticks (sys_clock s));
           s' = s\<lparr>sys_clock := (sys_clock s)\<lparr>ticks := ticks (sys_clock s) + 1\<rparr>\<rparr>
       in if ts_is_valid T (eng_last_announce_at s) \<and>
            sint (ts_millis T t) - sint (ts_millis T (eng_last_announce_at s)) <
              sint (dur_millis T (cfg_announce_interval c))
          then Some s'
          else map_option snd (announce_now ?E ctx s'))"
    using maybe_announce_eq [of ?E ctx c s] assms
    by (simp add: due Let_def time_at_def advance_def)
  with reset show ?thesis by blast
qed

theorem announce_rate_witness:
  "ts_is_valid demo_time 5000 \<and>
   maybe_announce demo_env demo_context (demo_running\<lparr>eng_last_announce_at := 4000\<rparr>) =
     Some (demo_running\<lparr>eng_last_announce_at := 4000, sys_clock := demo_clock\<lparr>ticks := 1\<rparr>\<rparr>)"
  using announce_rate [OF demo_timestamp_ok demo_config_checked, of "demo_running\<lparr>eng_last_announce_at := 4000\<rparr>"
      demo_serializer demo_platform demo_transport id]
  by (simp add: demo_env_def demo_clock_def demo_config_def demo_options_def to_config_def
      options_defs config_default_def clock_ok_def)

section \<open>Exchange between two nodes\<close>

text \<open>
  C12.  Announcement, end to end.  The message that a node with a valid configuration builds for
  its announcement, sent as a datagram to any endpoint and received from any source, decodes to
  itself; an engine with another id that handles it reports success and then knows the sender as
  alive, with the announced host and port and the sender's time stamp, and every other peer
  of its registry is untouched.
\<close>

theorem announcement_reaches_peer:
  assumes "timestamp_ok T" and "serializer_ok S" and "layout_ok L"
    and "config_checked T ctx_b = Inr cfg_b" and "identity_fits cfg_b"
    and "clock_ok T (sys_clock sb)"
    and "local_node_id (udp_env T S P X L) ctx \<noteq> cfg_node_id cfg_b"
    and "registry_wf T (engine_peers s)"
    and "to_host \<noteq> []" and "to_port \<noteq> 0" and "from_host \<noteq> []" and "from_port \<noteq> 0"
    and "env_message e = fst (make_announce_message (udp_env T S P' X' L') ctx_b sb)"
  shows "decode_datagram S (make_datagram_of from_host from_port
      (dg_payload (make_datagram S (env_message e) to_host to_port))) = Some (Some (env_message e)) \<and>
    (\<exists>s' p. handle_inbound (udp_env T S P X L) ctx (Some e) s = Some (True, s') \<and>
      registry_get (engine_peers s') (cfg_node_id cfg_b) = Some p \<and> dp_state p = PS_Alive \<and>
      dp_announcement p =
        \<lparr>ann_node_id = cfg_node_id cfg_b, ann_host = cfg_announce_host cfg_b,
         ann_port = cfg_announce_port cfg_b,
         ann_timestamp = readings (sys_clock sb) (ticks (sys_clock sb))\<rparr> \<and>
      (\<forall>k. k \<noteq> cfg_node_id cfg_b \<longrightarrow>
        registry_get (engine_peers s') k = registry_get (engine_peers s) k))"
proof -
  let ?E = "udp_env T S P X L" and ?B = "udp_env T S P' X' L'"
  let ?a = "local_announcement cfg_b (time_at sb 0)"
  have c: "config_checked (api_time ?B) ctx_b = Inr cfg_b" by (simp add: assms(4))
  have m: "env_message e = announce_message_at ?B cfg_b (time_at sb 0) (time_at sb 1)"
    using make_messages_eq(1) [OF c] assms(13) by simp
  have t: "ts_is_valid T (time_at sb 0)" by (rule clock_ok_time_at [OF assms(6)])
  have fits: "message_fits (env_message e)"
    unfolding m by (rule engine_messages_fit(1) [OF _ c assms(5)]) (simp_all add: assms(2) t)
  have a: "announcement_fits T ?a" "announcement_is_valid T ?a"
    using local_announcement_fits [OF assms(4,5) t] local_announcement_valid [OF assms(4) t] .
  have handled: "handle_inbound ?E ctx (Some e) s =
      Some (True, integrate_with_transport ?E ctx ?a (upsert_discovered_peer ?E ?a s))"
    by (rule handle_inbound_learns)
      (use assms(1,2,7) a(1) engine_messages_valid(1) [OF c] in
        \<open>simp_all add: m announce_message_at_def message_is_valid_def message_type_is_valid_def
          config_valid_parts(1) [OF assms(4)] local_announcement_def make_announcement_def\<close>)
  have id: "ann_node_id ?a = cfg_node_id cfg_b"
    by (simp add: local_announcement_def make_announcement_def)
  show ?thesis
    using message_travels [OF assms(2) fits assms(9-12)] handled
      learned_registry [of ?E s ?a ctx] assms(3,8) a(2)
    by (simp add: engine_peers_def registry_get_def id announced_peer_simps)
      (simp add: local_announcement_def make_announcement_def time_at_def)
qed

definition demo_envelope :: "message \<Rightarrow> i64 envelope" where
  "demo_envelope m = (envelope_of_message demo_time 5000 m)
     \<lparr>env_from_host := ''10.0.0.2'', env_from_port := 9400\<rparr>"

lemma demo_envelope_facts [simp]:
  "env_message (demo_envelope m) = m"
  "envelope_has_source (demo_envelope m)"
  by (simp_all add: demo_envelope_def envelope_of_message_def envelope_has_source_def)

theorem announcement_reaches_peer_witness:
  "\<exists>m s' p. handle_inbound demo_env demo_context (Some (demo_envelope m)) demo_running = Some (True, s') \<and>
     registry_get (engine_peers s') ''node-b'' = Some p \<and> dp_state p = PS_Alive"
proof -
  let ?m = "fst (make_announce_message demo_env (make_context demo_config_b) demo_running)"
  show ?thesis
    using announcement_reaches_peer [OF demo_timestamp_ok demo_serializer_ok layout_id
        demo_config_b_facts(1,2) demo_running_facts(1), of demo_platform demo_transport demo_context
        demo_running "''10.0.0.1''" 9400 "''10.0.0.2''" 9400 "demo_envelope ?m" demo_platform
        demo_transport id]
    unfolding demo_env_def by (simp add: engine_peers_def) blast
qed

text \<open>
  C13.  Probe and reply, end to end.  A running node that handles the probe of another node sends
  exactly one envelope, to the source endpoint of the probe; its message fits the wire, is a
  reply addressed to the prober and repeats the correlation id of the probe; and the prober, when
  it handles a message equal to it, succeeds and knows the answering node as alive under the
  host and port of its configuration.
\<close>

theorem probe_is_answered:
  assumes "timestamp_ok T" and "serializer_ok S" and "layout_ok L"
    and "config_checked T ctx_a = Inr cfg_a" and "config_checked T ctx_b = Inr cfg_b"
    and "identity_fits cfg_a" and "identity_fits cfg_b" and "cfg_node_id cfg_a \<noteq> cfg_node_id cfg_b"
    and "clock_ok T (sys_clock sb)" and "clock_ok T (sys_clock sp)"
    and "env_message e = fst (make_probe_message (udp_env T S P' X' L') ctx_a sp)"
    and "envelope_has_source e"
    and "registry_wf T (engine_peers sa)"
  shows "\<exists>m. message_fits m \<and> msg_type m = MT_Reply \<and> msg_to m = cfg_node_id cfg_a \<and>
    msg_correlation m = msg_correlation (env_message e) \<and>
    handle_inbound (udp_env T S P X L) ctx_b (Some e) sb =
      map_option (\<lambda>(sent, b). (sent, (advance 3 sb)\<lparr>sys_backend := b\<rparr>))
        (udp_send T S P (sys_backend sb)
          \<lparr>env_message = m, env_from_host = [], env_from_port = 0,
           env_to_host = env_from_host e, env_to_port = env_from_port e,
           env_timestamp = time_at sb 1, env_retry_count = 1,
           env_last_attempt_at = time_at sb 2\<rparr>) \<and>
    (\<forall>r. env_message r = m \<longrightarrow>
      (\<exists>s' p. handle_inbound (udp_env T S P X L) ctx_a (Some r) sa = Some (True, s') \<and>
        registry_get (engine_peers s') (cfg_node_id cfg_b) = Some p \<and> dp_state p = PS_Alive \<and>
        ann_host (dp_announcement p) = cfg_announce_host cfg_b \<and>
        ann_port (dp_announcement p) = cfg_announce_port cfg_b))"
proof -
  let ?E = "udp_env T S P X L"
  let ?a = "local_announcement cfg_b (time_at sb 0)"
  let ?m = "reply_message_at ?E cfg_b (env_message e) (time_at sb 0)"
  have ca: "config_checked (api_time ?E) ctx_a = Inr cfg_a"
    and cb: "config_checked (api_time ?E) ctx_b = Inr cfg_b" using assms(4,5) by simp_all
  have tb: "ts_is_valid T (time_at sb 0)" by (rule clock_ok_time_at [OF assms(9)])
  let ?P = "udp_env T S P' X' L'"
  have cp: "config_checked (api_time ?P) ctx_a = Inr cfg_a" using assms(4) by simp
  have e: "env_message e = probe_message_at ?P cfg_a (time_at sp 0)"
    using assms(11) make_messages_eq(2) [OF cp] by simp
  have probe: "msg_from (env_message e) = cfg_node_id cfg_a" "msg_type (env_message e) = MT_Probe"
      "message_is_valid (env_message e)"
    using engine_messages_valid(2) [OF ca, of ?P "time_at sp 0"] by (simp_all add: e probe_message_at_def)
  have "message_fits (env_message e)"
    unfolding e
    by (rule engine_messages_fit(2) [OF _ cp assms(6), where t = "time_at sp 0"])
      (simp_all add: assms(2) clock_ok_time_at [OF assms(10)])
  then have fits: "message_fits ?m"
    by (intro engine_messages_fit(3) [OF _ cb assms(7)]) (simp_all add: assms(2) tb message_fits_def)
  have answer: "handle_inbound ?E ctx_b (Some e) sb =
      map_option (\<lambda>(sent, b). (sent, (advance 3 sb)\<lparr>sys_backend := b\<rparr>))
        (udp_send T S P (sys_backend sb)
          \<lparr>env_message = ?m, env_from_host = [], env_from_port = 0,
           env_to_host = env_from_host e, env_to_port = env_from_port e,
           env_timestamp = time_at sb 1, env_retry_count = 1,
           env_last_attempt_at = time_at sb 2\<rparr>)"
    using handle_probe_eq [OF assms(12) cb, of sb] assms(8,9) probe
    by (simp add: handle_inbound_def local_node_id_config [OF cb] first_attempt_def envelope_defs
        envelope_mark_attempt_def)
  have a: "announcement_fits T ?a" "announcement_is_valid T ?a"
    using local_announcement_fits [OF assms(5,7) tb] local_announcement_valid [OF assms(5) tb] .
  have id: "ann_node_id ?a = cfg_node_id cfg_b"
    by (simp add: local_announcement_def make_announcement_def)
  have learned: "\<exists>s' p. handle_inbound ?E ctx_a (Some r) sa = Some (True, s') \<and>
      registry_get (engine_peers s') (cfg_node_id cfg_b) = Some p \<and> dp_state p = PS_Alive \<and>
      ann_host (dp_announcement p) = cfg_announce_host cfg_b \<and>
      ann_port (dp_announcement p) = cfg_announce_port cfg_b" if r: "env_message r = ?m" for r
  proof -
    have "handle_inbound ?E ctx_a (Some r) sa =
        Some (True, integrate_with_transport ?E ctx_a ?a (upsert_discovered_peer ?E ?a sa))"
      by (rule handle_inbound_learns)
        (use assms(1,2,8) a(1) engine_messages_valid(3) [OF cb, of ?E "env_message e" "time_at sb 0"]
          in \<open>simp_all add: r local_node_id_config [OF ca] id, simp_all add: reply_message_at_def\<close>)
    then show ?thesis
      using learned_registry [of ?E sa ?a ctx_a] assms(3,13) a(2)
      by (simp add: engine_peers_def registry_get_def id announced_peer_simps)
        (simp add: local_announcement_def make_announcement_def)
  qed
  show ?thesis
    by (intro exI [of _ ?m] conjI)
      (use fits answer learned in \<open>simp_all add: reply_message_at_def probe\<close>)
qed

theorem probe_is_answered_witness:
  "\<exists>m. message_fits m \<and> msg_type m = MT_Reply \<and> msg_to m = ''node-a'' \<and>
     msg_correlation m = ''probe-5000'' \<and>
     (\<exists>s' p. handle_inbound demo_env demo_context (Some (demo_envelope m)) demo_running = Some (True, s') \<and>
       registry_get (engine_peers s') ''node-b'' = Some p \<and> dp_state p = PS_Alive)"
proof -
  let ?probe = "fst (make_probe_message demo_env demo_context demo_running)"
  have a: "identity_fits demo_config" "cfg_node_id demo_config = ''node-a''"
    by (simp_all add: identity_fits_def demo_config_def demo_options_def to_config_def options_defs)
  have "msg_correlation ?probe = ''probe-5000''"
    using make_messages_eq(2) [OF demo_config_checked [folded demo_env_simps(1)], of demo_running]
    by (simp add: probe_message_at_def time_at_def demo_clock_def int_to_string_5000)
  with probe_is_answered [OF demo_timestamp_ok demo_serializer_ok layout_id demo_config_checked
      demo_config_b_facts(1) a(1) demo_config_b_facts(2) _ demo_running_facts(1,1), of
      "demo_envelope ?probe" demo_platform demo_transport id demo_running demo_platform demo_transport]
  show ?thesis unfolding demo_env_def by (simp add: a(2) engine_peers_def) (meson demo_envelope_facts(1))
qed

section \<open>Transport and ageing\<close>

text \<open>
  C27.  What polling tells the transport engine: in any reachable state one poll leaves it alone
  or makes exactly one \<open>connect_peer\<close> call, and then the transport was running, did not
  have this peer, accepts it as valid, and the registry holds it, alive, under an id that is not
  the node's own.
\<close>

theorem poll_connects_new_peers:
  assumes "layout_ok L" and "engine_reachable (udp_env T S P X L) ctx s"
    and "poll_once (udp_env T S P X L) ctx s = Some (ok, s')"
  shows "sys_transport s' = sys_transport s \<or>
    (\<exists>p. sys_transport s' = tr_connect_peer X (sys_transport s) (to_peer_info p) \<and>
      tr_is_running X (sys_transport s) \<and> peer_info_is_valid X (to_peer_info p) \<and>
      \<not> tr_contains X (sys_transport s) (peer_node_id p) \<and>
      registry_get (engine_peers s') (peer_node_id p) = Some p \<and> dp_state p = PS_Alive \<and>
      peer_node_id p \<noteq> local_node_id (udp_env T S P X L) ctx)"
  using udp_node.poll_once_transport [OF _ udp_node.engine_reachable_inv [OF assms(2)] assms(3)]
    assms(1)
  by (simp add: connects_def engine_peers_def registry_get_def) blast

theorem poll_connects_new_peers_witness:
  "\<exists>s p. poll_once demo_env demo_context demo_started = Some (True, s) \<and>
     sys_transport s = tr_connect_peer demo_transport [] (to_peer_info p) \<and>
     registry_get (engine_peers s) (peer_node_id p) = Some p \<and> dp_state p = PS_Alive"
proof -
  obtain s where "poll_once demo_env demo_context demo_started = Some (True, s)"
      "sys_transport s = [''node-b'']"
    using demo_history by blast
  with poll_connects_new_peers [OF layout_id demo_started_reachable [unfolded demo_env_def]]
  show ?thesis unfolding demo_env_def by fastforce
qed

text \<open>
  The ageing thresholds of the engine: before each poll, a peer last seen a whole
  \<open>peer_ttl\<close> ago becomes expired and one last seen half of it ago becomes stale (for the states
  where \<open>refresh_states\<close> follows its documentation, that is for peers that are not
  already expired); the call reads the clock once and changes nothing else.
\<close>

lemma engine_ageing:
  assumes "timestamp_ok T" and "duration_ok T" and "config_checked T ctx = Inr c"
    and "clock_ok T (sys_clock s)"
  defines "ttl \<equiv> sint (dur_millis T (cfg_peer_ttl c))"
    and "age p \<equiv> sint (ts_millis T (time_at s 0)) - sint (ts_millis T (dp_last_seen_at p))"
  shows "\<exists>r. refresh_peer_states (udp_env T S P X L) ctx s = Some ((advance 1 s)\<lparr>eng_registry := r\<rparr>) \<and>
    (\<forall>k p. registry_get (engine_peers s) k = Some p \<and> dp_state p \<noteq> PS_Expired \<and>
        ts_is_valid T (dp_last_seen_at p) \<longrightarrow>
      registry_get r k = Some (p\<lparr>dp_state :=
        if ttl \<le> age p then PS_Expired else if ttl div 2 \<le> age p then PS_Stale else dp_state p\<rparr>))"
proof -
  have t: "ts_is_valid T (time_at s 0)" by (rule clock_ok_time_at [OF assms(4)])
  have half: "sint (dur_millis T (stale_after T c)) = ttl div 2"
    unfolding ttl_def by (rule stale_after_half [OF assms(2) config_valid_parts(7) [OF assms(3)]])
  let ?f = "refreshed_peer T (time_at s 0) (stale_after T c) (cfg_peer_ttl c)"
  have f: "?f p = p\<lparr>dp_state :=
        if ttl \<le> age p then PS_Expired else if ttl div 2 \<le> age p then PS_Stale else dp_state p\<rparr>"
    if "dp_state p \<noteq> PS_Expired" "ts_is_valid T (dp_last_seen_at p)" for p
    using that
    by (simp add: refreshed_peer_def refreshed_state_documented documented_state_def half
        peer_age_def age_def ttl_def [symmetric])
  show ?thesis
    using refresh_states_eq [OF assms(1) t, of "eng_registry s" "stale_after T c" "cfg_peer_ttl c"]
      assms(3) f um_find_map [of ?f "eng_registry s"]
    by (auto simp: refresh_peer_states_def sys_now_eq registry_get_def engine_peers_def advance_def)
qed

lemma engine_ageing_witness:
  "\<exists>r. refresh_peer_states demo_env demo_context demo_running =
     Some ((advance 1 demo_running)\<lparr>eng_registry := r\<rparr>)"
  using engine_ageing [OF demo_timestamp_ok demo_duration_ok demo_config_checked
      demo_running_facts(1), of demo_serializer demo_platform demo_transport id]
  unfolding demo_env_def by blast

end
