(* ===== verification/Service_Properties.thy ===== *)
theory Service_Properties
  imports Instances
begin

text \<open>
  The properties of the public service: its invariant over all histories, the list of peers it
  shows, and the peers that its handler is called with.
\<close>

text \<open>
  Whatever sequence of public calls a service has served, on itself or through \<open>engine()\<close>,
  with whatever handler installed:
  its configuration is the one of its options; it runs exactly when its socket backend does, and
  only with valid options; a service that does not run knows no peers; and it never
  lists itself, because no peer of its registry has its own node id.
\<close>

lemma service_invariant:
  assumes "service_reachable T S P X opts (v, h)"
  shows "svc_options v = opts \<and> svc_config v = to_config T opts \<and>
    (service_is_running (udp_env T S P X L) v \<longleftrightarrow> udp_is_running (sys_backend (svc_system v))) \<and>
    (service_is_running (udp_env T S P X L) v \<longrightarrow> options_is_valid T opts) \<and>
    (\<not> service_is_running (udp_env T S P X L) v \<longrightarrow> registry_size (engine_peers (svc_system v)) = 0) \<and>
    (options_is_valid T opts \<longrightarrow>
      registry_get (engine_peers (svc_system v)) (opt_node_id opts) = None)"
  using service_inv_facts [of T S P X opts v L] service_reachable_inv [OF assms] by simp

type_synonym demo_log = "string list"

definition demo_service :: "(i64, i64, string list, demo_state udp_socket, demo_log) service" where
  "demo_service = make_service demo_time demo_options [] (socket_default ([], [])) demo_clock"

lemma demo_service_reachable:
  "service_reachable demo_time demo_serializer demo_platform demo_transport demo_options
     (demo_service, [])"
  unfolding demo_service_def by (rule service_reachable.service_created) simp

lemma service_invariant_witness:
  "registry_get (engine_peers (svc_system demo_service)) (opt_node_id demo_options) = None"
proof -
  have "options_is_valid demo_time demo_options"
    by (simp add: options_is_valid_def demo_options_def options_defs)
  with service_invariant [OF demo_service_reachable, of id] show ?thesis by blast
qed

text \<open>
  C32.  The list that the service shows is complete and clean: in every reachable state \<open>peers()\<close>
  has one entry for every available peer of the registry, in the registry's order, each with the
  id, endpoint and time of last contact of that peer; every entry is valid, no id occurs
  twice, and the call changes nothing but the clock.
\<close>

theorem service_peers_spec:
  assumes "service_reachable T S P X opts (v, h)"
  shows "fst (service_peers (udp_env T S P X L) v) =
      map (\<lambda>p. \<lparr>pub_node_id = peer_node_id p, pub_host = ann_host (dp_announcement p),
          pub_port = ann_port (dp_announcement p), pub_last_seen_at = dp_last_seen_at p\<rparr>)
        (available_peers (engine_peers (svc_system v))) \<and>
    (\<forall>q \<in> set (fst (service_peers (udp_env T S P X L) v)). public_peer_is_valid T q) \<and>
    distinct (map pub_node_id (fst (service_peers (udp_env T S P X L) v))) \<and>
    engine_peers (svc_system (snd (service_peers (udp_env T S P X L) v))) =
      engine_peers (svc_system v)"
proof -
  let ?E = "udp_env T S P X L" and ?r = "eng_registry (svc_system v)"
  from service_reachable_inv [OF assms] have inv: "engine_ok T S P X (svc_context v) (svc_system v)"
    by (auto simp: service_inv_def)
  then have eng: "engine_inv ?E (svc_context v) (svc_system v)" "peers_seen ?E (svc_system v)"
    using engine_ok_any [of T S P X "svc_context v" "svc_system v" L] by simp_all
  have view: "public_view p = \<lparr>pub_node_id = peer_node_id p, pub_host = ann_host (dp_announcement p),
      pub_port = ann_port (dp_announcement p), pub_last_seen_at = dp_last_seen_at p\<rparr>"
    for p :: "'a discovered_peer"
    by (simp add: public_view_def from_discovered_peer_def make_public_peer_def peer_node_id_def)
  have list: "fst (service_peers ?E v) = map public_view (available_peers ?r)"
    by (rule service_peers_eq [OF eng])
  have "filter (public_peer_is_valid T) xs = xs \<Longrightarrow> \<forall>q \<in> set xs. public_peer_is_valid T q" for xs
    by (simp add: filter_id_conv)
  moreover have "fst (service_peers ?E v) =
      filter (public_peer_is_valid T) (map public_view (available_peers ?r))"
    by (simp add: service_peers_def Let_def case_prod_unfold public_peers_loop_eq engine_peers_def)
  ultimately have valid: "\<forall>q \<in> set (fst (service_peers ?E v)). public_peer_is_valid T q"
    by simp
  have wf: "registry_wf T ?r" using eng(1) by (simp add: engine_inv_def)
  note ids = available_ids_distinct [OF wf]
  have listed: "fst (service_peers ?E v) =
      map (\<lambda>p. \<lparr>pub_node_id = peer_node_id p, pub_host = ann_host (dp_announcement p),
          pub_port = ann_port (dp_announcement p), pub_last_seen_at = dp_last_seen_at p\<rparr>)
        (available_peers (engine_peers (svc_system v)))"
    unfolding list engine_peers_def by (rule map_cong [OF refl]) (rule view)
  have "map pub_node_id (fst (service_peers ?E v)) = map peer_node_id (available_peers ?r)"
    by (simp add: list view)
  with ids have "distinct (map pub_node_id (fst (service_peers ?E v)))" by simp
  moreover have "engine_peers (svc_system (snd (service_peers ?E v))) = engine_peers (svc_system v)"
    using talksD(2) [OF service_peers_talks [of ?E v]] by (simp add: engine_peers_def)
  ultimately show ?thesis using listed valid by blast
qed

theorem service_peers_spec_witness:
  "distinct (map pub_node_id (fst (service_peers demo_env demo_service)))"
  using service_peers_spec [OF demo_service_reachable, of id] unfolding demo_env_def by blast

section \<open>Notification\<close>

text \<open>
  C33.  What a poll reports: after every poll the service remembers how many peers are available;
  without a handler nothing is called; with one, it is called, in order, for the valid peers of
  the available list from the remembered count on, and for nothing when the list did not grow.
\<close>

theorem notify_new_peers_spec:
  "svc_known_peer_count (fst (notify_new_peers E v h)) =
     length (available_peers (engine_peers (svc_system v))) \<and>
   engine_peers (svc_system (fst (notify_new_peers E v h))) = engine_peers (svc_system v) \<and>
   snd (notify_new_peers E v h) =
     (case svc_on_peer_found v of
        None \<Rightarrow> h
      | Some f \<Rightarrow>
          fold f
            (filter (public_peer_is_valid (api_time E))
              (map (\<lambda>p. from_discovered_peer (dp_last_seen_at p) p)
                (drop (svc_known_peer_count v) (available_peers (engine_peers (svc_system v))))))
            h)"
proof -
  have view: "(\<lambda>p. from_discovered_peer (dp_last_seen_at p) p) = public_view"
    by (rule ext) (simp add: public_view_def)
  show ?thesis
    unfolding view engine_peers_def
    using notify_new_peers_count [of E v h] notify_new_peers_frame [of E v h]
      notify_new_peers_handler [of E v h] by blast
qed

end
