(* ===== verification/Node_Simulation.thy ===== *)
theory Node_Simulation
  imports Service_Proofs
begin

text \<open>
  Exchanging the backend under an engine.  When one backend acts as another one seen through a
  map \<open>as\<close>, so does the engine on it, operation by operation, and the service with it.  The
  contract is \<open>node_simulation\<close>; it is interpreted on the UDP backend over Windows sockets and
  over Linux sockets, so that nothing above the socket class depends on the platform.
\<close>

section \<open>Systems over two backends\<close>

definition map_system :: "('b \<Rightarrow> 'c) \<Rightarrow> ('t, 'b, 'x) system \<Rightarrow> ('t, 'c, 'x) system" where
  "map_system as s =
     \<lparr>eng_status = eng_status s, eng_registry = eng_registry s,
      eng_last_announce_at = eng_last_announce_at s, sys_backend = as (sys_backend s),
      sys_transport = sys_transport s, sys_clock = sys_clock s\<rparr>"

lemma map_system_simps [simp]:
  "eng_status (map_system as s) = eng_status s"
  "eng_registry (map_system as s) = eng_registry s"
  "eng_last_announce_at (map_system as s) = eng_last_announce_at s"
  "sys_backend (map_system as s) = as (sys_backend s)"
  "sys_transport (map_system as s) = sys_transport s"
  "sys_clock (map_system as s) = sys_clock s"
  "(map_system as s)\<lparr>eng_status := st\<rparr> = map_system as (s\<lparr>eng_status := st\<rparr>)"
  "(map_system as s)\<lparr>eng_registry := r\<rparr> = map_system as (s\<lparr>eng_registry := r\<rparr>)"
  "(map_system as s)\<lparr>eng_last_announce_at := t\<rparr> = map_system as (s\<lparr>eng_last_announce_at := t\<rparr>)"
  "(map_system as s)\<lparr>sys_backend := as b\<rparr> = map_system as (s\<lparr>sys_backend := b\<rparr>)"
  "(map_system as s)\<lparr>sys_transport := x\<rparr> = map_system as (s\<lparr>sys_transport := x\<rparr>)"
  "(map_system as s)\<lparr>sys_clock := c\<rparr> = map_system as (s\<lparr>sys_clock := c\<rparr>)"
  by (simp_all add: map_system_def)

text \<open>The two rules that carry a simulation through the exec monad.\<close>

lemma bind_simulates:
  assumes "\<And>x s. r = Some (x, s) \<Longrightarrow> g x (m s) = map_option (apsnd m') (h x s)"
  shows "Option.bind (map_option (apsnd m) r) (\<lambda>(x, s). g x s) =
    map_option (apsnd m') (Option.bind r (\<lambda>(x, s). h x s))"
  using assms by (cases r) auto

lemma bind_simulates_state:
  assumes "\<And>s. r = Some s \<Longrightarrow> g (m s) = map_option f (h s)"
  shows "Option.bind (map_option m r) g = map_option f (Option.bind r h)"
  using assms by (cases r) auto

section \<open>The contract\<close>

locale node_simulation =
  fixes E :: "('t, 'd, 'b, 'x) env"
    and F :: "('t, 'd, 'c, 'x) env"
    and as :: "'b \<Rightarrow> 'c"
    and good :: bool
  assumes same: "api_time F = api_time E" "api_serializer F = api_serializer E"
      "api_transport F = api_transport E" "api_layout F = api_layout E"
    and sim_be_start: "good \<Longrightarrow>
      be_start (api_backend F) (as b) = map_option (apsnd as) (be_start (api_backend E) b)"
    and sim_be_stop: "good \<Longrightarrow> be_stop (api_backend F) (as b) = as (be_stop (api_backend E) b)"
    and sim_be_is_running: "good \<Longrightarrow>
      be_is_running (api_backend F) (as b) = be_is_running (api_backend E) b"
    and sim_be_send: "good \<Longrightarrow>
      be_send (api_backend F) (as b) e = map_option (apsnd as) (be_send (api_backend E) b e)"
    and sim_be_poll: "good \<Longrightarrow> be_poll (api_backend F) (as b) c =
      map_option (\<lambda>(got, b, c). (got, as b, c)) (be_poll (api_backend E) b c)"
begin

abbreviation (input) as_sys where "as_sys \<equiv> map_system as"

lemma sim_running: "good \<Longrightarrow> engine_is_running F (as_sys s) = engine_is_running E s"
  by (simp add: engine_is_running_def sim_be_is_running)

lemma sim_node_id: "local_node_id F ctx = local_node_id E ctx"
  by (simp add: local_node_id_def same)

lemma sim_now: "sys_now (as_sys s) = apsnd as_sys (sys_now s)"
  by (simp add: sys_now_def split: prod.splits)

lemma sim_sys_send: "good \<Longrightarrow> sys_send F e (as_sys s) = map_option (apsnd as_sys) (sys_send E e s)"
  by (cases "be_send (api_backend E) (sys_backend s) (envelope_mark_attempt (fst (now (sys_clock s))) e)")
    (auto simp: sys_send_def client_send_def same sim_be_send now_def Let_def)

lemma sim_engine_start:
  "good \<Longrightarrow> engine_start F ctx (as_sys s) = map_option (apsnd as_sys) (engine_start E ctx s)"
  by (cases "be_start (api_backend E) (sys_backend s)")
    (auto simp: engine_start_def server_start_def same sim_be_start Let_def)

lemma sim_engine_stop: "good \<Longrightarrow> engine_stop F (as_sys s) = as_sys (engine_stop E s)"
  by (simp add: engine_stop_def server_stop_def same sim_be_stop Let_def)

lemma sim_local_announcement:
  "make_local_announcement F ctx (as_sys s) = apsnd as_sys (make_local_announcement E ctx s)"
  by (auto simp: make_local_announcement_def same sim_node_id sim_now split: sum.splits prod.splits)

lemma sim_correlation_id:
  "make_correlation_id F prefix (as_sys s) = apsnd as_sys (make_correlation_id E prefix s)"
  by (auto simp: make_correlation_id_def same sim_now split: prod.splits)

lemma sim_messages:
  "make_announce_message F ctx (as_sys s) = apsnd as_sys (make_announce_message E ctx s)"
  "make_probe_message F ctx (as_sys s) = apsnd as_sys (make_probe_message E ctx s)"
  "make_reply_message F ctx i j (as_sys s) = apsnd as_sys (make_reply_message E ctx i j s)"
  "make_outbound_envelope F m h p (as_sys s) = apsnd as_sys (make_outbound_envelope E m h p s)"
  by (auto simp: make_announce_message_def make_probe_message_def make_reply_message_def
      make_outbound_envelope_def sim_local_announcement sim_correlation_id sim_now sim_node_id same
      Let_def split: prod.splits)

lemma sim_announce_now:
  "good \<Longrightarrow> announce_now F ctx (as_sys s) = map_option (apsnd as_sys) (announce_now E ctx s)"
  by (auto simp: announce_now_def sim_running same sim_messages sim_sys_send sim_now Let_def
      intro!: bind_simulates split: sum.splits prod.splits)

lemma sim_probe_now:
  "good \<Longrightarrow> probe_now F ctx (as_sys s) = map_option (apsnd as_sys) (probe_now E ctx s)"
  by (auto simp: probe_now_def sim_running same sim_messages sim_sys_send Let_def
      split: sum.splits prod.splits)

lemma sim_maybe_announce:
  assumes good
  shows "maybe_announce F ctx (as_sys s) = map_option as_sys (maybe_announce E ctx s)"
proof -
  have ann: "Option.bind (announce_now F ctx (as_sys s)) (\<lambda>(_, s). Some s) =
      map_option as_sys (Option.bind (announce_now E ctx s) (\<lambda>(_, s). Some s))" for s
    by (cases "announce_now E ctx s") (auto simp: sim_announce_now [OF assms])
  show ?thesis
    by (cases "i64_sub (ts_millis (api_time E) (fst (sys_now s)))
        (ts_millis (api_time E) (eng_last_announce_at (snd (sys_now s))))")
      (auto simp: maybe_announce_def same sim_now ann Let_def split: sum.splits prod.splits)
qed

lemma sim_refresh:
  "refresh_peer_states F ctx (as_sys s) = map_option as_sys (refresh_peer_states E ctx s)"
  by (cases "config_checked (api_time E) ctx")
    (auto simp: refresh_peer_states_def same sim_now sys_now_def now_def Let_def map_option_bind
      split: prod.splits intro!: bind_option_cong)

lemma sim_upsert: "upsert_discovered_peer F a (as_sys s) = as_sys (upsert_discovered_peer E a s)"
  by (auto simp: upsert_discovered_peer_def same split: prod.splits)

lemma sim_integrate:
  "integrate_with_transport F ctx a (as_sys s) = as_sys (integrate_with_transport E ctx a s)"
  by (auto simp: integrate_with_transport_def same Let_def split: sum.splits)

lemma sim_handle_announce:
  "handle_announce F ctx e (as_sys s) = map_option (apsnd as_sys) (handle_announce E ctx e s)"
  by (auto simp: handle_announce_def same sim_node_id sim_upsert sim_integrate Let_def
      map_option_bind intro!: bind_option_cong split: option.splits)

lemma sim_handle_probe:
  "good \<Longrightarrow> handle_probe F ctx e (as_sys s) = map_option (apsnd as_sys) (handle_probe E ctx e s)"
  by (auto simp: handle_probe_def sim_messages sim_sys_send Let_def split: prod.splits)

lemma sim_handle_inbound:
  "good \<Longrightarrow>
   handle_inbound F ctx got (as_sys s) = map_option (apsnd as_sys) (handle_inbound E ctx got s)"
  by (auto simp: handle_inbound_def handle_reply_announce sim_node_id sim_handle_announce
      sim_handle_probe split: option.splits message_type.splits)

lemma sim_poll_once:
  assumes good
  shows "poll_once F ctx (as_sys s) = map_option (apsnd as_sys) (poll_once E ctx s)"
proof -
  have poll: "Option.bind (server_poll (api_backend F) (as (sys_backend s)) (sys_clock s))
        (\<lambda>(got, b, c). handle_inbound F ctx got (as_sys s\<lparr>sys_backend := b, sys_clock := c\<rparr>)) =
      map_option (apsnd as_sys)
        (Option.bind (server_poll (api_backend E) (sys_backend s) (sys_clock s))
          (\<lambda>(got, b, c). handle_inbound E ctx got (s\<lparr>sys_backend := b, sys_clock := c\<rparr>)))" for s
    by (cases "be_poll (api_backend E) (sys_backend s) (sys_clock s)")
      (auto simp: server_poll_def sim_be_poll [OF assms] sim_handle_inbound [OF assms])
  show ?thesis
    using poll
    by (auto simp: poll_once_def sim_running [OF assms] sim_maybe_announce [OF assms] sim_refresh
        Let_def intro!: bind_simulates_state)
qed

lemma sim_poll_loop:
  "good \<Longrightarrow> poll_loop F ctx n k (as_sys s) = map_option (apsnd as_sys) (poll_loop E ctx n k s)"
  by (induction n arbitrary: k s)
    (auto simp: sim_poll_once intro!: bind_simulates)

lemma sim_poll_many:
  "good \<Longrightarrow> poll_many F ctx n (as_sys s) = map_option (apsnd as_sys) (poll_many E ctx n s)"
  by (simp add: poll_many_def sim_poll_loop)

end

section \<open>The service over two sockets\<close>

definition map_service :: "('s \<Rightarrow> 'r) \<Rightarrow> ('t, 'd, 'x, 's, 'f) service_of \<Rightarrow> ('t, 'd, 'x, 'r, 'f) service_of" where
  "map_service as v =
     \<lparr>svc_options = svc_options v, svc_config = svc_config v, svc_context = svc_context v,
      svc_system = map_system (map_backend as) (svc_system v),
      svc_on_peer_found = svc_on_peer_found v, svc_known_peer_count = svc_known_peer_count v\<rparr>"

lemma map_service_simps [simp]:
  "svc_options (map_service as v) = svc_options v"
  "svc_config (map_service as v) = svc_config v"
  "svc_context (map_service as v) = svc_context v"
  "svc_system (map_service as v) = map_system (map_backend as) (svc_system v)"
  "svc_on_peer_found (map_service as v) = svc_on_peer_found v"
  "svc_known_peer_count (map_service as v) = svc_known_peer_count v"
  "(map_service as v)\<lparr>svc_system := map_system (map_backend as) s\<rparr> = map_service as (v\<lparr>svc_system := s\<rparr>)"
  "(map_service as v)\<lparr>svc_known_peer_count := n\<rparr> = map_service as (v\<lparr>svc_known_peer_count := n\<rparr>)"
  "(map_service as v)\<lparr>svc_on_peer_found := f\<rparr> = map_service as (v\<lparr>svc_on_peer_found := f\<rparr>)"
  by (simp_all add: map_service_def)

text \<open>The state after creation corresponds, and so do the accessors of the registry.\<close>

lemma map_service_make:
  "map_service as (make_service T opts x k c) = make_service T opts x (as k) c"
  by (simp add: map_service_def make_service_def Let_def map_system_def make_system_def
      map_backend_def make_udp_backend_def)

lemma sim_notify:
  assumes "api_time F = api_time E"
  shows "notify_new_peers F (map_service as v) h = apfst (map_service as) (notify_new_peers E v h)"
  by (auto simp: notify_new_peers_def engine_peers_def assms Let_def split: option.splits prod.splits)

locale service_simulation =
  node_simulation "udp_env T S P X L" "udp_env T S Q X L" "map_backend as" good
  for T :: "('t, 'd) time_api" and S :: serializer and P :: "('d, 's) platform"
    and Q :: "('d, 'r) platform" and X :: "'x transport_api" and L :: "'t registry_layout"
    and as :: "'s \<Rightarrow> 'r" and good :: bool
begin

abbreviation (input) EP where "EP \<equiv> udp_env T S P X L"
abbreviation (input) EQ where "EQ \<equiv> udp_env T S Q X L"

lemma sim_service_start:
  "good \<Longrightarrow>
   service_start EQ (map_service as v) = map_option (apsnd (map_service as)) (service_start EP v)"
  by (cases "engine_start EP (svc_context v) (svc_system v)")
    (auto simp: service_start_def engine_peers_def sim_engine_start Let_def)

lemma sim_service_stop: "good \<Longrightarrow> service_stop EQ (map_service as v) = map_service as (service_stop EP v)"
  by (simp add: service_stop_def sim_engine_stop Let_def)

lemma sim_service_running:
  "good \<Longrightarrow> service_is_running EQ (map_service as v) = service_is_running EP v"
  by (simp add: service_is_running_def sim_running)

lemma sim_service_sends:
  assumes good
  shows "service_announce_now EQ (map_service as v) =
      map_option (apsnd (map_service as)) (service_announce_now EP v)"
    and "service_probe_now EQ (map_service as v) =
      map_option (apsnd (map_service as)) (service_probe_now EP v)"
  by (cases "announce_now EP (svc_context v) (svc_system v)",
      auto simp: service_announce_now_def sim_announce_now [OF assms],
      cases "probe_now EP (svc_context v) (svc_system v)",
      auto simp: service_probe_now_def sim_probe_now [OF assms])

lemma sim_service_peers:
  "service_peers EQ (map_service as v) = apsnd (map_service as) (service_peers EP v)"
  by (auto simp: service_peers_def engine_peers_def Let_def split: prod.splits)

lemma sim_service_polls:
  assumes good
  shows "service_poll EQ (map_service as v) h =
      map_option (\<lambda>(ok, v, h). (ok, map_service as v, h)) (service_poll EP v h)"
    and "service_poll_many EQ n (map_service as v) h =
      map_option (\<lambda>(k, v, h). (k, map_service as v, h)) (service_poll_many EP n v h)"
  by (cases "poll_once EP (svc_context v) (svc_system v)",
      auto simp: service_poll_def sim_poll_once [OF assms] sim_notify [of _ EP] split: prod.splits,
      cases "poll_many EP (svc_context v) n (svc_system v)",
      auto simp: service_poll_many_def sim_poll_many [OF assms] sim_notify [of _ EP] split: prod.splits)

end

text \<open>
  On the two socket classes.  Every simulation of platforms lifts through the UDP backend; the
  one that the program has is \<open>win_posix\<close>.
\<close>

interpretation win_node: node_simulation "udp_env T S (windows_platform T W) X L"
    "udp_env T S (linux_platform T (posix_of W)) X L" "map_backend as_posix" "winsock_ok W"
  by unfold_locales
    (simp_all add: win_posix.sim_udp_start win_posix.sim_udp_stop win_posix.sim_udp_send
      win_posix.sim_udp_poll udp_is_running_def)

interpretation win_service: service_simulation T S "windows_platform T W"
    "linux_platform T (posix_of W)" X L as_posix "winsock_ok W"
  by unfold_locales

abbreviation windows_env where
  "windows_env T S W X L \<equiv> udp_env T S (windows_platform T W) X L"

abbreviation linux_env where
  "linux_env T S K X L \<equiv> udp_env T S (linux_platform T K) X L"

text \<open>Histories correspond as well: what the service on Windows reaches, the one on Linux reaches.\<close>

lemma windows_engine_step:
  assumes W: "winsock_ok W"
    and step: "engine_step (udp_env T S (windows_platform T W) X L) ctx s s'"
  shows "engine_step (udp_env T S (linux_platform T (posix_of W)) X L) ctx
    (map_system (map_backend as_posix) s) (map_system (map_backend as_posix) s')"
  using step
proof cases
  case (started ok)
  then show ?thesis using win_node.sim_engine_start [OF W, of T S X L] by (auto intro: engine_step.started)
next
  case stopped
  then show ?thesis using win_node.sim_engine_stop [OF W, of T S X L s]
    by (metis engine_step.stopped)
next
  case (announced ok)
  then show ?thesis using win_node.sim_announce_now [OF W, of T S X L] by (auto intro: engine_step.announced)
next
  case (probed ok)
  then show ?thesis using win_node.sim_probe_now [OF W, of T S X L] by (auto intro: engine_step.probed)
next
  case (polled L' ok)
  then show ?thesis using win_node.sim_poll_once [OF W, of T S X L']
    by (auto intro: engine_step.polled [of L'])
next
  case (polled_many L' n k)
  then show ?thesis using win_node.sim_poll_many [OF W, of T S X L']
    by (auto intro: engine_step.polled_many [of L' _ ctx n _ k])
qed

lemma windows_service_step:
  assumes W: "winsock_ok W"
    and step: "service_step T S (windows_platform T W) X (v, h) (v', h')"
  shows "service_step T S (linux_platform T (posix_of W)) X
    (map_service as_posix v, h) (map_service as_posix v', h')"
  using step
proof cases
  case (service_starts L ok)
  then show ?thesis using win_service.sim_service_start [OF W, of T S X L v]
    by (auto intro: service_step.service_starts)
next
  case (service_stops L)
  then show ?thesis using win_service.sim_service_stop [OF W, of T S X L v]
    by (metis service_step.service_stops)
next
  case (service_announces L ok)
  then show ?thesis using win_service.sim_service_sends(1) [OF W, of T S X L v]
    by (auto intro: service_step.service_announces)
next
  case (service_probes L ok)
  then show ?thesis using win_service.sim_service_sends(2) [OF W, of T S X L v]
    by (auto intro: service_step.service_probes)
next
  case (service_polls L ok)
  then show ?thesis using win_service.sim_service_polls(1) [OF W, of T S X L v h]
    by (auto intro: service_step.service_polls)
next
  case (service_polls_many L n k)
  then show ?thesis using win_service.sim_service_polls(2) [OF W, of T S X L n v h]
    by (auto intro: service_step.service_polls_many)
next
  case (service_lists L)
  then show ?thesis
    using win_service.sim_service_peers [of T S W X L v]
      service_step.service_lists [of T S "linux_platform T (posix_of W)" X "map_service as_posix v" h L]
    by simp
next
  case (service_handles f)
  then show ?thesis
    using service_step.service_handles [of T S "linux_platform T (posix_of W)" X "map_service as_posix v" h f]
    by (simp add: service_on_peer_found_def)
next
  case (service_engine_used L s)
  then show ?thesis
    using windows_engine_step [OF W service_engine_used(3)]
      service_step.service_engine_used [of T S "linux_platform T (posix_of W)" X L "map_service as_posix v"
        "map_system (map_backend as_posix) s" h]
    by (simp add: service_with_engine_def service_engine_def)
qed

lemma windows_service_reachable:
  assumes "winsock_ok W" and "service_reachable T S (windows_platform T W) X opts vh"
  shows "service_reachable T S (linux_platform T (posix_of W)) X opts (apfst (map_service as_posix) vh)"
  using assms(2)
proof induction
  case (service_created c x k h)
  then show ?case
    using service_reachable.service_created [of T c S "linux_platform T (posix_of W)" X opts x "as_posix k" h]
    by (simp add: map_service_make)
next
  case (service_continues s s')
  then show ?case
    using windows_service_step [OF assms(1), of T S X "fst s" "snd s" "fst s'" "snd s'"]
    by (auto simp: apfst_def map_prod_def intro: service_reachable.service_continues split: prod.splits)
qed

end
