(* ===== verification/Windows_Properties.thy ===== *)
theory Windows_Properties
  imports Scenario Node_Simulation
begin

text \<open>
  The properties of the UDP backend compiled for Windows.  Everything that is stated for an
  arbitrary platform in the other theories holds there as well; here is what depends on
  Winsock.
\<close>

text \<open>
  C19.  Porting is faithful: when Winsock reports errors and byte counts as documented, a service
  compiled for Windows does, call by call, exactly what the service compiled for Linux does on the
  kernel \<open>posix_of W\<close>: same results, same peers shown, same handler calls, same registry and same
  transport, and whatever the one can reach from its creation the other can; and that kernel
  satisfies the hypotheses made about Linux kernels, so every result about services on Linux
  carries over.
\<close>

theorem windows_service_agrees:
  assumes "winsock_ok W"
  shows "service_start (linux_env T S (posix_of W) X L) (map_service as_posix v) =
      map_option (apsnd (map_service as_posix)) (service_start (windows_env T S W X L) v) \<and>
    service_stop (linux_env T S (posix_of W) X L) (map_service as_posix v) =
      map_service as_posix (service_stop (windows_env T S W X L) v) \<and>
    service_announce_now (linux_env T S (posix_of W) X L) (map_service as_posix v) =
      map_option (apsnd (map_service as_posix)) (service_announce_now (windows_env T S W X L) v) \<and>
    service_probe_now (linux_env T S (posix_of W) X L) (map_service as_posix v) =
      map_option (apsnd (map_service as_posix)) (service_probe_now (windows_env T S W X L) v) \<and>
    service_poll (linux_env T S (posix_of W) X L) (map_service as_posix v) h =
      map_option (\<lambda>(ok, v, h). (ok, map_service as_posix v, h))
        (service_poll (windows_env T S W X L) v h) \<and>
    service_poll_many (linux_env T S (posix_of W) X L) n (map_service as_posix v) h =
      map_option (\<lambda>(k, v, h). (k, map_service as_posix v, h))
        (service_poll_many (windows_env T S W X L) n v h) \<and>
    service_peers (linux_env T S (posix_of W) X L) (map_service as_posix v) =
      apsnd (map_service as_posix) (service_peers (windows_env T S W X L) v) \<and>
    service_is_running (linux_env T S (posix_of W) X L) (map_service as_posix v) =
      service_is_running (windows_env T S W X L) v \<and>
    map_service as_posix (make_service T opts x k c) = make_service T opts x (as_posix k) c \<and>
    (service_reachable T S (windows_platform T W) X opts (v, h) \<longrightarrow>
      service_reachable T S (linux_platform T (posix_of W)) X opts (map_service as_posix v, h)) \<and>
    kernel_ok (posix_of W) \<and> kernel_settles (posix_of W)"
  using windows_service_reachable [OF assms, of T S X opts "(v, h)"]
  by (simp add: win_service.sim_service_start [OF assms] win_service.sim_service_stop [OF assms]
      win_service.sim_service_sends [OF assms] win_service.sim_service_polls [OF assms]
      win_service.sim_service_peers win_service.sim_service_running [OF assms] map_service_make
      posix_of_ok [OF assms] posix_of_settles)

definition demo_win_service :: "(i64, i64, string list, demo_state win_socket, unit) service" where
  "demo_win_service = make_service demo_time demo_options [] (win_default ([], [])) demo_clock"

lemma demo_win_service_reachable:
  "service_reachable demo_time demo_serializer (windows_platform demo_time demo_winsock)
     demo_transport demo_options (demo_win_service, ())"
  unfolding demo_win_service_def by (rule service_reachable.service_created) simp

theorem windows_service_agrees_witness:
  "service_start (linux_env demo_time demo_serializer (posix_of demo_winsock) demo_transport id)
     (map_service as_posix demo_win_service) =
   map_option (apsnd (map_service as_posix))
     (service_start (windows_env demo_time demo_serializer demo_winsock demo_transport id)
       demo_win_service) \<and>
   service_reachable demo_time demo_serializer (linux_platform demo_time (posix_of demo_winsock))
     demo_transport demo_options (map_service as_posix demo_win_service, ())"
  using windows_service_agrees [OF demo_winsock_ok, of demo_time demo_serializer demo_transport id
      demo_win_service "()" 1 demo_options "[]" "win_default ([], [])" demo_clock] demo_win_service_reachable
  by blast

text \<open>
  One layer below: when Winsock reports errors and byte counts as documented, the backend
  over the Windows socket class does, call by call, exactly what it does over the Linux
  class on the kernel \<open>posix_of W\<close>: same results, same messages delivered, same running
  state, same calls; and that kernel satisfies the hypotheses made about Linux kernels, so
  every result about Linux sockets carries over.
\<close>

lemma windows_backend_agrees:
  assumes "winsock_ok W"
  shows "udp_start T (linux_platform T (posix_of W)) (map_backend as_posix b) =
      map_option (apsnd (map_backend as_posix)) (udp_start T (windows_platform T W) b) \<and>
    udp_stop (linux_platform T (posix_of W)) (map_backend as_posix b) =
      map_backend as_posix (udp_stop (windows_platform T W) b) \<and>
    udp_send T S (linux_platform T (posix_of W)) (map_backend as_posix b) e =
      map_option (apsnd (map_backend as_posix)) (udp_send T S (windows_platform T W) b e) \<and>
    udp_poll T S (linux_platform T (posix_of W)) (map_backend as_posix b) c =
      map_option (\<lambda>(got, b, c). (got, map_backend as_posix b, c))
        (udp_poll T S (windows_platform T W) b c) \<and>
    udp_is_running (map_backend as_posix b) = udp_is_running b \<and>
    kernel_ok (posix_of W) \<and> kernel_settles (posix_of W)"
  by (simp add: win_posix.sim_udp_start [OF assms] win_posix.sim_udp_stop [OF assms]
      win_posix.sim_udp_send [OF assms] win_posix.sim_udp_poll [OF assms] posix_of_ok [OF assms]
      posix_of_settles udp_is_running_def)

definition demo_win_backend :: "(i64, demo_state win_socket) udp_backend" where
  "demo_win_backend = make_udp_backend demo_config (win_default ([], []))"

lemma windows_backend_agrees_witness:
  "map_option fst (udp_start demo_time (windows_platform demo_time demo_winsock) demo_win_backend) =
   map_option fst (udp_start demo_time (linux_platform demo_time (posix_of demo_winsock))
     (map_backend as_posix demo_win_backend))"
  using windows_backend_agrees [OF demo_winsock_ok, of demo_time demo_win_backend]
  by (simp add: option.map_comp comp_def)

text \<open>
  Starting on Windows: as on Linux, a start returns; success means a valid configuration and an
  open, configured and bound socket, and every failure gives the handle up again; and while
  \<open>socket\<close> fails, as it does until the application has initialised Winsock (the header asks
  it to), every start of a stopped backend fails.
\<close>

lemma windows_start_spec:
  "\<exists>ok b'. udp_start T (windows_platform T W) b = Some (ok, b') \<and> ub_config b' = ub_config b \<and>
     ok = udp_is_running b' \<and>
     (udp_is_running b \<longrightarrow> ok \<and> b' = b) \<and>
     (\<not> udp_is_running b \<and> ok \<longrightarrow>
        config_is_valid T (ub_config b) \<and> win_is_valid (ub_socket b')) \<and>
     (\<not> ok \<and> config_is_valid T (ub_config b) \<longrightarrow> \<not> win_is_valid (ub_socket b')) \<and>
     (\<not> udp_is_running b \<and> \<not> config_is_valid T (ub_config b) \<longrightarrow> b' = b) \<and>
     (\<not> udp_is_running b \<and> (\<forall>k. fst (ws_socket W k) = INVALID_SOCKET) \<longrightarrow> \<not> ok)"
proof -
  have "\<not> ok" if "\<not> udp_is_running b" "\<forall>k. fst (ws_socket W k) = INVALID_SOCKET"
    and "udp_start T (windows_platform T W) b = Some (ok, b')" for ok b'
    using that
    by (auto simp: udp_start_def udp_is_running_def Let_def win_open_def split: if_splits prod.splits)
      (metis fst_conv)+
  then show ?thesis using windows.udp_start_outcome [where T = T and W = W and b = b] by metis
qed

lemma windows_start_spec_witness:
  "\<exists>b'. udp_start demo_time (windows_platform demo_time
       (demo_winsock\<lparr>ws_socket := \<lambda>k. (INVALID_SOCKET, k)\<rparr>)) demo_win_backend = Some (False, b')"
proof -
  have "\<not> udp_is_running demo_win_backend"
    by (simp add: demo_win_backend_def make_udp_backend_def udp_is_running_def)
  with windows_start_spec [of demo_time "demo_winsock\<lparr>ws_socket := \<lambda>k. (INVALID_SOCKET, k)\<rparr>"
      demo_win_backend]
  show ?thesis by auto
qed

text \<open>
  On Windows no public call of a service hangs or has undefined behaviour, whatever arrives on
  the network, as long as Winsock keeps its documentation: there is no retry loop, and the
  received bytes are copied from inside the buffer.
\<close>

lemma windows_service_returns:
  assumes "timestamp_ok T" and "serializer_ok S" and "winsock_ok W"
    and "service_reachable T S (windows_platform T W) X opts (v, h)"
  shows "(\<exists>ok v'. service_start (udp_env T S (windows_platform T W) X L) v = Some (ok, v') \<and>
      (ok \<longrightarrow> service_is_running (udp_env T S (windows_platform T W) X L) v' \<and>
        options_is_valid T opts)) \<and>
    (\<exists>r. service_announce_now (udp_env T S (windows_platform T W) X L) v = Some r) \<and>
    (\<exists>r. service_probe_now (udp_env T S (windows_platform T W) X L) v = Some r) \<and>
    (\<exists>r. service_poll (udp_env T S (windows_platform T W) X L) v h = Some r) \<and>
    (\<exists>k r. service_poll_many (udp_env T S (windows_platform T W) X L) n v h = Some (k, r) \<and> k \<le> n)"
  using service_calls_return_on [OF assms(1,2) windows_returns [OF assms(3)] assms(4)] .

lemma windows_service_returns_witness:
  "\<exists>k r. service_poll_many (udp_env demo_time demo_serializer
     (windows_platform demo_time demo_winsock) demo_transport id) 4 demo_win_service () = Some (k, r) \<and> k \<le> 4"
  using windows_service_returns [OF demo_timestamp_ok demo_serializer_ok demo_winsock_ok
      demo_win_service_reachable] by blast

end
