(* ===== verification/Heard.thy ===== *)
theory Heard
  imports Exchange
begin

text \<open>
  When a peer was last heard.  The clock of a system only moves forward through its readings,
  and a peer that was heard at some reading or later stays so through every effect of a running
  engine: ageing changes states, not times, and learning stamps a later reading.
\<close>

section \<open>The clock moves forward\<close>

lemma upsert_discovered_ticks: "ticks (sys_clock s) \<le> ticks (sys_clock (upsert_discovered_peer E a s))"
  by (auto simp: upsert_discovered_peer_def registry_upsert_announcement_def Let_def now_def
      split: option.splits prod.splits)

lemma announced_peer_later: "\<exists>i \<ge> ticks c. dp_last_seen_at (announced_peer r a c) = readings c i"
proof (cases "um_find r (ann_node_id a)")
  case None
  then show ?thesis by (intro exI [of _ "Suc (ticks c)"]) (simp add: announced_peer_def)
next
  case (Some p)
  then show ?thesis by (intro exI [of _ "ticks c"]) (simp add: announced_peer_def)
qed

lemma engine_effect_ticks: "engine_effect E ctx s s' \<Longrightarrow> ticks (sys_clock s) \<le> ticks (sys_clock s')"
  by (induction rule: engine_effect.induct) (auto simp: talksD integrate_frame upsert_discovered_ticks)

lemma effects_ticks: "engine_effects E ctx s s' \<Longrightarrow> ticks (sys_clock s) \<le> ticks (sys_clock s')"
  by (induction rule: rtranclp_induct) (auto dest: engine_effect_ticks)

section \<open>Peers heard since a reading\<close>

definition heard_since :: "nat \<Rightarrow> ('t, 'b, 'x) system \<Rightarrow> string \<Rightarrow> bool" where
  "heard_since n s k \<longleftrightarrow>
     (\<exists>p i. um_find (eng_registry s) k = Some p \<and> n \<le> i \<and> dp_last_seen_at p = readings (sys_clock s) i)"

lemma heard_since_contains: "heard_since n s k \<Longrightarrow> registry_contains (engine_peers s) k"
  by (auto simp: heard_since_def registry_contains_def engine_peers_def)

lemma heard_since_earlier: "heard_since n s k \<Longrightarrow> m \<le> n \<Longrightarrow> heard_since m s k"
  by (auto simp: heard_since_def intro: order_trans)

text \<open>A peer that is learned was heard at this moment.\<close>

lemma learned_heard:
  assumes L: "layout_ok (api_layout E)" and wf: "um_wf (eng_registry s)"
    and a: "announcement_is_valid (api_time E) a" and n: "n \<le> ticks (sys_clock s)"
    and k: "ann_node_id a = k \<or> heard_since n s k"
  shows "heard_since n (integrate_with_transport E ctx a (upsert_discovered_peer E a s)) k"
proof -
  obtain i where i: "ticks (sys_clock s) \<le> i"
      "dp_last_seen_at (announced_peer (eng_registry s) a (sys_clock s)) = readings (sys_clock s) i"
    using announced_peer_later by blast
  then have "n \<le> i" using n by simp
  with i(2) k show ?thesis
    using upsert_announcement_lookup [OF L wf a, of "sys_clock s"]
    by (auto simp: heard_since_def learn_frame)
qed

lemma engine_effect_heard:
  assumes L: "layout_ok (api_layout E)" and wf: "um_wf (eng_registry s)"
    and n: "n \<le> ticks (sys_clock s)" and k: "heard_since n s k" and step: "engine_effect E ctx s s'"
  shows "heard_since n s' k"
  using step
proof cases
  case talking
  with k show ?thesis by (simp add: heard_since_def talksD)
next
  case (ageing t c m r)
  from k obtain p i where p: "um_find (eng_registry s) k = Some p" and i: "n \<le> i"
      "dp_last_seen_at p = readings (sys_clock s) i"
    by (auto simp: heard_since_def)
  then obtain p' where p': "um_find r k = Some p'"
    using refresh_find_None [OF ageing(4), of k] by auto
  with refresh_find_seen [OF ageing(4) p'] p i show ?thesis
    by (auto simp: heard_since_def ageing(1))
next
  case (learning a)
  then show ?thesis using learned_heard [OF L wf _ n, of a k ctx] k by simp
qed

lemma engine_effects_heard:
  "engine_effects E ctx s s' \<Longrightarrow> layout_ok (api_layout E) \<Longrightarrow> engine_inv E ctx s \<Longrightarrow>
   eng_status s = DS_Running \<Longrightarrow> n \<le> ticks (sys_clock s) \<Longrightarrow> heard_since n s k \<Longrightarrow> heard_since n s' k"
proof (induction rule: rtranclp_induct)
  case (step y z)
  have "um_wf (eng_registry y)"
    using engine_effects_inv [OF step.hyps(1)] step.prems by (auto simp: engine_inv_def dest: registry_wf_um)
  moreover have "n \<le> ticks (sys_clock y)" using effects_ticks [OF step.hyps(1)] step.prems by simp
  ultimately show ?case
    using engine_effect_heard [OF step.prems(1)] step.IH [OF step.prems] step.hyps(2) by blast
qed

end
