(* ===== verification/Delivery.thy ===== *)
theory Delivery
  imports Heard Service
begin

text \<open>
  From the network into the registry.  A backend that queues incoming messages is a contract of
  its own, \<open>queueing_node\<close>: \<open>awaits b ms\<close> says that the next polls of \<open>b\<close> deliver \<open>ms\<close>, in this
  order.  For an engine on such a backend the polling loop is followed message by message.
  The contract is met by the UDP backend on a kernel whose socket is a FIFO queue.
\<close>

section \<open>A backend that queues messages\<close>

locale queueing_node = discovery_node E for E :: "('t, 'd, 'b, 'x) env" +
  fixes good :: bool
    and awaits :: "'b \<Rightarrow> message list \<Rightarrow> bool"
  assumes poll_next: "good \<Longrightarrow> be_is_running (api_backend E) b \<Longrightarrow> awaits b (m # ms) \<Longrightarrow>
      \<exists>e b' c'. be_poll (api_backend E) b c = Some (Some e, b', c') \<and> env_message e = m \<and> awaits b' ms"
    and send_awaits: "good \<Longrightarrow> awaits b ms \<Longrightarrow> be_send (api_backend E) b e = Some (ok, b') \<Longrightarrow>
      awaits b' ms"

text \<open>A message that makes its sender known: an announcement or reply of another node about itself.\<close>

definition introduces ::
    "('t, 'd, 'b, 'x) env \<Rightarrow> 'd discovery_context \<Rightarrow> message \<Rightarrow> bool" where
  "introduces E ctx m \<longleftrightarrow>
     (\<exists>a. announcement_fits (api_time E) a \<and> message_is_valid m \<and>
        (msg_type m = MT_Announce \<or> msg_type m = MT_Reply) \<and>
        msg_payload m = encode_announcement (api_time E) (api_serializer E) a \<and>
        ann_node_id a = msg_from m \<and> msg_from m \<noteq> local_node_id E ctx)"

context queueing_node
begin

text \<open>Whatever a send keeps of the backend, the announcement at the start of a poll keeps.\<close>

lemma maybe_announce_backend:
  assumes keep: "\<And>b e ok b'. P b \<Longrightarrow> be_send (api_backend E) b e = Some (ok, b') \<Longrightarrow> P b'"
    and s: "P (sys_backend s)" and got: "maybe_announce E ctx s = Some s'"
  shows "P (sys_backend s')"
proof (cases "config_checked (api_time E) ctx")
  case (Inr c)
  have send: "P (sys_backend s')" if "sys_send E e s1 = Some (sent, s')" and "P (sys_backend s1)"
    for e s1 s' sent
    using that
    by (auto simp: sys_send_def client_send_def Let_def bind_eq_Some_conv dest: keep
        split: if_splits prod.splits)
  have sends: "P (sys_backend s')"
    if "announce_now E ctx s1 = Some (sent, s')" and "P (sys_backend s1)" for s1 s' sent
    using that Inr
    by (auto simp: announce_now_def make_messages_eq make_outbound_envelope_def sys_now_eq
        bind_eq_Some_conv split: if_splits dest: send)
  show ?thesis
    using got s Inr sends [of "advance 1 s"]
    by (auto simp: maybe_announce_def sys_now_eq bind_eq_Some_conv split: if_splits)
qed (use got s in \<open>simp add: maybe_announce_def\<close>)

lemma maybe_announce_awaits:
  "good \<Longrightarrow> awaits (sys_backend s) ms \<Longrightarrow> maybe_announce E ctx s = Some s' \<Longrightarrow>
   awaits (sys_backend s') ms"
  using maybe_announce_backend [of "\<lambda>b. awaits b ms" s ctx s'] send_awaits by blast

text \<open>One poll takes exactly the next message and hands it to \<open>handle_inbound\<close>.\<close>

lemma poll_once_takes:
  assumes good: good and run: "engine_is_running E s" and wait: "awaits (sys_backend s) (m # ms)"
    and got: "poll_once E ctx s = Some (ok, s')"
  obtains e s1 sa c where "engine_effects E ctx s s1" and "awaits (sys_backend s1) ms"
    and "env_message e = m" and "handle_inbound E ctx (Some e) s1 = Some (ok, s')"
    and "maybe_announce E ctx s = Some sa" and "be_is_running (api_backend E) (sys_backend sa)"
    and "be_poll (api_backend E) (sys_backend sa) c = Some (Some e, sys_backend s1, sys_clock s1)"
    and "\<exists>s2. refresh_peer_states E ctx sa = Some s2 \<and> eng_registry s1 = eng_registry s2"
proof -
  from poll_once_running [OF run got] obtain s1 s2 inbound b c where
    s1: "maybe_announce E ctx s = Some s1" and
    s2: "refresh_peer_states E ctx s1 = Some s2" and
    polled: "server_poll (api_backend E) (sys_backend s2) (sys_clock s2) = Some (inbound, b, c)" and
    rest: "handle_inbound E ctx inbound (s2\<lparr>sys_backend := b, sys_clock := c\<rparr>) = Some (ok, s')"
    by metis
  have b2: "sys_backend s2 = sys_backend s1"
    using s2 by (auto simp: refresh_peer_states_def sys_now_eq bind_eq_Some_conv split: sum.splits)
  have wait1: "awaits (sys_backend s1) (m # ms)" by (rule maybe_announce_awaits [OF good wait s1])
  moreover have run1: "be_is_running (api_backend E) (sys_backend s1)"
    using run talksD(4) [OF maybe_announce_talks [OF s1]] by (simp add: engine_is_running_def)
  ultimately obtain e where e: "inbound = Some e" "env_message e = m" "awaits b ms"
    and p: "be_poll (api_backend E) (sys_backend s1) (sys_clock s2) = Some (Some e, b, c)"
    using poll_next [OF good, of "sys_backend s1" m ms "sys_clock s2"] polled
    by (auto simp: server_poll_def b2)
  have "engine_effects E ctx s (s2\<lparr>sys_backend := b, sys_clock := c\<rparr>)"
    using talks_effects [OF maybe_announce_talks [OF s1]] refresh_peer_states_effects [OF s2]
      talks_effects [OF poll_talks [OF polled]] by (meson rtranclp_trans)
  with e rest s1 s2 run1 p that [of "s2\<lparr>sys_backend := b, sys_clock := c\<rparr>" e s1 "sys_clock s2"]
  show ?thesis by simp
qed

text \<open>The sender of a message that introduces it is heard at the time of this poll.\<close>

lemma poll_once_introduced:
  assumes good: good and T: "timestamp_ok (api_time E)" and S: "serializer_ok (api_serializer E)"
    and L: "layout_ok (api_layout E)" and inv: "engine_inv E ctx s" and run: "engine_is_running E s"
    and wait: "awaits (sys_backend s) (m # ms)" and m: "introduces E ctx m"
    and got: "poll_once E ctx s = Some (ok, s')"
  shows "ok \<and> awaits (sys_backend s') ms \<and> heard_since (ticks (sys_clock s)) s' (msg_from m)"
proof -
  obtain e s1 where eff: "engine_effects E ctx s s1" and wait1: "awaits (sys_backend s1) ms"
    and e: "env_message e = m" and rest: "handle_inbound E ctx (Some e) s1 = Some (ok, s')"
    by (rule poll_once_takes [OF good run wait got]) blast
  obtain a where a: "announcement_fits (api_time E) a" "message_is_valid m"
      "msg_type m = MT_Announce \<or> msg_type m = MT_Reply"
      "msg_payload m = encode_announcement (api_time E) (api_serializer E) a"
      "ann_node_id a = msg_from m" "msg_from m \<noteq> local_node_id E ctx"
    using m by (auto simp: introduces_def)
  have "eng_status s = DS_Running" using run engine_inv_running [OF inv] by blast
  from engine_effects_inv [OF eff L inv this] have wf: "um_wf (eng_registry s1)"
    by (auto simp: engine_inv_def dest: registry_wf_um)
  have "ok" and s': "s' = integrate_with_transport E ctx a (upsert_discovered_peer E a s1)"
    using handle_inbound_learns [OF T S a(1), of e ctx s1] rest a by (simp_all add: e)
  then show ?thesis
    using learned_heard [OF L wf _ effects_ticks [OF eff], of a "msg_from m" ctx] a(1,5) wait1
    by (simp add: learn_frame announcement_fits_def)
qed

lemma poll_loop_introduced:
  assumes good: good and T: "timestamp_ok (api_time E)" and S: "serializer_ok (api_serializer E)"
    and B: "backend_returns (api_backend E)" and L: "layout_ok (api_layout E)"
  shows "clock_ok (api_time E) (sys_clock s) \<Longrightarrow> engine_inv E ctx s \<Longrightarrow> engine_is_running E s \<Longrightarrow>
    awaits (sys_backend s) ms \<Longrightarrow> \<forall>m \<in> set ms. introduces E ctx m \<Longrightarrow> length ms \<le> n \<Longrightarrow>
    start \<le> ticks (sys_clock s) \<Longrightarrow>
    \<exists>k s'. poll_loop E ctx n p s = Some (k, s') \<and> p + length ms \<le> k \<and> k \<le> p + n \<and>
      (\<forall>m \<in> set ms. heard_since start s' (msg_from m))"
proof (induction ms arbitrary: n p s)
  case Nil
  then show ?case using poll_loop_returns [OF T S B Nil.prems(1), of ctx n p] by simp
next
  case (Cons m ms)
  then obtain n' where n: "n = Suc n'" by (cases n) auto
  obtain ok s1 where one: "poll_once E ctx s = Some (ok, s1)"
    and c1: "clock_ok (api_time E) (sys_clock s1)"
    using poll_once_returns [OF T S B Cons.prems(1)] by blast
  note running = engine_inv_running [OF Cons.prems(2)]
  note eff = poll_once_effects [OF one]
  have s1: "engine_inv E ctx s1" "eng_status s1 = DS_Running"
    using engine_effects_inv [OF eff L Cons.prems(2)] Cons.prems(3) running by auto
  then have run1: "engine_is_running E s1" by (simp add: engine_inv_running)
  have later: "start \<le> ticks (sys_clock s1)" using effects_ticks [OF eff] Cons.prems(7) by simp
  have first: "ok" "awaits (sys_backend s1) ms" "heard_since (ticks (sys_clock s)) s1 (msg_from m)"
    using poll_once_introduced [OF good T S L Cons.prems(2-4) _ one] Cons.prems(5) by auto
  then have here: "heard_since start s1 (msg_from m)"
    using Cons.prems(7) by (auto intro: heard_since_earlier)
  obtain k s' where rest: "poll_loop E ctx n' (p + 1) s1 = Some (k, s')" "p + 1 + length ms \<le> k"
      "k \<le> p + 1 + n'" "\<forall>m \<in> set ms. heard_since start s' (msg_from m)"
    using Cons.IH [OF c1 s1(1) run1 first(2), of n' "p + 1"] Cons.prems(5,6) n later by auto
  have "heard_since start s' (msg_from m)"
    by (rule engine_effects_heard [OF poll_loop_effects [OF rest(1)] L s1 later here])
  with one first(1) rest n show ?case by auto
qed

text \<open>A message that is not handled ends the loop, whatever waits behind it.\<close>

lemma poll_loop_stops:
  assumes good: good and T: "timestamp_ok (api_time E)" and S: "serializer_ok (api_serializer E)"
    and B: "backend_returns (api_backend E)" and clock: "clock_ok (api_time E) (sys_clock s)"
    and run: "engine_is_running E s" and wait: "awaits (sys_backend s) (m # ms)"
    and own: "msg_from m = local_node_id E ctx"
  shows "\<exists>s'. poll_loop E ctx (Suc n) p s = Some (p, s') \<and> awaits (sys_backend s') ms"
proof -
  obtain ok s' where one: "poll_once E ctx s = Some (ok, s')"
    using poll_once_returns [OF T S B clock] by blast
  obtain e s1 where "awaits (sys_backend s1) ms" and "env_message e = m"
    and "handle_inbound E ctx (Some e) s1 = Some (ok, s')"
    by (rule poll_once_takes [OF good run wait one]) blast
  with own have "\<not> ok" "awaits (sys_backend s') ms" by (auto simp: handle_inbound_def split: if_splits)
  with one show ?thesis by simp
qed

end

section \<open>The UDP backend on a queueing kernel\<close>

text \<open>
  What the operating system does with datagrams for a UDP socket: they wait in a queue
  (\<open>inbox\<close>), a receive takes the first one and cuts it to the buffer, and a send leaves the
  waiting ones alone; it may add more behind them, such as the node's own broadcast.
\<close>

definition kernel_queue :: "'k kernel_api \<Rightarrow> ('k \<Rightarrow> (bytes \<times> sockaddr) list) \<Rightarrow> bool" where
  "kernel_queue K inbox \<longleftrightarrow>
     (\<forall>k fd n data addr rest. inbox k = (data, addr) # rest \<longrightarrow>
        (\<exists>k'. sys_recvfrom K k fd n = (int (min n (length data)), False, take n data, addr, k') \<and>
           inbox k' = rest)) \<and>
     (\<forall>k fd data addr sent eintr k'. sys_sendto K k fd data addr = (sent, eintr, k') \<longrightarrow>
        (\<exists>more. inbox k' = inbox k @ more))"

text \<open>A queued datagram from which the backend will deliver the message \<open>m\<close>.\<close>

definition arrives ::
    "'k kernel_api \<Rightarrow> serializer \<Rightarrow> nat \<Rightarrow> bytes \<times> sockaddr \<Rightarrow> message \<Rightarrow> bool" where
  "arrives K S limit = (\<lambda>(data, addr) m.
     length data \<le> limit \<and> decode_message S data = Some (Some m) \<and>
     (\<exists>ip. inet_ntop K (sin_addr addr) = Some ip \<and> c_str ip \<noteq> []) \<and> ntohs K (sin_port addr) \<noteq> 0)"

definition udp_awaits ::
    "'k kernel_api \<Rightarrow> ('k \<Rightarrow> (bytes \<times> sockaddr) list) \<Rightarrow> serializer \<Rightarrow>
     ('d, 'k udp_socket) udp_backend \<Rightarrow> message list \<Rightarrow> bool" where
  "udp_awaits K inbox S b ms \<longleftrightarrow>
     socket_is_valid (ub_socket b) \<and>
     (\<exists>first rest. inbox (sock_kernel (ub_socket b)) = first @ rest \<and>
        list_all2 (arrives K S (cfg_max_datagram_size (ub_config b))) first ms)"

lemma send_loop_queue:
  assumes K: "kernel_queue K inbox" and ret: "send_loop K fd data addr k = Some r"
  shows "\<exists>more. inbox (snd r) = inbox k @ more"
proof -
  from send_loop_settles [OF ret] ret show ?thesis
  proof (induction k)
    case (sent_or_failed k sent eintr k')
    then have "inbox (snd r) = inbox k'"
      using send_loop.simps [of K fd data addr k] by (auto split: if_splits)
    with K sent_or_failed(1) show ?case unfolding kernel_queue_def by metis
  next
    case (interrupted k sent k')
    then have "\<exists>more. inbox (snd r) = inbox k' @ more"
      using send_loop.simps [of K fd data addr k] by simp
    moreover have "\<exists>more. inbox k' = inbox k @ more"
      using K interrupted(1) unfolding kernel_queue_def by blast
    ultimately show ?case by auto
  qed
qed

lemma socket_send_queue:
  assumes "kernel_queue K inbox" and "socket_send_datagram K s d = Some (n, s')"
  shows "sock_fd s' = sock_fd s \<and> (\<exists>more. inbox (sock_kernel s') = inbox (sock_kernel s) @ more)"
  using assms(2) send_loop_queue [OF assms(1)]
  by (auto simp: socket_send_datagram_def socket_send_to_def bind_eq_Some_conv
      split: if_splits option.splits)

lemma socket_recv_queue:
  assumes K: "kernel_queue K inbox" and s: "socket_is_valid s"
    and queue: "inbox (sock_kernel s) = (data, addr) # rest" and here: "arrives K S limit (data, addr) m"
  shows "\<exists>ip s'. inet_ntop K (sin_addr addr) = Some ip \<and> socket_recv_datagram K s limit =
      Some (make_datagram_of (c_str ip) (ntohs K (sin_port addr)) data, s') \<and> c_str ip \<noteq> [] \<and>
    data \<noteq> [] \<and> sock_fd s' = sock_fd s \<and> inbox (sock_kernel s') = rest"
proof -
  have len: "length data \<le> limit" "data \<noteq> []" and "\<exists>ip. inet_ntop K (sin_addr addr) = Some ip \<and> c_str ip \<noteq> []"
    using here by (auto simp: arrives_def decode_message_def minimum_message_size_def)
  then obtain ip where ip: "inet_ntop K (sin_addr addr) = Some ip" "c_str ip \<noteq> []" by blast
  obtain k' where "sys_recvfrom K (sock_kernel s) (sock_fd s) limit =
      (int (length data), False, data, addr, k')" and k': "inbox k' = rest"
    using K queue len(1) unfolding kernel_queue_def by (metis min_absorb2 take_all)
  then have "recv_loop K (sock_fd s) limit (sock_kernel s) =
      Some (make_datagram_of (c_str ip) (ntohs K (sin_port addr)) data, k')"
    using len ip by (subst recv_loop.simps) (simp add: slice_def)
  then show ?thesis
    using s len ip k' by (auto simp: socket_recv_datagram_def)
qed

text \<open>The endpoint that the next datagram of the queue comes from.\<close>

definition udp_origin ::
    "'k kernel_api \<Rightarrow> ('k \<Rightarrow> (bytes \<times> sockaddr) list) \<Rightarrow> ('d, 'k udp_socket) udp_backend \<Rightarrow> string \<times> u16" where
  "udp_origin K inbox b =
     (let a = snd (hd (inbox (sock_kernel (ub_socket b))))
      in (case inet_ntop K (sin_addr a) of None \<Rightarrow> [] | Some ip \<Rightarrow> c_str ip, ntohs K (sin_port a)))"

lemma udp_poll_queue:
  assumes K: "kernel_queue K inbox" and run: "udp_is_running b" and wait: "udp_awaits K inbox S b (m # ms)"
  shows "\<exists>e b' c'. udp_poll T S (linux_platform T K) b c = Some (Some e, b', c') \<and>
    env_message e = m \<and> (env_from_host e, env_from_port e) = udp_origin K inbox b \<and>
    udp_awaits K inbox S b' ms"
proof -
  from wait obtain data addr first rest where
    queue: "inbox (sock_kernel (ub_socket b)) = (data, addr) # first @ rest" and
    here: "arrives K S (cfg_max_datagram_size (ub_config b)) (data, addr) m" and
    later: "list_all2 (arrives K S (cfg_max_datagram_size (ub_config b))) first ms" and
    valid: "socket_is_valid (ub_socket b)"
    by (auto simp: udp_awaits_def list_all2_Cons2)
  obtain ip s' where got: "socket_recv_datagram K (ub_socket b) (cfg_max_datagram_size (ub_config b)) =
      Some (make_datagram_of (c_str ip) (ntohs K (sin_port addr)) data, s')" "c_str ip \<noteq> []" "data \<noteq> []"
    and s': "sock_fd s' = sock_fd (ub_socket b)" "inbox (sock_kernel s') = first @ rest"
    and ip: "inet_ntop K (sin_addr addr) = Some ip"
    using socket_recv_queue [OF K valid queue here] by blast
  have "decode_datagram S (make_datagram_of (c_str ip) (ntohs K (sin_port addr)) data) = Some (Some m)"
    using here got(2,3)
    by (simp add: arrives_def decode_datagram_def decode_message_buffer_def datagram_defs)
  moreover have "datagram_is_valid (make_datagram_of (c_str ip) (ntohs K (sin_port addr)) data)"
    using here got(2,3) by (simp add: arrives_def datagram_defs)
  moreover have "udp_awaits K inbox S (b\<lparr>ub_socket := s'\<rparr>) ms"
    using s' later valid by (auto simp: udp_awaits_def socket_is_valid_def)
  moreover have "udp_origin K inbox b = (c_str ip, ntohs K (sin_port addr))"
    by (simp add: udp_origin_def queue ip)
  ultimately show ?thesis
    using run got(1)
    by (auto simp: udp_poll_def udp_is_running_def now_def Let_def envelope_of_message_def datagram_defs)
qed

lemma udp_send_queue:
  assumes "kernel_queue K inbox" and "udp_send T S (linux_platform T K) b e = Some (ok, b')"
  shows "ub_config b' = ub_config b \<and> sock_fd (ub_socket b') = sock_fd (ub_socket b) \<and>
    (\<exists>more. inbox (sock_kernel (ub_socket b')) = inbox (sock_kernel (ub_socket b)) @ more)"
  using assms(2)
  by (auto simp: udp_send_def Let_def bind_eq_Some_conv dest: socket_send_queue [OF assms(1)] split: if_splits)

interpretation udp_queue: queueing_node "udp_env T S (linux_platform T K) X L"
    "kernel_queue K inbox" "udp_awaits K inbox S"
proof (unfold_locales, unfold udp_env_simps udp_backend_api_simps)
  fix b :: "('b, 'c udp_socket) udp_backend" and m ms and c :: "'a clock"
  assume "kernel_queue K inbox" and "udp_is_running b" and "udp_awaits K inbox S b (m # ms)"
  from udp_poll_queue [OF this, of T c]
  show "\<exists>e b' c'. udp_poll T S (linux_platform T K) b c = Some (Some e, b', c') \<and>
      env_message e = m \<and> udp_awaits K inbox S b' ms" by blast
next
  fix b b' :: "('b, 'c udp_socket) udp_backend" and ms and e :: "'a envelope" and ok
  assume K: "kernel_queue K inbox" and wait: "udp_awaits K inbox S b ms"
    and sent: "udp_send T S (linux_platform T K) b e = Some (ok, b')"
  from udp_send_queue [OF K sent] wait show "udp_awaits K inbox S b' ms"
    unfolding udp_awaits_def socket_is_valid_def by (metis append.assoc)
qed

section \<open>From node to node\<close>

text \<open>The announcement that one engine makes introduces its node to another engine.\<close>

lemma announcement_introduces:
  assumes c: "config_checked (api_time E') ctx' = Inr c" and fits: "identity_fits c"
    and clock: "clock_ok (api_time E') (sys_clock s)"
    and same: "api_time E' = api_time E" "api_serializer E' = api_serializer E"
    and other: "cfg_node_id c \<noteq> local_node_id E ctx"
  shows "introduces E ctx (fst (make_announce_message E' ctx' s))"
proof -
  let ?a = "local_announcement c (time_at s 0)"
  have m: "fst (make_announce_message E' ctx' s) = announce_message_at E' c (time_at s 0) (time_at s 1)"
    using make_messages_eq(1) [OF c] by simp
  have "announcement_fits (api_time E') ?a"
    by (rule local_announcement_fits [OF c fits clock_ok_time_at [OF clock]])
  then show ?thesis
    using engine_messages_valid(1) [OF c] other same
    unfolding introduces_def m
    by (intro exI [of _ ?a]) (simp add: announce_message_at_def local_announcement_def make_announcement_def)
qed

text \<open>
  What the operating system does with a datagram that is sent: a call that reports all its bytes
  has put them on the network (\<open>log\<close>), to the given address; a failed call has put nothing there.
\<close>

definition kernel_log :: "'k kernel_api \<Rightarrow> ('k \<Rightarrow> (bytes \<times> sockaddr) list) \<Rightarrow> bool" where
  "kernel_log K log \<longleftrightarrow>
     (\<forall>k fd data addr sent eintr k'. sys_sendto K k fd data addr = (sent, eintr, k') \<longrightarrow>
        (sent = int (length data) \<longrightarrow> log k' = log k @ [(data, addr)]) \<and>
        (sent < 0 \<longrightarrow> log k' = log k))"

lemma send_loop_log:
  assumes K: "kernel_log K log" and data: "data \<noteq> []"
    and ret: "send_loop K fd data addr k = Some (length data, k')"
  shows "log k' = log k @ [(data, addr)]"
  using send_loop_settles [OF ret] ret
proof (induction k)
  case (sent_or_failed k sent eintr k1)
  then have "sent = int (length data) \<and> k' = k1"
    using data send_loop.simps [of K fd data addr k] by (auto split: if_splits)
  with K sent_or_failed(1) show ?case unfolding kernel_log_def by blast
next
  case (interrupted k sent k1)
  then have "send_loop K fd data addr k1 = Some (length data, k')"
    using send_loop.simps [of K fd data addr k] by simp
  with interrupted.IH have "log k' = log k1 @ [(data, addr)]" by simp
  moreover have "log k1 = log k"
    using K interrupted(1,2) unfolding kernel_log_def by blast
  ultimately show ?case by simp
qed

lemma udp_send_log:
  assumes K: "kernel_log K log" and sent: "udp_send T S (linux_platform T K) b e = Some (True, b')"
  shows "\<exists>addr. make_sockaddr K (env_to_host e) (env_to_port e) = Some addr \<and>
    log (sock_kernel (ub_socket b')) =
      log (sock_kernel (ub_socket b)) @ [(encode_message S (env_message e), addr)]"
proof -
  let ?d = "make_datagram S (env_message e) (env_to_host e) (env_to_port e)"
  have d: "datagram_is_valid ?d"
    using sent by (auto simp: udp_send_def Let_def split: if_splits)
  then have fields: "dg_host ?d = env_to_host e" "dg_port ?d = env_to_port e"
      "dg_payload ?d = encode_message S (env_message e)" "dg_payload ?d \<noteq> []"
    by (auto simp: make_datagram_def datagram_defs Let_def split: if_splits)
  obtain s' where "socket_send_datagram K (ub_socket b) ?d = Some (length (dg_payload ?d), s')"
    and b': "b' = b\<lparr>ub_socket := s'\<rparr>"
    using sent d by (auto simp: udp_send_def Let_def bind_eq_Some_conv split: if_splits)
  then obtain addr k' where addr: "make_sockaddr K (env_to_host e) (env_to_port e) = Some addr"
    and loop: "send_loop K (sock_fd (ub_socket b)) (dg_payload ?d) addr (sock_kernel (ub_socket b)) =
      Some (length (dg_payload ?d), k')" and s': "s' = (ub_socket b)\<lparr>sock_kernel := k'\<rparr>"
    using d fields
    by (auto simp: socket_send_datagram_def socket_send_to_def bind_eq_Some_conv
        split: if_splits option.splits)
  from send_loop_log [OF K fields(4) loop] addr show ?thesis
    by (simp add: b' s' fields(3))
qed

lemma announce_now_log:
  assumes K: "kernel_log K log" and c: "config_checked T ctx = Inr c" and clock: "clock_ok T (sys_clock s)"
    and sent: "announce_now (udp_env T S (linux_platform T K) X L) ctx s = Some (True, s')"
  shows "\<exists>addr. make_sockaddr K (cfg_broadcast_host c) (cfg_broadcast_port c) = Some addr \<and>
    log (sock_kernel (ub_socket (sys_backend s'))) = log (sock_kernel (ub_socket (sys_backend s))) @
      [(encode_message S (fst (make_announce_message (udp_env T S (linux_platform T K) X L) ctx s)), addr)]"
proof -
  let ?E = "udp_env T S (linux_platform T K) X L"
  let ?m = "announce_message_at ?E c (time_at s 0) (time_at s 1)"
  let ?e = "first_attempt ?E ?m (cfg_broadcast_host c) (cfg_broadcast_port c) (time_at s 2) (time_at s 3)"
  have c': "config_checked (api_time ?E) ctx = Inr c" and clock': "clock_ok (api_time ?E) (sys_clock s)"
    using c clock by simp_all
  have run: "engine_is_running ?E s"
    using sent udp_node.not_running_nothing(1) by fastforce
  obtain b where b: "udp_send T S (linux_platform T K) (sys_backend s) ?e = Some (True, b)"
    and s': "sys_backend s' = b"
    using sent announce_now_eq [OF run c' clock'] by auto
  have "env_message ?e = ?m" "env_to_host ?e = cfg_broadcast_host c" "env_to_port ?e = cfg_broadcast_port c"
    by (simp_all add: first_attempt_def envelope_defs envelope_mark_attempt_def)
  then show ?thesis
    using udp_send_log [OF K b] make_messages_eq(1) [OF c', of s] by (simp add: s')
qed

end
