(* ===== verification/Lifetime.thy ===== *)
theory Lifetime
  imports Service
begin

text \<open>
  The end of the objects and the moving of an engine: the destructors of \<open>DiscoveryEngine\<close>,
  \<open>UdpDiscoveryBackend\<close> and \<open>DiscoveryService\<close>, and the defaulted move constructor of
  \<open>DiscoveryEngine\<close>.
\<close>

section \<open>Destructors\<close>

definition engine_destroy ::
    "('t, 'd, 'b, 'x) env \<Rightarrow> ('t, 'b, 'x) system \<Rightarrow> ('t, 'b, 'x) system" where
  "engine_destroy E s = engine_stop E s"

text \<open>The destructor of the backend stops it; then its socket is destroyed, which closes it.\<close>

definition udp_destroy :: "('d, 's) platform \<Rightarrow> ('d, 's) udp_backend \<Rightarrow> ('d, 's) udp_backend" where
  "udp_destroy P b = (let b = udp_stop P b in b\<lparr>ub_socket := pf_close P (ub_socket b)\<rparr>)"

text \<open>The members of the service end in reverse order of their declaration.\<close>

definition service_destroy ::
    "('t, 'd, ('d, 's) udp_backend, 'x) env \<Rightarrow> ('d, 's) platform \<Rightarrow>
     ('t, 'd, 'x, 's, 'f) service_of \<Rightarrow> ('t, 'd, 'x, 's, 'f) service_of" where
  "service_destroy E P v =
     (let s = engine_destroy E (svc_system v);
          s = s\<lparr>sys_backend := udp_destroy P (sys_backend s)\<rparr>
      in v\<lparr>svc_system := s\<rparr>)"

section \<open>Moving an engine\<close>

text \<open>
  The move is member by member: the references, and so the backend, are shared afterwards;
  status and time are copied; the registry moves, and what it leaves behind, \<open>left\<close>, is
  unspecified.  The result is the target and the source.  (The base class \<open>NonCopyable\<close> is
  outside the repository; if it cannot be moved, the constructor is deleted instead.)
\<close>

definition engine_move :: "'t registry \<Rightarrow> 't engine \<Rightarrow> 't engine \<times> 't engine" where
  "engine_move left e = (e, e\<lparr>eng_registry := left\<rparr>)"

text \<open>The engine object \<open>e\<close> among the objects that the system \<open>s\<close> refers to, and back.\<close>

definition with_engine :: "'t engine \<Rightarrow> ('t, 'b, 'x) system \<Rightarrow> ('t, 'b, 'x) system" where
  "with_engine e s =
     s\<lparr>eng_status := eng_status e, eng_registry := eng_registry e,
       eng_last_announce_at := eng_last_announce_at e\<rparr>"

definition engine_of :: "('t, 'b, 'x) system \<Rightarrow> 't engine" where
  "engine_of s =
     \<lparr>eng_status = eng_status s, eng_registry = eng_registry s,
      eng_last_announce_at = eng_last_announce_at s\<rparr>"

text \<open>Moving the engine of \<open>s\<close> into a new object and destroying the old one.\<close>

definition move_and_destroy ::
    "('t, 'd, 'b, 'x) env \<Rightarrow> 't registry \<Rightarrow> ('t, 'b, 'x) system \<Rightarrow> ('t, 'b, 'x) system" where
  "move_and_destroy E left s =
     (let (target, source) = engine_move left (engine_of s);
          s = engine_destroy E (with_engine source s)
      in with_engine target s)"

section \<open>Facts\<close>

lemma with_engine_simps [simp]:
  "eng_status (with_engine e s) = eng_status e"
  "eng_registry (with_engine e s) = eng_registry e"
  "eng_last_announce_at (with_engine e s) = eng_last_announce_at e"
  "sys_backend (with_engine e s) = sys_backend s"
  "sys_transport (with_engine e s) = sys_transport s"
  "sys_clock (with_engine e s) = sys_clock s"
  "with_engine (engine_of s) s = s"
  by (simp_all add: with_engine_def engine_of_def)

context discovery_node
begin

text \<open>The source keeps status running, so its destructor stops the backend of the target.\<close>

lemma move_and_destroy_outcome:
  assumes "eng_status s = DS_Running"
  shows "eng_status (move_and_destroy E left s) = DS_Running"
    and "eng_registry (move_and_destroy E left s) = eng_registry s"
    and "\<not> be_is_running (api_backend E) (sys_backend (move_and_destroy E left s))"
    and "\<not> engine_is_running E (move_and_destroy E left s)"
    and "engine_start E ctx (move_and_destroy E left s) = Some (True, move_and_destroy E left s)"
  using assms stop_ends
  by (auto simp: move_and_destroy_def engine_move_def engine_destroy_def engine_stop_def Let_def
      engine_of_def server_defs engine_is_running_def engine_start_def status_is_running_def)

end

text \<open>On Linux the destruction of a service makes one \<open>close\<close> call if it still owns a descriptor.\<close>

lemma udp_destroy_linux:
  "sock_kernel (ub_socket (udp_destroy (linux_platform T K) b)) = sock_kernel (socket_close K (ub_socket b))"
  "\<not> socket_is_valid (ub_socket (udp_destroy (linux_platform T K) b))"
  "\<not> udp_is_running (udp_destroy (linux_platform T K) b)"
  by (simp_all add: udp_destroy_def udp_stop_def udp_is_running_def)

end
