(* ===== verification/Delivery_Properties.thy ===== *)
theory Delivery_Properties
  imports Scenario Delivery Lifetime
begin

text \<open>
  The properties of a node over time: what waits in its socket reaches the registry, what is in
  the registry stays there, and what the end of an engine does to the objects it shares.
\<close>

section \<open>Delivery\<close>

text \<open>
  Announcements arrive: when the announcements of any number of other nodes wait in the
  socket queue of a running node, one call of \<open>poll_many\<close> with a bound at least as large
  handles all of them, and every sender is in the registry afterwards.
\<close>

lemma queued_announcements_learned:
  assumes "timestamp_ok T" and "serializer_ok S" and "layout_ok L"
    and "kernel_ok K" and "kernel_settles K" and "kernel_queue K inbox"
    and "engine_reachable (udp_env T S (linux_platform T K) X L) ctx s"
    and "engine_is_running (udp_env T S (linux_platform T K) X L) s"
    and "clock_ok T (sys_clock s)" and "udp_awaits K inbox S (sys_backend s) ms"
    and "\<forall>m \<in> set ms. \<exists>ctx_b cfg_b sb.
      m = fst (make_announce_message (udp_env T S P' X' L') ctx_b sb) \<and>
      config_checked T ctx_b = Inr cfg_b \<and> identity_fits cfg_b \<and> clock_ok T (sys_clock sb) \<and>
      cfg_node_id cfg_b \<noteq> local_node_id (udp_env T S (linux_platform T K) X L) ctx"
    and "length ms \<le> n"
  shows "\<exists>k s'. poll_many (udp_env T S (linux_platform T K) X L) ctx n s = Some (k, s') \<and>
    length ms \<le> k \<and> k \<le> n \<and>
    (\<forall>m \<in> set ms. registry_contains (engine_peers s') (msg_from m))"
proof -
  let ?E = "udp_env T S (linux_platform T K) X L" and ?B = "udp_env T S P' X' L'"
  have inv: "engine_inv ?E ctx s" by (rule udp_node.engine_reachable_inv [OF assms(7)])
  have B: "backend_returns (api_backend ?E)"
    using udp_backend_returns [OF assms(2) linux_returns [OF assms(4,5)]] by simp
  have "introduces ?E ctx m" if "m \<in> set ms" for m
    using assms(11) that announcement_introduces [where E' = ?B and E = ?E] by fastforce
  then obtain k s' where "poll_many ?E ctx n s = Some (k, s')" "length ms \<le> k" "k \<le> n"
      "\<forall>m \<in> set ms. heard_since 0 s' (msg_from m)"
    using udp_queue.poll_loop_introduced [OF assms(6) _ _ B, of s ctx ms n 0 0] assms inv
    by (auto simp: poll_many_def)
  then show ?thesis by (blast intro: heard_since_contains)
qed

lemma demo_queue [simp]: "kernel_queue demo_kernel fst"
  by (auto simp: kernel_queue_def demo_kernel_def)

definition demo_datagram :: "message \<Rightarrow> bytes \<times> sockaddr" where
  "demo_datagram m = (encode_message demo_serializer m, \<lparr>sin_port = 9400, sin_addr = 1\<rparr>)"

lemma demo_awaits:
  assumes "\<And>m. m \<in> set ms \<Longrightarrow> message_fits m \<and> length (encode_message demo_serializer m) \<le> 65536"
  shows "udp_awaits demo_kernel fst demo_serializer (demo_mail (map demo_datagram ms, outbox)) ms"
proof -
  have "arrives demo_kernel demo_serializer 65536 (demo_datagram m) m" if "m \<in> set ms" for m
    using assms [OF that] decode_encode_message [OF demo_serializer_ok, of m]
    by (simp add: arrives_def demo_datagram_def demo_kernel_def c_str_def)
  then have "list_all2 (arrives demo_kernel demo_serializer 65536) (map demo_datagram ms) ms"
    by (simp add: list_all2_map1 list_all2_same)
  then show ?thesis
    unfolding udp_awaits_def
    by (intro conjI exI [of _ "map demo_datagram ms"] exI [of _ "[]"])
      (simp_all add: demo_mail_of_def socket_is_valid_def)
qed

lemma demo_started_awaits:
  "udp_awaits demo_kernel fst demo_serializer (sys_backend demo_started) [demo_post]"
  using demo_awaits [of "[demo_post]" "[]"] demo_post_fits
  by (simp add: demo_started_on_def demo_datagram_def)

lemma demo_post_made:
  "demo_post = fst (make_announce_message demo_env (make_context demo_config_b) demo_running)"
  using make_messages_eq(1) [of demo_env "make_context demo_config_b" demo_config_b demo_running]
  by (simp add: demo_post_def time_at_def demo_clock_def)

lemma queued_announcements_learned_witness:
  "\<exists>k s. poll_many demo_env demo_context 4 demo_started = Some (k, s) \<and> 1 \<le> k \<and>
     registry_contains (engine_peers s) ''node-b''"
proof -
  have from_b: "msg_from demo_post = ''node-b''"
    by (simp add: demo_post_def announce_message_at_def)
  have "\<forall>m \<in> set [demo_post]. \<exists>ctx_b cfg_b sb.
      m = fst (make_announce_message (udp_env demo_time demo_serializer demo_platform demo_transport id)
        ctx_b (sb :: (i64, (i64, demo_state udp_socket) udp_backend, string list) system)) \<and>
      config_checked demo_time ctx_b = Inr cfg_b \<and> identity_fits cfg_b \<and>
      clock_ok demo_time (sys_clock sb) \<and>
      cfg_node_id cfg_b \<noteq> local_node_id (udp_env demo_time demo_serializer
        (linux_platform demo_time demo_kernel) demo_transport id) demo_context"
    using demo_post_made [unfolded demo_env_def] demo_config_b_facts demo_running_facts(1) by fastforce
  from queued_announcements_learned [OF demo_timestamp_ok demo_serializer_ok layout_id demo_kernel_ok
      demo_kernel_settles demo_queue demo_started_reachable [unfolded demo_env_def demo_platform_def]
      demo_started_facts(5) [unfolded demo_env_def demo_platform_def] _ demo_started_awaits this, of 4]
  show ?thesis by (auto simp: from_b demo_env_def demo_platform_def)
qed

text \<open>
  C8.  Two nodes find each other: a successful \<open>announce_now\<close> of one node puts exactly one datagram
  on the network, addressed to its configured broadcast endpoint; and when the network brings
  these bytes, from whatever address, to another running node with another id, as the first entry of
  its socket queue and within the size of its receive buffer (\<open>max_datagram_size\<close>), the next
  \<open>poll_many\<close> of that node for at least one message has the sender in its registry.  (Behind a
  datagram that is not handled they would have to wait for another call; see \<open>own_message_stops_poll_many\<close>.)
\<close>

theorem announcement_crosses_network:
  fixes T :: "('t, 'd) time_api" and S :: serializer
    and XA :: "'xa transport_api" and XB :: "'xb transport_api" and LA LB :: "'t registry_layout"
    and KA :: "'ka kernel_api" and KB :: "'kb kernel_api"
    and sa sa' :: "('t, ('d, 'ka udp_socket) udp_backend, 'xa) system"
    and sb :: "('t, ('d, 'kb udp_socket) udp_backend, 'xb) system"
  defines "A \<equiv> udp_env T S (linux_platform T KA) XA LA"
    and "B \<equiv> udp_env T S (linux_platform T KB) XB LB"
    and "wire s \<equiv> sock_kernel (ub_socket (sys_backend s))"
  assumes "timestamp_ok T" and "serializer_ok S" and "layout_ok LB"
    and "kernel_log KA log" and "kernel_ok KB" and "kernel_settles KB" and "kernel_queue KB inbox"
    and "config_checked T ctx_a = Inr cfg" and "identity_fits cfg"
    and "clock_ok T (sys_clock sa)" and "clock_ok T (sys_clock sb)"
    and "announce_now A ctx_a sa = Some (True, sa')"
    and "engine_reachable B ctx_b sb" and "engine_is_running B sb"
    and "socket_is_valid (ub_socket (sys_backend sb))"
    and "cfg_node_id cfg \<noteq> local_node_id B ctx_b"
    and "inbox (sock_kernel (ub_socket (sys_backend sb))) = (fst (last (log (wire sa'))), src) # rest"
    and "length (fst (last (log (wire sa')))) \<le> cfg_max_datagram_size (ub_config (sys_backend sb))"
    and "inet_ntop KB (sin_addr src) = Some ip" and "c_str ip \<noteq> []" and "ntohs KB (sin_port src) \<noteq> 0"
    and "0 < n"
  shows "\<exists>data dest k sb'.
    log (wire sa') = log (wire sa) @ [(data, dest)] \<and>
    make_sockaddr KA (cfg_broadcast_host cfg) (cfg_broadcast_port cfg) = Some dest \<and>
    poll_many B ctx_b n sb = Some (k, sb') \<and> registry_contains (engine_peers sb') (cfg_node_id cfg)"
proof -
  let ?m = "fst (make_announce_message A ctx_a sa)"
  have ca: "config_checked (api_time A) ctx_a = Inr cfg" and clock: "clock_ok (api_time A) (sys_clock sa)"
    using assms(11,13) by (simp_all add: A_def)
  obtain dest where dest: "make_sockaddr KA (cfg_broadcast_host cfg) (cfg_broadcast_port cfg) = Some dest"
    and log: "log (wire sa') = log (wire sa) @ [(encode_message S ?m, dest)]"
    using announce_now_log [OF assms(7,11,13) assms(15) [unfolded A_def]]
    by (auto simp: wire_def A_def)
  have m: "?m = announce_message_at A cfg (time_at sa 0) (time_at sa 1)"
    using make_messages_eq(1) [OF ca] by simp
  have "message_fits ?m"
    unfolding m
    by (rule engine_messages_fit(1) [OF _ ca assms(12) clock_ok_time_at [OF clock]])
      (simp add: A_def assms(5))
  from decode_encode_message [OF assms(5) this]
  have "arrives KB S (cfg_max_datagram_size (ub_config (sys_backend sb))) (encode_message S ?m, src) ?m"
    using assms(21-24) by (simp add: arrives_def log)
  then have wait: "udp_awaits KB inbox S (sys_backend sb) [?m]"
    unfolding udp_awaits_def using assms(18,20)
    by (intro conjI exI [of _ "[(encode_message S ?m, src)]"] exI [of _ rest]) (simp_all add: log)
  have intro: "introduces B ctx_b ?m"
    by (rule announcement_introduces [OF ca assms(12) clock _ _ assms(19)]) (simp_all add: A_def B_def)
  have inv: "engine_inv B ctx_b sb"
    unfolding B_def by (rule udp_node.engine_reachable_inv [OF assms(16) [unfolded B_def]])
  have returns: "backend_returns (api_backend B)"
    using udp_backend_returns [OF assms(5) linux_returns [OF assms(8,9)]] by (simp add: B_def)
  have "\<exists>k sb'. poll_loop B ctx_b n 0 sb = Some (k, sb') \<and> registry_contains (engine_peers sb') (msg_from ?m)"
    using udp_queue.poll_loop_introduced [OF assms(10) _ _ returns [unfolded B_def], of sb ctx_b "[?m]" n 0 0]
      assms(4-6,14,17,25) wait intro inv by (auto simp: B_def intro: heard_since_contains)
  moreover have "msg_from ?m = cfg_node_id cfg" by (simp add: m announce_message_at_def)
  ultimately show ?thesis
    using log dest by (auto simp: poll_many_def)
qed

lemma demo_log [simp]: "kernel_log demo_kernel snd"
  by (auto simp: kernel_log_def demo_kernel_def)

lemma demo_b_announces:
  "\<exists>sa'. announce_now demo_env (make_context demo_config_b) demo_started = Some (True, sa') \<and>
     snd (sock_kernel (ub_socket (sys_backend sa'))) =
       [(encode_message demo_serializer demo_post, \<lparr>sin_port = 9400, sin_addr = 1\<rparr>)]"
proof -
  let ?c = "make_context demo_config_b"
  have c: "config_checked (api_time demo_env) ?c = Inr demo_config_b" by simp
  have clock: "clock_ok (api_time demo_env) (sys_clock demo_started)" by simp
  have time: "time_at (demo_started_on k) i = 5000" for k i by (simp add: time_at_def demo_clock_def)
  have dest: "cfg_broadcast_host demo_config_b = ''127.0.0.1''" "cfg_broadcast_port demo_config_b = 9400"
    by (simp_all add: demo_config_b_def to_config_def options_defs config_default_def)
  let ?e = "first_attempt demo_env demo_post ''127.0.0.1'' 9400 5000 5000"
  have "message_is_valid demo_post" using demo_post_fits(1) by (simp add: message_fits_def)
  then obtain outbox where "udp_send demo_time demo_serializer demo_platform (sys_backend demo_started) ?e =
      Some (True, demo_mail ([(encode_message demo_serializer demo_post, \<lparr>sin_port = 9400, sin_addr = 1\<rparr>)], outbox))"
    using demo_mail_send [of ?e demo_config]
    by (fastforce simp: demo_started_on_def first_attempt_def envelope_defs envelope_mark_attempt_def)
  then obtain sa' where sa': "announce_now demo_env ?c demo_started = Some (True, sa')"
    using announce_now_eq [OF demo_started_facts(5) c clock] dest
    by (auto simp: time demo_post_def [symmetric])
  have m: "fst (make_announce_message demo_env ?c demo_started) = demo_post"
    using make_messages_eq(1) [OF c, of demo_started] by (simp add: time demo_post_def)
  have "snd (sock_kernel (ub_socket (sys_backend demo_started))) = []"
    by (simp add: demo_started_on_def demo_mail_of_def)
  moreover have "make_sockaddr demo_kernel ''127.0.0.1'' 9400 = Some \<lparr>sin_port = 9400, sin_addr = 1\<rparr>"
    by (simp add: make_sockaddr_def demo_kernel_def c_str_def)
  ultimately show ?thesis
    using announce_now_log [OF demo_log demo_config_b_facts(1) _ sa' [unfolded demo_env_def demo_platform_def]]
      sa' m dest by (auto simp: demo_env_def demo_platform_def)
qed

theorem announcement_crosses_network_witness:
  "\<exists>sa' data k sb. announce_now demo_env (make_context demo_config_b) demo_started = Some (True, sa') \<and>
     snd (sock_kernel (ub_socket (sys_backend sa'))) = [(data, \<lparr>sin_port = 9400, sin_addr = 1\<rparr>)] \<and>
     poll_many demo_env demo_context 4 demo_started = Some (k, sb) \<and>
     registry_contains (engine_peers sb) ''node-b''"
proof -
  obtain sa' where sa': "announce_now demo_env (make_context demo_config_b) demo_started = Some (True, sa')"
    and log: "snd (sock_kernel (ub_socket (sys_backend sa'))) =
      [(encode_message demo_serializer demo_post, \<lparr>sin_port = 9400, sin_addr = 1\<rparr>)]"
    using demo_b_announces by blast
  have b: "sys_backend demo_started =
      demo_mail ([(encode_message demo_serializer demo_post, \<lparr>sin_port = 9400, sin_addr = 1\<rparr>)], [])"
    by (simp add: demo_started_on_def)
  have reach: "engine_reachable demo_env demo_context demo_started" by (rule demo_started_reachable)
  note cross = announcement_crosses_network [OF demo_timestamp_ok demo_serializer_ok layout_id
      demo_log demo_kernel_ok demo_kernel_settles demo_queue demo_config_b_facts(1,2) _ _
      sa' [unfolded demo_env_def demo_platform_def]
      reach [unfolded demo_env_def demo_platform_def]
      demo_started_facts(5) [unfolded demo_env_def demo_platform_def],
      where src = "\<lparr>sin_port = 9400, sin_addr = 1\<rparr>" and rest = "[]" and ip = "''10.0.0.2''" and n = 4]
  show ?thesis
    using cross sa' log demo_post_fits(2)
    by (auto simp: b demo_mail_of_def socket_is_valid_def demo_env_def demo_platform_def)
      (simp_all add: demo_kernel_def c_str_def)
qed

text \<open>
  C26.  \<open>poll_many\<close> stops early: when the next datagram is a message of the node itself, such as its
  own broadcast, the call returns zero after taking that datagram, whatever bound was given,
  and the messages behind it still wait.
\<close>

theorem own_message_stops_poll_many:
  assumes "timestamp_ok T" and "serializer_ok S" and "kernel_ok K" and "kernel_settles K"
    and "kernel_queue K inbox" and "clock_ok T (sys_clock s)"
    and "engine_is_running (udp_env T S (linux_platform T K) X L) s"
    and "udp_awaits K inbox S (sys_backend s) (m # ms)"
    and "msg_from m = local_node_id (udp_env T S (linux_platform T K) X L) ctx" and "0 < n"
  shows "\<exists>s'. poll_many (udp_env T S (linux_platform T K) X L) ctx n s = Some (0, s') \<and>
    udp_awaits K inbox S (sys_backend s') ms"
proof -
  have B: "backend_returns (api_backend (udp_env T S (linux_platform T K) X L))"
    using udp_backend_returns [OF assms(2) linux_returns [OF assms(3,4)]] by simp
  show ?thesis
    using udp_queue.poll_loop_stops [OF assms(5) _ _ B, of s m ms ctx "n - 1" 0] assms
    by (simp add: poll_many_def)
qed

definition demo_echo :: "(i64, (i64, demo_state udp_socket) udp_backend, string list) system" where
  "demo_echo = demo_started\<lparr>sys_backend :=
     demo_mail (map demo_datagram [message_probe ''node-a'', message_probe ''node-b''], [])\<rparr>"

theorem own_message_stops_poll_many_witness:
  "\<exists>s. poll_many demo_env demo_context 16 demo_echo = Some (0, s) \<and>
     udp_awaits demo_kernel fst demo_serializer (sys_backend s) [message_probe ''node-b'']"
proof -
  have fits: "message_fits (message_probe x) \<and> length (encode_message demo_serializer (message_probe x)) \<le> 65536"
    if "x \<noteq> []" "length x \<le> 100" for x
  proof -
    have valid: "message_is_valid (message_probe x)"
      using that by (simp add: message_constructors_valid)
    show ?thesis
      unfolding length_encode_message [OF demo_serializer_ok valid]
      using valid that
      by (simp add: message_fits_def message_defs u32_sized_def minimum_message_size_def)
  qed
  have wait: "udp_awaits demo_kernel fst demo_serializer (sys_backend demo_echo)
      [message_probe ''node-a'', message_probe ''node-b'']"
    using demo_awaits [of "[message_probe ''node-a'', message_probe ''node-b'']" "[]"]
      fits [of "''node-a''"] fits [of "''node-b''"]
    by (auto simp: demo_echo_def)
  have run: "engine_is_running demo_env demo_echo"
    using demo_started_facts(5)
    by (simp add: demo_echo_def engine_is_running_def)
  have own: "msg_from (message_probe ''node-a'') = local_node_id (udp_env demo_time demo_serializer
      (linux_platform demo_time demo_kernel) demo_transport id) demo_context"
    by (simp add: message_defs)
  have clock: "clock_ok demo_time (sys_clock demo_echo)" by (simp add: demo_echo_def)
  show ?thesis
    using own_message_stops_poll_many [OF demo_timestamp_ok demo_serializer_ok demo_kernel_ok
        demo_kernel_settles demo_queue clock run [unfolded demo_env_def demo_platform_def] wait own, of 16]
    by (simp add: demo_env_def demo_platform_def)
qed

text \<open>
  C39.  A message that is too long for the receiver is lost without a trace: when the next datagram
  in the socket queue is the encoding of any message and is longer than \<open>max_datagram_size\<close>, the
  poll takes it from the queue and returns nothing, whatever its sender and whatever prefix of it
  fits the buffer: no shortened message is ever accepted.
\<close>

theorem oversized_message_lost:
  assumes "serializer_ok S" and "kernel_queue K inbox" and "message_fits m"
    and "udp_is_running b" and "socket_is_valid (ub_socket b)"
    and "inbox (sock_kernel (ub_socket b)) = (encode_message S m, src) # rest"
    and "0 < cfg_max_datagram_size (ub_config b)"
    and "cfg_max_datagram_size (ub_config b) < length (encode_message S m)"
  shows "\<exists>b'. udp_poll T S (linux_platform T K) b c = Some (None, b', c) \<and>
    udp_is_running b' \<and> socket_is_valid (ub_socket b') \<and> ub_config b' = ub_config b \<and>
    inbox (sock_kernel (ub_socket b')) = rest"
proof -
  let ?n = "cfg_max_datagram_size (ub_config b)" and ?fd = "sock_fd (ub_socket b)"
  let ?cut = "take ?n (encode_message S m)"
  obtain k' where recv: "sys_recvfrom K (sock_kernel (ub_socket b)) ?fd ?n = (int ?n, False, ?cut, src, k')"
    and k': "inbox k' = rest"
    using assms(2,6,8) unfolding kernel_queue_def by (metis min.strict_order_iff min.commute)
  have "\<exists>d. recv_loop K ?fd ?n (sock_kernel (ub_socket b)) = Some (d, k') \<and>
      (d = datagram_default \<or> dg_payload d = ?cut)"
    using assms(7,8)
    by (subst recv_loop.simps) (auto simp: recv slice_def make_datagram_of_def split: option.splits)
  then obtain d where d: "socket_recv_datagram K (ub_socket b) ?n = Some (d, (ub_socket b)\<lparr>sock_kernel := k'\<rparr>)"
    and cut: "d = datagram_default \<or> dg_payload d = ?cut"
    using assms(5,7) by (auto simp: socket_recv_datagram_def)
  have "\<not> datagram_is_valid d \<or> decode_datagram S d = Some None"
    using cut decode_truncated [OF assms(1,3,8)]
    by (auto simp: decode_datagram_def decode_message_buffer_def defaults_invalid)
  then have "udp_poll T S (linux_platform T K) b c =
      Some (None, b\<lparr>ub_socket := (ub_socket b)\<lparr>sock_kernel := k'\<rparr>\<rparr>, c)"
    using assms(4) d by (auto simp: udp_poll_def udp_is_running_def Let_def)
  then show ?thesis using assms(4,5) k' by (simp add: udp_is_running_def socket_is_valid_def)
qed

theorem oversized_message_lost_witness:
  "\<exists>b. udp_poll demo_time demo_serializer demo_platform
      (demo_mail_of (demo_config\<lparr>cfg_max_datagram_size := 16\<rparr>) ([demo_datagram demo_post], [])) demo_clock =
      Some (None, b, demo_clock) \<and>
    fst (sock_kernel (ub_socket b)) = []"
proof -
  let ?b = "demo_mail_of (demo_config\<lparr>cfg_max_datagram_size := 16\<rparr>) ([demo_datagram demo_post], [])"
  have "message_is_valid demo_post" using demo_post_fits(1) by (simp add: message_fits_def)
  from length_encode_message [OF demo_serializer_ok this]
  have "16 < length (encode_message demo_serializer demo_post)" by (simp add: minimum_message_size_def)
  then show ?thesis
    using oversized_message_lost [OF demo_serializer_ok demo_queue demo_post_fits(1), of ?b
        "\<lparr>sin_port = 9400, sin_addr = 1\<rparr>" "[]" demo_time demo_clock]
    by (auto simp: demo_mail_of_def udp_is_running_def socket_is_valid_def demo_datagram_def demo_platform_def)
qed

section \<open>The registry over time\<close>

text \<open>
  C16.  Peers are never forgotten: in every step of every history, with any call of the public
  operations, a known peer stays known, whatever its age; the only call that removes it is
  \<open>stop\<close>, which removes all.
\<close>

theorem peers_kept_until_stop:
  assumes "engine_reachable (udp_env T S P X L) ctx s"
    and "engine_step (udp_env T S P X L) ctx s s'"
    and "registry_contains (engine_peers s) k"
  shows "registry_contains (engine_peers s') k \<or>
    s' = engine_stop (udp_env T S P X L) s \<and> registry_size (engine_peers s') = 0"
proof -
  let ?E = "udp_env T S P X L"
  have inv: "engine_inv ?E ctx s" by (rule udp_node.engine_reachable_inv [OF assms(1)])
  show ?thesis
    using udp_node.engine_step_keeps [OF inv assms(2)] assms(3) udp_node.engine_stop_outcome(3) [OF inv]
    by (auto simp: registry_contains_def engine_peers_def registry_size_def)
qed

lemma demo_backend_returns: "backend_returns (api_backend demo_env)"
  using udp_backend_returns [OF demo_serializer_ok linux_returns [OF demo_kernel_ok demo_kernel_settles]]
  by (simp add: demo_platform_def)

theorem peers_kept_until_stop_witness:
  "\<exists>s ok s'. engine_reachable demo_env demo_context s \<and>
     registry_contains (engine_peers s) ''node-b'' \<and>
     poll_once demo_env demo_context s = Some (ok, s') \<and>
     registry_contains (engine_peers s') ''node-b''"
proof -
  obtain s p where s: "engine_reachable demo_env demo_context s" "engine_is_running demo_env s"
      "registry_get (engine_peers s) ''node-b'' = Some p"
      "poll_once demo_env demo_context demo_started = Some (True, s)"
    using demo_history by blast
  note returns = udp_node.poll_once_returns [of demo_time demo_serializer demo_platform
      demo_transport id, folded demo_env_def, OF _ _ demo_backend_returns]
  have "clock_ok (api_time demo_env) (sys_clock s)"
    using returns [of demo_started demo_context] s(4) by simp
  then obtain ok s' where s': "poll_once demo_env demo_context s = Some (ok, s')"
    "clock_ok (api_time demo_env) (sys_clock s')"
    using returns [of s demo_context] by auto
  have step: "engine_step demo_env demo_context s s'"
    by (rule engine_step.polled [of id]) (use s' in \<open>simp_all add: demo_env_def\<close>)
  have known: "registry_contains (engine_peers s) ''node-b''"
    using s(3) by (simp add: registry_contains_def registry_get_def)
  have "eng_status s = DS_Running" using s(2) by (simp add: engine_is_running_def status_is_running_def)
  have "engine_inv demo_env demo_context s"
    unfolding demo_env_def by (rule udp_node.engine_reachable_inv [OF s(1) [unfolded demo_env_def]])
  from engine_effects_inv [OF udp_node.poll_once_effects [OF s'(1) [unfolded demo_env_def]],
      folded demo_env_def, OF _ this \<open>eng_status s = DS_Running\<close>]
  have "eng_status s' = DS_Running" by simp
  then have "s' \<noteq> engine_stop demo_env s" by (auto simp: engine_stop_def Let_def)
  with peers_kept_until_stop [OF s(1) [unfolded demo_env_def] step [unfolded demo_env_def] known]
    s(1) s'(1) known
  show ?thesis by (auto simp: demo_env_def)
qed

section \<open>The end of an engine\<close>

text \<open>
  C28.  Moving a running engine breaks it: after a new engine is move-constructed from it and the
  old object is destroyed, the new one still has status running and all its peers, but the
  shared backend is stopped; it sends and polls nothing, and \<open>start\<close> reports success without
  starting anything, until it is stopped explicitly.
\<close>

theorem moved_engine_is_dead:
  assumes "eng_status s = DS_Running"
  shows "let s' = move_and_destroy (udp_env T S P X L) left s in
    eng_status s' = DS_Running \<and> engine_peers s' = engine_peers s \<and>
    \<not> udp_is_running (sys_backend s') \<and>
    engine_start (udp_env T S P X L) ctx s' = Some (True, s') \<and>
    announce_now (udp_env T S P X L) ctx s' = Some (False, s') \<and>
    poll_once (udp_env T S P X L) ctx s' = Some (False, s')"
  using udp_node.move_and_destroy_outcome [OF assms, where left = left, of T S P X L]
    udp_node.not_running_nothing(1,3) [of T S P X L "move_and_destroy (udp_env T S P X L) left s" ctx]
  by (simp add: Let_def engine_peers_def)

theorem moved_engine_is_dead_witness:
  "\<not> udp_is_running (sys_backend (move_and_destroy demo_env [] demo_started)) \<and>
   engine_start demo_env demo_context (move_and_destroy demo_env [] demo_started) =
     Some (True, move_and_destroy demo_env [] demo_started)"
proof -
  have "eng_status demo_started = DS_Running" by (simp add: demo_started_on_def)
  from moved_engine_is_dead [OF this, of demo_time demo_serializer demo_platform demo_transport id "[]" demo_context]
  show ?thesis by (simp add: Let_def demo_env_def)
qed

text \<open>
  C40.  Destroying a service on Linux leaves its engine and its backend stopped and its socket
  closed, and makes one \<open>close\<close> call when the socket still owned a descriptor and none
  otherwise, although three destructors close the socket.
\<close>

theorem service_destroy_closes_once:
  "let v' = service_destroy (udp_env T S (linux_platform T K) X L) (linux_platform T K) v;
       socket = ub_socket (sys_backend (svc_system v));
       socket' = ub_socket (sys_backend (svc_system v'))
   in eng_status (svc_system v') = DS_Stopped \<and>
      \<not> service_is_running (udp_env T S (linux_platform T K) X L) v' \<and>
      \<not> udp_is_running (sys_backend (svc_system v')) \<and> \<not> socket_is_valid socket' \<and>
      sock_kernel socket' =
        (if socket_is_valid socket then sys_close K (sock_kernel socket) (sock_fd socket)
         else sock_kernel socket)"
proof -
  have close: "sock_kernel (socket_close K s) =
      (if socket_is_valid s then sys_close K (sock_kernel s) (sock_fd s) else sock_kernel s)" for s
    by (simp add: socket_close_def socket_is_valid_def)
  show ?thesis
    by (simp add: service_destroy_def engine_destroy_def engine_stop_def Let_def server_defs
        udp_destroy_linux service_is_running_def engine_is_running_def status_is_running_def)
      (simp add: udp_stop_def close)
qed

end
