(* ===== verification/Provenance.thy ===== *)
theory Provenance
  imports Engine_Behaviour
begin

text \<open>
  What an engine hands to its backend, and where its peers come from.  The messages that an
  engine sends are its own: announcements and probes made from its configuration, and replies to
  messages that it was told.  What is known about the backend (\<open>good\<close>) and about the messages it
  delivers (\<open>told\<close>) is therefore kept over every history of the engine, as long as the backend
  keeps it for own messages; and every peer in the registry was learned from a message that was
  told.  The contract is \<open>tracked_node\<close>; it is used for the ownership of the socket and for a
  network of nodes.
\<close>

section \<open>Own messages and sources of peers\<close>

definition own_message ::
    "('t, 'd, 'b, 'x) env \<Rightarrow> 'd discovery_context \<Rightarrow> (message \<Rightarrow> bool) \<Rightarrow> message \<Rightarrow> bool" where
  "own_message E ctx told m \<longleftrightarrow>
     (\<exists>c t t'. config_checked (api_time E) ctx = Inr c \<and>
        (m = announce_message_at E c t t' \<or> m = probe_message_at E c t \<or>
         (\<exists>q. told q \<and> m = reply_message_at E c q t)))"

text \<open>The peer was learned from the announcement in a message of another node.\<close>

definition learned_from ::
    "('t, 'd, 'b, 'x) env \<Rightarrow> 'd discovery_context \<Rightarrow> message \<Rightarrow> 't discovered_peer \<Rightarrow> bool" where
  "learned_from E ctx m p \<longleftrightarrow>
     (msg_type m = MT_Announce \<or> msg_type m = MT_Reply) \<and> msg_from m \<noteq> local_node_id E ctx \<and>
     decode_announcement_buffer (api_time E) (api_serializer E) (msg_payload m) =
       Some (Some (dp_announcement p)) \<and>
     peer_node_id p \<noteq> local_node_id E ctx"

definition sourced ::
    "('t, 'd, 'b, 'x) env \<Rightarrow> 'd discovery_context \<Rightarrow> (message \<Rightarrow> bool) \<Rightarrow> 't registry \<Rightarrow> bool" where
  "sourced E ctx told r \<longleftrightarrow>
     registry_wf (api_time E) r \<and>
     (\<forall>k p. um_find r k = Some p \<longrightarrow> (\<exists>m. told m \<and> learned_from E ctx m p))"

lemma layout_irrelevant [simp]:
  "own_message (E\<lparr>api_layout := L\<rparr>) ctx told m = own_message E ctx told m"
  "learned_from (E\<lparr>api_layout := L\<rparr>) ctx m p = learned_from E ctx m p"
  "sourced (E\<lparr>api_layout := L\<rparr>) ctx told r = sourced E ctx told r"
  by (simp_all add: own_message_def learned_from_def sourced_def announce_message_at_def
      probe_message_at_def reply_message_at_def local_node_id_def)

lemma sourced_empty [simp]: "sourced E ctx told []"
  by (simp add: sourced_def um_find_def)

text \<open>Ageing rewrites states only, learning files one peer under its id.\<close>

lemma sourced_refresh:
  assumes r: "sourced E ctx told r" and got: "refresh_states (api_time E) r t u v = Some (n, r')"
  shows "sourced E ctx told r'"
proof (cases "ts_is_valid (api_time E) t")
  case True
  then have "refresh_entries (api_time E) t u v r 0 = Some (n, r')"
    using got by (simp add: refresh_states_def)
  note find = entrywise_find [OF refresh_entries_entrywise [OF this]]
  have "\<exists>p. um_find r k = Some p \<and> dp_announcement p' = dp_announcement p"
    if "um_find r' k = Some p'" for k p'
    using find [of k] that by (auto simp: option_rel_Some2 dest: refresh_peer_frame)
  then show ?thesis
    using r refresh_states_wf [OF _ got]
    unfolding sourced_def learned_from_def peer_node_id_def by metis
qed (use assms in \<open>simp add: refresh_states_def\<close>)

lemma sourced_learn:
  assumes L: "layout_ok (api_layout E)" and r: "sourced E ctx told (eng_registry s)"
    and m: "told m" "msg_type m = MT_Announce \<or> msg_type m = MT_Reply" "msg_from m \<noteq> local_node_id E ctx"
    and a: "decode_announcement_buffer (api_time E) (api_serializer E) (msg_payload m) = Some (Some a)"
      "ann_node_id a \<noteq> local_node_id E ctx"
  shows "sourced E ctx told
    (eng_registry (integrate_with_transport E ctx a (upsert_discovered_peer E a s)))"
proof -
  let ?p = "announced_peer (eng_registry s) a (sys_clock s)"
  have wf: "registry_wf (api_time E) (eng_registry s)" using r by (simp add: sourced_def)
  have "learned_from E ctx m ?p"
    using m(2,3) a by (simp add: learned_from_def announced_peer_simps)
  then show ?thesis
    using r m(1) upsert_announcement_wf [OF L wf]
      upsert_announcement_lookup [OF L registry_wf_um [OF wf] decode_announcement_buffer_valid [OF a(1)]]
    by (auto simp: sourced_def learn_frame)
qed

section \<open>The contract\<close>

text \<open>
  A backend of which \<open>good\<close> is known: starting, stopping, polling and sending own messages keep
  it, and a good backend delivers only messages that are \<open>told\<close>.
\<close>

locale tracked_node = discovery_node E for E :: "('t, 'd, 'b, 'x) env" +
  fixes ctx :: "'d discovery_context"
    and good :: "'b \<Rightarrow> bool"
    and told :: "message \<Rightarrow> bool"
  assumes start_good: "good b \<Longrightarrow> be_start (api_backend E) b = Some (ok, b') \<Longrightarrow> good b'"
    and stop_good: "good b \<Longrightarrow> good (be_stop (api_backend E) b)"
    and send_good: "good b \<Longrightarrow> own_message E ctx told (env_message e) \<Longrightarrow>
      be_send (api_backend E) b e = Some (ok, b') \<Longrightarrow> good b'"
    and poll_good: "good b \<Longrightarrow> be_poll (api_backend E) b c = Some (got, b', c') \<Longrightarrow>
      good b' \<and> (\<forall>e. got = Some e \<longrightarrow> told (env_message e))"
begin

definition accounted :: "('t, 'b, 'x) system \<Rightarrow> bool" where
  "accounted s \<longleftrightarrow> good (sys_backend s) \<and> sourced E ctx told (eng_registry s)"

lemma tracked_layout: "tracked_node (E\<lparr>api_layout := L\<rparr>) ctx good told"
  by (intro tracked_node.intro tracked_node_axioms.intro node_layout)
    (auto intro: start_good stop_good send_good dest: poll_good)

lemma accounted_frame:
  "sys_backend s' = sys_backend s \<Longrightarrow> eng_registry s' = eng_registry s \<Longrightarrow> accounted s' = accounted s"
  by (simp add: accounted_def)

text \<open>Sending: only own messages pass the check of the envelope.\<close>

lemma sys_send_accounted:
  assumes s: "accounted s" and got: "sys_send E e s = Some (ok, s')"
    and own: "message_is_valid (env_message e) \<Longrightarrow> own_message E ctx told (env_message e)"
  shows "accounted s'"
proof -
  define e' where "e' = envelope_mark_attempt (fst (now (sys_clock s))) e"
  have e': "env_message e' = env_message e" by (simp add: e'_def envelope_mark_attempt_def)
  have "sys_backend s' = sys_backend s \<or>
      message_is_valid (env_message e) \<and>
      be_send (api_backend E) (sys_backend s) e' = Some (ok, sys_backend s')"
    using got
    by (auto simp: sys_send_def client_send_def now_def Let_def bind_eq_Some_conv
        envelope_is_valid_def e'_def split: if_splits)
  then show ?thesis
    using s own talksD(2) [OF sys_send_talks [OF got]] send_good [of "sys_backend s" e' ok]
    by (auto simp: accounted_def e')
qed

lemma outbound_accounted:
  assumes s: "accounted s" and own: "message_is_valid m \<Longrightarrow> own_message E ctx told m"
    and got: "sys_send E (envelope_outbound (api_time E) t m host port) s = Some (ok, s')"
  shows "accounted s'"
  by (rule sys_send_accounted [OF s got]) (simp add: envelope_defs own)

lemma accounted_advance [simp]: "accounted (advance n s) = accounted s"
  by (rule accounted_frame) simp_all

lemma accounted_last [simp]: "accounted (s\<lparr>eng_last_announce_at := t\<rparr>) = accounted s"
  by (rule accounted_frame) simp_all

lemma announce_now_accounted:
  assumes s: "accounted s" and got: "announce_now E ctx s = Some (ok, s')"
  shows "accounted s'"
proof (cases "config_checked (api_time E) ctx")
  case (Inr c)
  have "own_message E ctx told (announce_message_at E c t t')" for t t'
    using Inr unfolding own_message_def by blast
  with s got show ?thesis
    by (auto simp: announce_now_def Inr make_messages_eq make_outbound_envelope_def sys_now_eq
        bind_eq_Some_conv split: if_splits dest: outbound_accounted [rotated 2])
qed (use s got in \<open>auto simp: announce_now_def split: if_splits\<close>)

lemma probe_now_accounted:
  assumes s: "accounted s" and got: "probe_now E ctx s = Some (ok, s')"
  shows "accounted s'"
proof (cases "config_checked (api_time E) ctx")
  case (Inr c)
  have "own_message E ctx told (probe_message_at E c t)" for t
    using Inr unfolding own_message_def by blast
  with s got show ?thesis
    by (auto simp: probe_now_def Inr make_messages_eq make_outbound_envelope_def sys_now_eq
        split: if_splits dest: outbound_accounted [rotated 2])
qed (use s got in \<open>auto simp: probe_now_def split: if_splits\<close>)

lemma handle_probe_accounted:
  assumes s: "accounted s" and told: "told (env_message e)" and got: "handle_probe E ctx e s = Some (ok, s')"
  shows "accounted s'"
proof (cases "config_checked (api_time E) ctx")
  case (Inr c)
  have "own_message E ctx told (reply_message_at E c (env_message e) t)" for t
    using Inr told unfolding own_message_def by blast
  with s got show ?thesis
    by (auto simp: handle_probe_def Inr make_messages_eq make_outbound_envelope_def sys_now_eq
        split: if_splits dest: outbound_accounted [rotated 2])
next
  case (Inl err)
  then have "\<not> message_is_valid (fst (make_reply_message E ctx i j s))" for i j
    by (simp add: make_reply_message_def make_local_announcement_def local_node_id_def message_defs
        message_is_valid_def Let_def)
  moreover have "snd (make_reply_message E ctx i j s) = s" for i j
    by (simp add: make_reply_message_def make_local_announcement_def Inl Let_def)
  ultimately show ?thesis
    using s got
    by (auto simp: handle_probe_def make_outbound_envelope_def sys_now_eq Let_def case_prod_unfold
        split: if_splits dest: outbound_accounted [rotated 2])
qed

lemma maybe_announce_accounted:
  assumes s: "accounted s" and got: "maybe_announce E ctx s = Some s'"
  shows "accounted s'"
  using assms
  by (auto simp: maybe_announce_def sys_now_eq Let_def bind_eq_Some_conv
      split: sum.splits if_splits dest!: announce_now_accounted [rotated])

lemma refresh_accounted:
  "accounted s \<Longrightarrow> refresh_peer_states E ctx s = Some s' \<Longrightarrow> accounted s'"
  by (auto simp: refresh_peer_states_def accounted_def sys_now_eq bind_eq_Some_conv
      split: sum.splits dest: sourced_refresh)

text \<open>Receiving: what is learned was told.\<close>

lemma handle_announce_accounted:
  assumes "layout_ok (api_layout E)" and "accounted s" and "told (env_message e)"
    and "msg_type (env_message e) = MT_Announce \<or> msg_type (env_message e) = MT_Reply"
    and "msg_from (env_message e) \<noteq> local_node_id E ctx"
    and "handle_announce E ctx e s = Some (ok, s')"
  shows "accounted s'"
proof -
  have "s' = s \<or> (\<exists>a. decode_announcement_buffer (api_time E) (api_serializer E)
        (msg_payload (env_message e)) = Some (Some a) \<and> ann_node_id a \<noteq> local_node_id E ctx \<and>
      s' = integrate_with_transport E ctx a (upsert_discovered_peer E a s))"
    using assms(6)
    by (auto simp: handle_announce_def bind_eq_Some_conv Let_def split: option.splits if_splits)
  moreover have "sys_backend (integrate_with_transport E ctx a (upsert_discovered_peer E a s)) =
      sys_backend s" for a
    by (simp add: learn_frame)
  moreover have "sourced E ctx told
      (eng_registry (integrate_with_transport E ctx a (upsert_discovered_peer E a s)))"
    if "decode_announcement_buffer (api_time E) (api_serializer E) (msg_payload (env_message e)) =
        Some (Some a)" and "ann_node_id a \<noteq> local_node_id E ctx" for a
    by (rule sourced_learn [where told = told, OF assms(1) _ assms(3) assms(4,5) that])
      (use assms(2) in \<open>simp add: accounted_def\<close>)
  ultimately show ?thesis
    using assms(2) unfolding accounted_def by metis
qed

lemma handle_inbound_accounted:
  assumes L: "layout_ok (api_layout E)" and s: "accounted s"
    and told: "\<And>e. got = Some e \<Longrightarrow> told (env_message e)"
    and res: "handle_inbound E ctx got s = Some (ok, s')"
  shows "accounted s'"
proof (cases got)
  case (Some e)
  with told have e: "told (env_message e)" by simp
  show ?thesis
    using res s Some handle_announce_accounted [OF L s e] handle_probe_accounted [OF s e]
    by (auto simp: handle_inbound_def handle_reply_announce split: if_splits message_type.splits)
qed (use s res in \<open>simp add: handle_inbound_def\<close>)

lemma poll_once_accounted:
  assumes L: "layout_ok (api_layout E)" and s: "accounted s" and res: "poll_once E ctx s = Some (ok, s')"
  shows "accounted s'"
proof (cases "engine_is_running E s")
  case True
  from poll_once_running [OF this res] obtain s1 s2 got b c where
    s1: "maybe_announce E ctx s = Some s1" and
    s2: "refresh_peer_states E ctx s1 = Some s2" and
    got: "server_poll (api_backend E) (sys_backend s2) (sys_clock s2) = Some (got, b, c)" and
    rest: "handle_inbound E ctx got (s2\<lparr>sys_backend := b, sys_clock := c\<rparr>) = Some (ok, s')"
    by metis
  have a2: "accounted s2"
    by (rule refresh_accounted [OF maybe_announce_accounted [OF s s1] s2])
  then have "accounted (s2\<lparr>sys_backend := b, sys_clock := c\<rparr>)" "\<And>e. got = Some e \<Longrightarrow> told (env_message e)"
    using poll_good got by (auto simp: accounted_def server_poll_def)
  from handle_inbound_accounted [OF L this rest] show ?thesis .
qed (use s res in \<open>simp add: poll_once_def\<close>)

lemma poll_loop_accounted:
  assumes L: "layout_ok (api_layout E)"
  shows "accounted s \<Longrightarrow> poll_loop E ctx n k s = Some (m, s') \<Longrightarrow> accounted s'"
proof (induction n arbitrary: k s)
  case (Suc n)
  then show ?case
    by (auto simp: bind_eq_Some_conv split: if_splits dest: poll_once_accounted [OF L])
qed simp

end

section \<open>Histories\<close>

context tracked_node
begin

lemma accounted_layout: "tracked_node.accounted (E\<lparr>api_layout := L\<rparr>) ctx good told s = accounted s"
  by (simp add: accounted_def tracked_node.accounted_def [OF tracked_layout])

lemma engine_step_accounted:
  assumes s: "accounted s" and step: "engine_step E ctx s s'"
  shows "accounted s'"
  using step
proof cases
  case (started ok)
  with s show ?thesis
    by (auto simp: engine_start_def accounted_def server_start_def Let_def bind_eq_Some_conv
        split: if_splits intro: start_good)
next
  case stopped
  with s show ?thesis
    by (auto simp: engine_stop_def accounted_def server_stop_def Let_def registry_clear_def
        intro: stop_good)
next
  case (announced ok)
  then show ?thesis using announce_now_accounted [OF s] by simp
next
  case (probed ok)
  then show ?thesis using probe_now_accounted [OF s] by simp
next
  case (polled L ok)
  then show ?thesis
    using tracked_node.poll_once_accounted [OF tracked_layout [of L], of s] s
    by (simp add: accounted_layout)
next
  case (polled_many L n k)
  then show ?thesis
    using tracked_node.poll_loop_accounted [OF tracked_layout [of L], of s] s
    by (simp add: accounted_layout poll_many_def)
qed

end

end
