(* ===== verification/Ownership.thy ===== *)
theory Ownership
  imports Provenance Service_Proofs
begin

text \<open>
  Who owns the descriptor.  The UDP backend keeps one socket; over every history it is open
  exactly while the backend runs.  The lemmas at the start follow the state of a service through
  its public calls: each one is at most one call of its engine, apart from readings of the clock.
\<close>

section \<open>A call of the service is a call of its engine\<close>

definition same_but_clock :: "('t, 'b, 'x) system \<Rightarrow> ('t, 'b, 'x) system \<Rightarrow> bool" where
  "same_but_clock s s' \<longleftrightarrow>
     eng_status s' = eng_status s \<and> eng_registry s' = eng_registry s \<and>
     eng_last_announce_at s' = eng_last_announce_at s \<and> sys_backend s' = sys_backend s \<and>
     sys_transport s' = sys_transport s \<and>
     readings (sys_clock s') = readings (sys_clock s) \<and> ticks (sys_clock s) \<le> ticks (sys_clock s')"

lemma same_but_clock_refl [simp]: "same_but_clock s s"
  by (simp add: same_but_clock_def)

lemma notify_new_peers_clock:
  "same_but_clock (svc_system v) (svc_system (fst (notify_new_peers E v h)))"
  by (simp add: same_but_clock_def notify_new_peers_def Let_def case_prod_unfold notify_loop_clock
      split: option.splits)

lemma service_peers_clock: "same_but_clock (svc_system v) (svc_system (snd (service_peers E v)))"
  by (simp add: same_but_clock_def service_peers_def Let_def case_prod_unfold public_peers_loop_clock)

lemma service_step_engine:
  assumes "service_step T S P X (v, h) (v', h')"
  shows "svc_context v' = svc_context v \<and>
    (\<exists>s. (s = svc_system v \<or> (\<exists>L. engine_step (udp_env T S P X L) (svc_context v) (svc_system v) s)) \<and>
      same_but_clock s (svc_system v'))"
  using assms
proof cases
  case (service_starts L ok)
  then have "v' = v \<or> (\<exists>s. engine_start (udp_env T S P X L) (svc_context v) (svc_system v) = Some (ok, s) \<and>
      svc_system v' = s \<and> svc_context v' = svc_context v)"
    by (auto simp: service_start_def Let_def bind_eq_Some_conv split: if_splits)
  then show ?thesis
    using engine_step.started [of "udp_env T S P X L" "svc_context v" "svc_system v" ok]
    by (metis same_but_clock_refl)
next
  case (service_stops L)
  then have "svc_system v' = engine_stop (udp_env T S P X L) (svc_system v)" "svc_context v' = svc_context v"
    by (simp_all add: service_stop_def Let_def)
  then show ?thesis
    using engine_step.stopped [of "udp_env T S P X L" "svc_context v" "svc_system v"]
    by (metis same_but_clock_refl)
next
  case (service_announces L ok)
  then have "announce_now (udp_env T S P X L) (svc_context v) (svc_system v) = Some (ok, svc_system v')"
      "svc_context v' = svc_context v"
    by (auto simp: service_announce_now_def bind_eq_Some_conv)
  then show ?thesis
    using engine_step.announced [of "udp_env T S P X L" "svc_context v" "svc_system v" ok]
    by (metis same_but_clock_refl)
next
  case (service_probes L ok)
  then have "probe_now (udp_env T S P X L) (svc_context v) (svc_system v) = Some (ok, svc_system v')"
      "svc_context v' = svc_context v"
    by (auto simp: service_probe_now_def bind_eq_Some_conv)
  then show ?thesis
    using engine_step.probed [of "udp_env T S P X L" "svc_context v" "svc_system v" ok]
    by (metis same_but_clock_refl)
next
  case (service_polls L ok)
  then obtain s where s: "poll_once (udp_env T S P X L) (svc_context v) (svc_system v) = Some (ok, s)"
    and v': "v' = fst (notify_new_peers (udp_env T S P X L) (v\<lparr>svc_system := s\<rparr>) h)"
    by (auto simp: service_poll_def bind_eq_Some_conv case_prod_unfold)
  have "engine_step (udp_env T S P X L) (svc_context v) (svc_system v) s"
    by (rule engine_step.polled [OF service_polls(1)]) (simp add: s)
  with notify_new_peers_clock [of "v\<lparr>svc_system := s\<rparr>" "udp_env T S P X L" h] show ?thesis
    by (auto simp: v' notify_new_peers_fixed)
next
  case (service_polls_many L n k)
  then obtain s where s: "poll_many (udp_env T S P X L) (svc_context v) n (svc_system v) = Some (k, s)"
    and v': "v' = fst (notify_new_peers (udp_env T S P X L) (v\<lparr>svc_system := s\<rparr>) h)"
    by (auto simp: service_poll_many_def bind_eq_Some_conv case_prod_unfold)
  have "engine_step (udp_env T S P X L) (svc_context v) (svc_system v) s"
    by (rule engine_step.polled_many [OF service_polls_many(1), where n = n and k = k]) (simp add: s)
  with notify_new_peers_clock [of "v\<lparr>svc_system := s\<rparr>" "udp_env T S P X L" h] show ?thesis
    by (auto simp: v' notify_new_peers_fixed)
next
  case (service_lists L)
  then show ?thesis
    using service_peers_clock [of v "udp_env T S P X L"]
    by (auto simp: service_peers_def Let_def case_prod_unfold)
next
  case (service_handles f)
  then show ?thesis by (auto simp: service_on_peer_found_def)
next
  case (service_engine_used L s)
  then show ?thesis by (auto simp: service_with_engine_def service_engine_def)
qed

text \<open>What a backend keeps over the calls of its engine, it keeps over the calls of the service.\<close>

lemma service_step_accounted:
  assumes node: "\<And>L. tracked_node (udp_env T S P X L) (svc_context v) good told"
    and s: "good (sys_backend (svc_system v))"
      "sourced (udp_env T S P X id) (svc_context v) told (eng_registry (svc_system v))"
    and step: "service_step T S P X (v, h) (v', h')"
  shows "good (sys_backend (svc_system v')) \<and>
    sourced (udp_env T S P X id) (svc_context v') told (eng_registry (svc_system v'))"
proof -
  have any: "sourced (udp_env T S P X L) ctx told r = sourced (udp_env T S P X id) ctx told r" for L ctx r
    using layout_irrelevant(3) [where E = "udp_env T S P X id" and L = L and ctx = ctx and told = told and r = r] by simp
  from service_step_engine [OF step] obtain s where
    ctx: "svc_context v' = svc_context v" and clock: "same_but_clock s (svc_system v')" and
    s_cases: "s = svc_system v \<or> (\<exists>L. engine_step (udp_env T S P X L) (svc_context v) (svc_system v) s)"
    by blast
  have "good (sys_backend s) \<and> sourced (udp_env T S P X id) (svc_context v) told (eng_registry s)"
    using s_cases
  proof (elim disjE exE)
    fix L assume "engine_step (udp_env T S P X L) (svc_context v) (svc_system v) s"
    from tracked_node.engine_step_accounted [OF node _ this] s show ?thesis
      by (simp add: tracked_node.accounted_def [OF node] any [of L])
  qed (use s in simp)
  then show ?thesis using clock by (simp add: ctx same_but_clock_def)
qed

section \<open>The socket of the backend\<close>

definition socket_owned :: "('s \<Rightarrow> bool) \<Rightarrow> ('d, 's) udp_backend \<Rightarrow> bool" where
  "socket_owned valid b \<longleftrightarrow> valid (ub_socket b) = udp_is_running b"

context socket_platform
begin

lemma udp_start_owned:
  "socket_owned valid b \<Longrightarrow> udp_start T P b = Some (ok, b') \<Longrightarrow> socket_owned valid b'"
  using udp_start_outcome [of T b] by (auto simp: socket_owned_def)

lemma udp_stop_owned: "socket_owned valid (udp_stop P b)"
  by (simp add: socket_owned_def udp_stop_def udp_is_running_def close_invalid)

lemma udp_send_owned:
  "socket_owned valid b \<Longrightarrow> udp_send T S P b e = Some (ok, b') \<Longrightarrow> socket_owned valid b'"
  by (auto simp: socket_owned_def udp_send_def udp_is_running_def Let_def bind_eq_Some_conv
      dest: send_valid split: if_splits)

lemma udp_poll_owned:
  assumes b: "socket_owned valid b" and got: "udp_poll T S P b c = Some (got, b', c')"
  shows "socket_owned valid b'"
proof -
  have "ub_running b' = ub_running b \<and> (ub_socket b' = ub_socket b \<or>
      (\<exists>d limit. pf_recv_datagram P (ub_socket b) limit = Some (d, ub_socket b')))"
    using got
    by (auto simp: udp_poll_def Let_def bind_eq_Some_conv now_def split: if_splits option.splits)
  with b show ?thesis using recv_valid by (auto simp: socket_owned_def udp_is_running_def)
qed

end

sublocale socket_platform \<subseteq> owner: tracked_node "udp_env T S P X L" ctx "socket_owned valid" "\<lambda>_. True"
  for T S X L ctx
  by unfold_locales
    (auto intro: udp_start_owned udp_stop_owned udp_send_owned udp_poll_owned)

text \<open>Over the calls of a service that was created with a closed socket.\<close>

context socket_platform
begin

lemma service_owned:
  assumes closed: "\<not> valid k" and clock: "clock_ok T c"
    and run: "(service_step T S P X)\<^sup>*\<^sup>* (make_service T opts x k c, h) (v, h')"
  shows "socket_owned valid (sys_backend (svc_system v)) \<and>
    sourced (udp_env T S P X id) (svc_context v) (\<lambda>_. True) (eng_registry (svc_system v)) \<and>
    service_reachable T S P X opts (v, h')"
  using run
proof (induction "(v, h')" arbitrary: v h' rule: rtranclp_induct)
  case base
  then show ?case
    using closed service_reachable.service_created [OF clock]
    by (simp add: make_service_def make_system_def make_udp_backend_def socket_owned_def
        udp_is_running_def Let_def)
next
  case (step w)
  obtain v1 h1 where w: "w = (v1, h1)" by fastforce
  from step.hyps(3) [OF w] have o: "socket_owned valid (sys_backend (svc_system v1))"
      "sourced (udp_env T S P X id) (svc_context v1) (\<lambda>_. True) (eng_registry (svc_system v1))"
    and r: "service_reachable T S P X opts (v1, h1)" by simp_all
  note moved = step.hyps(2) [unfolded w]
  show ?case
    using service_step_accounted [OF owner.tracked_node_axioms o moved]
      service_reachable.service_continues [OF r moved] by blast
qed

lemma service_socket:
  assumes "\<not> valid k" and "clock_ok T c"
    and "(service_step T S P X)\<^sup>*\<^sup>* (make_service T opts x k c, h) (v, h')"
  shows "valid (ub_socket (sys_backend (svc_system v))) = service_is_running (udp_env T S P X L) v"
proof -
  from service_owned [OF assms] have o: "socket_owned valid (sys_backend (svc_system v))"
    and "service_reachable T S P X opts (v, h')" by simp_all
  then have "engine_inv (udp_env T S P X L) (svc_context v) (svc_system v)"
    using service_reachable_inv [of T S P X opts "(v, h')"]
      engine_ok_any [of T S P X "svc_context v" "svc_system v" L]
    by (auto simp: service_inv_def)
  with o udp_node.engine_inv_running [OF this] show ?thesis
    by (simp add: socket_owned_def service_is_running_def engine_inv_def)
qed

end

end
