(* ===== verification/Directory.thy ===== *)
theory Directory
  imports Ownership Heard
begin

text \<open>
  What a discovery node is for, without hash map, codec, socket and wire: a directory of other
  nodes.  The abstract machine of this theory is a handful of functions on finite maps; each
  public call of the service is one of them, with the announcement that a poll heard and the
  times that it read as its only inputs.
\<close>

section \<open>The abstract machine\<close>

text \<open>An entry is what the node announced last, its state, and when it was last heard.\<close>

type_synonym 't entry = "'t announcement \<times> peer_state \<times> 't"

record 't directory =
  dir_running :: bool
  dir_peers :: "string \<Rightarrow> 't entry option"

definition dir_empty :: "'t directory" where
  "dir_empty = \<lparr>dir_running = False, dir_peers = Map.empty\<rparr>"

definition dir_start :: "bool \<Rightarrow> 't directory \<Rightarrow> 't directory" where
  "dir_start ok d = (if dir_running d then d else d\<lparr>dir_running := ok\<rparr>)"

text \<open>
  Ageing: a node not heard for the whole time to live expires and one not heard for half of it turns
  stale.  (One that has expired already turns stale as well; no other state is revived.)
\<close>

fun aged_entry :: "('t, 'd) time_api \<Rightarrow> int \<Rightarrow> 't \<Rightarrow> 't entry \<Rightarrow> 't entry" where
  "aged_entry T ttl t (a, st, seen) =
     (let age = sint (ts_millis T t) - sint (ts_millis T seen)
      in (a,
          if ttl \<le> age \<and> st \<noteq> PS_Expired then PS_Expired
          else if ttl div 2 \<le> age \<and> st \<noteq> PS_Stale then PS_Stale
          else st,
          seen))"

definition dir_sweep :: "('t, 'd) time_api \<Rightarrow> int \<Rightarrow> 't \<Rightarrow> 't directory \<Rightarrow> 't directory" where
  "dir_sweep T ttl t d = d\<lparr>dir_peers := map_option (aged_entry T ttl t) \<circ> dir_peers d\<rparr>"

definition dir_hear :: "'t announcement \<Rightarrow> 't \<Rightarrow> 't directory \<Rightarrow> 't directory" where
  "dir_hear a t d = d\<lparr>dir_peers := (dir_peers d)(ann_node_id a \<mapsto> (a, PS_Alive, t))\<rparr>"

text \<open>One poll: a sweep, and then at most one announcement.\<close>

type_synonym 't round = "'t \<times> ('t announcement \<times> 't) option"

fun dir_round :: "('t, 'd) time_api \<Rightarrow> int \<Rightarrow> 't round \<Rightarrow> 't directory \<Rightarrow> 't directory" where
  "dir_round T ttl (t, None) d = dir_sweep T ttl t d"
| "dir_round T ttl (t, Some (a, u)) d = dir_hear a u (dir_sweep T ttl t d)"

text \<open>What a directory of the node \<open>me\<close> promises, and every operation keeps.\<close>

definition directory_inv :: "('t, 'd) time_api \<Rightarrow> string \<Rightarrow> 't directory \<Rightarrow> bool" where
  "directory_inv T me d \<longleftrightarrow>
     (\<not> dir_running d \<longrightarrow> dir_peers d = Map.empty) \<and> dir_peers d me = None \<and>
     (\<forall>k a st seen. dir_peers d k = Some (a, st, seen) \<longrightarrow>
        ann_node_id a = k \<and> announcement_is_valid T a \<and> st \<in> {PS_Alive, PS_Stale, PS_Expired})"

lemma dir_empty_inv: "directory_inv T me dir_empty"
  by (simp add: directory_inv_def dir_empty_def)

lemma dir_start_inv: "directory_inv T me d \<Longrightarrow> directory_inv T me (dir_start ok d)"
  by (auto simp: directory_inv_def dir_start_def)

lemma dir_sweep_inv: "directory_inv T me d \<Longrightarrow> directory_inv T me (dir_sweep T ttl t d)"
  by (fastforce simp: directory_inv_def dir_sweep_def Let_def)

lemma dir_round_inv:
  assumes "directory_inv T me d" and "dir_running d"
    and "\<And>a. map_option fst (snd r) = Some a \<Longrightarrow> announcement_is_valid T a \<and> ann_node_id a \<noteq> me"
  shows "directory_inv T me (dir_round T ttl r d)"
proof -
  obtain t h where r: "r = (t, h)" by fastforce
  show ?thesis
  proof (cases h)
    case None
    with dir_sweep_inv [OF assms(1)] show ?thesis by (simp add: r)
  next
    case (Some x)
    then obtain a u where h: "h = Some (a, u)" by (cases x) auto
    with dir_sweep_inv [OF assms(1), of ttl t] assms(2,3) show ?thesis
      by (auto simp: r directory_inv_def dir_hear_def) (simp_all add: dir_sweep_def)
  qed
qed

lemma dir_round_running [simp]: "dir_running (dir_round T ttl r d) = dir_running d"
proof -
  obtain t h where r: "r = (t, h)" by fastforce
  show ?thesis by (cases h) (auto simp: r dir_sweep_def dir_hear_def)
qed

definition round_ok :: "('t, 'd) time_api \<Rightarrow> string \<Rightarrow> 't round \<Rightarrow> bool" where
  "round_ok T me r \<longleftrightarrow>
     (\<forall>a. map_option fst (snd r) = Some a \<longrightarrow> announcement_is_valid T a \<and> ann_node_id a \<noteq> me)"

lemma dir_rounds_inv:
  "directory_inv T me d \<Longrightarrow> dir_running d \<Longrightarrow> \<forall>r \<in> set rounds. round_ok T me r \<Longrightarrow>
   directory_inv T me (fold (dir_round T ttl) rounds d)"
proof (induction rounds arbitrary: d)
  case (Cons r rounds)
  from Cons.prems have "directory_inv T me (dir_round T ttl r d)"
    by (intro dir_round_inv) (auto simp: round_ok_def)
  with Cons show ?case by simp
qed simp

section \<open>The engine is a directory\<close>

definition directory_of :: "('t, 'b, 'x) system \<Rightarrow> 't directory" where
  "directory_of s =
     \<lparr>dir_running = (eng_status s = DS_Running),
      dir_peers = map_option (\<lambda>p. (dp_announcement p, dp_state p, dp_last_seen_at p)) \<circ>
        um_find (eng_registry s)\<rparr>"

lemma directory_of_cong:
  "eng_status s' = eng_status s \<Longrightarrow> eng_registry s' = eng_registry s \<Longrightarrow>
   directory_of s' = directory_of s"
  by (simp add: directory_of_def)

lemma directory_of_empty:
  "eng_status s \<noteq> DS_Running \<Longrightarrow> eng_registry s = [] \<Longrightarrow> directory_of s = dir_empty"
  by (auto simp: directory_of_def dir_empty_def um_find_def)

lemma talks_directory: "talks E s s' \<Longrightarrow> directory_of s' = directory_of s"
  by (intro directory_of_cong) (simp_all add: talksD)

text \<open>The announcement that an inbound envelope makes known, if any.\<close>

definition heard_in ::
    "('t, 'd, 'b, 'x) env \<Rightarrow> 'd discovery_context \<Rightarrow> 't envelope \<Rightarrow> 't announcement option" where
  "heard_in E ctx e =
     (let m = env_message e in
      if message_is_valid m \<and> (msg_type m = MT_Announce \<or> msg_type m = MT_Reply) \<and>
         msg_from m \<noteq> local_node_id E ctx
      then (case decode_announcement (api_time E) (api_serializer E) (msg_payload m) of
              Some (Some a) \<Rightarrow> if ann_node_id a = local_node_id E ctx then None else Some a
            | _ \<Rightarrow> None)
      else None)"

text \<open>When a peer is stamped: the constructor of a new one has read the clock before.\<close>

definition learned_at :: "'t registry \<Rightarrow> 't announcement \<Rightarrow> 't clock \<Rightarrow> 't" where
  "learned_at r a c = readings c (ticks c + (if um_find r (ann_node_id a) = None then 1 else 0))"

lemma announced_peer_learned_at: "dp_last_seen_at (announced_peer r a c) = learned_at r a c"
  by (simp add: announced_peer_def learned_at_def split: option.splits)

lemma learn_directory:
  assumes "layout_ok (api_layout E)" and "um_wf (eng_registry s)"
    and "announcement_is_valid (api_time E) a"
  shows "directory_of (integrate_with_transport E ctx a (upsert_discovered_peer E a s)) =
    dir_hear a (learned_at (eng_registry s) a (sys_clock s)) (directory_of s)"
  using upsert_announcement_lookup [OF assms, of "sys_clock s"]
  by (auto simp: directory_of_def dir_hear_def learn_frame announced_peer_simps
      announced_peer_learned_at fun_eq_iff)

lemma heard_in_valid:
  assumes "timestamp_ok (api_time E)" and "serializer_ok (api_serializer E)"
    and "heard_in E ctx e = Some a"
  shows "announcement_is_valid (api_time E) a \<and> ann_node_id a \<noteq> local_node_id E ctx"
  using assms(3) decode_announcement_buffer_eq [OF assms(1,2), of "msg_payload (env_message e)"]
    decode_announcement_buffer_valid [of "api_time E" "api_serializer E"]
  by (auto simp: heard_in_def Let_def split: if_splits option.splits)

text \<open>A sweep of the registry is a sweep of the directory.\<close>

lemma sweep_directory:
  assumes T: "timestamp_ok (api_time E)" and D: "duration_ok (api_time E)"
    and c: "config_checked (api_time E) ctx = Inr c" and seen: "peers_seen E s"
    and got: "refresh_peer_states E ctx s = Some s'"
  shows "directory_of s' =
      dir_sweep (api_time E) (sint (dur_millis (api_time E) (cfg_peer_ttl c))) (time_at s 0) (directory_of s)"
    and "sys_clock s' = sys_clock (advance 1 s)" and "sys_backend s' = sys_backend s"
    and "um_find (eng_registry s') k = None \<longleftrightarrow> um_find (eng_registry s) k = None"
proof -
  let ?T = "api_time E"
  let ?p = "refreshed_peer ?T (time_at s 0) (stale_after ?T c) (cfg_peer_ttl c)"
  have valid: "ts_is_valid ?T (time_at s 0)"
    using peers_seenD(1) [OF seen] by (rule clock_ok_time_at)
  have s': "s' = (advance 1 s)\<lparr>eng_registry := map (\<lambda>(k, p). (k, ?p p)) (eng_registry s)\<rparr>"
    using got c by (simp add: refresh_peer_states_def sys_now_eq refresh_states_eq [OF T valid])
  have half: "sint (dur_millis ?T (stale_after ?T c)) = sint (dur_millis ?T (cfg_peer_ttl c)) div 2"
    using config_valid_parts(7) [OF c] by (rule stale_after_half [OF D])
  have entry: "(dp_announcement (?p p), dp_state (?p p), dp_last_seen_at (?p p)) =
      aged_entry ?T (sint (dur_millis ?T (cfg_peer_ttl c))) (time_at s 0)
        (dp_announcement p, dp_state p, dp_last_seen_at p)"
    if "um_find (eng_registry s) k = Some p" for k p
    using peers_seenD(3) [OF seen that]
    by (simp add: refreshed_peer_def refreshed_state_def peer_age_def half Let_def)
  show "directory_of s' =
      dir_sweep ?T (sint (dur_millis ?T (cfg_peer_ttl c))) (time_at s 0) (directory_of s)"
    using entry
    by (auto simp: directory_of_def dir_sweep_def s' um_find_map fun_eq_iff option.map_comp comp_def
        intro!: map_option_cong)
  show "sys_clock s' = sys_clock (advance 1 s)" "sys_backend s' = sys_backend s"
      "um_find (eng_registry s') k = None \<longleftrightarrow> um_find (eng_registry s) k = None"
    by (auto simp: s' um_find_map)
qed

section \<open>The rounds of a poll\<close>

text \<open>
  What the abstract round of a poll is given: the time of the sweep, which is the first clock
  reading after the announcement timer, and what the envelope at the front of the backend makes
  known.  A node that does not run has no round.
\<close>

definition poll_round ::
    "('t, 'd, 'b, 'x) env \<Rightarrow> 'd discovery_context \<Rightarrow> ('t, 'b, 'x) system \<Rightarrow> 't round option" where
  "poll_round E ctx s =
     (if \<not> engine_is_running E s then None
      else do {
        s \<leftarrow> maybe_announce E ctx s;
        (inbound, b, c) \<leftarrow> server_poll (api_backend E) (sys_backend s) (sys_clock (advance 1 s));
        Some (time_at s 0,
          map_option (\<lambda>a. (a, learned_at (eng_registry s) a c)) (Option.bind inbound (heard_in E ctx)))
      })"

text \<open>The rounds of \<open>poll_many\<close>: it goes on as long as a poll handles a message.\<close>

fun poll_rounds ::
    "('t, 'd, 'b, 'x) env \<Rightarrow> 'd discovery_context \<Rightarrow> nat \<Rightarrow> ('t, 'b, 'x) system \<Rightarrow> 't round list" where
  "poll_rounds E ctx 0 s = []"
| "poll_rounds E ctx (Suc n) s =
     (case poll_round E ctx s of
        None \<Rightarrow> []
      | Some r \<Rightarrow>
          r # (case poll_once E ctx s of
                 Some (ok, s') \<Rightarrow> if ok then poll_rounds E ctx n s' else []
               | None \<Rightarrow> []))"

lemma poll_rounds_idle: "\<not> engine_is_running E s \<Longrightarrow> poll_rounds E ctx n s = []"
  by (cases n) (simp_all add: poll_round_def)

context discovery_node
begin

lemma handle_inbound_directory:
  assumes T: "timestamp_ok (api_time E)" and S: "serializer_ok (api_serializer E)"
    and L: "layout_ok (api_layout E)" and wf: "um_wf (eng_registry s)"
    and got: "handle_inbound E ctx inbound s = Some (ok, s')"
  shows "directory_of s' =
      (case Option.bind inbound (heard_in E ctx) of
         None \<Rightarrow> directory_of s
       | Some a \<Rightarrow> dir_hear a (learned_at (eng_registry s) a (sys_clock s)) (directory_of s))"
    and "Option.bind inbound (heard_in E ctx) \<noteq> None \<Longrightarrow> ok"
proof -
  have announce: "directory_of s' =
      (case r of
         None \<Rightarrow> directory_of s
       | Some a \<Rightarrow>
           if ann_node_id a = local_node_id E ctx then directory_of s
           else dir_hear a (learned_at (eng_registry s) a (sys_clock s)) (directory_of s)) \<and>
      (\<forall>a. r = Some a \<and> ann_node_id a \<noteq> local_node_id E ctx \<longrightarrow> ok)"
    if "handle_announce E ctx e s = Some (ok, s')"
      and r: "decode_announcement (api_time E) (api_serializer E) (msg_payload (env_message e)) = Some r"
    for e r
    using that handle_announce_eq [OF T S r, of ctx s] learn_directory [OF L wf, of _ ctx]
      decode_announcement_buffer_eq [OF T S, of "msg_payload (env_message e)"]
      decode_announcement_buffer_valid [of "api_time E" "api_serializer E" "msg_payload (env_message e)"]
    by (auto split: option.splits if_splits)
  have probe: "directory_of s' = directory_of s" if "handle_probe E ctx e s = Some (ok, s')" for e
    using talksD(1,2) [OF handle_probe_talks [OF that]] by (intro directory_of_cong) simp_all
  have decoded: "\<exists>r. decode_announcement (api_time E) (api_serializer E) b = Some r" for b
    using decode_announcement_no_fault [OF S, of "api_time E" b] by auto
  show "directory_of s' =
      (case Option.bind inbound (heard_in E ctx) of
         None \<Rightarrow> directory_of s
       | Some a \<Rightarrow> dir_hear a (learned_at (eng_registry s) a (sys_clock s)) (directory_of s))"
    and "Option.bind inbound (heard_in E ctx) \<noteq> None \<Longrightarrow> ok"
    using got announce probe decoded
    unfolding handle_inbound_def handle_reply_announce heard_in_def Let_def
    by (fastforce split: option.splits if_splits message_type.splits)+
qed

text \<open>One poll of a running engine is one round of its directory.\<close>

lemma poll_once_round:
  assumes T: "timestamp_ok (api_time E)" and D: "duration_ok (api_time E)"
    and S: "serializer_ok (api_serializer E)" and L: "layout_ok (api_layout E)"
    and inv: "engine_inv E ctx s" "engine_is_running E s" and seen: "peers_seen E s"
    and c: "config_checked (api_time E) ctx = Inr c" and got: "poll_once E ctx s = Some (ok, s')"
  shows "\<exists>r. poll_round E ctx s = Some r \<and> round_ok (api_time E) (local_node_id E ctx) r \<and>
    (snd r \<noteq> None \<longrightarrow> ok) \<and>
    directory_of s' =
      dir_round (api_time E) (sint (dur_millis (api_time E) (cfg_peer_ttl c))) r (directory_of s)"
proof -
  let ?T = "api_time E" and ?ttl = "sint (dur_millis (api_time E) (cfg_peer_ttl c))"
  from poll_once_running [OF inv(2) got] obtain s1 s2 inbound b k where
    s1: "maybe_announce E ctx s = Some s1" and
    s2: "refresh_peer_states E ctx s1 = Some s2" and
    polled: "server_poll (api_backend E) (sys_backend s2) (sys_clock s2) = Some (inbound, b, k)" and
    rest: "handle_inbound E ctx inbound (s2\<lparr>sys_backend := b, sys_clock := k\<rparr>) = Some (ok, s')"
    by metis
  have run: "eng_status s = DS_Running" using inv by (simp add: engine_inv_running)
  note t1 = maybe_announce_talks [OF s1]
  note eff1 = talks_effects [OF t1]
  have seen1: "peers_seen E s1" by (rule engine_effects_seen [OF eff1 L inv(1) run seen])
  note sweep = sweep_directory [OF T D c seen1 s2]
  let ?s3 = "s2\<lparr>sys_backend := b, sys_clock := k\<rparr>"
  have "engine_effects E ctx s ?s3"
    using eff1 refresh_peer_states_effects [OF s2] talks_effects [OF poll_talks [OF polled]]
    by (meson rtranclp_trans)
  from engine_effects_inv [OF this L inv(1) run] have wf: "um_wf (eng_registry ?s3)"
    by (auto simp: engine_inv_def dest: registry_wf_um)
  define heard where "heard = Option.bind inbound (heard_in E ctx)"
  define r where "r = (time_at s1 0, map_option (\<lambda>a. (a, learned_at (eng_registry s1) a k)) heard)"
  have learned: "learned_at (eng_registry s2) a k = learned_at (eng_registry s1) a k" for a
    by (simp add: learned_at_def sweep(4))
  have dirs: "directory_of s1 = directory_of s" "directory_of ?s3 = directory_of s2"
    using talksD(1,2) [OF t1] by (auto intro: directory_of_cong)
  have round: "poll_round E ctx s = Some r"
    using s1 polled inv(2) by (simp add: poll_round_def sweep(2,3) r_def heard_def)
  have "directory_of s' = dir_round ?T ?ttl r (directory_of s)"
    using handle_inbound_directory(1) [OF T S L wf rest] sweep(1) learned dirs
    by (cases heard) (auto simp: r_def heard_def)
  moreover have "snd r \<noteq> None \<longrightarrow> ok"
    using handle_inbound_directory(2) [OF T S L wf rest] by (auto simp: r_def heard_def)
  moreover have "round_ok ?T (local_node_id E ctx) r"
    using heard_in_valid [OF T S] by (auto simp: round_ok_def r_def heard_def bind_eq_Some_conv)
  ultimately show ?thesis using round by blast
qed

lemma poll_loop_rounds:
  assumes T: "timestamp_ok (api_time E)" and D: "duration_ok (api_time E)"
    and S: "serializer_ok (api_serializer E)" and L: "layout_ok (api_layout E)"
    and c: "config_checked (api_time E) ctx = Inr c"
  shows "engine_inv E ctx s \<Longrightarrow> engine_is_running E s \<Longrightarrow> peers_seen E s \<Longrightarrow>
    poll_loop E ctx n p s = Some (k, s') \<Longrightarrow>
    directory_of s' = fold (dir_round (api_time E) (sint (dur_millis (api_time E) (cfg_peer_ttl c))))
        (poll_rounds E ctx n s) (directory_of s) \<and>
      (\<forall>r \<in> set (poll_rounds E ctx n s). round_ok (api_time E) (local_node_id E ctx) r) \<and>
      p \<le> k \<and> length (poll_rounds E ctx n s) = min n (Suc k - p)"
proof (induction n arbitrary: s p)
  case (Suc n)
  from Suc.prems(4) obtain ok s1 where one: "poll_once E ctx s = Some (ok, s1)"
    and rest: "(if ok then poll_loop E ctx n (p + 1) s1 else Some (p, s1)) = Some (k, s')"
    by (auto simp: bind_eq_Some_conv split: if_splits)
  obtain r where r: "poll_round E ctx s = Some r" "round_ok (api_time E) (local_node_id E ctx) r"
    and dir: "directory_of s1 = dir_round (api_time E)
      (sint (dur_millis (api_time E) (cfg_peer_ttl c))) r (directory_of s)"
    using poll_once_round [OF T D S L Suc.prems(1-3) c one] by blast
  show ?case
  proof (cases ok)
    case True
    note eff = poll_once_effects [OF one]
    have run: "eng_status s = DS_Running" using Suc.prems(1,2) by (simp add: engine_inv_running)
    from engine_effects_inv [OF eff L Suc.prems(1) run] engine_effects_seen [OF eff L Suc.prems(1) run Suc.prems(3)]
    have s1: "engine_inv E ctx s1" "peers_seen E s1" "engine_is_running E s1"
      using engine_inv_running [of ctx s1] by auto
    from Suc.IH [OF s1(1,3,2), of "p + 1"] rest True show ?thesis
      by (auto simp: r one dir)
  qed (use rest dir in \<open>auto simp: r one\<close>)
qed simp

section \<open>The other calls\<close>

lemma start_directory:
  assumes "engine_inv E ctx s" and "engine_start E ctx s = Some (ok, s')"
  shows "directory_of s' = dir_start ok (directory_of s) \<and> ok = dir_running (directory_of s')"
  using assms engine_start_outcome(3) [OF assms]
  by (auto simp: engine_start_def directory_of_def dir_start_def status_is_running_def Let_def
      bind_eq_Some_conv split: if_splits)

lemma stop_directory: "engine_inv E ctx s \<Longrightarrow> directory_of (engine_stop E s) = dir_empty"
  using engine_stop_outcome(2,3) by (intro directory_of_empty) auto

lemma running_configured:
  "engine_inv E ctx s \<Longrightarrow> engine_is_running E s \<Longrightarrow> \<exists>c. config_checked (api_time E) ctx = Inr c"
  by (auto simp: engine_inv_running engine_inv_def context_is_valid_def config_checked_Inr split: option.splits)

text \<open>\<open>poll_many\<close>, whether the engine runs or not.\<close>

lemma poll_many_rounds:
  assumes T: "timestamp_ok (api_time E)" and D: "duration_ok (api_time E)"
    and S: "serializer_ok (api_serializer E)" and L: "layout_ok (api_layout E)"
    and inv: "engine_inv E ctx s" and seen: "peers_seen E s"
    and ttl: "\<And>c. config_checked (api_time E) ctx = Inr c \<Longrightarrow> sint (dur_millis (api_time E) (cfg_peer_ttl c)) = ttl"
    and got: "poll_many E ctx n s = Some (k, s')"
  shows "directory_of s' = fold (dir_round (api_time E) ttl) (poll_rounds E ctx n s) (directory_of s) \<and>
    (\<forall>r \<in> set (poll_rounds E ctx n s). round_ok (api_time E) (local_node_id E ctx) r) \<and>
    length (poll_rounds E ctx n s) = (if engine_is_running E s then min n (Suc k) else 0)"
proof (cases "engine_is_running E s")
  case True
  with running_configured [OF inv] obtain c where c: "config_checked (api_time E) ctx = Inr c" by blast
  with poll_loop_rounds [OF T D S L c inv True seen got [unfolded poll_many_def]] True ttl [OF c]
  show ?thesis by simp
next
  case False
  with got not_running_nothing(4) [of s ctx n] show ?thesis by (simp add: poll_rounds_idle)
qed

lemma poll_once_many: "poll_once E ctx s = Some (ok, s') \<Longrightarrow> \<exists>k. poll_many E ctx 1 s = Some (k, s')"
  by (simp add: poll_many_def)

lemma engine_step_directory_inv:
  assumes T: "timestamp_ok (api_time E)" and D: "duration_ok (api_time E)"
    and S: "serializer_ok (api_serializer E)"
    and inv: "engine_inv E ctx s" and seen: "peers_seen E s" and step: "engine_step E ctx s s'"
    and d: "directory_inv (api_time E) (local_node_id E ctx) (directory_of s)"
  shows "directory_inv (api_time E) (local_node_id E ctx) (directory_of s')"
proof -
  have poll: "directory_inv (api_time E) (local_node_id E ctx) (directory_of s')"
    if L: "layout_ok L" and got: "poll_many (E\<lparr>api_layout := L\<rparr>) ctx n s = Some (k, s')" for L n k
  proof (cases "engine_is_running E s")
    case True
    let ?EL = "E\<lparr>api_layout := L\<rparr>"
    from running_configured [OF inv True] obtain c where c: "config_checked (api_time E) ctx = Inr c" ..
    have run: "dir_running (directory_of s)"
      using inv True by (simp add: directory_of_def engine_inv_running)
    have "directory_of s' = fold (dir_round (api_time E) (sint (dur_millis (api_time E) (cfg_peer_ttl c))))
        (poll_rounds ?EL ctx n s) (directory_of s) \<and>
      (\<forall>r \<in> set (poll_rounds ?EL ctx n s). round_ok (api_time E) (local_node_id E ctx) r)"
      using discovery_node.poll_many_rounds [OF node_layout, of L ctx s _ n k s'] T D S L inv seen got c
      by (simp add: local_node_id_def)
    with dir_rounds_inv [OF d run] show ?thesis by simp
  next
    case False
    with got discovery_node.not_running_nothing(4) [OF node_layout, of L s ctx n] d show ?thesis by simp
  qed
  show ?thesis
    using step
  proof cases
    case (started ok)
    with start_directory [OF inv] dir_start_inv [OF d] show ?thesis by metis
  next
    case stopped
    with stop_directory [OF inv] dir_empty_inv show ?thesis by metis
  next
    case (announced ok)
    with talks_directory [OF announce_now_talks] d show ?thesis by metis
  next
    case (probed ok)
    with talks_directory [OF probe_now_talks] d show ?thesis by metis
  next
    case (polled L ok)
    with discovery_node.poll_once_many [OF node_layout] poll show ?thesis by blast
  next
    case (polled_many L n k)
    with poll show ?thesis by blast
  qed
qed

end

section \<open>Every reachable service\<close>

lemma service_reachable_directory:
  assumes "timestamp_ok T" and "duration_ok T" and "serializer_ok S"
  shows "service_reachable T S P X opts vh \<Longrightarrow>
    directory_inv T (local_node_id (udp_env T S P X L) (svc_context (fst vh)))
      (directory_of (svc_system (fst vh)))"
proof (induction rule: service_reachable.induct)
  case (service_created c x k h)
  then show ?case
    by (simp add: make_service_def Let_def make_system_def directory_of_def directory_inv_def um_find_def
        comp_def)
next
  case (service_continues vh vh')
  let ?me = "local_node_id (udp_env T S P X L) (svc_context (fst vh))"
  have step: "service_step T S P X (fst vh, snd vh) (fst vh', snd vh')" using service_continues(2) by simp
  from service_step_engine [OF step] obtain s where ctx: "svc_context (fst vh') = svc_context (fst vh)"
    and same: "same_but_clock s (svc_system (fst vh'))" and
    s_cases: "s = svc_system (fst vh) \<or>
      (\<exists>L. engine_step (udp_env T S P X L) (svc_context (fst vh)) (svc_system (fst vh)) s)"
    by blast
  have "directory_inv T ?me (directory_of s)"
    using s_cases
  proof (elim disjE exE)
    fix L' assume step: "engine_step (udp_env T S P X L') (svc_context (fst vh)) (svc_system (fst vh)) s"
    have eng: "engine_inv (udp_env T S P X L') (svc_context (fst vh)) (svc_system (fst vh))"
        "peers_seen (udp_env T S P X L') (svc_system (fst vh))"
      using service_inv_ok [OF service_reachable_inv [OF service_continues(1)]]
      by (simp_all add: engine_ok_any [where L = L'])
    show ?thesis
      using udp_node.engine_step_directory_inv [of T S P X L', OF _ _ _ eng step] assms service_continues.IH
      by (simp add: local_node_id_def)
  qed (use service_continues.IH in blast)
  moreover have "directory_of (svc_system (fst vh')) = directory_of s"
    using same by (intro directory_of_cong) (simp_all add: same_but_clock_def)
  ultimately show ?case by (simp add: ctx)
qed

end
