(* ===== verification/Directory_Properties.thy ===== *)
theory Directory_Properties
  imports Scenario Directory
begin

text \<open>
  The service against its specification, the abstract directory of \<open>Directory\<close>.
\<close>

text \<open>The list of peers, read off the directory.\<close>

lemma listed_alive:
  assumes wf: "registry_wf T (eng_registry s)" and d: "directory_inv T me (directory_of s)"
  shows "(\<lambda>p. (peer_node_id p, ann_host (dp_announcement p), ann_port (dp_announcement p))) `
      set (available_peers (eng_registry s)) =
    {(k, ann_host a, ann_port a) | k a seen. dir_peers (directory_of s) k = Some (a, PS_Alive, seen)}"
proof -
  let ?r = "eng_registry s"
  have listed: "p \<in> set (available_peers ?r) \<longleftrightarrow>
      um_find ?r (peer_node_id p) = Some p \<and> dp_state p = PS_Alive" for p
  proof
    assume "p \<in> set (available_peers ?r)"
    then obtain k where k: "um_find ?r k = Some p" "peer_available p"
      using available_peers_find [OF registry_wf_um [OF wf]] by blast
    then have "dir_peers (directory_of s) k = Some (dp_announcement p, dp_state p, dp_last_seen_at p)"
      by (simp add: directory_of_def)
    with d have "dp_state p \<in> {PS_Alive, PS_Stale, PS_Expired}" unfolding directory_inv_def by blast
    with k registry_wfD(1) [OF wf k(1)] show "um_find ?r (peer_node_id p) = Some p \<and> dp_state p = PS_Alive"
      by (auto simp: peer_available_def is_available_def)
  next
    assume p: "um_find ?r (peer_node_id p) = Some p \<and> dp_state p = PS_Alive"
    then have "(peer_node_id p, p) \<in> set ?r" by (auto simp: um_find_def dest: map_of_SomeD)
    with p show "p \<in> set (available_peers ?r)"
      by (force simp: available_peers_def peer_available_def is_available_def)
  qed
  show ?thesis
    using registry_wfD(1) [OF wf] by (force simp: listed directory_of_def image_iff)
qed

text \<open>The polling calls of the service, as rounds of its directory.\<close>

lemma service_polls_rounds:
  assumes T: "timestamp_ok T" and D: "duration_ok T" and S: "serializer_ok S" and L: "layout_ok L"
    and inv: "service_inv T S P X opts v"
  defines "E \<equiv> udp_env T S P X L"
  defines "rounds \<equiv> \<lambda>n. poll_rounds E (svc_context v) n (svc_system v)"
    and "after \<equiv> \<lambda>n. fold (dir_round T (sint (dur_millis T (opt_peer_ttl opts))))
      (poll_rounds E (svc_context v) n (svc_system v)) (directory_of (svc_system v))"
  shows "service_poll E v h = Some (ok, w, h') \<Longrightarrow> directory_of (svc_system w) = after 1"
    and "service_poll_many E n v h = Some (k, w, h') \<Longrightarrow> directory_of (svc_system w) = after n \<and>
      length (rounds n) = (if service_is_running E v then min n (Suc k) else 0)"
proof -
  have eng: "engine_inv E (svc_context v) (svc_system v)" "peers_seen E (svc_system v)"
    using service_inv_ok [OF inv] by (simp_all add: E_def engine_ok_any [where L = L])
  have ttl: "sint (dur_millis (api_time E) (cfg_peer_ttl c)) = sint (dur_millis T (opt_peer_ttl opts))"
    if "config_checked (api_time E) (svc_context v) = Inr c" for c
    using that inv by (auto simp: E_def service_inv_def config_checked_Inr make_context_def to_config_def)
  have ok: "timestamp_ok (api_time E)" "duration_ok (api_time E)" "serializer_ok (api_serializer E)"
      "layout_ok (api_layout E)"
    using T D S L by (simp_all add: E_def)
  note many = udp_node.poll_many_rounds [of T S P X L, folded E_def, OF ok eng ttl]
  have notify: "directory_of (svc_system (fst (notify_new_peers E u h))) = directory_of (svc_system u)" for u
    by (rule talks_directory [OF notify_new_peers_talks])
  show "directory_of (svc_system w) = after 1" if got: "service_poll E v h = Some (ok, w, h')"
  proof -
    from got obtain s where one: "poll_once E (svc_context v) (svc_system v) = Some (ok, s)"
      and w: "w = fst (notify_new_peers E (v\<lparr>svc_system := s\<rparr>) h)"
      by (auto simp: service_poll_def bind_eq_Some_conv case_prod_unfold)
    obtain k where "poll_many E (svc_context v) 1 (svc_system v) = Some (k, s)"
      using udp_node.poll_once_many [of T S P X L, folded E_def, OF one] by blast
    from many [OF _ this] have "directory_of s = after 1" unfolding after_def E_def by simp
    then show ?thesis by (simp add: w notify)
  qed
  show "directory_of (svc_system w) = after n \<and>
      length (rounds n) = (if service_is_running E v then min n (Suc k) else 0)"
    if got: "service_poll_many E n v h = Some (k, w, h')"
  proof -
    from got obtain s where got: "poll_many E (svc_context v) n (svc_system v) = Some (k, s)"
      and w: "w = fst (notify_new_peers E (v\<lparr>svc_system := s\<rparr>) h)"
      by (auto simp: service_poll_many_def bind_eq_Some_conv case_prod_unfold)
    from many [OF _ got] have "directory_of s = after n \<and>
        length (rounds n) = (if service_is_running E v then min n (Suc k) else 0)"
      unfolding after_def rounds_def service_is_running_def E_def by simp
    then show ?thesis by (simp add: w notify)
  qed
qed

text \<open>
  C3.  The service implements a directory, call by call.  In every reachable state its registry
  and running flag are an abstract directory that holds no entry for the node itself and only
  valid announcements, and \<open>peers()\<close> shows exactly the endpoints of its alive entries.  Then
  \<open>start\<close> is the start of that directory, with the result that it returns; \<open>stop\<close> empties it;
  \<open>announce_now\<close>, \<open>probe_now\<close>, \<open>peers\<close> and \<open>on_peer_found\<close> leave it as it is; and \<open>poll\<close> and
  \<open>poll_many(n)\<close> are its rounds one after another (one round per handled message and one more,
  at most n, none when the service does not run), where a round ages every entry at the time of
  the sweep and then files the announcement, if any, that the envelope at the front of the
  backend makes known, and keeps every other entry.
\<close>

theorem service_refines_directory:
  assumes "timestamp_ok T" and "duration_ok T" and "serializer_ok S" and "layout_ok L"
    and "service_reachable T S P X opts (v, h)"
  defines "E \<equiv> udp_env T S P X L" and "D \<equiv> \<lambda>u. directory_of (svc_system u)"
  defines "rounds \<equiv> \<lambda>n. poll_rounds E (svc_context v) n (svc_system v)"
    and "ttl \<equiv> sint (dur_millis T (opt_peer_ttl opts))"
  shows "directory_inv T (local_node_id E (svc_context v)) (D v) \<and>
    dir_running (D v) = service_is_running E v \<and>
    (\<lambda>q. (pub_node_id q, pub_host q, pub_port q)) ` set (fst (service_peers E v)) =
      {(k, ann_host a, ann_port a) | k a seen. dir_peers (D v) k = Some (a, PS_Alive, seen)} \<and>
    (\<forall>ok w. service_start E v = Some (ok, w) \<longrightarrow>
      D w = dir_start ok (D v) \<and> ok = service_is_running E w) \<and>
    D (service_stop E v) = dir_empty \<and>
    (\<forall>ok w. service_announce_now E v = Some (ok, w) \<longrightarrow> D w = D v) \<and>
    (\<forall>ok w. service_probe_now E v = Some (ok, w) \<longrightarrow> D w = D v) \<and>
    D (snd (service_peers E v)) = D v \<and> D (service_on_peer_found f v) = D v \<and>
    (\<forall>ok w h'. service_poll E v h = Some (ok, w, h') \<longrightarrow> D w = fold (dir_round T ttl) (rounds 1) (D v)) \<and>
    (\<forall>n k w h'. service_poll_many E n v h = Some (k, w, h') \<longrightarrow>
      D w = fold (dir_round T ttl) (rounds n) (D v) \<and>
      length (rounds n) = (if service_is_running E v then min n (Suc k) else 0))"
proof -
  from service_reachable_inv [OF assms(5)] have inv: "service_inv T S P X opts v" by simp
  then have eng: "engine_inv E (svc_context v) (svc_system v)" "peers_seen E (svc_system v)"
    using service_inv_ok [OF inv] by (simp_all add: E_def engine_ok_any [where L = L])
  have wf: "registry_wf T (eng_registry (svc_system v))" using eng(1) by (simp add: engine_inv_def E_def)
  have dir: "directory_inv T (local_node_id E (svc_context v)) (D v)"
    using service_reachable_directory [OF assms(1-3,5), of L] by (simp add: E_def D_def)
  have run: "dir_running (D v) = service_is_running E v"
    using udp_node.engine_inv_running [of T S P X L, folded E_def, OF eng(1)]
    by (simp add: D_def directory_of_def service_is_running_def)
  have view: "(\<lambda>q. (pub_node_id q, pub_host q, pub_port q)) (public_view p) =
      (peer_node_id p, ann_host (dp_announcement p), ann_port (dp_announcement p))" for p
    by (simp add: public_view_def from_discovered_peer_def make_public_peer_def peer_node_id_def)
  have list: "(\<lambda>q. (pub_node_id q, pub_host q, pub_port q)) ` set (fst (service_peers E v)) =
      {(k, ann_host a, ann_port a) | k a seen. dir_peers (D v) k = Some (a, PS_Alive, seen)}"
    unfolding service_peers_eq [OF eng] set_map image_image view D_def
    by (rule listed_alive [OF wf dir [unfolded D_def]])
  have start: "D w = dir_start ok (D v) \<and> ok = service_is_running E w"
    if got: "service_start E v = Some (ok, w)" for ok w
  proof (cases "options_is_valid T opts")
    case True
    with got inv obtain s where s: "engine_start E (svc_context v) (svc_system v) = Some (ok, s)"
      and w: "svc_system w = s"
      by (auto simp: service_start_def Let_def bind_eq_Some_conv service_inv_def E_def)
    show ?thesis
      using udp_node.start_directory [of T S P X L, folded E_def, OF eng(1) s, THEN conjunct1]
        udp_node.engine_start_outcome(2) [of T S P X L, folded E_def, OF eng(1) s]
      by (simp add: D_def w service_is_running_def)
  next
    case False
    with got inv have "ok = False" "w = v" "\<not> service_is_running E v"
      using service_inv_facts [OF inv, of L] by (auto simp: service_start_def service_inv_def E_def)
    with run show ?thesis by (simp add: dir_start_def)
  qed
  have stop: "D (service_stop E v) = dir_empty"
    using udp_node.stop_directory [of T S P X L, folded E_def, OF eng(1)]
    by (simp add: D_def service_stop_def Let_def)
  have announce: "D w = D v" if "service_announce_now E v = Some (ok, w)" for ok w
    using that talks_directory [OF udp_node.announce_now_talks [of T S P X L, folded E_def]]
    by (auto simp: D_def service_announce_now_def bind_eq_Some_conv)
  have probe: "D w = D v" if "service_probe_now E v = Some (ok, w)" for ok w
    using that talks_directory [OF udp_node.probe_now_talks [of T S P X L, folded E_def]]
    by (auto simp: D_def service_probe_now_def bind_eq_Some_conv)
  have peers: "D (snd (service_peers E v)) = D v" "D (service_on_peer_found f v) = D v"
    using talks_directory [OF service_peers_talks] by (simp_all add: D_def service_on_peer_found_def)
  note polls = service_polls_rounds [OF assms(1-4) inv, folded E_def]
  have poll: "D w = fold (dir_round T ttl) (rounds 1) (D v)" if "service_poll E v h = Some (ok, w, h')" for ok w h'
    using polls(1) [OF that] unfolding D_def rounds_def ttl_def .
  have many: "D w = fold (dir_round T ttl) (rounds n) (D v) \<and>
      length (rounds n) = (if service_is_running E v then min n (Suc k) else 0)"
    if "service_poll_many E n v h = Some (k, w, h')" for n k w h'
    using polls(2) [OF that] unfolding D_def rounds_def ttl_def .
  show ?thesis
    by (intro conjI allI impI, rule dir, rule run, rule list, erule start [THEN conjunct1],
        erule start [THEN conjunct2], rule stop, erule announce, erule probe, rule peers(1),
        rule peers(2), erule poll, erule many [THEN conjunct1], erule many [THEN conjunct2])
qed

definition demo_waiting ::
    "(i64, i64, string list, demo_state udp_socket, unit) service" where
  "demo_waiting = make_service demo_time demo_options []
     (socket_default ([(encode_message demo_serializer demo_post, \<lparr>sin_port = 9400, sin_addr = 1\<rparr>)], []))
     demo_clock"

theorem service_refines_directory_witness:
  "\<exists>v1 v2. service_start demo_env demo_waiting = Some (True, v1) \<and>
     service_poll demo_env v1 () = Some (True, v2, ()) \<and>
     directory_of (svc_system v2) = fold (dir_round demo_time (sint (dur_millis demo_time (opt_peer_ttl demo_options))))
       (poll_rounds demo_env (svc_context v1) 1 (svc_system v1)) (directory_of (svc_system v1)) \<and>
     (\<exists>host port. (''node-b'', host, port) \<in>
        (\<lambda>q. (pub_node_id q, pub_host q, pub_port q)) ` set (fst (service_peers demo_env v2))) \<and>
     directory_of (svc_system (service_stop demo_env v2)) = dir_empty"
proof -
  have sys: "svc_system demo_waiting = demo_created" "svc_context demo_waiting = demo_context"
    by (simp_all add: demo_waiting_def make_service_def Let_def demo_created_on_def demo_config_def
        demo_context_def)
  have "options_is_valid demo_time demo_options"
    by (simp add: options_is_valid_def demo_options_def options_defs)
  then have opts: "options_is_valid (api_time demo_env) (svc_options demo_waiting)"
    by (simp add: demo_waiting_def make_service_def Let_def)
  define v1 where "v1 = demo_waiting\<lparr>svc_known_peer_count := registry_size (engine_peers demo_created),
    svc_system := demo_started\<rparr>"
  have start: "service_start demo_env demo_waiting = Some (True, v1)"
    using opts demo_start by (simp add: service_start_def Let_def sys v1_def)
  obtain s p where s: "poll_once demo_env demo_context demo_started = Some (True, s)"
      "registry_get (engine_peers s) ''node-b'' = Some p" "dp_state p = PS_Alive"
    using demo_history by blast
  have v1: "svc_context v1 = demo_context" "svc_system v1 = demo_started" "svc_on_peer_found v1 = None"
    by (simp_all add: v1_def sys) (simp add: demo_waiting_def make_service_def Let_def)
  define v2 where "v2 = fst (notify_new_peers demo_env (v1\<lparr>svc_system := s\<rparr>) ())"
  have poll: "service_poll demo_env v1 () = Some (True, v2, ())"
    using s(1) by (simp add: service_poll_def v1 v2_def case_prod_unfold)
  have "service_reachable demo_time demo_serializer demo_platform demo_transport demo_options (demo_waiting, ())"
    unfolding demo_waiting_def by (rule service_reachable.service_created) simp
  moreover have "service_step demo_time demo_serializer demo_platform demo_transport (demo_waiting, ()) (v1, ())"
    by (rule service_step.service_starts [of _ _ _ _ id]) (use start in \<open>simp add: demo_env_def\<close>)
  moreover have "service_step demo_time demo_serializer demo_platform demo_transport (v1, ()) (v2, ())"
    by (rule service_step.service_polls [of id]) (use poll in \<open>simp_all add: demo_env_def\<close>)
  ultimately have reach:
      "service_reachable demo_time demo_serializer demo_platform demo_transport demo_options (v1, ())"
      "service_reachable demo_time demo_serializer demo_platform demo_transport demo_options (v2, ())"
    by (blast intro: service_reachable.service_continues)+
  note refines = service_refines_directory [OF demo_timestamp_ok demo_duration_ok demo_serializer_ok layout_id _,
    of demo_platform demo_transport demo_options, folded demo_env_def]
  have "directory_of (svc_system v2) = directory_of s"
    using talks_directory [OF notify_new_peers_talks, of demo_env "v1\<lparr>svc_system := s\<rparr>" "()"]
    by (simp add: v2_def)
  then have "dir_peers (directory_of (svc_system v2)) ''node-b'' = Some (dp_announcement p, PS_Alive, dp_last_seen_at p)"
    using s(2,3) by (simp add: directory_of_def registry_get_def engine_peers_def)
  moreover have
    "(\<lambda>q. (pub_node_id q, pub_host q, pub_port q)) ` set (fst (service_peers demo_env v2)) =
      {(k, ann_host a, ann_port a) | k a seen.
        dir_peers (directory_of (svc_system v2)) k = Some (a, PS_Alive, seen)}"
    by (rule refines [OF reach(2), THEN conjunct2, THEN conjunct2, THEN conjunct1])
  ultimately have "\<exists>host port. (''node-b'', host, port) \<in>
      (\<lambda>q. (pub_node_id q, pub_host q, pub_port q)) ` set (fst (service_peers demo_env v2))"
    by auto
  moreover have "directory_of (svc_system (service_stop demo_env v2)) = dir_empty"
    by (rule refines [OF reach(2), THEN conjunct2, THEN conjunct2, THEN conjunct2, THEN conjunct2,
          THEN conjunct1])
  moreover have "directory_of (svc_system v2) =
      fold (dir_round demo_time (sint (dur_millis demo_time (opt_peer_ttl demo_options))))
        (poll_rounds demo_env (svc_context v1) 1 (svc_system v1)) (directory_of (svc_system v1))"
    using refines [OF reach(1), THEN conjunct2, THEN conjunct2, THEN conjunct2, THEN conjunct2,
        THEN conjunct2, THEN conjunct2, THEN conjunct2, THEN conjunct2, THEN conjunct2,
        THEN conjunct1, rule_format, OF poll] .
  ultimately show ?thesis using start poll by blast
qed

end
