(* ===== verification/Examples.thy ===== *)
theory Examples
  imports Service_Proofs Lifetime
begin

text \<open>
  The programs of \<open>examples/\<close>: one definition per \<open>main\<close>, with the exit code and the printed lines
  as its result (an \<open>Out\<close> or \<open>Err\<close> per line, without the newline).  Objects on the stack are
  destroyed at the end of \<open>main\<close>, on every path.  The last two programs also set up packages
  outside the repository, a store, a sync engine and the transport engine: the start and stop
  of the transport engine are parameters, and the store with its file is left out.
\<close>

section \<open>Output\<close>

datatype printed = Out string | Err string

definition show_size :: "nat \<Rightarrow> string" where
  "show_size n = int_to_string (int n)"

definition show_port :: "u16 \<Rightarrow> string" where
  "show_port p = int_to_string (uint p)"

definition show_bool :: "bool \<Rightarrow> string" where
  "show_bool b = (if b then ''1'' else ''0'')"

definition show_endpoint :: "string \<Rightarrow> u16 \<Rightarrow> string" where
  "show_endpoint host port = host @ '':'' @ show_port port"

section \<open>Programs without a network\<close>

definition minimal_main :: "('t, 'd) time_api \<Rightarrow> int \<times> printed list" where
  "minimal_main T =
     (let header = Out ''== DISCOVERY MINIMAL EXAMPLE =='';
          options = options_local T ''node-a'' 9400 7000
      in if \<not> options_is_valid T options then (1, [header, Err ''invalid discovery options''])
         else
           let config = to_config T options
           in (0, [header,
                 Out (''node id: '' @ cfg_node_id config),
                 Out (''bind: '' @ show_endpoint (cfg_bind_host config) (cfg_bind_port config)),
                 Out (''announce: '' @ show_endpoint (cfg_announce_host config) (cfg_announce_port config)),
                 Out (''announce interval ms: '' @ int_to_string (sint (announce_interval_ms T config))),
                 Out (''peer ttl ms: '' @ int_to_string (sint (peer_ttl_ms T config)))]))"

definition codec_main :: "serializer \<Rightarrow> (int \<times> printed list) exec" where
  "codec_main S =
     (let header = Out ''== DISCOVERY CODEC EXAMPLE =='';
          payload = bytes_of_string ''hello'';
          message = (message_announce ''node-a'' payload)
            \<lparr>msg_to := ''node-b'', msg_correlation := ''announce-1''\<rparr>;
          encoded = encode_message S message
      in if encoded = [] then returns (1, [header, Err ''failed to encode discovery message''])
         else do {
           decoded \<leftarrow> decode_message_buffer S encoded;
           (case decoded of
              None \<Rightarrow> returns (1, [header, Err ''failed to decode discovery message''])
            | Some m \<Rightarrow> returns (0, [header,
                Out (''encoded size: '' @ show_size (length encoded)),
                Out (''decoded type: '' @ message_type_to_string (msg_type m)),
                Out (''payload size: '' @ show_size (message_payload_size m))]))
         })"

definition roundtrip_main :: "serializer \<Rightarrow> (int \<times> printed list) exec" where
  "roundtrip_main S =
     (let header = Out ''== DISCOVERY ROUNDTRIP DEMO =='';
          message = (message_probe ''node-a'')\<lparr>msg_to := ''node-b'', msg_correlation := ''probe-1''\<rparr>;
          d = make_datagram S message ''127.0.0.1'' 9400
      in if \<not> datagram_is_valid d then returns (1, [header, Err ''failed to encode datagram''])
         else do {
           decoded \<leftarrow> decode_datagram S d;
           (case decoded of
              None \<Rightarrow> returns (1, [header, Err ''failed to decode datagram''])
            | Some m \<Rightarrow> returns (0, [header,
                Out (''decoded type: '' @ message_type_to_string (msg_type m)),
                Out (''from: '' @ msg_from m), Out (''to: '' @ msg_to m),
                Out (''correlation: '' @ msg_correlation m)]))
         })"

definition registry_main ::
    "('t, 'd) time_api \<Rightarrow> 't registry_layout \<Rightarrow> 't clock \<Rightarrow> int \<times> printed list" where
  "registry_main T L c =
     (let (t, c) = now c;
          announcement = make_announcement t ''node-b'' ''127.0.0.1'' 7001;
          (r, c) = registry_upsert_announcement T L [] announcement c;
          all = registry_size r;
          available = length (available_peers r);
          (_, r, c) = registry_mark_stale r ''node-b'' c;
          stale = length (stale_peers r);
          (_, r, c) = registry_mark_expired r ''node-b'' c;
          expired = length (expired_peers r);
          (pruned, r) = prune_expired r
      in (0, [Out ''== DISCOVERY REGISTRY EXAMPLE =='',
            Out (''registry size: '' @ show_size all),
            Out (''available peers: '' @ show_size available),
            Out (''stale peers: '' @ show_size stale),
            Out (''expired peers: '' @ show_size expired),
            Out (''pruned peers: '' @ show_size pruned)]))"

section \<open>Programs on the UDP backend\<close>

text \<open>
  The listener.  The result has the backend after its destruction.
\<close>

definition listener_main ::
    "('t, 'd) time_api \<Rightarrow> serializer \<Rightarrow> ('d, 's) platform \<Rightarrow> 's \<Rightarrow> 't clock \<Rightarrow>
     (int \<times> printed list \<times> ('d, 's) udp_backend) exec" where
  "listener_main T S P socket c =
     (let header = Out ''== DISCOVERY LISTENER EXAMPLE =='';
          config = config_local T ''node-listener'' 9401 7001;
          b = make_udp_backend config socket
      in do {
        (ok, b) \<leftarrow> server_start (udp_backend_api T S P) b;
        if \<not> ok
        then returns (1, [header, Err ''failed to start discovery listener''], udp_destroy P b)
        else do {
          let running = Out (''listener running on '' @ show_endpoint (cfg_bind_host config) (cfg_bind_port config));
          (inbound, b, c) \<leftarrow> server_poll (udp_backend_api T S P) b c;
          (case inbound of
             None \<Rightarrow>
               let b = server_stop (udp_backend_api T S P) b
               in returns (0, [header, running, Out ''no inbound discovery message available''],
                    udp_destroy P b)
           | Some e \<Rightarrow>
               let b = server_stop (udp_backend_api T S P) b
               in returns (0, [header, running,
                      Out (''received discovery message from: '' @ msg_from (env_message e)),
                      Out (''message type: '' @ message_type_to_string (msg_type (env_message e))),
                      Out (''source: '' @ show_endpoint (env_from_host e) (env_from_port e))],
                    udp_destroy P b))
        }
      })"

text \<open>
  The announcer sends the bytes of its node id as the payload.  The message object that
  \<open>main\<close> builds beside it, with a correlation id, is never used: \<open>send_announce\<close> makes its own,
  which is \<open>announcer_message\<close>.
\<close>

definition announcer_main ::
    "('t, 'd) time_api \<Rightarrow> serializer \<Rightarrow> ('d, 's) platform \<Rightarrow> 's \<Rightarrow> 't clock \<Rightarrow>
     (int \<times> printed list \<times> ('d, 's) udp_backend) exec" where
  "announcer_main T S P socket c =
     (let header = Out ''== DISCOVERY ANNOUNCER EXAMPLE =='';
          config = config_local T ''node-announcer'' 9400 7000;
          b = make_udp_backend config socket
      in do {
        (ok, b) \<leftarrow> udp_start T P b;
        if \<not> ok
        then returns (1, [header, Err ''failed to start UDP discovery backend''], udp_destroy P b)
        else do {
          let (t, c) = now c;
          let announcement = make_announcement t (cfg_node_id config) (cfg_announce_host config)
                (cfg_announce_port config);
          let payload = bytes_of_string (ann_node_id announcement);
          (sent, b, c) \<leftarrow> client_send_announce T (udp_backend_api T S P) (cfg_broadcast_host config)
                (cfg_broadcast_port config) (cfg_node_id config) payload b c;
          let b = udp_stop P b;
          returns (0, [header, Out (''announcement sent: '' @ show_bool sent)], udp_destroy P b)
        }
      })"

definition announcer_message :: message where
  "announcer_message = message_announce ''node-announcer'' (bytes_of_string ''node-announcer'')"

section \<open>Programs on the engine and the service\<close>

text \<open>
  Start and stop of the transport engine; the result has the objects of the discovery module
  after their destruction, which comes before that of the transport engine.
\<close>

record 'x transport_control =
  tr_start :: "'x \<Rightarrow> bool \<times> 'x"
  tr_stop :: "'x \<Rightarrow> 'x"

definition engine_setup_main ::
    "('t, 'd) time_api \<Rightarrow> serializer \<Rightarrow> ('d, 's) platform \<Rightarrow> 'x transport_api \<Rightarrow> 't registry_layout \<Rightarrow>
     'x transport_control \<Rightarrow> 'x \<Rightarrow> 's \<Rightarrow> 't clock \<Rightarrow>
     (int \<times> printed list \<times> ('t, ('d, 's) udp_backend, 'x) system option) exec" where
  "engine_setup_main T S P X L R x socket c =
     (let header = Out ''== DISCOVERY ENGINE SETUP EXAMPLE =='';
          E = udp_env T S P X L;
          (ok, x) = tr_start R x
      in if \<not> ok then returns (1, [header, Err ''failed to start transport engine''], None)
         else do {
           let config = config_local T ''node-engine'' 9410 7010;
           let ctx = make_context config;
           let s = make_system T (make_udp_backend config socket) x c;
           let leave = (\<lambda>s. let s = s\<lparr>sys_transport := tr_stop R (sys_transport s)\<rparr>;
                                s = engine_destroy E s
                            in Some (s\<lparr>sys_backend := udp_destroy P (sys_backend s)\<rparr>));
           (ok, s) \<leftarrow> engine_start E ctx s;
           if \<not> ok then returns (1, [header, Err ''failed to start discovery engine''], leave s)
           else do {
             (_, s) \<leftarrow> announce_now E ctx s;
             (_, s) \<leftarrow> probe_now E ctx s;
             (processed, s) \<leftarrow> poll_many E ctx 4 s;
             let known = length (available_transport_peers E s);
             let s = engine_stop E s;
             returns (0, [header, Out (''processed discovery messages: '' @ show_size processed),
                 Out (''available transport peers: '' @ show_size known)], leave s)
           }
         })"

text \<open>The handler of the service prints, so the printed lines are the state it works on.\<close>

definition service_main ::
    "('t, 'd) time_api \<Rightarrow> serializer \<Rightarrow> ('d, 's) platform \<Rightarrow> 'x transport_api \<Rightarrow> 't registry_layout \<Rightarrow>
     'x transport_control \<Rightarrow> 'x \<Rightarrow> 's \<Rightarrow> 't clock \<Rightarrow>
     (int \<times> printed list \<times> ('t, 'd, 'x, 's, printed list) service option) exec" where
  "service_main T S P X L R x socket c =
     (let header = Out ''== DISCOVERY SERVICE EXAMPLE =='';
          E = udp_env T S P X L;
          (ok, x) = tr_start R x
      in if \<not> ok then returns (1, [header, Err ''failed to start transport engine''], None)
         else do {
           let options = options_local T ''node-a'' 9400 7000;
           let v = make_service T options x socket c;
           let v = service_on_peer_found (Some (\<lambda>q out. out @
                 [Out (''peer found: '' @ pub_node_id q @ '' '' @ show_endpoint (pub_host q) (pub_port q))])) v;
           let leave = (\<lambda>v. let s = svc_system v;
                                v = v\<lparr>svc_system := s\<lparr>sys_transport := tr_stop R (sys_transport s)\<rparr>\<rparr>
                            in Some (service_destroy E P v));
           (ok, v) \<leftarrow> service_start E v;
           if \<not> ok then returns (1, [header, Err ''failed to start discovery service''], leave v)
           else do {
             (_, v) \<leftarrow> service_announce_now E v;
             (_, v) \<leftarrow> service_probe_now E v;
             (_, v, out) \<leftarrow> service_poll_many E 4 v [header];
             let (peers, v) = service_peers E v;
             let v = service_stop E v;
             returns (0, out @ [Out (''known peers: '' @ show_size (length peers))], leave v)
           }
         })"

end
