(* ===== verification/Examples_Properties.thy ===== *)
theory Examples_Properties
  imports Examples Scenario
begin

text \<open>
  The example programs run: what the offline ones print, that the ones on the network end on every
  platform whose transfers return, and what a node makes of the announcer's message.
\<close>

section \<open>Printing numbers\<close>

lemma digit_chars [simp]:
  "char_of (48 :: nat) = CHR ''0''" "char_of (49 :: nat) = CHR ''1''" "char_of (50 :: nat) = CHR ''2''"
  "char_of (51 :: nat) = CHR ''3''" "char_of (52 :: nat) = CHR ''4''" "char_of (53 :: nat) = CHR ''5''"
  "char_of (54 :: nat) = CHR ''6''" "char_of (55 :: nat) = CHR ''7''" "char_of (56 :: nat) = CHR ''8''"
  "char_of (57 :: nat) = CHR ''9''"
  by (simp_all add: char_of_def bit_0)

lemmas show_defs = show_size_def show_port_def show_endpoint_def int_to_string_def decimal.simps

lemma minimal_main_output:
  assumes "duration_ok T"
  shows "minimal_main T = (0, [Out ''== DISCOVERY MINIMAL EXAMPLE =='', Out ''node id: node-a'',
    Out ''bind: 127.0.0.1:9400'', Out ''announce: 127.0.0.1:7000'',
    Out ''announce interval ms: 3000'', Out ''peer ttl ms: 15000''])"
proof -
  have "sint (dur_millis T (dur_from_seconds T 3)) = 3000"
    "sint (dur_millis T (dur_from_seconds T 15)) = 15000"
    using assms by (simp_all add: duration_ok_def)
  then show ?thesis
    by (simp add: minimal_main_def Let_def options_defs options_is_valid_def to_config_def
        config_default_def announce_interval_ms_def peer_ttl_ms_def show_defs)
qed

lemma codec_main_output:
  assumes S: "serializer_ok S"
  shows "codec_main S = Some (0, [Out ''== DISCOVERY CODEC EXAMPLE =='', Out ''encoded size: 44'',
    Out ''decoded type: announce'', Out ''payload size: 5''])"
proof -
  let ?m = "(message_announce ''node-a'' (bytes_of_string ''hello''))
    \<lparr>msg_to := ''node-b'', msg_correlation := ''announce-1''\<rparr>"
  have valid: "message_is_valid ?m"
    by (simp add: message_is_valid_def message_type_is_valid_def message_defs)
  then have fits: "message_fits ?m"
    by (simp add: message_fits_def u32_sized_def message_defs)
  have "length (encode_message S ?m) = 44"
    unfolding length_encode_message [OF S valid] by (simp add: message_defs minimum_message_size_def)
  then show ?thesis
    using decode_encode_message [OF S fits]
    by (auto simp: codec_main_def Let_def decode_message_buffer_def show_defs)
      (simp_all add: message_defs message_payload_size_def show_defs)
qed

lemma roundtrip_main_output:
  assumes S: "serializer_ok S"
  shows "roundtrip_main S = Some (0, [Out ''== DISCOVERY ROUNDTRIP DEMO =='', Out ''decoded type: probe'',
    Out ''from: node-a'', Out ''to: node-b'', Out ''correlation: probe-1''])"
proof -
  let ?m = "(message_probe ''node-a'')\<lparr>msg_to := ''node-b'', msg_correlation := ''probe-1''\<rparr>"
  have valid: "message_is_valid ?m"
    by (simp add: message_is_valid_def message_type_is_valid_def message_defs)
  then have fits: "message_fits ?m"
    by (simp add: message_fits_def u32_sized_def message_defs)
  have "encode_message S ?m \<noteq> []" using valid by (simp add: encode_message_empty_iff [OF S])
  then have d: "make_datagram S ?m ''127.0.0.1'' 9400 = make_datagram_of ''127.0.0.1'' 9400 (encode_message S ?m)"
      "datagram_is_valid (make_datagram_of ''127.0.0.1'' 9400 (encode_message S ?m))"
    by (simp_all add: make_datagram_def Let_def datagram_defs)
  then show ?thesis
    using decode_encode_message [OF S fits] \<open>encode_message S ?m \<noteq> []\<close>
    by (simp add: roundtrip_main_def Let_def decode_datagram_def decode_message_buffer_def
        make_datagram_of_def datagram_default_def)
      (simp add: message_defs)
qed

lemma registry_main_output:
  assumes "layout_ok L" and clock: "clock_ok T c"
  shows "registry_main T L c = (0, [Out ''== DISCOVERY REGISTRY EXAMPLE =='', Out ''registry size: 1'',
    Out ''available peers: 1'', Out ''stale peers: 1'', Out ''expired peers: 1'', Out ''pruned peers: 1''])"
proof -
  have one: "L [x] = [x]" for x
    using assms(1) unfolding layout_ok_def by (metis mset_single_iff mset_single_iff_right)
  obtain p c' where first: "registry_upsert_announcement T L []
      (make_announcement (readings c (ticks c)) ''node-b'' ''127.0.0.1'' 7001) (snd (now c)) =
      ([(''node-b'', p)], c')" and alive: "dp_state p = PS_Alive"
    using clock_ok_reading [OF clock]
    by (simp add: registry_upsert_announcement_def Let_def now_def announcement_is_valid_def
        make_announcement_def registry_find_def um_find_def registry_upsert_def peer_is_valid_def
        make_discovered_peer_def peer_mark_defs peer_touch_def peer_state_is_valid_def
        peer_node_id_def um_assign_def one)
  have single: "um_find [(''node-b'', q)] ''node-b'' = Some q"
    "um_modify [(''node-b'', q)] ''node-b'' f = [(''node-b'', f q)]" for q :: "'a discovered_peer" and f
    by (simp_all add: um_find_def um_modify_def)
  show ?thesis
    using first alive
    by (simp add: registry_main_def Let_def case_prod_unfold registry_mark_stale_def
        registry_mark_expired_def registry_find_def single registry_size_def available_peers_def
        stale_peers_def expired_peers_def by_state_def prune_expired_def peer_available_def
        is_available_def peer_expired_def is_expired_def peer_mark_defs peer_touch_def show_defs)
qed

section \<open>The programs on the network end\<close>

text \<open>
  On a platform whose transfers return, each program ends with code 0 or 1, whatever arrives, and
  leaves its backend stopped.
\<close>

lemma backend_programs_return:
  assumes "serializer_ok S" and "platform_returns P"
  shows "\<exists>code out b. listener_main T S P k c = Some (code, out, b) \<and> code \<in> {0, 1} \<and> \<not> udp_is_running b"
    and "\<exists>code out b. announcer_main T S P k c = Some (code, out, b) \<and> code \<in> {0, 1} \<and> \<not> udp_is_running b"
proof -
  note B = udp_backend_returns [OF assms, unfolded backend_returns_def udp_backend_api_simps]
  have gone: "\<not> udp_is_running (udp_destroy P b)" for b
    by (simp add: udp_destroy_def udp_stop_def udp_is_running_def)
  let ?b1 = "make_udp_backend (config_local T ''node-listener'' 9401 7001) k"
  let ?b2 = "make_udp_backend (config_local T ''node-announcer'' 9400 7000) k"
  obtain ok b where start: "udp_start T P ?b1 = Some (ok, b)" using B by fastforce
  obtain inbound b' c' where poll: "udp_poll T S P b c = Some (inbound, b', c')"
    using B by (metis not_None_eq prod_cases3)
  show "\<exists>code out b. listener_main T S P k c = Some (code, out, b) \<and> code \<in> {0, 1} \<and> \<not> udp_is_running b"
    using start poll gone
    by (auto simp: listener_main_def Let_def server_defs split: option.splits)
  obtain ok2 b2 where start2: "udp_start T P ?b2 = Some (ok2, b2)" using B by fastforce
  have "client_send T (udp_backend_api T S P) e b c \<noteq> None" for e b c
    using B by (auto simp: client_send_def Let_def bind_eq_None_conv simp del: not_None_eq split: prod.splits)
  then have "client_send_announce T (udp_backend_api T S P) h p n d b c \<noteq> None" for h p n d b c
    by (auto simp: client_send_announce_def client_send_to_def Let_def simp del: not_None_eq split: prod.splits)
  then obtain sent b3 c3 where
    "client_send_announce T (udp_backend_api T S P)
       (cfg_broadcast_host (config_local T ''node-announcer'' 9400 7000))
       (cfg_broadcast_port (config_local T ''node-announcer'' 9400 7000))
       (cfg_node_id (config_local T ''node-announcer'' 9400 7000))
       (bytes_of_string (cfg_node_id (config_local T ''node-announcer'' 9400 7000))) b2 (snd (now c)) =
     Some (sent, b3, c3)"
    by (metis not_None_eq prod_cases3)
  then show "\<exists>code out b. announcer_main T S P k c = Some (code, out, b) \<and> code \<in> {0, 1} \<and> \<not> udp_is_running b"
    using start2 gone
    by (auto simp: announcer_main_def Let_def make_announcement_def case_prod_unfold)
qed

lemma engine_setup_main_returns:
  assumes T: "timestamp_ok T" and S: "serializer_ok S" and P: "platform_returns P" and c: "clock_ok T c"
  shows "\<exists>code out left. engine_setup_main T S P X L R x k c = Some (code, out, left) \<and> code \<in> {0, 1} \<and>
    (\<forall>s. left = Some s \<longrightarrow> eng_status s = DS_Stopped \<and> \<not> udp_is_running (sys_backend s))"
proof (cases "fst (tr_start R x)")
  case True
  let ?E = "udp_env T S P X L"
  let ?config = "config_local T ''node-engine'' 9410 7010"
  let ?ctx = "make_context ?config"
  let ?s0 = "make_system T (make_udp_backend ?config k) (snd (tr_start R x)) c"
  note B = udp_backend_returns [OF S P]
  then have B': "backend_returns (api_backend ?E)" by simp
  have ok0: "engine_ok T S P X ?ctx ?s0"
    by (simp add: engine_ok_def engine_inv_def peers_seen_def make_system_def make_udp_backend_def
        udp_is_running_def um_find_def c)
  obtain ok s1 where s1: "engine_start ?E ?ctx ?s0 = Some (ok, s1)"
    using engine_start_returns [OF B'] by fastforce
  obtain a s2 where s2: "announce_now ?E ?ctx s1 = Some (a, s2)"
    using announce_now_returns [OF B'] by fastforce
  obtain p s3 where s3: "probe_now ?E ?ctx s2 = Some (p, s3)"
    using probe_now_returns [OF B'] by fastforce
  have "engine_ok T S P X ?ctx s3"
    using engine_ok_start_stop(1) [OF ok0 s1]
      engine_ok_talks [OF _ udp_node.announce_now_talks [OF s2]]
      engine_ok_talks [OF _ udp_node.probe_now_talks [OF s3]] by blast
  then have "clock_ok (api_time ?E) (sys_clock s3)"
    using engine_ok_any [of T S P X ?ctx s3 L] by (simp add: peers_seen_def)
  moreover have "timestamp_ok (api_time ?E)" "serializer_ok (api_serializer ?E)"
    using T S by simp_all
  ultimately obtain n s4 where s4: "poll_many ?E ?ctx 4 s3 = Some (n, s4)"
    using udp_node.poll_many_returns [OF _ _ B'] by blast
  have gone: "eng_status (engine_destroy ?E s) = DS_Stopped" "\<not> udp_is_running (udp_destroy P b)"
    for s :: "('a, ('b, 'c) udp_backend, 'd) system" and b
    by (simp_all add: engine_destroy_def engine_stop_def Let_def udp_destroy_def udp_stop_def
        udp_is_running_def)
  show ?thesis
    using True s1 s2 s3 s4 gone
    by (auto simp: engine_setup_main_def Let_def case_prod_unfold)
qed (simp add: engine_setup_main_def Let_def case_prod_unfold)

lemma service_main_returns:
  assumes T: "timestamp_ok T" and S: "serializer_ok S" and P: "platform_returns P" and c: "clock_ok T c"
  shows "\<exists>code out left. service_main T S P X L R x k c = Some (code, out, left) \<and> code \<in> {0, 1} \<and>
    (\<forall>v. left = Some v \<longrightarrow> \<not> service_is_running (udp_env T S P X L) v)"
proof (cases "fst (tr_start R x)")
  case True
  let ?E = "udp_env T S P X L" and ?opts = "options_local T ''node-a'' 9400 7000"
  note returns = service_calls_return_on [OF T S P, where X = X and opts = ?opts and L = L]
  define v0 where "v0 = service_on_peer_found (Some (\<lambda>(q :: 'a public_peer) out. out @
      [Out (''peer found: '' @ pub_node_id q @ '' '' @ show_endpoint (pub_host q) (pub_port q))]))
    (make_service T ?opts (snd (tr_start R x)) k c)"
  let ?out = "[Out ''== DISCOVERY SERVICE EXAMPLE =='']"
  have r0: "service_reachable T S P X ?opts (v0, ?out)"
    unfolding v0_def
    by (rule service_reachable.service_continues [OF service_reachable.service_created
          service_step.service_handles]) (rule c)
  obtain ok v1 where v1: "service_start ?E v0 = Some (ok, v1)" using returns [OF r0] by blast
  have r1: "service_reachable T S P X ?opts (v1, ?out)"
    by (rule service_reachable.service_continues [OF r0 service_step.service_starts [OF v1]])
  obtain a v2 where v2: "service_announce_now ?E v1 = Some (a, v2)" using returns [OF r1] by fastforce
  have r2: "service_reachable T S P X ?opts (v2, ?out)"
    by (rule service_reachable.service_continues [OF r1 service_step.service_announces [OF v2]])
  obtain p v3 where v3: "service_probe_now ?E v2 = Some (p, v3)" using returns [OF r2] by fastforce
  have r3: "service_reachable T S P X ?opts (v3, ?out)"
    by (rule service_reachable.service_continues [OF r2 service_step.service_probes [OF v3]])
  obtain n v4 out where v4: "service_poll_many ?E 4 v3 ?out = Some (n, v4, out)"
    using returns [OF r3, of 4] by fastforce
  have gone: "\<not> service_is_running ?E (service_destroy ?E P v)"
    for v :: "('a, 'b, 'd, 'c, printed list) service"
    by (simp add: service_destroy_def engine_destroy_def engine_stop_def Let_def
        service_is_running_def engine_is_running_def status_is_running_def)
  show ?thesis
    using True v1 v2 v3 v4 gone
    by (auto simp: service_main_def Let_def case_prod_unfold v0_def)
qed (simp add: service_main_def Let_def case_prod_unfold)

section \<open>The announcer\<close>

text \<open>
  C25.  The announcer example announces nothing that a node of this repository understands: its
  message crosses the wire unchanged, but its payload is the bare node id and not an encoded
  announcement, so every engine that receives it reports false and stays as it was.
\<close>

theorem announcer_example_ignored:
  assumes "timestamp_ok (api_time E)" and "serializer_ok (api_serializer E)"
    and "env_message e = announcer_message"
  shows "client_send_announce T B host port ''node-announcer'' (bytes_of_string ''node-announcer'') b c =
      client_send_to T B host port announcer_message b c \<and>
    decode_message (api_serializer E) (encode_message (api_serializer E) announcer_message) =
      Some (Some announcer_message) \<and>
    handle_inbound E ctx (Some e) s = Some (False, s)"
proof -
  let ?T = "api_time E" and ?S = "api_serializer E" and ?d = "msg_payload announcer_message"
  have len: "length ?d = 14" by (simp add: announcer_message_def message_defs)
  have "message_fits announcer_message"
    by (simp add: message_fits_def u32_sized_def announcer_message_def message_defs
        message_is_valid_def message_type_is_valid_def)
  note travels = decode_encode_message [OF assms(2) this]
  note laws = assms(1,2)
  have "decode_announcement ?T ?S ?d \<noteq> Some (Some a)" for a
  proof
    assume "decode_announcement ?T ?S ?d = Some (Some a)"
    from encode_decode_announcement [OF laws this]
    have "announcement_is_valid ?T a" "encode_announcement ?T ?S a = ?d"
      by (simp_all add: announcement_fits_def)
    with length_encode_announcement [OF assms(2), of ?T a] len show False by simp
  qed
  moreover obtain r where r: "decode_announcement ?T ?S ?d = Some r"
    using decode_announcement_no_fault [OF assms(2)] by blast
  ultimately have "decode_announcement ?T ?S ?d = Some None" by (metis option.exhaust)
  then have "decode_announcement_buffer ?T ?S ?d = Some None"
    by (simp add: decode_announcement_buffer_eq [OF laws])
  then have "handle_announce E ctx e s = Some (False, s)"
    by (simp add: handle_announce_def assms(3))
  then show ?thesis
    using travels
    by (simp add: client_send_announce_def handle_inbound_def assms(3))
      (simp add: announcer_message_def message_defs)
qed

theorem announcer_example_ignored_witness:
  "handle_inbound demo_env demo_context
     (Some (envelope_of_message demo_time 5000 announcer_message)) demo_started = Some (False, demo_started)"
proof -
  have laws: "timestamp_ok (api_time demo_env)" "serializer_ok (api_serializer demo_env)" by simp_all
  have "env_message (envelope_of_message demo_time 5000 announcer_message) = announcer_message"
    by (simp add: envelope_of_message_def)
  from announcer_example_ignored [OF laws this, THEN conjunct2, THEN conjunct2] show ?thesis .
qed

end
