(* ===== verification/Ownership_Properties.thy ===== *)
theory Ownership_Properties
  imports Ownership Service_Properties Scenario
begin

text \<open>
  The descriptor over the whole life of a service, on both platforms.
\<close>

text \<open>
  C7.  The socket is open exactly while the service runs: over every history of public calls of a
  service that was created on a default constructed socket, on itself or through \<open>engine()\<close>, the
  socket of its backend owns a descriptor if and only if the service is running.  No failing start,
  no repeated start and no stop leaks a descriptor, and no call of a running service loses it; on
  Windows the same holds for the handle.
\<close>

theorem service_owns_socket:
  assumes "clock_ok T c"
  shows "((service_step T S (linux_platform T K) X)\<^sup>*\<^sup>*
        (make_service T opts x (socket_default k) c, h) (v, h') \<longrightarrow>
      socket_is_valid (ub_socket (sys_backend (svc_system v))) =
        service_is_running (udp_env T S (linux_platform T K) X L) v) \<and>
    ((service_step T S (windows_platform T W) X)\<^sup>*\<^sup>*
        (make_service T opts x (win_default w) c, h) (v', h') \<longrightarrow>
      win_is_valid (ub_socket (sys_backend (svc_system v'))) =
        service_is_running (udp_env T S (windows_platform T W) X L) v')"
proof -
  have closed: "\<not> socket_is_valid (socket_default k)" "\<not> win_is_valid (win_default w)"
    by (simp_all add: socket_default_def socket_is_valid_def win_default_def win_is_valid_def)
  show ?thesis
    by (intro conjI impI linux.service_socket [OF closed(1) assms] windows.service_socket [OF closed(2) assms])
qed

lemma demo_service_starts:
  "\<exists>v. service_start demo_env demo_service = Some (True, v)"
proof -
  let ?s = "make_system demo_time (make_udp_backend demo_config (socket_default ([], []))) [] demo_clock"
  have "options_is_valid demo_time demo_options"
    by (simp add: options_is_valid_def demo_options_def options_defs)
  moreover have "\<exists>s. engine_start demo_env (make_context demo_config) ?s = Some (True, s)"
    by (simp add: engine_start_def make_system_def status_is_running_def context_is_valid_def
        make_context_def server_start_def demo_backend_starts Let_def demo_context_def)
  ultimately show ?thesis
    by (auto simp: service_start_def demo_service_def make_service_def Let_def demo_config_def)
qed

theorem service_owns_socket_witness:
  "\<exists>v. service_start demo_env demo_service = Some (True, v) \<and>
     socket_is_valid (ub_socket (sys_backend (svc_system v))) = service_is_running demo_env v"
proof -
  obtain v where v: "service_start demo_env demo_service = Some (True, v)"
    using demo_service_starts by blast
  have "service_step demo_time demo_serializer demo_platform demo_transport (demo_service, []) (v, [])"
    by (rule service_step.service_starts) (use v in \<open>simp add: demo_env_def\<close>)
  then have "(service_step demo_time demo_serializer demo_platform demo_transport)\<^sup>*\<^sup>* (demo_service, []) (v, [])"
    by (rule r_into_rtranclp)
  from this [unfolded demo_service_def demo_platform_def]
  have "socket_is_valid (ub_socket (sys_backend (svc_system v))) =
      service_is_running (udp_env demo_time demo_serializer (linux_platform demo_time demo_kernel) demo_transport id) v"
    by (rule service_owns_socket [OF demo_clock_ok, THEN conjunct1, THEN mp])
  with v show ?thesis by (auto simp: demo_env_def demo_platform_def)
qed

end
