(* ===== verification/Traffic.thy ===== *)
theory Traffic
  imports Ownership Exchange
begin

text \<open>
  What goes out and comes in through a socket.  The contract \<open>socket_traffic\<close> says that only
  sending a datagram adds to what a socket has sent, and that what it receives is a prefix of
  something that was waiting; a UDP backend on such a socket that is given only messages of some
  set delivers only messages of that set (\<open>traffic_tracked\<close>, an instance of \<open>tracked_node\<close>).  The
  Linux class keeps the contract on every kernel with documented behaviour, the Windows class
  through its simulation.
\<close>

section \<open>What passes through a socket\<close>

definition quiet :: "('s \<Rightarrow> bytes set) \<Rightarrow> ('s \<Rightarrow> bytes set) \<Rightarrow> 's \<Rightarrow> 's \<Rightarrow> bool" where
  "quiet sent waiting s s' \<longleftrightarrow> sent s' \<subseteq> sent s \<and> waiting s' \<subseteq> waiting s"

lemma quiet_refl [simp]: "quiet sent waiting s s"
  by (simp add: quiet_def)

lemma quiet_trans: "quiet sent waiting s s' \<Longrightarrow> quiet sent waiting s' s'' \<Longrightarrow> quiet sent waiting s s''"
  by (auto simp: quiet_def)

text \<open>
  \<open>sent\<close> are the datagrams that left through the socket and \<open>waiting\<close> those that it may still
  receive.  Only sending a datagram adds to the first; to the second a send may add its own
  datagram (a broadcast is looped back), everything else comes from the network.
\<close>

locale socket_traffic =
  fixes P :: "('d, 's) platform" and sent :: "'s \<Rightarrow> bytes set" and waiting :: "'s \<Rightarrow> bytes set"
    and good :: bool
  assumes open_quiet: "good \<Longrightarrow> quiet sent waiting s (snd (pf_open P s))"
    and close_quiet: "good \<Longrightarrow> quiet sent waiting s (pf_close P s)"
    and bind_quiet: "good \<Longrightarrow> quiet sent waiting s (snd (pf_bind P s host port))"
    and reuse_addr_quiet: "good \<Longrightarrow> quiet sent waiting s (snd (pf_set_reuse_addr P s on))"
    and broadcast_quiet: "good \<Longrightarrow> quiet sent waiting s (snd (pf_set_broadcast P s on))"
    and recv_timeout_quiet: "good \<Longrightarrow> quiet sent waiting s (snd (pf_set_recv_timeout P s d))"
    and send_timeout_quiet: "good \<Longrightarrow> quiet sent waiting s (snd (pf_set_send_timeout P s d))"
    and send_speaks: "good \<Longrightarrow> pf_send_datagram P s g = Some (n, s') \<Longrightarrow>
      sent s' \<subseteq> insert (dg_payload g) (sent s) \<and> waiting s' \<subseteq> insert (dg_payload g) (waiting s)"
    and recv_hears: "good \<Longrightarrow> pf_recv_datagram P s limit = Some (g, s') \<Longrightarrow>
      quiet sent waiting s s' \<and>
      (datagram_is_valid g \<longrightarrow> (\<exists>data \<in> waiting s. \<exists>n. dg_payload g = take n data))"
begin

lemma configure_quiet:
  assumes good
  shows "quiet sent waiting (ub_socket b) (ub_socket (snd (configure_socket P b)))"
proof -
  define s1 where "s1 = snd (pf_set_reuse_addr P (ub_socket b) True)"
  define s2 where "s2 = snd (pf_set_broadcast P s1 (cfg_enable_broadcast (ub_config b)))"
  define s3 where "s3 = snd (pf_set_recv_timeout P s2 (cfg_announce_interval (ub_config b)))"
  define s4 where "s4 = snd (pf_set_send_timeout P s3 (cfg_announce_interval (ub_config b)))"
  note steps = s1_def s2_def s3_def s4_def
  have q1: "quiet sent waiting (ub_socket b) s1" by (simp add: s1_def reuse_addr_quiet assms)
  have q2: "quiet sent waiting (ub_socket b) s2"
    using q1 by (rule quiet_trans) (simp add: s2_def broadcast_quiet assms)
  have q3: "quiet sent waiting (ub_socket b) s3"
    using q2 by (rule quiet_trans) (simp add: s3_def recv_timeout_quiet assms)
  have q4: "quiet sent waiting (ub_socket b) s4"
    using q3 by (rule quiet_trans) (simp add: s4_def send_timeout_quiet assms)
  have "ub_socket (snd (configure_socket P b)) \<in> {s1, s2, s3, s4}"
    by (simp add: configure_socket_def Let_def case_prod_unfold steps)
  with q1 q2 q3 q4 show ?thesis by auto
qed

lemma udp_start_quiet:
  assumes good and "udp_start T P b = Some (ok, b')"
  shows "quiet sent waiting (ub_socket b) (ub_socket b')"
proof -
  let ?b1 = "b\<lparr>ub_socket := snd (pf_open P (ub_socket b))\<rparr>"
  let ?b2 = "snd (configure_socket P ?b1)"
  let ?s3 = "snd (pf_bind P (ub_socket ?b2) (cfg_bind_host (ub_config ?b2)) (cfg_bind_port (ub_config ?b2)))"
  have one: "quiet sent waiting (ub_socket b) (ub_socket ?b1)"
    using open_quiet [OF assms(1)] by simp
  have two: "quiet sent waiting (ub_socket b) (ub_socket ?b2)"
    using one configure_quiet [OF assms(1)] by (rule quiet_trans)
  have three: "quiet sent waiting (ub_socket b) ?s3"
    using two bind_quiet [OF assms(1)] by (rule quiet_trans)
  note closed = close_quiet [OF assms(1)]
  have "ub_socket b' \<in> {ub_socket b, ub_socket ?b1, pf_close P (ub_socket ?b2), pf_close P ?s3, ?s3}"
    using assms(2) by (auto simp: udp_start_def Let_def case_prod_unfold split: if_splits)
  then show ?thesis
    using one three quiet_trans [OF two closed] quiet_trans [OF three closed] by auto
qed

text \<open>
  A backend whose traffic consists of encodings of messages that are \<open>told\<close>: it stays so as long
  as it is given such messages to send, and delivers nothing else.
\<close>

definition carries :: "serializer \<Rightarrow> (message \<Rightarrow> bool) \<Rightarrow> ('d, 's) udp_backend \<Rightarrow> bool" where
  "carries S told b \<longleftrightarrow>
     sent (ub_socket b) \<union> waiting (ub_socket b) \<subseteq> encode_message S ` {m. told m}"

lemma carries_quiet:
  "carries S told b \<Longrightarrow> quiet sent waiting (ub_socket b) (ub_socket b') \<Longrightarrow> carries S told b'"
  by (auto simp: carries_def quiet_def)

lemma udp_send_carries:
  assumes good and b: "carries S told b" and m: "told (env_message e)"
    and got: "udp_send T S P b e = Some (ok, b')"
  shows "carries S told b'"
proof -
  let ?d = "make_datagram S (env_message e) (env_to_host e) (env_to_port e)"
  have payload: "dg_payload ?d = encode_message S (env_message e)" if "datagram_is_valid ?d"
    using that by (auto simp: make_datagram_def datagram_defs Let_def split: if_splits)
  have "b' = b \<or> (\<exists>n. datagram_is_valid ?d \<and>
      pf_send_datagram P (ub_socket b) ?d = Some (n, ub_socket b'))"
    using got by (auto simp: udp_send_def Let_def bind_eq_Some_conv split: if_splits)
  then show ?thesis
  proof (elim disjE exE conjE)
    fix n assume valid: "datagram_is_valid ?d"
      and "pf_send_datagram P (ub_socket b) ?d = Some (n, ub_socket b')"
    from send_speaks [OF assms(1) this(2)] show ?thesis
      using b m unfolding payload [OF valid] carries_def by blast
  qed (use b in simp)
qed

lemma udp_stop_carries: "good \<Longrightarrow> carries S told b \<Longrightarrow> carries S told (udp_stop P b)"
  by (erule carries_quiet) (unfold udp_stop_def, auto intro: close_quiet)

lemma udp_poll_carries:
  assumes good and S: "serializer_ok S" and fits: "\<And>m. told m \<Longrightarrow> message_fits m"
    and b: "carries S told b" and got: "udp_poll T S P b c = Some (r, b', c')"
  shows "carries S told b' \<and> (\<forall>e. r = Some e \<longrightarrow> told (env_message e))"
proof (cases "ub_running b")
  case True
  with got obtain d s where recv: "pf_recv_datagram P (ub_socket b) (cfg_max_datagram_size (ub_config b)) =
      Some (d, s)" and b': "ub_socket b' = s"
    and r: "\<And>e. r = Some e \<Longrightarrow> datagram_is_valid d \<and> decode_datagram S d = Some (Some (env_message e))"
    by (auto simp: udp_poll_def Let_def bind_eq_Some_conv now_def envelope_of_message_def
        split: if_splits option.splits)
  note heard = recv_hears [OF assms(1) recv]
  have "told (env_message e)" if "r = Some e" for e
  proof -
    from r [OF that] have valid: "datagram_is_valid d"
      and dec: "decode_message S (dg_payload d) = Some (Some (env_message e))"
      by (auto simp: decode_datagram_def decode_message_buffer_def split: if_splits)
    with heard b obtain m n where m: "told m" and "dg_payload d = take n (encode_message S m)"
      unfolding carries_def by fastforce
    with dec decode_prefix [OF S fits [OF m], of n "env_message e"] show ?thesis by simp
  qed
  then show ?thesis using carries_quiet [OF b, of b'] heard b' by simp
qed (use b got in \<open>simp add: udp_poll_def\<close>)

lemma traffic_tracked:
  assumes good and "serializer_ok S" and "\<And>m. told m \<Longrightarrow> message_fits m"
    and own: "\<And>m. own_message (udp_env T S P X id) ctx told m \<Longrightarrow> told m"
  shows "tracked_node (udp_env T S P X L) ctx (carries S told) told"
proof (rule tracked_node.intro)
  have same: "own_message (udp_env T S P X L) ctx told m = own_message (udp_env T S P X id) ctx told m" for m
    using layout_irrelevant(1) [where E = "udp_env T S P X id" and L = L and ctx = ctx] by simp
  show "tracked_node_axioms (udp_env T S P X L) ctx (carries S told) told"
  proof (intro tracked_node_axioms.intro, unfold same udp_env_simps udp_backend_api_simps)
    show "carries S told b'" if "carries S told b" "udp_start T P b = Some (ok, b')" for b ok b'
      by (rule carries_quiet [OF that(1) udp_start_quiet [OF assms(1) that(2)]])
    show "carries S told (udp_stop P b)" if "carries S told b" for b
      by (rule udp_stop_carries [OF assms(1) that])
    show "carries S told b'" if "carries S told b" "own_message (udp_env T S P X id) ctx told (env_message e)"
        "udp_send T S P b e = Some (ok, b')" for b e ok b'
      by (rule udp_send_carries [OF assms(1) that(1) own [OF that(2)] that(3)])
    show "carries S told b' \<and> (\<forall>e. got = Some e \<longrightarrow> told (env_message e))"
      if "carries S told b" "udp_poll T S P b c = Some (got, b', c')" for b c got b' c'
      by (rule udp_poll_carries [OF assms(1-3) that])
  qed
qed (rule udp_node.discovery_node_axioms)

end

section \<open>The traffic of the two socket classes\<close>

text \<open>
  What is assumed of the operating system: only \<open>sendto\<close> puts a datagram on the network, and a
  receive stores a prefix of a datagram that was waiting.
\<close>

definition kernel_traffic ::
    "'k kernel_api \<Rightarrow> ('k \<Rightarrow> bytes set) \<Rightarrow> ('k \<Rightarrow> bytes set) \<Rightarrow> bool" where
  "kernel_traffic K sent waiting \<longleftrightarrow>
     (\<forall>k. quiet sent waiting k (snd (sys_socket K k))) \<and>
     (\<forall>k fd. quiet sent waiting k (sys_close K k fd)) \<and>
     (\<forall>k fd addr. quiet sent waiting k (snd (sys_bind K k fd addr))) \<and>
     (\<forall>k fd opt. quiet sent waiting k (snd (sys_setsockopt K k fd opt))) \<and>
     (\<forall>k fd data addr n eintr k'. sys_sendto K k fd data addr = (n, eintr, k') \<longrightarrow>
        sent k' \<subseteq> insert data (sent k) \<and> waiting k' \<subseteq> insert data (waiting k)) \<and>
     (\<forall>k fd n received eintr stored addr k'.
        sys_recvfrom K k fd n = (received, eintr, stored, addr, k') \<longrightarrow>
        quiet sent waiting k k' \<and>
        (0 < received \<longrightarrow> (\<exists>data \<in> waiting k. \<exists>m. stored = take m data \<and> received = int (length stored))))"

lemma kernel_trafficD:
  assumes "kernel_traffic K sent waiting"
  shows "quiet sent waiting k (snd (sys_socket K k))"
    and "quiet sent waiting k (sys_close K k fd)"
    and "quiet sent waiting k (snd (sys_bind K k fd addr))"
    and "quiet sent waiting k (snd (sys_setsockopt K k fd opt))"
    and "sys_sendto K k fd data addr = (n, eintr, k') \<Longrightarrow>
      sent k' \<subseteq> insert data (sent k) \<and> waiting k' \<subseteq> insert data (waiting k)"
    and "sys_recvfrom K k fd limit = (received, eintr, stored, addr, k') \<Longrightarrow> quiet sent waiting k k'"
    and "sys_recvfrom K k fd limit = (received, eintr, stored, addr, k') \<Longrightarrow> 0 < received \<Longrightarrow>
      \<exists>data \<in> waiting k. \<exists>m. stored = take m data \<and> received = int (length stored)"
  using assms unfolding kernel_traffic_def by (elim conjE; (rule spec | metis | iprover))+

lemma send_loop_traffic:
  assumes K: "kernel_traffic K sent waiting" and ret: "send_loop K fd data addr k = Some (n, k')"
  shows "sent k' \<subseteq> insert data (sent k) \<and> waiting k' \<subseteq> insert data (waiting k)"
  using send_loop_settles [OF ret] ret
proof (induction k)
  case (sent_or_failed k r eintr k1)
  then have "k' = k1"
    using send_loop.simps [of K fd data addr k] by (auto split: if_splits)
  with kernel_trafficD(5) [OF K sent_or_failed(1)] show ?case by simp
next
  case (interrupted k r k1)
  then have "send_loop K fd data addr k1 = Some (n, k')"
    using send_loop.simps [of K fd data addr k] by simp
  from interrupted.IH [OF this] kernel_trafficD(5) [OF K interrupted(1)] show ?case by blast
qed

lemma recv_loop_settles:
  assumes ret: "recv_loop K fd n k = Some r"
  shows "recv_settles K fd n k"
proof (rule recv_loop.raw_induct [where P = "\<lambda>K fd n k r. recv_settles K fd n k", OF _ ret])
  fix f :: "'a kernel_api \<Rightarrow> int \<Rightarrow> nat \<Rightarrow> 'a \<Rightarrow> (datagram \<times> 'a) option" and K fd n k r
  assume IH: "\<And>K fd n k r. f K fd n k = Some r \<Longrightarrow> recv_settles K fd n k"
    and eq: "(case sys_recvfrom K k fd n of (received, eintr, stored, src, k) \<Rightarrow>
        if received < 0 then (if eintr then f K fd n k else Some (datagram_default, k))
        else if received = 0 then Some (datagram_default, k)
        else (case inet_ntop K (sin_addr src) of None \<Rightarrow> Some (datagram_default, k)
          | Some ip \<Rightarrow> do {
              payload \<leftarrow> slice (stored @ replicate (n - length stored) 0) 0 (nat received);
              Some (make_datagram_of (c_str ip) (ntohs K (sin_port src)) payload, k) })) = Some r"
  obtain received eintr stored src k' where
    call: "sys_recvfrom K k fd n = (received, eintr, stored, src, k')"
    by (metis prod_cases5)
  show "recv_settles K fd n k"
  proof (cases "received < 0 \<and> eintr")
    case True
    with eq call have "f K fd n k' = Some r" by simp
    with True call show ?thesis by (auto intro: interrupted_recv IH)
  next
    case False
    with call show ?thesis by (rule received_or_failed)
  qed
qed

lemma recv_loop_traffic:
  assumes K: "kernel_traffic K sent waiting" and ret: "recv_loop K fd limit k = Some (g, k')"
  shows "quiet sent waiting k k' \<and>
    (datagram_is_valid g \<longrightarrow> (\<exists>data \<in> waiting k. \<exists>n. dg_payload g = take n data))"
  using recv_loop_settles [OF ret] ret
proof (induction k)
  case (received_or_failed k received eintr stored src k1)
  then have "k' = k1 \<and> (g = datagram_default \<or> 0 < received \<and>
      slice (stored @ replicate (limit - length stored) 0) 0 (nat received) = Some (dg_payload g))"
    using recv_loop.simps [of K fd limit k]
    by (auto simp: bind_eq_Some_conv make_datagram_of_def split: if_splits option.splits)
  then show ?case
    using kernel_trafficD(6,7) [OF K received_or_failed(1)]
    by (auto simp: datagram_defs slice_def split: if_splits)
next
  case (interrupted_recv k received stored src k1)
  then have "recv_loop K fd limit k1 = Some (g, k')"
    using recv_loop.simps [of K fd limit k] by simp
  from interrupted_recv.IH [OF this] kernel_trafficD(6) [OF K interrupted_recv(1)] show ?case
    by (auto simp: quiet_def)
qed

interpretation linux_traffic: socket_traffic "linux_platform T K" "\<lambda>s. sent (sock_kernel s)"
    "\<lambda>s. waiting (sock_kernel s)" "kernel_traffic K sent waiting"
proof (unfold_locales, unfold linux_platform_simps)
  fix s s' :: "'c udp_socket" and g n limit host port on and d :: 'b
  assume K: "kernel_traffic K sent waiting"
  let ?quiet = "quiet (\<lambda>s. sent (sock_kernel s)) (\<lambda>s. waiting (sock_kernel s))"
  have lift: "?quiet s s' = quiet sent waiting (sock_kernel s) (sock_kernel s')" for s s' :: "'c udp_socket"
    by (simp add: quiet_def)
  note calls = kernel_trafficD [OF K]
  show close: "?quiet s (socket_close K s)" for s
    by (simp add: lift socket_close_def calls)
  show opened: "?quiet s (snd (socket_open K s))" for s
    using close [of s] calls(1) [of "sock_kernel (socket_close K s)"]
    by (auto simp: lift socket_open_def Let_def case_prod_unfold intro: quiet_trans)
  show "?quiet s (snd (socket_bind K s host port))"
    using opened [of s] calls(3)
    by (auto simp: lift socket_bind_def Let_def case_prod_unfold intro: quiet_trans split: option.splits)
  have opt: "?quiet s (snd (socket_setsockopt K s v))" for v
    by (simp add: lift socket_setsockopt_def Let_def case_prod_unfold calls)
  show "?quiet s (snd (set_reuse_addr K s on))" "?quiet s (snd (set_broadcast K s on))"
    "?quiet s (snd (set_recv_timeout T K s d))" "?quiet s (snd (set_send_timeout T K s d))"
    by (simp_all add: socket_option_defs opt)
  show "sent (sock_kernel s') \<subseteq> insert (dg_payload g) (sent (sock_kernel s)) \<and>
      waiting (sock_kernel s') \<subseteq> insert (dg_payload g) (waiting (sock_kernel s))"
    if "socket_send_datagram K s g = Some (n, s')"
  proof -
    have "s' = s \<or>
        (\<exists>addr. send_loop K (sock_fd s) (dg_payload g) addr (sock_kernel s) = Some (n, sock_kernel s'))"
      using that
      by (auto simp: socket_send_datagram_def socket_send_to_def bind_eq_Some_conv
          split: if_splits option.splits)
    then show ?thesis using send_loop_traffic [OF K, of "sock_fd s" "dg_payload g"] by blast
  qed
  show "?quiet s s' \<and> (datagram_is_valid g \<longrightarrow>
      (\<exists>data \<in> waiting (sock_kernel s). \<exists>n. dg_payload g = take n data))"
    if "socket_recv_datagram K s limit = Some (g, s')"
    using that
    by (auto simp: lift socket_recv_datagram_def bind_eq_Some_conv datagram_defs
        dest: recv_loop_traffic [OF K] split: if_splits)
qed

text \<open>A platform that acts as another one has its traffic; so the Windows class is covered.\<close>

locale simulated_traffic = platform_simulation P Q as ok + seen: socket_traffic Q sent waiting calm
  for P :: "('d, 's) platform" and Q :: "('d, 'r) platform" and as :: "'s \<Rightarrow> 'r" and ok :: bool
    and sent :: "'r \<Rightarrow> bytes set" and waiting :: "'r \<Rightarrow> bytes set" and calm :: bool

sublocale simulated_traffic \<subseteq> through: socket_traffic P "\<lambda>s. sent (as s)" "\<lambda>s. waiting (as s)" "ok \<and> calm"
proof unfold_locales
  assume both: "ok \<and> calm"
  then have ok: ok and calm: calm by simp_all
  have lift: "quiet (\<lambda>s. sent (as s)) (\<lambda>s. waiting (as s)) s s' = quiet sent waiting (as s) (as s')" for s s'
    by (simp add: quiet_def)
  fix s s' g n limit host port on d
  note see = seen.open_quiet [OF calm, of "as s"] seen.close_quiet [OF calm, of "as s"]
    seen.bind_quiet [OF calm, of "as s" host port] seen.reuse_addr_quiet [OF calm, of "as s" on]
    seen.broadcast_quiet [OF calm, of "as s" on] seen.recv_timeout_quiet [OF calm, of "as s" d]
    seen.send_timeout_quiet [OF calm, of "as s" d]
  note see' = see [unfolded sim_open [OF ok] sim_close [OF ok] sim_bind [OF ok] sim_reuse_addr [OF ok]
      sim_broadcast [OF ok] sim_recv_timeout [OF ok] sim_send_timeout [OF ok]]
  show "quiet (\<lambda>s. sent (as s)) (\<lambda>s. waiting (as s)) s (snd (pf_open P s))"
    "quiet (\<lambda>s. sent (as s)) (\<lambda>s. waiting (as s)) s (pf_close P s)"
    "quiet (\<lambda>s. sent (as s)) (\<lambda>s. waiting (as s)) s (snd (pf_bind P s host port))"
    "quiet (\<lambda>s. sent (as s)) (\<lambda>s. waiting (as s)) s (snd (pf_set_reuse_addr P s on))"
    "quiet (\<lambda>s. sent (as s)) (\<lambda>s. waiting (as s)) s (snd (pf_set_broadcast P s on))"
    "quiet (\<lambda>s. sent (as s)) (\<lambda>s. waiting (as s)) s (snd (pf_set_recv_timeout P s d))"
    "quiet (\<lambda>s. sent (as s)) (\<lambda>s. waiting (as s)) s (snd (pf_set_send_timeout P s d))"
    using see' by (simp_all add: lift)
  show "sent (as s') \<subseteq> insert (dg_payload g) (sent (as s)) \<and>
      waiting (as s') \<subseteq> insert (dg_payload g) (waiting (as s))"
    if "pf_send_datagram P s g = Some (n, s')"
    using seen.send_speaks [OF calm, of "as s" g n "as s'"] that by (simp add: sim_send [OF ok])
  show "quiet (\<lambda>s. sent (as s)) (\<lambda>s. waiting (as s)) s s' \<and>
      (datagram_is_valid g \<longrightarrow> (\<exists>data \<in> waiting (as s). \<exists>n. dg_payload g = take n data))"
    if "pf_recv_datagram P s limit = Some (g, s')"
    using seen.recv_hears [OF calm, of "as s" limit g "as s'"] that by (simp add: sim_recv [OF ok] lift)
qed

interpretation windows_traffic: simulated_traffic "windows_platform T W"
    "linux_platform T (posix_of W)" as_posix "winsock_ok W"
    "\<lambda>s. sent (sock_kernel s)" "\<lambda>s. waiting (sock_kernel s)" "kernel_traffic (posix_of W) sent waiting"
  by unfold_locales

end
