(* ===== verification/Network.thy ===== *)
theory Network
  imports Traffic
begin

text \<open>
  A network of services.  Any number of nodes, each a \<open>DiscoveryService\<close> with options of its own,
  call their public methods in any order; the network may deliver any datagram that some node has
  sent to any node, as often and as late as it likes, or never, and datagrams may be cut short by
  the receive buffer.  Shown here: whatever happens, a node only learns other members, with the
  endpoints that these announce.
\<close>

section \<open>The messages of the members\<close>

inductive member_message ::
    "('t, 'd, 'b, 'x) env \<Rightarrow> ('i \<Rightarrow> 'd options) \<Rightarrow> message \<Rightarrow> bool"
  for E opts where
    member_announces: "options_is_valid (api_time E) (opts i) \<Longrightarrow>
      member_message E opts (announce_message_at E (to_config (api_time E) (opts i)) t t')"
  | member_probes: "options_is_valid (api_time E) (opts i) \<Longrightarrow>
      member_message E opts (probe_message_at E (to_config (api_time E) (opts i)) t)"
  | member_replies: "options_is_valid (api_time E) (opts i) \<Longrightarrow> member_message E opts q \<Longrightarrow>
      member_message E opts (reply_message_at E (to_config (api_time E) (opts i)) q t)"

lemma options_context:
  "config_checked T (make_context (to_config T opt)) = Inr c \<longleftrightarrow>
   options_is_valid T opt \<and> c = to_config T opt"
  by (auto simp: config_checked_Inr make_context_def to_config_valid)

lemma own_message_member:
  "own_message E (make_context (to_config (api_time E) (opts i))) (member_message E opts) m \<Longrightarrow>
   member_message E opts m"
  by (auto simp: own_message_def options_context intro: member_message.intros)

lemma local_payload_fits:
  assumes "serializer_ok S" and "identity_fits c"
  shows "u32_sized (encode_announcement T S (local_announcement c t))"
proof (cases "announcement_is_valid T (local_announcement c t)")
  case True
  from length_encode_announcement [OF assms(1) this] assms(2) show ?thesis
    by (simp add: u32_sized_def identity_fits_def local_announcement_def make_announcement_def)
qed (simp add: encode_announcement_def u32_sized_def)

lemma member_message_fits:
  assumes S: "serializer_ok (api_serializer E)"
    and fits: "\<And>i. identity_fits (to_config (api_time E) (opts i))"
  shows "member_message E opts m \<Longrightarrow> message_fits m"
proof (induction rule: member_message.induct)
  case (member_announces i t t')
  note valid = engine_messages_valid(1) [OF options_context [THEN iffD2, OF conjI [OF member_announces refl]]]
  show ?case
    using valid local_payload_fits [OF S fits [of i]] fits [of i]
      length_int_to_string [of "ts_millis (api_time E) t'"]
    by (auto simp: message_fits_def announce_message_at_def u32_sized_def identity_fits_def)
next
  case (member_probes i t)
  note valid = engine_messages_valid(2) [OF options_context [THEN iffD2, OF conjI [OF member_probes refl]]]
  show ?case
    using valid fits [of i] length_int_to_string [of "ts_millis (api_time E) t"]
    by (auto simp: message_fits_def probe_message_at_def u32_sized_def identity_fits_def)
next
  case (member_replies i q t)
  note valid = engine_messages_valid(3)
    [OF options_context [THEN iffD2, OF conjI [OF member_replies(1) refl]]]
  show ?case
    using valid local_payload_fits [OF S fits [of i]] fits [of i] member_replies(3)
    by (auto simp: message_fits_def reply_message_at_def u32_sized_def identity_fits_def)
qed

text \<open>What is learned from the message of a member is the announcement of a member.\<close>

lemma learned_from_member:
  assumes T: "timestamp_ok (api_time E)" and S: "serializer_ok (api_serializer E)"
    and fits: "\<And>i. identity_fits (to_config (api_time E) (opts i))"
    and m: "member_message E opts m" and p: "learned_from E ctx m p"
  shows "\<exists>j t. options_is_valid (api_time E) (opts j) \<and>
    dp_announcement p = local_announcement (to_config (api_time E) (opts j)) t"
proof -
  from p have type: "msg_type m = MT_Announce \<or> msg_type m = MT_Reply"
    and dec: "decode_announcement_buffer (api_time E) (api_serializer E) (msg_payload m) =
      Some (Some (dp_announcement p))" by (simp_all add: learned_from_def)
  from m type obtain j t where j: "options_is_valid (api_time E) (opts j)"
    and payload: "msg_payload m = encode_announcement (api_time E) (api_serializer E)
      (local_announcement (to_config (api_time E) (opts j)) t)" (is "_ = encode_announcement _ _ ?a")
    by cases (auto simp: announce_message_at_def probe_message_at_def reply_message_at_def)
  from encode_decode_announcement [OF T S dec [unfolded decode_announcement_buffer_eq [OF T S]]]
  have enc: "encode_announcement (api_time E) (api_serializer E) (dp_announcement p) =
      encode_announcement (api_time E) (api_serializer E) ?a"
    and fit: "announcement_fits (api_time E) (dp_announcement p)"
    by (simp_all add: payload)
  have "encode_announcement (api_time E) (api_serializer E) ?a \<noteq> []"
    using dec by (auto simp: payload decode_announcement_buffer_def)
  then have "announcement_is_valid (api_time E) ?a"
    by (simp add: encode_announcement_empty_iff [OF S])
  then have "announcement_fits (api_time E) ?a"
    using fits [of j]
    by (simp add: announcement_fits_def u32_sized_def identity_fits_def local_announcement_def
        make_announcement_def)
  from decode_encode_announcement [OF T S fit] decode_encode_announcement [OF T S this] enc
  have "dp_announcement p = ?a" by (metis option.inject)
  with j show ?thesis by blast
qed

section \<open>The network\<close>

type_synonym ('i, 't, 'd, 'x, 's, 'h) network = "'i \<Rightarrow> ('t, 'd, 'x, 's, 'h) service \<times> 'h"

definition socket_of :: "('t, 'd, 'x, 's, 'f) service_of \<Rightarrow> 's" where
  "socket_of v = ub_socket (sys_backend (svc_system v))"

definition with_socket ::
    "'s \<Rightarrow> ('t, 'd, 'x, 's, 'f) service_of \<Rightarrow> ('t, 'd, 'x, 's, 'f) service_of" where
  "with_socket s v =
     v\<lparr>svc_system := (svc_system v)
       \<lparr>sys_backend := (sys_backend (svc_system v))\<lparr>ub_socket := s\<rparr>\<rparr>\<rparr>"

lemma with_socket_simps [simp]:
  "socket_of (with_socket s v) = s"
  "svc_context (with_socket s v) = svc_context v"
  "eng_registry (svc_system (with_socket s v)) = eng_registry (svc_system v)"
  by (simp_all add: socket_of_def with_socket_def)

text \<open>
  A step of the network is a public call of one node, or a change of the socket of one node that
  adds to what waits there at most one datagram that some node, perhaps the same, has sent.
  Delivery to a wrong address, duplication, reordering, delay and loss are all included.
\<close>

inductive network_step ::
    "('t, 'd) time_api \<Rightarrow> serializer \<Rightarrow> ('d, 's) platform \<Rightarrow> 'x transport_api \<Rightarrow>
     ('s \<Rightarrow> bytes set) \<Rightarrow> ('s \<Rightarrow> bytes set) \<Rightarrow>
     ('i, 't, 'd, 'x, 's, 'h) network \<Rightarrow> ('i, 't, 'd, 'x, 's, 'h) network \<Rightarrow> bool"
  for T S P X sent waiting where
    node_calls: "service_step T S P X (N i) w \<Longrightarrow>
      network_step T S P X sent waiting N (N(i := w))"
  | datagram_arrives: "data \<in> sent (socket_of (fst (N j))) \<Longrightarrow>
      sent s \<subseteq> sent (socket_of (fst (N i))) \<Longrightarrow>
      waiting s \<subseteq> insert data (waiting (socket_of (fst (N i)))) \<Longrightarrow>
      network_step T S P X sent waiting N (N(i := (with_socket s (fst (N i)), snd (N i))))"

inductive network_reachable ::
    "('t, 'd) time_api \<Rightarrow> serializer \<Rightarrow> ('d, 's) platform \<Rightarrow> 'x transport_api \<Rightarrow>
     ('s \<Rightarrow> bytes set) \<Rightarrow> ('s \<Rightarrow> bytes set) \<Rightarrow> ('i \<Rightarrow> 'd options) \<Rightarrow>
     ('i, 't, 'd, 'x, 's, 'h) network \<Rightarrow> bool"
  for T S P X sent waiting opts where
    network_created: "(\<And>i. sent (k i) = {} \<and> waiting (k i) = {}) \<Longrightarrow>
      network_reachable T S P X sent waiting opts (\<lambda>i. (make_service T (opts i) (x i) (k i) (c i), h i))"
  | network_continues: "network_reachable T S P X sent waiting opts N \<Longrightarrow>
      network_step T S P X sent waiting N N' \<Longrightarrow> network_reachable T S P X sent waiting opts N'"

context socket_traffic
begin

definition node_inv ::
    "('t, 'd) time_api \<Rightarrow> serializer \<Rightarrow> 'x transport_api \<Rightarrow> ('i \<Rightarrow> 'd options) \<Rightarrow> 'i \<Rightarrow>
     ('t, 'd, 'x, 's, 'h) service \<Rightarrow> bool" where
  "node_inv T S X opts i v \<longleftrightarrow>
     svc_context v = make_context (to_config T (opts i)) \<and>
     carries S (member_message (udp_env T S P X id) opts) (sys_backend (svc_system v)) \<and>
     sourced (udp_env T S P X id) (svc_context v) (member_message (udp_env T S P X id) opts)
       (eng_registry (svc_system v))"

lemma node_inv_socket:
  "node_inv T S X opts i v \<Longrightarrow> sent (socket_of v) \<union> waiting (socket_of v) \<subseteq>
     encode_message S ` {m. member_message (udp_env T S P X id) opts m}"
  by (simp add: node_inv_def carries_def socket_of_def)

lemma node_inv_with_socket:
  assumes v: "node_inv T S X opts i v"
    and s: "sent s \<union> waiting s \<subseteq> encode_message S ` {m. member_message (udp_env T S P X id) opts m}"
  shows "node_inv T S X opts i (with_socket s v)"
proof -
  have "ub_socket (sys_backend (svc_system (with_socket s v))) = s" by (simp add: with_socket_def)
  with v s show ?thesis unfolding node_inv_def carries_def with_socket_simps by metis
qed

lemma network_step_inv:
  assumes good and S: "serializer_ok S" and fits: "\<And>i. identity_fits (to_config T (opts i))"
    and step: "network_step T S P X sent waiting N N'" and inv: "\<And>i. node_inv T S X opts i (fst (N i))"
  shows "node_inv T S X opts i (fst (N' i))"
  using step
proof cases
  case (node_calls j w)
  let ?E = "udp_env T S P X id" and ?told = "member_message (udp_env T S P X id) opts"
  obtain v h where v: "N j = (v, h)" by fastforce
  obtain v' h' where w: "w = (v', h')" by fastforce
  have ctx: "svc_context v = make_context (to_config T (opts j))"
    using inv [of j] by (simp add: node_inv_def v)
  have "tracked_node (udp_env T S P X L) (svc_context v) (carries S ?told) ?told" for L
    unfolding ctx
    by (rule traffic_tracked [OF assms(1) S])
      (use member_message_fits [of ?E opts] own_message_member [of ?E opts j] S fits in auto)
  moreover have "carries S ?told (sys_backend (svc_system v))"
      "sourced ?E (svc_context v) ?told (eng_registry (svc_system v))"
    using inv [of j] unfolding v node_inv_def fst_conv by blast+
  moreover have moved: "service_step T S P X (v, h) (v', h')" using node_calls(2) by (simp add: v w)
  ultimately have "carries S ?told (sys_backend (svc_system v')) \<and>
      sourced ?E (svc_context v') ?told (eng_registry (svc_system v'))"
    by (rule service_step_accounted)
  then have "node_inv T S X opts j v'"
    using service_step_engine [OF moved] ctx unfolding node_inv_def by metis
  with inv node_calls(1) w show ?thesis by simp
next
  case (datagram_arrives data j s k)
  have "node_inv T S X opts k (with_socket s (fst (N k)))"
    using node_inv_socket [OF inv [of j]] node_inv_socket [OF inv [of k]] datagram_arrives(2-4)
    by (intro node_inv_with_socket inv) blast
  with inv datagram_arrives(1) show ?thesis by simp
qed

lemma network_reachable_inv:
  assumes good and S: "serializer_ok S" and fits: "\<And>i. identity_fits (to_config T (opts i))"
    and reach: "network_reachable T S P X sent waiting opts N"
  shows "node_inv T S X opts i (fst (N i))"
  using reach
proof (induction arbitrary: i)
  case (network_created k x c h)
  then show ?case
    by (simp add: node_inv_def make_service_def make_system_def make_udp_backend_def carries_def Let_def)
next
  case (network_continues N N')
  show ?case
    by (rule network_step_inv [OF assms(1-3) network_continues.hyps(2) network_continues.IH])
qed

text \<open>The peers of a node are other members, with the endpoints of their options.\<close>

lemma network_peer_is_member:
  assumes good and T: "timestamp_ok T" and S: "serializer_ok S"
    and fits: "\<And>i. identity_fits (to_config T (opts i))"
    and reach: "network_reachable T S P X sent waiting opts N"
    and peer: "um_find (eng_registry (svc_system (fst (N i)))) k = Some p"
  shows "\<exists>j. j \<noteq> i \<and> options_is_valid T (opts j) \<and> k = opt_node_id (opts j) \<and>
    peer_node_id p = k \<and> ann_host (dp_announcement p) = opt_announce_host (opts j) \<and>
    ann_port (dp_announcement p) = opt_announce_port (opts j)"
proof -
  let ?E = "udp_env T S P X id"
  have inv: "node_inv T S X opts i (fst (N i))"
    by (rule network_reachable_inv [OF assms(1) S fits reach])
  then have ctx: "svc_context (fst (N i)) = make_context (to_config T (opts i))"
    and src: "sourced ?E (svc_context (fst (N i))) (member_message ?E opts)
      (eng_registry (svc_system (fst (N i))))" unfolding node_inv_def by blast+
  from src peer obtain m where m: "member_message ?E opts m"
    and learned: "learned_from ?E (svc_context (fst (N i))) m p" unfolding sourced_def by blast
  have wf: "registry_wf T (eng_registry (svc_system (fst (N i))))" using src by (simp add: sourced_def)
  obtain j t where j: "options_is_valid T (opts j)"
    and a: "dp_announcement p = local_announcement (to_config T (opts j)) t"
    using learned_from_member [OF _ _ _ m learned] T S fits by auto
  have id: "peer_node_id p = k" by (rule registry_wfD(1) [OF wf peer])
  then have k: "k = opt_node_id (opts j)"
    by (simp add: peer_node_id_def a local_announcement_def make_announcement_def to_config_def)
  have "opt_node_id (opts j) \<noteq> local_node_id ?E (svc_context (fst (N i)))"
    using learned id k by (simp add: learned_from_def)
  moreover have "local_node_id ?E (svc_context (fst (N i))) = opt_node_id (opts i)" if "options_is_valid T (opts i)"
    using that options_context [of T "opts i" "to_config T (opts i)"]
    by (simp add: local_node_id_def ctx to_config_def)
  ultimately have "j \<noteq> i" using j by metis
  with j k id a show ?thesis
    by (intro exI [of _ j]) (simp add: local_announcement_def make_announcement_def to_config_def)
qed

text \<open>So are the peers that the service shows to its user.\<close>

lemma network_shown_is_member:
  assumes good and T: "timestamp_ok T" and S: "serializer_ok S"
    and fits: "\<And>i. identity_fits (to_config T (opts i))"
    and reach: "network_reachable T S P X sent waiting opts N"
    and q: "q \<in> set (fst (service_peers (udp_env T S P X L) (fst (N i))))"
  shows "\<exists>j. j \<noteq> i \<and> options_is_valid T (opts j) \<and> pub_node_id q = opt_node_id (opts j) \<and>
    pub_host q = opt_announce_host (opts j) \<and> pub_port q = opt_announce_port (opts j)"
proof -
  let ?r = "eng_registry (svc_system (fst (N i)))"
  have "node_inv T S X opts i (fst (N i))"
    by (rule network_reachable_inv [OF assms(1) S fits reach])
  then have wf: "registry_wf T ?r" by (simp add: node_inv_def sourced_def)
  have "fst (service_peers (udp_env T S P X L) (fst (N i))) =
      filter (public_peer_is_valid T) (map public_view (available_peers ?r))"
    using public_peers_loop_eq [of T "available_peers ?r" "[]" "sys_clock (svc_system (fst (N i)))"]
    by (simp add: service_peers_def engine_peers_def Let_def case_prod_unfold)
  with q obtain p where p: "p \<in> set (available_peers ?r)" and view: "q = public_view p" by auto
  obtain k where k: "um_find ?r k = Some p"
    using available_peers_find [OF registry_wf_um [OF wf] p] by blast
  from network_peer_is_member [OF assms(1) T S fits reach k] show ?thesis
    by (auto simp: view public_view_def from_discovered_peer_def make_public_peer_def peer_node_id_def)
qed

end

end
