(* ===== verification/Network_Members.thy ===== *)
theory Network_Members
  imports Network Ownership_Properties Delivery_Properties
begin

text \<open>
  Who can be discovered: the property of a network of services, and a network of two nodes on the
  packages of \<open>Instances\<close> that find each other.
\<close>

text \<open>
  C4.  No phantom peers: in a closed network of any number of services, with any interleaving of
  their public calls and any loss, duplication, delay, reordering or misdelivery of datagrams,
  every peer that a node has in its registry or shows to its user is another member of the
  network, under that member's node id and with the host and port of that member's options.
\<close>

theorem no_phantom_peers:
  assumes "timestamp_ok T" and "serializer_ok S" and "kernel_traffic K sent waiting"
    and "\<forall>i. identity_fits (to_config T (opts i))"
    and "network_reachable T S (linux_platform T K) X (\<lambda>s. sent (sock_kernel s))
      (\<lambda>s. waiting (sock_kernel s)) opts N"
  shows "(\<forall>k p. registry_get (engine_peers (svc_system (fst (N i)))) k = Some p \<longrightarrow>
      (\<exists>j. j \<noteq> i \<and> options_is_valid T (opts j) \<and> k = opt_node_id (opts j) \<and> peer_node_id p = k \<and>
        ann_host (dp_announcement p) = opt_announce_host (opts j) \<and>
        ann_port (dp_announcement p) = opt_announce_port (opts j))) \<and>
    (\<forall>q \<in> set (fst (service_peers (udp_env T S (linux_platform T K) X L) (fst (N i)))).
      (\<exists>j. j \<noteq> i \<and> options_is_valid T (opts j) \<and> pub_node_id q = opt_node_id (opts j) \<and>
        pub_host q = opt_announce_host (opts j) \<and> pub_port q = opt_announce_port (opts j)))"
  using linux_traffic.network_peer_is_member [OF assms(3,1,2) assms(4) [rule_format] assms(5)]
    linux_traffic.network_shown_is_member [OF assms(3,1,2) assms(4) [rule_format] assms(5)]
  by (auto simp: registry_get_def engine_peers_def)

text \<open>The same on Windows.\<close>

lemma no_phantom_peers_windows:
  assumes "timestamp_ok T" and "serializer_ok S" and "winsock_ok W"
    and "kernel_traffic (posix_of W) sent waiting"
    and "\<forall>i. identity_fits (to_config T (opts i))"
    and "network_reachable T S (windows_platform T W) X (\<lambda>s. sent (sock_kernel (as_posix s)))
      (\<lambda>s. waiting (sock_kernel (as_posix s))) opts N"
    and "q \<in> set (fst (service_peers (udp_env T S (windows_platform T W) X L) (fst (N i))))"
  shows "\<exists>j. j \<noteq> i \<and> options_is_valid T (opts j) \<and> pub_node_id q = opt_node_id (opts j) \<and>
    pub_host q = opt_announce_host (opts j) \<and> pub_port q = opt_announce_port (opts j)"
  using windows_traffic.through.network_shown_is_member [OF conjI [OF assms(3,4)] assms(1,2)
      assms(5) [rule_format] assms(6,7)] .

section \<open>A network of two nodes\<close>

text \<open>
  Both services start, \<open>node-b\<close> announces itself, its datagram reaches the socket of \<open>node-a\<close>, and a
  poll of \<open>node-a\<close> learns it.
\<close>

definition demo_opts :: "bool \<Rightarrow> i64 options" where
  "demo_opts i = (if i then options_local demo_time ''node-b'' 9400 7001 else demo_options)"

lemma demo_opts_facts [simp]:
  "to_config demo_time (demo_opts False) = demo_config"
  "to_config demo_time (demo_opts True) = demo_config_b"
  "options_is_valid demo_time (demo_opts i)"
  "opt_node_id (demo_opts True) = ''node-b''" "opt_announce_port (demo_opts True) = 7001"
  by (simp_all add: demo_opts_def demo_config_def demo_config_b_def options_is_valid_def
      demo_options_def options_defs)

lemma demo_opts_fit: "\<forall>i. identity_fits (to_config demo_time (demo_opts i))"
proof -
  have "identity_fits demo_config"
    by (simp add: identity_fits_def) (simp add: demo_config_def demo_options_def to_config_def options_defs)
  then show ?thesis by (simp add: all_bool_eq)
qed

text \<open>A node before its start, and the running node with a given kernel.\<close>

type_synonym demo_node = "(i64, i64, string list, demo_state udp_socket, demo_log) service"

definition demo_node_on :: "demo_state \<Rightarrow> bool \<Rightarrow> demo_node" where
  "demo_node_on k i = make_service demo_time (demo_opts i) [] (socket_default k) demo_clock"

abbreviation demo_node :: "bool \<Rightarrow> demo_node" where
  "demo_node \<equiv> demo_node_on ([], [])"

definition demo_up :: "bool \<Rightarrow> demo_state \<Rightarrow> demo_node" where
  "demo_up i k = (demo_node i)\<lparr>svc_system := (svc_system (demo_node i))\<lparr>eng_status := DS_Running,
     sys_backend := demo_mail_of (to_config demo_time (demo_opts i)) k\<rparr>\<rparr>"

lemma demo_configs_valid:
  "config_is_valid demo_time (to_config demo_time (demo_opts i))"
  "c_str (cfg_bind_host (to_config demo_time (demo_opts i))) \<noteq> []"
  using demo_opts_facts(3) [of i] by (simp_all add: to_config_valid)
    (simp add: demo_opts_def demo_options_def to_config_def options_defs)

lemma demo_node_starts: "service_start demo_env (demo_node_on k i) = Some (True, demo_up i k)"
  using demo_configs_valid [of i] demo_backend_starts [OF demo_configs_valid]
  by (simp add: service_start_def demo_node_on_def make_service_def Let_def engine_start_def
      make_system_def status_is_running_def context_is_valid_def make_context_def server_start_def
      engine_peers_def registry_size_def demo_up_def)

lemma demo_up_system:
  "svc_context (demo_up i k) = make_context (to_config demo_time (demo_opts i))"
  "socket_of (demo_up i k) = \<lparr>sock_fd = 3, sock_kernel = k\<rparr>"
  "with_socket \<lparr>sock_fd = 3, sock_kernel = k'\<rparr> (demo_up i k) = demo_up i k'"
  by (simp_all add: demo_up_def demo_node_on_def make_service_def Let_def socket_of_def with_socket_def
      demo_mail_of_def)

definition demo_packet :: "bytes \<times> sockaddr" where
  "demo_packet = (encode_message demo_serializer demo_post, \<lparr>sin_port = 9400, sin_addr = 1\<rparr>)"

lemma demo_up_started: "svc_system (demo_up False ([demo_packet], [])) = demo_started"
  by (simp add: demo_up_def demo_node_on_def make_service_def Let_def demo_started_on_def demo_created_on_def
      demo_packet_def make_system_def)

lemma demo_node_b_announces:
  "\<exists>v. service_announce_now demo_env (demo_up True ([], [])) = Some (True, v) \<and>
     snd (sock_kernel (socket_of v)) = [demo_packet]"
proof -
  let ?c = "make_context demo_config_b" and ?s = "svc_system (demo_up True ([], []))"
  have c: "config_checked (api_time demo_env) ?c = Inr demo_config_b" by simp
  have s: "sys_backend ?s = demo_mail_of demo_config_b ([], [])" "sys_clock ?s = demo_clock"
      "engine_is_running demo_env ?s"
    by (simp_all add: demo_up_def demo_node_on_def make_service_def Let_def make_system_def
        engine_is_running_def status_is_running_def)
  have clock: "clock_ok (api_time demo_env) (sys_clock ?s)" by (simp add: s)
  have time: "time_at ?s i = 5000" for i by (simp add: time_at_def demo_clock_def s)
  have dest: "cfg_broadcast_host demo_config_b = ''127.0.0.1''" "cfg_broadcast_port demo_config_b = 9400"
    by (simp_all add: demo_config_b_def to_config_def options_defs config_default_def)
  let ?e = "first_attempt demo_env demo_post ''127.0.0.1'' 9400 5000 5000"
  have "message_is_valid demo_post" using demo_post_fits(1) by (simp add: message_fits_def)
  then obtain outbox where "udp_send demo_time demo_serializer demo_platform (sys_backend ?s) ?e =
      Some (True, demo_mail_of demo_config_b ([], outbox))"
    using demo_mail_send [of ?e demo_config_b "[]" "[]"]
    by (auto simp: s first_attempt_def envelope_defs envelope_mark_attempt_def)
  then obtain s' where s': "announce_now demo_env ?c ?s = Some (True, s')"
    using announce_now_eq [OF s(3) c clock] dest
    by (auto simp: time demo_post_def [symmetric])
  have m: "fst (make_announce_message demo_env ?c ?s) = demo_post"
    using make_messages_eq(1) [OF c, of ?s] by (simp add: time demo_post_def)
  have "snd (sock_kernel (ub_socket (sys_backend s'))) = [demo_packet]"
    using announce_now_log [OF demo_log demo_config_b_facts(1) _ s' [unfolded demo_env_def demo_platform_def]]
      clock m dest s(1)
    by (auto simp: demo_env_def demo_platform_def demo_packet_def demo_mail_of_def make_sockaddr_def
        demo_kernel_def)
  then show ?thesis
    using s' by (simp add: service_announce_now_def demo_up_system socket_of_def)
qed

text \<open>The traffic of the concrete kernel: its outbox and its inbox.\<close>

definition demo_sent :: "demo_state \<Rightarrow> bytes set" where
  "demo_sent k = fst ` set (snd k)"

definition demo_waiting :: "demo_state \<Rightarrow> bytes set" where
  "demo_waiting k = fst ` set (fst k)"

lemma demo_traffic: "kernel_traffic demo_kernel demo_sent demo_waiting"
  by (auto simp: kernel_traffic_def demo_kernel_def demo_sent_def demo_waiting_def quiet_def
      split: prod.splits list.splits)

abbreviation demo_step where
  "demo_step \<equiv> network_step demo_time demo_serializer demo_platform demo_transport
     (\<lambda>s. demo_sent (sock_kernel s)) (\<lambda>s. demo_waiting (sock_kernel s))"

abbreviation demo_reachable where
  "demo_reachable \<equiv> network_reachable demo_time demo_serializer demo_platform demo_transport
     (\<lambda>s. demo_sent (sock_kernel s)) (\<lambda>s. demo_waiting (sock_kernel s)) demo_opts"

lemma demo_call: "service_step demo_time demo_serializer demo_platform demo_transport (N i) w \<Longrightarrow>
    demo_reachable N \<Longrightarrow> demo_reachable (N(i := w))"
  by (blast intro: network_continues node_calls)

text \<open>A poll of the node that has the datagram learns the other one.\<close>

lemma demo_polled:
  "\<exists>w h p. service_poll demo_env (demo_up False ([demo_packet], [])) [] = Some (True, w, h) \<and>
     registry_get (engine_peers (svc_system w)) ''node-b'' = Some p \<and> dp_state p = PS_Alive"
proof -
  obtain s p where s: "poll_once demo_env demo_context demo_started = Some (True, s)"
    and p: "registry_get (engine_peers s) ''node-b'' = Some p" "dp_state p = PS_Alive"
    using demo_history by blast
  let ?v = "(demo_up False ([demo_packet], []))\<lparr>svc_system := s\<rparr>"
  obtain w h where n: "notify_new_peers demo_env ?v [] = (w, h)" by fastforce
  have "service_poll demo_env (demo_up False ([demo_packet], [])) [] = Some (True, w, h)"
    using s n by (simp add: service_poll_def demo_up_system demo_up_started demo_context_def)
  moreover have "eng_registry (svc_system w) = eng_registry s"
    using notify_new_peers_frame [of demo_env ?v "[]"] n by simp
  ultimately show ?thesis using p by (auto simp: registry_get_def engine_peers_def)
qed

lemma demo_network:
  "\<exists>(N :: bool \<Rightarrow> demo_node \<times> demo_log) p. demo_reachable N \<and>
     registry_get (engine_peers (svc_system (fst (N False)))) ''node-b'' = Some p"
proof -
  define N0 :: "bool \<Rightarrow> demo_node \<times> demo_log" where "N0 = (\<lambda>i. (demo_node i, []))"
  have r0: "demo_reachable N0"
    unfolding N0_def demo_node_on_def
    by (rule network_created) (simp add: demo_sent_def demo_waiting_def socket_default_def)
  have start: "service_step demo_time demo_serializer demo_platform demo_transport
      (demo_node i, []) (demo_up i ([], []), [])" for i
    by (rule service_step.service_starts [of _ _ _ _ id]) (simp add: demo_node_starts [unfolded demo_env_def])
  let ?N1 = "N0(False := (demo_up False ([], []), []))"
  let ?N2 = "?N1(True := (demo_up True ([], []), []))"
  have r2: "demo_reachable ?N2"
    by (intro demo_call r0) (simp_all add: N0_def start)
  obtain v where v: "service_announce_now demo_env (demo_up True ([], [])) = Some (True, v)"
    and out: "snd (sock_kernel (socket_of v)) = [demo_packet]"
    using demo_node_b_announces by blast
  let ?N3 = "?N2(True := (v, []))"
  have r3: "demo_reachable ?N3"
    by (intro demo_call r2)
      (use v in \<open>auto simp: demo_env_def intro: service_step.service_announces\<close>)
  let ?N4 = "?N3(False := (demo_up False ([demo_packet], []), []))"
  have "demo_step ?N3 (?N3(False := (with_socket \<lparr>sock_fd = 3, sock_kernel = ([demo_packet], [])\<rparr>
      (fst (?N3 False)), snd (?N3 False))))"
    by (rule datagram_arrives [of "fst demo_packet" _ _ True])
      (use out in \<open>simp_all add: demo_sent_def demo_waiting_def\<close>)
  then have "demo_step ?N3 ?N4" by (simp add: demo_up_system)
  with r3 have r4: "demo_reachable ?N4" by (rule network_continues)
  obtain w h p where w: "service_poll demo_env (demo_up False ([demo_packet], [])) [] = Some (True, w, h)"
    and p: "registry_get (engine_peers (svc_system w)) ''node-b'' = Some p"
    using demo_polled by blast
  let ?N5 = "?N4(False := (w, h))"
  have "demo_reachable ?N5"
    by (intro demo_call r4)
      (use w in \<open>auto simp: demo_env_def intro: service_step.service_polls [of id]\<close>)
  moreover have "registry_get (engine_peers (svc_system (fst (?N5 False)))) ''node-b'' = Some p"
    using p by simp
  ultimately show ?thesis by blast
qed

theorem no_phantom_peers_witness:
  "\<exists>(N :: bool \<Rightarrow> demo_node \<times> demo_log) p. demo_reachable N \<and>
     registry_get (engine_peers (svc_system (fst (N False)))) ''node-b'' = Some p \<and>
     ann_port (dp_announcement p) = 7001"
proof -
  obtain N :: "bool \<Rightarrow> demo_node \<times> demo_log" and p where N: "demo_reachable N"
    and p: "registry_get (engine_peers (svc_system (fst (N False)))) ''node-b'' = Some p"
    using demo_network by blast
  from no_phantom_peers [OF demo_timestamp_ok demo_serializer_ok demo_traffic demo_opts_fit
      N [unfolded demo_platform_def], THEN conjunct1, rule_format, OF p]
  obtain j where "j" and "ann_port (dp_announcement p) = opt_announce_port (demo_opts j)"
    by (metis (full_types))
  then have "ann_port (dp_announcement p) = 7001" by simp
  with N p show ?thesis by blast
qed

end
