(* ===== verification/Reentrant.thy ===== *)
theory Reentrant
  imports Service_Proofs
begin

text \<open>
  Handlers of \<open>onPeerFound\<close> that call the service back.  \<open>DiscoveryService\<close> calls the handler in the
  middle of \<open>notify_new_peers\<close>, after the list of peers was copied and before the count of known
  peers is updated, and nothing stops the handler from calling a public method then.  A handler
  is given here as what it does: a tree of calls, of the service or of its engine through
  \<open>engine()\<close>, each continued with its result.  One thing is left out: replacing the handler
  during its own call, which destroys the function that runs.  The iteration order that insertions leave
  (\<open>api_layout\<close>) is one function for a poll and the polls nested in it.
\<close>

section \<open>Handlers\<close>

datatype engine_call =
    Engine_Start
  | Engine_Stop
  | Engine_Announce
  | Engine_Probe
  | Engine_Poll
  | Engine_Poll_Many nat

datatype svc_call =
    Call_Start
  | Call_Stop
  | Call_Is_Running
  | Call_Announce
  | Call_Probe
  | Call_Peers
  | Call_Poll
  | Call_Poll_Many nat
  | Call_Engine engine_call

datatype 't reply =
    R_Done
  | R_Bool bool
  | R_Count nat
  | R_Peers "'t public_peer list"

text \<open>
  A script ends with the state \<open>'h\<close> of the program around the service, or makes a call in such a
  state and goes on with the result and the state after it, which a nested handler may have
  changed.
\<close>

datatype ('t, 'h) script =
    Ends 'h
  | Calls svc_call 'h "'t reply \<Rightarrow> 'h \<Rightarrow> ('t, 'h) script"

type_synonym ('t, 'd, 'x, 's, 'h) calling_service =
  "('t, 'd, 'x, 's, 't public_peer \<Rightarrow> 'h \<Rightarrow> ('t, 'h) script) service_of"

text \<open>
  The outcome of a call that is followed to a given depth of nested polls.  Running out of depth is
  kept apart from undefined behaviour, so that a call that runs out at every depth is one that
  nests without end.
\<close>

datatype 'a run = Finished 'a | Undefined | Out_Of_Depth

primrec run_bind :: "'a run \<Rightarrow> ('a \<Rightarrow> 'b run) \<Rightarrow> 'b run" where
  "run_bind (Finished x) f = f x"
| "run_bind Undefined f = Undefined"
| "run_bind Out_Of_Depth f = Out_Of_Depth"

definition of_exec :: "'a exec \<Rightarrow> 'a run" where
  "of_exec r = (case r of None \<Rightarrow> Undefined | Some x \<Rightarrow> Finished x)"

lemma of_exec_simps [simp]: "of_exec None = Undefined" "of_exec (Some x) = Finished x"
  by (simp_all add: of_exec_def)

lemma run_bind_Finished: "run_bind r f = Finished y \<longleftrightarrow> (\<exists>x. r = Finished x \<and> f x = Finished y)"
  by (cases r) auto

lemma of_exec_Finished: "of_exec r = Finished x \<longleftrightarrow> r = Some x"
  by (cases r) auto

section \<open>The service with such a handler\<close>

text \<open>A call on the engine that \<open>engine()\<close> hands out; it calls no handler.\<close>

definition run_engine ::
    "('t, 'd, 'b, 'x) env \<Rightarrow> engine_call \<Rightarrow> 'd discovery_context \<Rightarrow> ('t, 'b, 'x) system \<Rightarrow>
     ('t reply \<times> ('t, 'b, 'x) system) exec" where
  "run_engine E c ctx s =
     (case c of
        Engine_Start \<Rightarrow> do { (ok, s) \<leftarrow> engine_start E ctx s; returns (R_Bool ok, s) }
      | Engine_Stop \<Rightarrow> returns (R_Done, engine_stop E s)
      | Engine_Announce \<Rightarrow> do { (ok, s) \<leftarrow> announce_now E ctx s; returns (R_Bool ok, s) }
      | Engine_Probe \<Rightarrow> do { (ok, s) \<leftarrow> probe_now E ctx s; returns (R_Bool ok, s) }
      | Engine_Poll \<Rightarrow> do { (ok, s) \<leftarrow> poll_once E ctx s; returns (R_Bool ok, s) }
      | Engine_Poll_Many n \<Rightarrow> do { (k, s) \<leftarrow> poll_many E ctx n s; returns (R_Count k, s) })"

text \<open>One call from a handler; \<open>poll\<close> says what the two polling calls do.\<close>

definition run_call ::
    "('t, 'd, ('d, 's) udp_backend, 'x) env \<Rightarrow>
     (svc_call \<Rightarrow> ('t, 'd, 'x, 's, 'h) calling_service \<Rightarrow> 'h \<Rightarrow>
        ('t reply \<times> ('t, 'd, 'x, 's, 'h) calling_service \<times> 'h) run) \<Rightarrow>
     svc_call \<Rightarrow> ('t, 'd, 'x, 's, 'h) calling_service \<Rightarrow> 'h \<Rightarrow>
     ('t reply \<times> ('t, 'd, 'x, 's, 'h) calling_service \<times> 'h) run" where
  "run_call E poll c v h =
     (case c of
        Call_Start \<Rightarrow> of_exec (do { (ok, v) \<leftarrow> service_start E v; returns (R_Bool ok, v, h) })
      | Call_Stop \<Rightarrow> Finished (R_Done, service_stop E v, h)
      | Call_Is_Running \<Rightarrow> Finished (R_Bool (service_is_running E v), v, h)
      | Call_Announce \<Rightarrow> of_exec (do { (ok, v) \<leftarrow> service_announce_now E v; returns (R_Bool ok, v, h) })
      | Call_Probe \<Rightarrow> of_exec (do { (ok, v) \<leftarrow> service_probe_now E v; returns (R_Bool ok, v, h) })
      | Call_Peers \<Rightarrow> (let (ps, v) = service_peers E v in Finished (R_Peers ps, v, h))
      | Call_Poll \<Rightarrow> poll Call_Poll v h
      | Call_Poll_Many n \<Rightarrow> poll (Call_Poll_Many n) v h
      | Call_Engine e \<Rightarrow> of_exec (do {
          (r, s) \<leftarrow> run_engine E e (svc_context v) (service_engine v);
          returns (r, service_with_engine v s, h)
        }))"

primrec run_script ::
    "('t, 'd, ('d, 's) udp_backend, 'x) env \<Rightarrow>
     (svc_call \<Rightarrow> ('t, 'd, 'x, 's, 'h) calling_service \<Rightarrow> 'h \<Rightarrow>
        ('t reply \<times> ('t, 'd, 'x, 's, 'h) calling_service \<times> 'h) run) \<Rightarrow>
     ('t, 'h) script \<Rightarrow> ('t, 'd, 'x, 's, 'h) calling_service \<Rightarrow>
     (('t, 'd, 'x, 's, 'h) calling_service \<times> 'h) run" where
  "run_script E poll (Ends h) v = Finished (v, h)"
| "run_script E poll (Calls c h onward) v =
     run_bind (run_call E poll c v h) (\<lambda>(r, v, h). run_script E poll (onward r h) v)"

text \<open>The loop of \<open>notify_new_peers\<close> over the part of the copied list that counts as new.\<close>

fun calling_loop ::
    "('t, 'd, ('d, 's) udp_backend, 'x) env \<Rightarrow>
     (svc_call \<Rightarrow> ('t, 'd, 'x, 's, 'h) calling_service \<Rightarrow> 'h \<Rightarrow>
        ('t reply \<times> ('t, 'd, 'x, 's, 'h) calling_service \<times> 'h) run) \<Rightarrow>
     ('t public_peer \<Rightarrow> 'h \<Rightarrow> ('t, 'h) script) \<Rightarrow> 't discovered_peer list \<Rightarrow>
     ('t, 'd, 'x, 's, 'h) calling_service \<Rightarrow> 'h \<Rightarrow>
     (('t, 'd, 'x, 's, 'h) calling_service \<times> 'h) run" where
  "calling_loop E poll f [] v h = Finished (v, h)"
| "calling_loop E poll f (p # ps) v h =
     (let (q, c) = to_public_peer (sys_clock (svc_system v)) p;
          v = v\<lparr>svc_system := (svc_system v)\<lparr>sys_clock := c\<rparr>\<rparr>
      in if public_peer_is_valid (api_time E) q
         then run_bind (run_script E poll (f q h) v) (\<lambda>(v, h). calling_loop E poll f ps v h)
         else calling_loop E poll f ps v h)"

definition calling_notify ::
    "('t, 'd, ('d, 's) udp_backend, 'x) env \<Rightarrow>
     (svc_call \<Rightarrow> ('t, 'd, 'x, 's, 'h) calling_service \<Rightarrow> 'h \<Rightarrow>
        ('t reply \<times> ('t, 'd, 'x, 's, 'h) calling_service \<times> 'h) run) \<Rightarrow>
     ('t, 'd, 'x, 's, 'h) calling_service \<Rightarrow> 'h \<Rightarrow>
     (('t, 'd, 'x, 's, 'h) calling_service \<times> 'h) run" where
  "calling_notify E poll v h =
     (let discovered = available_peers (engine_peers (svc_system v)) in
      case svc_on_peer_found v of
        None \<Rightarrow> Finished (v\<lparr>svc_known_peer_count := length discovered\<rparr>, h)
      | Some f \<Rightarrow>
          if length discovered \<le> svc_known_peer_count v
          then Finished (v\<lparr>svc_known_peer_count := length discovered\<rparr>, h)
          else
            run_bind (calling_loop E poll f (drop (svc_known_peer_count v) discovered) v h)
              (\<lambda>(v, h). Finished (v\<lparr>svc_known_peer_count := length discovered\<rparr>, h)))"

text \<open>The engine call of \<open>poll\<close> and of \<open>poll_many\<close>.\<close>

definition engine_polls ::
    "('t, 'd, ('d, 's) udp_backend, 'x) env \<Rightarrow> svc_call \<Rightarrow> ('t, 'd, 'x, 's, 'f) service_of \<Rightarrow>
     ('t reply \<times> ('t, 'd, 'x, 's, 'f) service_of) exec" where
  "engine_polls E c v =
     (case c of
        Call_Poll_Many n \<Rightarrow> do {
          (k, s) \<leftarrow> poll_many E (svc_context v) n (svc_system v);
          returns (R_Count k, v\<lparr>svc_system := s\<rparr>)
        }
      | _ \<Rightarrow> do {
          (ok, s) \<leftarrow> poll_once E (svc_context v) (svc_system v);
          returns (R_Bool ok, v\<lparr>svc_system := s\<rparr>)
        })"

primrec calling_poll ::
    "nat \<Rightarrow> ('t, 'd, ('d, 's) udp_backend, 'x) env \<Rightarrow> svc_call \<Rightarrow>
     ('t, 'd, 'x, 's, 'h) calling_service \<Rightarrow> 'h \<Rightarrow>
     ('t reply \<times> ('t, 'd, 'x, 's, 'h) calling_service \<times> 'h) run" where
  "calling_poll 0 E c v h = Out_Of_Depth"
| "calling_poll (Suc depth) E c v h =
     run_bind (of_exec (engine_polls E c v)) (\<lambda>(r, v).
     run_bind (calling_notify E (calling_poll depth E) v h) (\<lambda>(v, h).
     Finished (r, v, h)))"

section \<open>More depth changes nothing\<close>

text \<open>A call that does not run out of depth has the same outcome at every greater depth.\<close>

definition run_le :: "'a run \<Rightarrow> 'a run \<Rightarrow> bool" where
  "run_le r r' \<longleftrightarrow> r = Out_Of_Depth \<or> r = r'"

lemma run_le_refl [simp]: "run_le r r" "run_le Out_Of_Depth r"
  by (simp_all add: run_le_def)

lemma run_le_bind:
  "run_le r r' \<Longrightarrow> (\<And>x. run_le (f x) (f' x)) \<Longrightarrow> run_le (run_bind r f) (run_bind r' f')"
  by (cases r) (auto simp: run_le_def, metis)

lemma run_call_le:
  "(\<And>c v h. run_le (poll c v h) (poll' c v h)) \<Longrightarrow>
   run_le (run_call E poll c v h) (run_call E poll' c v h)"
  by (cases c) (simp_all add: run_call_def)

lemma run_script_le:
  "(\<And>c v h. run_le (poll c v h) (poll' c v h)) \<Longrightarrow>
   run_le (run_script E poll scr v) (run_script E poll' scr v)"
proof (induction scr arbitrary: v)
  case (Calls c h onward)
  have "run_le (run_script E poll (onward r h) v) (run_script E poll' (onward r h) v)" for r h v
    using Calls.IH [of "onward r" "onward r h"] Calls.prems by simp
  then show ?case
    by (auto intro!: run_le_bind run_call_le Calls.prems)
qed simp

lemma calling_loop_le:
  "(\<And>c v h. run_le (poll c v h) (poll' c v h)) \<Longrightarrow>
   run_le (calling_loop E poll f ps v h) (calling_loop E poll' f ps v h)"
  by (induction ps arbitrary: v h)
     (auto simp: Let_def case_prod_unfold intro!: run_le_bind run_script_le)

lemma calling_poll_le: "run_le (calling_poll n E c v h) (calling_poll (n + d) E c v h)"
proof (induction n arbitrary: c v h)
  case (Suc n)
  then show ?case
    by (auto simp: calling_notify_def Let_def intro!: run_le_bind calling_loop_le split: option.splits)
qed simp

lemma calling_poll_Suc:
  "calling_poll (Suc n) E c v h = Finished (r, v', h') \<longleftrightarrow>
    (\<exists>w. engine_polls E c v = Some (r, w) \<and>
      calling_notify E (calling_poll n E) w h = Finished (v', h'))"
  by (auto simp: run_bind_Finished of_exec_Finished)

section \<open>The invariant survives such handlers\<close>

lemma engine_polls_keeps:
  assumes "engine_polls E c v = Some (r, w)"
  shows "svc_on_peer_found w = svc_on_peer_found v \<and> svc_known_peer_count w = svc_known_peer_count v \<and>
    svc_context w = svc_context v"
  using assms by (auto simp: engine_polls_def bind_eq_Some_conv split: svc_call.splits)

lemma engine_polls_inv:
  "service_inv T S P X opts v \<Longrightarrow> layout_ok L \<Longrightarrow> engine_polls (udp_env T S P X L) c v = Some (r, w) \<Longrightarrow>
   service_inv T S P X opts w"
  using engine_ok_poll [OF service_inv_ok, of T S P X opts v L]
  by (auto simp: engine_polls_def bind_eq_Some_conv split: svc_call.splits intro!: service_inv_system)

text \<open>What a nested poll has to keep, for the whole poll to keep the invariant.\<close>

definition keeps_inv ::
    "('t, 'd) time_api \<Rightarrow> serializer \<Rightarrow> ('d, 's) platform \<Rightarrow> 'x transport_api \<Rightarrow> 'd options \<Rightarrow>
     (svc_call \<Rightarrow> ('t, 'd, 'x, 's, 'h) calling_service \<Rightarrow> 'h \<Rightarrow>
        ('t reply \<times> ('t, 'd, 'x, 's, 'h) calling_service \<times> 'h) run) \<Rightarrow> bool" where
  "keeps_inv T S P X opts poll \<longleftrightarrow>
     (\<forall>c v h r v' h'. service_inv T S P X opts v \<longrightarrow> poll c v h = Finished (r, v', h') \<longrightarrow>
        service_inv T S P X opts v')"

lemma keeps_invD:
  "keeps_inv T S P X opts poll \<Longrightarrow> poll c v h = Finished (r, v', h') \<Longrightarrow> service_inv T S P X opts v \<Longrightarrow>
   service_inv T S P X opts v'"
  unfolding keeps_inv_def by blast

lemma run_engine_step:
  assumes "layout_ok L" and "run_engine (udp_env T S P X L) c ctx s = Some (r, s')"
  shows "engine_step (udp_env T S P X L) ctx s s'"
proof (cases c)
  case Engine_Poll
  then show ?thesis
    using assms engine_step.polled [of L "udp_env T S P X L" ctx s]
    by (auto simp: run_engine_def bind_eq_Some_conv udp_env_def)
next
  case (Engine_Poll_Many n)
  then show ?thesis
    using assms engine_step.polled_many [of L "udp_env T S P X L" ctx n s]
    by (auto simp: run_engine_def bind_eq_Some_conv udp_env_def)
qed (use assms in \<open>auto simp: run_engine_def bind_eq_Some_conv
       intro: engine_step.started engine_step.stopped engine_step.announced engine_step.probed\<close>)

lemma run_engine_inv:
  assumes "layout_ok L" and "service_inv T S P X opts v"
    and "run_engine (udp_env T S P X L) c (svc_context v) (service_engine v) = Some (r, s)"
  shows "service_inv T S P X opts (service_with_engine v s)"
  using run_engine_step [OF assms(1,3)] assms(2)
  by (auto simp: service_inv_def service_engine_def service_with_engine_def intro: engine_ok_step)

lemma run_call_inv:
  assumes L: "layout_ok L" and poll: "keeps_inv T S P X opts poll" and inv: "service_inv T S P X opts v"
    and run: "run_call (udp_env T S P X L) poll c v h = Finished (r, v', h')"
  shows "service_inv T S P X opts v'"
proof (cases c)
  case Call_Poll
  then show ?thesis using run keeps_invD [OF poll _ inv] by (simp add: run_call_def)
next
  case (Call_Poll_Many n)
  then show ?thesis using run keeps_invD [OF poll _ inv] by (simp add: run_call_def)
next
  case Call_Peers
  then show ?thesis
    using run service_inv_calls(5) [OF inv] by (auto simp: run_call_def Let_def case_prod_unfold)
next
  case (Call_Engine e)
  then show ?thesis
    using run run_engine_inv [OF L inv] by (auto simp: run_call_def of_exec_Finished bind_eq_Some_conv)
qed (use run inv in \<open>auto simp: run_call_def of_exec_Finished bind_eq_Some_conv
       intro: service_inv_calls [OF inv]\<close>)

lemma run_script_inv:
  "layout_ok L \<Longrightarrow> keeps_inv T S P X opts poll \<Longrightarrow> service_inv T S P X opts v \<Longrightarrow>
   run_script (udp_env T S P X L) poll scr v = Finished (v', h') \<Longrightarrow> service_inv T S P X opts v'"
proof (induction scr arbitrary: v)
  case (Calls c h onward)
  from Calls.prems(4) obtain r w k where
    call: "run_call (udp_env T S P X L) poll c v h = Finished (r, w, k)"
    and rest: "run_script (udp_env T S P X L) poll (onward r k) w = Finished (v', h')"
    by (auto simp: run_bind_Finished)
  show ?case
    using Calls.IH [OF _ _ Calls.prems(1,2) run_call_inv [OF Calls.prems(1-3) call] rest]
    by blast
qed simp

lemma service_inv_clock:
  "service_inv T S P X opts v \<Longrightarrow>
   service_inv T S P X opts
     (v\<lparr>svc_system := (svc_system v)\<lparr>sys_clock := snd (to_public_peer (sys_clock (svc_system v)) p)\<rparr>\<rparr>)"
  by (intro service_inv_system engine_ok_talks [OF service_inv_ok clock_only_talks])
     (simp_all add: to_public_peer_clock)

lemma calling_loop_inv:
  "layout_ok L \<Longrightarrow> keeps_inv T S P X opts poll \<Longrightarrow> service_inv T S P X opts v \<Longrightarrow>
   calling_loop (udp_env T S P X L) poll f ps v h = Finished (v', h') \<Longrightarrow> service_inv T S P X opts v'"
proof (induction ps arbitrary: v h)
  case (Cons p ps)
  note clock = service_inv_clock [OF Cons.prems(3), of p]
  show ?case
    using Cons.prems(4) Cons.IH [OF Cons.prems(1,2)] clock run_script_inv [OF Cons.prems(1,2) clock]
    by (fastforce simp: Let_def case_prod_unfold run_bind_Finished split: if_splits)
qed simp

lemma calling_notify_inv:
  "layout_ok L \<Longrightarrow> keeps_inv T S P X opts poll \<Longrightarrow> service_inv T S P X opts v \<Longrightarrow>
   calling_notify (udp_env T S P X L) poll v h = Finished (v', h') \<Longrightarrow> service_inv T S P X opts v'"
  by (auto simp: calling_notify_def Let_def run_bind_Finished dest: calling_loop_inv
      split: option.splits if_splits)

lemma calling_poll_inv: "layout_ok L \<Longrightarrow> keeps_inv T S P X opts (calling_poll n (udp_env T S P X L))"
proof (induction n)
  case (Suc n)
  note notify = calling_notify_inv [OF Suc.prems Suc.IH [OF Suc.prems]]
  show ?case
    unfolding keeps_inv_def calling_poll_Suc
    using notify engine_polls_inv [OF _ Suc.prems] by blast
qed (simp add: keeps_inv_def)

text \<open>
  A call of the program: any public call, to any depth of nested polls and with any layout of the
  hash map, a new handler, or a call on the engine.
\<close>

inductive calling_step ::
    "('t, 'd) time_api \<Rightarrow> serializer \<Rightarrow> ('d, 's) platform \<Rightarrow> 'x transport_api \<Rightarrow>
     ('t, 'd, 'x, 's, 'h) calling_service \<times> 'h \<Rightarrow> ('t, 'd, 'x, 's, 'h) calling_service \<times> 'h \<Rightarrow> bool"
  for T S P X where
    calls: "layout_ok L \<Longrightarrow>
      run_call (udp_env T S P X L) (calling_poll depth (udp_env T S P X L)) c v h = Finished (r, v', h') \<Longrightarrow>
      calling_step T S P X (v, h) (v', h')"
  | handles: "calling_step T S P X (v, h) (service_on_peer_found f v, h)"
  | uses_engine: "engine_step (udp_env T S P X L) (svc_context v) (service_engine v) s \<Longrightarrow>
      calling_step T S P X (v, h) (service_with_engine v s, h)"

inductive calling_reachable ::
    "('t, 'd) time_api \<Rightarrow> serializer \<Rightarrow> ('d, 's) platform \<Rightarrow> 'x transport_api \<Rightarrow> 'd options \<Rightarrow>
     ('t, 'd, 'x, 's, 'h) calling_service \<times> 'h \<Rightarrow> bool"
  for T S P X opts where
    calling_created: "clock_ok T c \<Longrightarrow> calling_reachable T S P X opts (make_service T opts x k c, h)"
  | calling_continues: "calling_reachable T S P X opts s \<Longrightarrow> calling_step T S P X s s' \<Longrightarrow>
      calling_reachable T S P X opts s'"

lemma calling_step_inv:
  "calling_step T S P X vh vh' \<Longrightarrow> service_inv T S P X opts (fst vh) \<Longrightarrow>
   service_inv T S P X opts (fst vh')"
proof (induction rule: calling_step.induct)
  case (calls L depth c v h r v' h')
  then show ?case using run_call_inv [OF _ calling_poll_inv] by fastforce
next
  case (uses_engine L v s h)
  then show ?case
    by (auto simp: service_inv_def service_engine_def service_with_engine_def intro: engine_ok_step)
qed (auto simp: service_on_peer_found_def service_inv_def)

lemma calling_reachable_inv:
  "calling_reachable T S P X opts vh \<Longrightarrow> service_inv T S P X opts (fst vh)"
  by (induction rule: calling_reachable.induct) (auto simp: service_created_inv calling_step_inv)

section \<open>Handlers that leave the service alone\<close>

text \<open>A handler of \<open>Service\<close> is one whose script ends at once.\<close>

definition with_handler :: "'g option \<Rightarrow> ('t, 'd, 'x, 's, 'f) service_of \<Rightarrow> ('t, 'd, 'x, 's, 'g) service_of" where
  "with_handler f v =
     \<lparr>svc_options = svc_options v, svc_config = svc_config v, svc_context = svc_context v,
      svc_system = svc_system v, svc_on_peer_found = f, svc_known_peer_count = svc_known_peer_count v\<rparr>"

lemma with_handler_simps [simp]:
  "svc_context (with_handler f v) = svc_context v" "svc_system (with_handler f v) = svc_system v"
  "svc_on_peer_found (with_handler f v) = f"
  "svc_known_peer_count (with_handler f v) = svc_known_peer_count v"
  "(with_handler f v)\<lparr>svc_system := s\<rparr> = with_handler f (v\<lparr>svc_system := s\<rparr>)"
  "(with_handler f v)\<lparr>svc_known_peer_count := n\<rparr> = with_handler f (v\<lparr>svc_known_peer_count := n\<rparr>)"
  by (auto simp: with_handler_def)

definition quiet_handler :: "('t public_peer \<Rightarrow> 'h \<Rightarrow> 'h) \<Rightarrow> 't public_peer \<Rightarrow> 'h \<Rightarrow> ('t, 'h) script" where
  "quiet_handler g q h = Ends (g q h)"

abbreviation calling :: "('t, 'd, 'x, 's, 'h) service \<Rightarrow> ('t, 'd, 'x, 's, 'h) calling_service" where
  "calling v \<equiv> with_handler (map_option quiet_handler (svc_on_peer_found v)) v"

lemma calling_loop_quiet:
  "c = sys_clock (svc_system v) \<Longrightarrow>
   calling_loop E poll (quiet_handler g) (drop i ps) v h =
     (let (c, h) = notify_loop (api_time E) g ps i c h
      in Finished (v\<lparr>svc_system := (svc_system v)\<lparr>sys_clock := c\<rparr>\<rparr>, h))"
proof (induction "api_time E" g ps i c h arbitrary: v rule: notify_loop.induct)
  case (1 g ps i c h)
  show ?case
  proof (cases "i < length ps")
    case True
    obtain q c' where q: "to_public_peer c (ps ! i) = (q, c')" by fastforce
    let ?w = "v\<lparr>svc_system := (svc_system v)\<lparr>sys_clock := c'\<rparr>\<rparr>"
    have "calling_loop E poll (quiet_handler g) (drop (i + 1) ps) ?w h' =
      (let (c, h) = notify_loop (api_time E) g ps (i + 1) c' h'
       in Finished (?w\<lparr>svc_system := (svc_system ?w)\<lparr>sys_clock := c\<rparr>\<rparr>, h))"
      if "h' = (if public_peer_is_valid (api_time E) q then g q h else h)" for h'
      using that 1(1) [OF True q [symmetric] refl that, of ?w] by simp
    with 1(2) True q show ?thesis
      by (cases "public_peer_is_valid (api_time E) q") (simp_all add: notify_loop.simps [of "api_time E" g ps i] quiet_handler_def flip: Cons_nth_drop_Suc)
  qed (use 1(2) in \<open>simp add: notify_loop.simps\<close>)
qed

lemma calling_notify_quiet:
  "calling_notify E poll (calling v) h =
     (let (w, h) = notify_new_peers E v h in Finished (with_handler (svc_on_peer_found (calling v)) w, h))"
  by (cases "svc_on_peer_found v")
     (simp_all add: calling_notify_def notify_new_peers_def Let_def calling_loop_quiet case_prod_unfold)

lemma quiet_polls:
  "calling_poll (Suc n) E Call_Poll (calling v) h =
     of_exec (map_option (\<lambda>(ok, w, h). (R_Bool ok, calling w, h)) (service_poll E v h))"
  "calling_poll (Suc n) E (Call_Poll_Many k) (calling v) h =
     of_exec (map_option (\<lambda>(m, w, h). (R_Count m, calling w, h)) (service_poll_many E k v h))"
proof -
  have keep: "svc_on_peer_found (fst (notify_new_peers E w h)) = svc_on_peer_found w" for w
    by (auto simp: notify_new_peers_def Let_def case_prod_unfold split: option.splits)
  have notify: "calling_notify E (calling_poll n E)
      (with_handler (map_option quiet_handler (svc_on_peer_found v)) (v\<lparr>svc_system := s\<rparr>)) h =
    (let (w, h) = notify_new_peers E (v\<lparr>svc_system := s\<rparr>) h in Finished (calling w, h))" for s
    using calling_notify_quiet [of E "calling_poll n E" "v\<lparr>svc_system := s\<rparr>" h]
    by (simp add: case_prod_unfold keep)
  show "calling_poll (Suc n) E Call_Poll (calling v) h =
     of_exec (map_option (\<lambda>(ok, w, h). (R_Bool ok, calling w, h)) (service_poll E v h))"
    by (cases "poll_once E (svc_context v) (svc_system v)")
       (simp_all add: engine_polls_def service_poll_def notify case_prod_unfold Let_def)
  show "calling_poll (Suc n) E (Call_Poll_Many k) (calling v) h =
     of_exec (map_option (\<lambda>(m, w, h). (R_Count m, calling w, h)) (service_poll_many E k v h))"
    by (cases "poll_many E (svc_context v) k (svc_system v)")
       (simp_all add: engine_polls_def service_poll_many_def notify case_prod_unfold Let_def)
qed

end
