(* ===== verification/Reentrant_Properties.thy ===== *)
theory Reentrant_Properties
  imports Reentrant Scenario
begin

text \<open>
  What a handler may do to the service that calls it: handlers that make no call change
  nothing against \<open>Service\<close>, handlers that do not poll let every poll return, a handler that polls
  before the count of known peers was updated is called without end, and one that restarts the
  service leaves a count that hides the next peers.
\<close>

section \<open>Polls of the engine\<close>

lemma engine_polls_return:
  assumes "timestamp_ok T" and "serializer_ok S" and "platform_returns P" and "service_inv T S P X opts v"
  shows "\<exists>r w. engine_polls (udp_env T S P X L) c v = Some (r, w)"
proof -
  let ?E = "udp_env T S P X L"
  have B: "backend_returns (api_backend ?E)" using udp_backend_returns [OF assms(2,3)] by simp
  have "peers_seen ?E (svc_system v)"
    using service_inv_ok [OF assms(4)] by (simp add: engine_ok_any [where L = L])
  then have clock: "clock_ok (api_time ?E) (sys_clock (svc_system v))" by (rule peers_seenD(1))
  have TS: "timestamp_ok (api_time ?E)" "serializer_ok (api_serializer ?E)" using assms(1,2) by simp_all
  obtain ok s where "poll_once ?E (svc_context v) (svc_system v) = Some (ok, s)"
    using udp_node.poll_once_returns [OF TS B clock] by blast
  moreover have "\<exists>k s. poll_many ?E (svc_context v) n (svc_system v) = Some (k, s)" for n
    using udp_node.poll_many_returns [OF TS B clock] by blast
  ultimately show ?thesis
    by (fastforce simp: engine_polls_def bind_eq_Some_conv split: svc_call.splits)
qed

lemma engine_polls_effects:
  "engine_polls (udp_env T S P X L) c v = Some (r, w) \<Longrightarrow>
   engine_effects (udp_env T S P X L) (svc_context v) (svc_system v) (svc_system w)"
  using udp_node.poll_once_effects [of T S P X L "svc_context v" "svc_system v"]
    udp_node.poll_loop_effects [of T S P X L "svc_context v" _ 0 "svc_system v"]
  by (auto simp: engine_polls_def poll_many_def bind_eq_Some_conv split: svc_call.splits)

lemma inv_listed:
  assumes inv: "service_inv T S P X opts v"
    and p: "p \<in> set (available_peers (engine_peers (svc_system v)))"
  shows "public_peer_is_valid T (fst (to_public_peer c p))"
  using available_peer_public [of "udp_env T S P X id" "svc_context v" "svc_system v" p]
    service_inv_ok [OF inv] p
  by (simp add: engine_ok_any [where L = id] to_public_peer_view engine_peers_def)

lemma alive_listed:
  "knows_alive s k \<Longrightarrow> available_peers (engine_peers s) \<noteq> []"
  by (auto simp: knows_alive_def engine_peers_def available_peers_def um_find_def peer_available_def
      is_available_def filter_empty_conv dest!: map_of_SomeD intro!: bexI)

section \<open>A service with a handler\<close>

text \<open>The service of \<open>Scenario\<close>, started with a datagram of a second node waiting and a handler \<open>f\<close>.\<close>

type_synonym demo_script = "(i64, string list) script"

type_synonym demo_caller = "(i64, i64, string list, demo_state udp_socket, string list) calling_service"

definition demo_caller :: "(i64 public_peer \<Rightarrow> string list \<Rightarrow> demo_script) \<Rightarrow> demo_caller" where
  "demo_caller f =
     \<lparr>svc_options = demo_options, svc_config = demo_config, svc_context = demo_context,
      svc_system = demo_started, svc_on_peer_found = Some f, svc_known_peer_count = 0\<rparr>"

lemma demo_caller_reachable:
  "calling_reachable demo_time demo_serializer demo_platform demo_transport demo_options (demo_caller f, [])"
proof -
  let ?R = "calling_reachable demo_time demo_serializer demo_platform demo_transport demo_options"
  let ?new = "(demo_caller f)\<lparr>svc_system := demo_created, svc_on_peer_found := None\<rparr>"
  have new: "?new = make_service demo_time demo_options []
      (socket_default ([(encode_message demo_serializer demo_post, \<lparr>sin_port = 9400, sin_addr = 1\<rparr>)], [])) demo_clock"
    by (simp add: demo_caller_def make_service_def Let_def demo_created_on_def demo_config_def demo_context_def)
  have "?R (?new, [])" unfolding new by (rule calling_reachable.calling_created) simp
  moreover have "calling_step demo_time demo_serializer demo_platform demo_transport
      (?new, []) (?new\<lparr>svc_system := demo_started\<rparr>, [])"
  proof (rule calling_step.calls [where L = id and c = Call_Start and depth = 0])
    have "options_is_valid demo_time demo_options"
      by (simp add: options_is_valid_def demo_options_def options_defs)
    moreover have "registry_size (engine_peers demo_created) = 0"
      by (simp add: demo_created_on_def make_system_def engine_peers_def registry_size_def)
    ultimately have "service_start demo_env ?new = Some (True, ?new\<lparr>svc_system := demo_started\<rparr>)"
      using demo_start by (simp add: service_start_def demo_caller_def)
    then show "run_call (udp_env demo_time demo_serializer demo_platform demo_transport id)
        (calling_poll 0 (udp_env demo_time demo_serializer demo_platform demo_transport id))
        Call_Start ?new [] = Finished (R_Bool True, ?new\<lparr>svc_system := demo_started\<rparr>, [])"
      by (simp add: run_call_def flip: demo_env_def)
  qed simp
  moreover have "calling_step demo_time demo_serializer demo_platform demo_transport
      (?new\<lparr>svc_system := demo_started\<rparr>, []) (demo_caller f, [])"
    using calling_step.handles [of _ _ _ _ "?new\<lparr>svc_system := demo_started\<rparr>" "[]" "Some f"]
    by (simp add: service_on_peer_found_def demo_caller_def)
  ultimately show ?thesis
    by (rule calling_reachable.calling_continues [OF calling_reachable.calling_continues])
qed

lemma demo_caller_polls:
  "\<exists>s p. engine_polls demo_env Call_Poll (demo_caller f) = Some (R_Bool True, (demo_caller f)\<lparr>svc_system := s\<rparr>) \<and>
     registry_get (engine_peers s) ''node-b'' = Some p \<and> dp_state p = PS_Alive"
  using demo_history by (auto simp: engine_polls_def demo_caller_def)

lemma demo_caller_brief:
  "brief_clock demo_time (svc_context (demo_caller f)) (sys_clock (svc_system (demo_caller f)))"
  by (auto simp: brief_clock_def demo_caller_def demo_clock_def stale_after_def demo_config_def
      demo_options_def to_config_def options_defs config_default_def)

lemma demo_platform_returns: "platform_returns demo_platform"
  unfolding demo_platform_def by (rule linux_returns [OF demo_kernel_ok demo_kernel_settles])

text \<open>
  C22.  Calls from inside the handler do no harm to the invariant: whatever sequence of public calls a
  service has served, with handlers that may call it back, polls nested to any depth included, it
  is as consistent between two calls as one whose handler leaves it alone: its configuration is
  that of its options, it runs exactly when its backend does and only with valid options, it knows
  no peers when it does not run, and it never lists itself.
\<close>

theorem calling_service_invariant:
  assumes "calling_reachable T S P X opts (v, h)"
  shows "svc_options v = opts \<and> svc_config v = to_config T opts \<and>
    (service_is_running (udp_env T S P X L) v \<longleftrightarrow> udp_is_running (sys_backend (svc_system v))) \<and>
    (service_is_running (udp_env T S P X L) v \<longrightarrow> options_is_valid T opts) \<and>
    (\<not> service_is_running (udp_env T S P X L) v \<longrightarrow> registry_size (engine_peers (svc_system v)) = 0) \<and>
    (options_is_valid T opts \<longrightarrow>
      registry_get (engine_peers (svc_system v)) (opt_node_id opts) = None)"
  using service_inv_facts [of T S P X opts v L] calling_reachable_inv [OF assms] by simp

theorem calling_service_invariant_witness:
  "service_is_running demo_env (demo_caller (\<lambda>q. Ends)) = udp_is_running (sys_backend demo_started)"
proof -
  have "service_is_running demo_env (demo_caller (\<lambda>q. Ends)) =
      udp_is_running (sys_backend (svc_system (demo_caller (\<lambda>q. Ends))))"
    unfolding demo_env_def
    by (rule calling_service_invariant [OF demo_caller_reachable, THEN conjunct2, THEN conjunct2, THEN conjunct1])
  then show ?thesis by (simp add: demo_caller_def)
qed

text \<open>
  The two models of the service agree: with a handler that makes no calls, a poll that may be
  called back, at any depth, is the poll of the service whose handler cannot, with the same
  result, the same service afterwards and the same effect of the handler.
\<close>

lemma quiet_handlers_agree:
  "calling_poll (Suc depth) E Call_Poll (calling v) h =
     of_exec (map_option (\<lambda>(ok, w, k). (R_Bool ok, calling w, k)) (service_poll E v h)) \<and>
   calling_poll (Suc depth) E (Call_Poll_Many n) (calling v) h =
     of_exec (map_option (\<lambda>(m, w, k). (R_Count m, calling w, k)) (service_poll_many E n v h))"
  by (intro conjI quiet_polls)

section \<open>Handlers that do not poll\<close>

fun is_poll :: "svc_call \<Rightarrow> bool" where
  "is_poll Call_Poll = True"
| "is_poll (Call_Poll_Many n) = True"
| "is_poll _ = False"

inductive poll_free :: "('t, 'h) script \<Rightarrow> bool" where
  free_ends: "poll_free (Ends h)"
| free_calls: "\<not> is_poll c \<Longrightarrow> (\<And>r k. poll_free (onward r k)) \<Longrightarrow> poll_free (Calls c h onward)"

text \<open>Such calls return, and make no difference between depths.\<close>

lemma run_engine_returns:
  assumes "timestamp_ok T" and "serializer_ok S" and B: "backend_returns (api_backend (udp_env T S P X L))"
    and inv: "service_inv T S P X opts v"
  shows "run_engine (udp_env T S P X L) c (svc_context v) (service_engine v) \<noteq> None"
proof -
  have clock: "clock_ok T (sys_clock (svc_system v))"
    using service_inv_ok [OF inv] by (auto simp: engine_ok_def dest: peers_seenD(1))
  have "poll_once (udp_env T S P X L) (svc_context v) (svc_system v) \<noteq> None"
    using udp_node.poll_once_returns [OF _ _ B, of "svc_system v" "svc_context v"] assms(1,2) clock by auto
  moreover have "poll_many (udp_env T S P X L) (svc_context v) n (svc_system v) \<noteq> None" for n
    using udp_node.poll_many_returns [OF _ _ B, of "svc_system v" "svc_context v" n] assms(1,2) clock by auto
  ultimately show ?thesis
    by (cases c)
      (simp_all add: run_engine_def service_engine_def bind_eq_None_conv case_prod_unfold engine_start_returns [OF B]
        announce_now_returns [OF B] probe_now_returns [OF B] del: not_None_eq)
qed

lemma run_call_free:
  assumes T: "timestamp_ok T" and S: "serializer_ok S" and L: "layout_ok L"
    and B: "backend_returns (api_backend (udp_env T S P X L))"
    and inv: "service_inv T S P X opts v" and c: "\<not> is_poll c"
  shows "\<exists>r w k. (\<forall>poll. run_call (udp_env T S P X L) poll c v h = Finished (r, w, k)) \<and>
    service_inv T S P X opts w"
proof -
  let ?E = "udp_env T S P X L" and ?stuck = "\<lambda>_ _ _. Undefined"
  obtain ok s where "engine_start ?E (svc_context v) (svc_system v) = Some (ok, s)"
    using engine_start_returns [OF B] by fastforce
  then have "\<exists>x. service_start ?E v = Some x"
    by (cases "options_is_valid (api_time ?E) (svc_options v)") (auto simp: service_start_def)
  moreover have "\<exists>x. service_announce_now ?E v = Some x" "\<exists>x. service_probe_now ?E v = Some x"
    using announce_now_returns [OF B] probe_now_returns [OF B]
    by (simp_all add: service_announce_now_def service_probe_now_def bind_eq_Some_conv case_prod_unfold)
  moreover have "\<exists>x. \<forall>poll. run_call ?E poll (Call_Engine e) v h = Finished x" for e
    using run_engine_returns [OF T S B inv, of e] by (auto simp: run_call_def)
  ultimately have "\<exists>x. \<forall>poll. run_call ?E poll c v h = Finished x"
    using c by (cases c) (auto simp: run_call_def case_prod_unfold Let_def)
  then obtain r w k where run: "\<And>poll. run_call ?E poll c v h = Finished (r, w, k)" by (metis prod_cases3)
  have "keeps_inv T S P X opts ?stuck" by (simp add: keeps_inv_def)
  from run_call_inv [OF L this inv run] run show ?thesis by blast
qed

lemma run_script_free:
  assumes "timestamp_ok T" and "serializer_ok S" and "layout_ok L"
    and "backend_returns (api_backend (udp_env T S P X L))"
  shows "poll_free scr \<Longrightarrow> service_inv T S P X opts v \<Longrightarrow>
    \<exists>w k. (\<forall>poll. run_script (udp_env T S P X L) poll scr v = Finished (w, k)) \<and> service_inv T S P X opts w"
proof (induction arbitrary: v rule: poll_free.induct)
  case (free_calls c onward h)
  obtain r w k where "\<And>poll. run_call (udp_env T S P X L) poll c v h = Finished (r, w, k)"
    and "service_inv T S P X opts w"
    using run_call_free [OF assms free_calls.prems free_calls(1), of h] by blast
  then show ?case using free_calls.IH [of w r k] by simp
qed simp

lemma calling_loop_free:
  assumes "timestamp_ok T" and "serializer_ok S" and "layout_ok L"
    and "backend_returns (api_backend (udp_env T S P X L))" and "\<And>q k. poll_free (f q k)"
  shows "service_inv T S P X opts v \<Longrightarrow>
    \<exists>x. \<forall>poll. calling_loop (udp_env T S P X L) poll f ps v h = Finished x"
proof (induction ps arbitrary: v h)
  case (Cons p ps)
  obtain q c where q: "to_public_peer (sys_clock (svc_system v)) p = (q, c)" by fastforce
  let ?v = "v\<lparr>svc_system := (svc_system v)\<lparr>sys_clock := c\<rparr>\<rparr>"
  have inv: "service_inv T S P X opts ?v" using service_inv_clock [OF Cons.prems, of p] by (simp add: q)
  obtain w k where "\<And>poll. run_script (udp_env T S P X L) poll (f q h) ?v = Finished (w, k)"
    and "service_inv T S P X opts w"
    using run_script_free [OF assms(1-4) assms(5) [of q h] inv] by blast
  then show ?case
    using Cons.IH [of w k] Cons.IH [OF inv, of h]
    by (cases "public_peer_is_valid (api_time (udp_env T S P X L)) q") (simp_all add: q)
qed simp

lemma calling_notify_free:
  assumes "timestamp_ok T" and "serializer_ok S" and "layout_ok L"
    and "backend_returns (api_backend (udp_env T S P X L))" and inv: "service_inv T S P X opts v"
    and free: "\<And>f q k. svc_on_peer_found v = Some f \<Longrightarrow> poll_free (f q k)"
  shows "\<exists>w k. \<forall>poll. calling_notify (udp_env T S P X L) poll v h = Finished (w, k)"
proof (cases "svc_on_peer_found v")
  case (Some f)
  let ?ps = "available_peers (engine_peers (svc_system v))"
  obtain x where "\<forall>poll. calling_loop (udp_env T S P X L) poll f (drop (svc_known_peer_count v) ?ps) v h = Finished x"
    using calling_loop_free [where f = f, OF assms(1-4) free [OF Some] inv] by blast
  then show ?thesis
    by (cases x; cases "length ?ps \<le> svc_known_peer_count v") (simp_all add: calling_notify_def Some Let_def)
qed (simp add: calling_notify_def Let_def)

text \<open>
  C24.  A poll returns, whatever its handler calls, as long as it does not call the polls of the service:
  on a platform whose transfers return, from every state that such services reach, a poll whose
  handler makes any other calls, polls of the engine included, returns, and with the same
  result at every depth.
\<close>

theorem calling_handlers_return:
  assumes "timestamp_ok T" and "serializer_ok S" and "platform_returns P"
    and "calling_reachable T S P X opts (v, h)"
    and "\<forall>f q k. svc_on_peer_found v = Some f \<longrightarrow> poll_free (f q k)" and "layout_ok L"
  shows "\<exists>r v' h'. \<forall>depth. calling_poll (Suc depth) (udp_env T S P X L) c v h = Finished (r, v', h')"
proof -
  from calling_reachable_inv [OF assms(4)] have inv: "service_inv T S P X opts v" by simp
  obtain r w where polls: "engine_polls (udp_env T S P X L) c v = Some (r, w)"
    using engine_polls_return [OF assms(1-3) inv] by blast
  have "backend_returns (api_backend (udp_env T S P X L))"
    using udp_backend_returns [OF assms(2,3)] by simp
  moreover have "poll_free (f q k)" if "svc_on_peer_found w = Some f" for f q k
    using that assms(5) engine_polls_keeps [OF polls] by simp
  ultimately obtain w' k where
    "\<forall>poll. calling_notify (udp_env T S P X L) poll w h = Finished (w', k)"
    using calling_notify_free [OF assms(1,2,6) _ engine_polls_inv [OF inv assms(6) polls]] by metis
  then show ?thesis using polls by simp
qed

theorem calling_handlers_return_witness:
  "\<exists>r v' h'. \<forall>depth. calling_poll (Suc depth) demo_env Call_Poll
     (demo_caller (\<lambda>q log. Calls (Call_Engine (Engine_Poll_Many 4)) log (\<lambda>r log. Ends (pub_node_id q # log)))) [] = Finished (r, v', h')"
proof -
  let ?f = "\<lambda>(q :: i64 public_peer) log. Calls (Call_Engine (Engine_Poll_Many 4)) log (\<lambda>r log. Ends (pub_node_id q # log)) :: demo_script"
  have "poll_free (?f q k)" for q k by (intro poll_free.intros) simp
  then have "\<forall>f q k. svc_on_peer_found (demo_caller ?f) = Some f \<longrightarrow> poll_free (f q k)"
    by (simp add: demo_caller_def)
  from calling_handlers_return [OF demo_timestamp_ok demo_serializer_ok demo_platform_returns
      demo_caller_reachable this layout_id, of Call_Poll]
  show ?thesis by (simp only: flip: demo_env_def)
qed

section \<open>A handler that polls\<close>

fun polls_first :: "('t, 'h) script \<Rightarrow> bool" where
  "polls_first (Ends h) = False"
| "polls_first (Calls c h onward) = is_poll c"

lemma run_call_poll: "is_poll c \<Longrightarrow> run_call E poll c v h = poll c v h"
  by (cases c) (simp_all add: run_call_def)

text \<open>A service that has told its handler of no peer yet, though it knows one that is alive.\<close>

definition untold ::
    "('t, 'd) time_api \<Rightarrow> serializer \<Rightarrow> ('d, 's) platform \<Rightarrow> 'x transport_api \<Rightarrow> 'd options \<Rightarrow> string \<Rightarrow>
     'f \<Rightarrow> ('t, 'd, 'x, 's, 'f) service_of \<Rightarrow> bool" where
  "untold T S P X opts k f v \<longleftrightarrow>
     service_inv T S P X opts v \<and> svc_on_peer_found v = Some f \<and> svc_known_peer_count v = 0 \<and>
     knows_alive (svc_system v) k \<and> brief_clock T (svc_context v) (sys_clock (svc_system v))"

lemma untold_polls:
  assumes T: "timestamp_ok T" and L: "layout_ok L" and v: "untold T S P X opts k f v"
    and polls: "engine_polls (udp_env T S P X L) c v = Some (r, w)"
  shows "untold T S P X opts k f w"
proof -
  let ?E = "udp_env T S P X L"
  have inv: "service_inv T S P X opts v" and alive: "knows_alive (svc_system v) k"
    and brief: "brief_clock T (svc_context v) (sys_clock (svc_system v))"
    using v by (simp_all add: untold_def)
  have eng: "engine_inv ?E (svc_context v) (svc_system v)" "peers_seen ?E (svc_system v)"
    using service_inv_ok [OF inv] by (simp_all add: engine_ok_any [where L = L])
  have "eng_status (svc_system v) = DS_Running"
    using alive eng(1) by (auto simp: engine_inv_def knows_alive_def um_find_def)
  then have "knows_alive (svc_system w) k"
    using engine_effects_alive [OF engine_polls_effects [OF polls]] T L brief eng alive by simp
  moreover have "readings (sys_clock (svc_system w)) = readings (sys_clock (svc_system v))"
    by (rule effects_clock [OF engine_polls_effects [OF polls]])
  ultimately show ?thesis
    using v engine_polls_keeps [OF polls] engine_polls_inv [OF inv L polls]
    by (simp add: untold_def brief_clock_def)
qed

lemma untold_calls:
  assumes w: "untold T S P X opts k f w" and f: "\<And>q h. polls_first (f q h)"
    and out: "\<And>c u h. untold T S P X opts k f u \<Longrightarrow> poll c u h = Out_Of_Depth"
  shows "calling_notify (udp_env T S P X L) poll w h = Out_Of_Depth"
proof -
  have inv: "service_inv T S P X opts w" using w by (simp add: untold_def)
  obtain p ps where ps: "available_peers (engine_peers (svc_system w)) = p # ps"
    using w alive_listed by (cases "available_peers (engine_peers (svc_system w))") (auto simp: untold_def)
  obtain q c where q: "to_public_peer (sys_clock (svc_system w)) p = (q, c)" by fastforce
  let ?w = "w\<lparr>svc_system := (svc_system w)\<lparr>sys_clock := c\<rparr>\<rparr>"
  have valid: "public_peer_is_valid T q"
    using inv_listed [OF inv, of p "sys_clock (svc_system w)"] by (simp add: ps q)
  have "readings c = readings (sys_clock (svc_system w))"
    using to_public_peer_clock [of "sys_clock (svc_system w)" p] by (simp add: q)
  moreover have "service_inv T S P X opts ?w"
    using service_inv_clock [OF inv, of p] by (simp add: q)
  ultimately have "untold T S P X opts k f ?w"
    using w by (simp add: untold_def knows_alive_def brief_clock_def)
  then have "run_script (udp_env T S P X L) poll (f q h) ?w = Out_Of_Depth"
    using f [of q h] out by (cases "f q h") (simp_all add: run_call_poll)
  then show ?thesis
    using w by (simp add: calling_notify_def untold_def ps q valid Let_def)
qed

lemma untold_nests:
  assumes "timestamp_ok T" and "serializer_ok S" and "platform_returns P" and "layout_ok L"
    and "\<And>q h. polls_first (f q h)"
  shows "untold T S P X opts k f v \<Longrightarrow> calling_poll depth (udp_env T S P X L) c v h = Out_Of_Depth"
proof (induction depth arbitrary: c v h)
  case (Suc depth)
  have "service_inv T S P X opts v" using Suc.prems by (simp add: untold_def)
  then obtain r w where polls: "engine_polls (udp_env T S P X L) c v = Some (r, w)"
    using engine_polls_return [OF assms(1,2,3)] by blast
  show ?case
    using untold_calls [OF untold_polls [OF assms(1,4) Suc.prems polls] assms(5) Suc.IH] polls
    by simp
qed simp

text \<open>
  C35.  A handler that polls is called without end: when a poll discovers the first peers of a
  service whose handler begins by polling, the service calls the handler, whose poll finds the count of
  known peers still at zero and calls the handler for the same peer again; the poll does not return
  at any depth of nesting, as long as the clock does not run past the time after which the
  peer turns stale.
\<close>

theorem polling_handler_never_returns:
  assumes "timestamp_ok T" and "serializer_ok S" and "platform_returns P" and "layout_ok L"
    and "calling_reachable T S P X opts (v, h)"
    and "svc_on_peer_found v = Some f" and "\<forall>q k. polls_first (f q k)"
    and "svc_known_peer_count v = 0"
    and "engine_polls (udp_env T S P X L) c v = Some (r, w)"
    and "registry_get (engine_peers (svc_system w)) i = Some p" and "dp_state p = PS_Alive"
    and "brief_clock T (svc_context v) (sys_clock (svc_system v))"
  shows "calling_poll depth (udp_env T S P X L) c v h = Out_Of_Depth"
proof (cases depth)
  case (Suc d)
  from calling_reachable_inv [OF assms(5)] have inv: "service_inv T S P X opts v" by simp
  have "readings (sys_clock (svc_system w)) = readings (sys_clock (svc_system v))"
    by (rule effects_clock [OF engine_polls_effects [OF assms(9)]])
  then have "untold T S P X opts i f w"
    using assms(6,8,10-12) engine_polls_keeps [OF assms(9)] engine_polls_inv [OF inv assms(4,9)]
    by (simp add: untold_def knows_alive_def brief_clock_def registry_get_def engine_peers_def)
  then have "calling_notify (udp_env T S P X L) (calling_poll d (udp_env T S P X L)) w h = Out_Of_Depth"
    by (rule untold_calls) (use assms(7) in \<open>auto intro: untold_nests [OF assms(1-4)]\<close>)
  then show ?thesis using assms(9) by (simp add: Suc)
qed simp

theorem polling_handler_never_returns_witness:
  "calling_poll 100 demo_env Call_Poll (demo_caller (\<lambda>q log. Calls Call_Poll log (\<lambda>r log. Ends log))) [] =
     Out_Of_Depth"
proof -
  let ?v = "demo_caller (\<lambda>q log. Calls Call_Poll log (\<lambda>r log. Ends log))"
  obtain s p where polls: "engine_polls demo_env Call_Poll ?v = Some (R_Bool True, ?v\<lparr>svc_system := s\<rparr>)"
      "registry_get (engine_peers s) ''node-b'' = Some p" "dp_state p = PS_Alive"
    using demo_caller_polls by blast
  show ?thesis
    unfolding demo_env_def
    by (rule polling_handler_never_returns [where f = "\<lambda>q log. Calls Call_Poll log (\<lambda>r log. Ends log)", OF demo_timestamp_ok demo_serializer_ok demo_platform_returns
        layout_id demo_caller_reachable _ _ _ polls(1) [unfolded demo_env_def] _ polls(3) demo_caller_brief])
      (use polls(2) in \<open>simp_all add: demo_caller_def\<close>)
qed

section \<open>A handler that restarts the service\<close>

definition restart_handler :: "('t public_peer \<Rightarrow> 'h \<Rightarrow> 'h) \<Rightarrow> 't public_peer \<Rightarrow> 'h \<Rightarrow> ('t, 'h) script" where
  "restart_handler g q h = Calls Call_Stop h (\<lambda>_ h. Calls Call_Start h (\<lambda>_ h. Ends (g q h)))"

lemma restart_handler_free: "poll_free (restart_handler g q h)"
  unfolding restart_handler_def by (intro poll_free.intros) simp_all

lemma restart_script:
  assumes "backend_returns (api_backend E)"
    and "eng_status (svc_system v) = DS_Stopped \<Longrightarrow> eng_registry (svc_system v) = []"
  shows "\<exists>w. (\<forall>poll. run_script E poll (restart_handler g q h) v = Finished (w, g q h)) \<and>
    eng_registry (svc_system w) = []"
proof -
  let ?v = "service_stop E v"
  have stopped: "eng_registry (svc_system ?v) = []"
    using assms(2) by (simp add: service_stop_def engine_stop_def registry_clear_def Let_def)
  obtain ok s where start: "engine_start E (svc_context ?v) (svc_system ?v) = Some (ok, s)"
    using engine_start_returns [OF assms(1)] by fastforce
  have "eng_registry s = []"
    using start stopped by (auto simp: engine_start_def bind_eq_Some_conv Let_def split: if_splits)
  then have "\<exists>ok w. service_start E ?v = Some (ok, w) \<and> eng_registry (svc_system w) = []"
    using start stopped by (auto simp: service_start_def)
  then obtain ok w where "service_start E ?v = Some (ok, w)" "eng_registry (svc_system w) = []" by blast
  then show ?thesis by (simp add: restart_handler_def run_call_def)
qed

lemma restart_loop:
  assumes "backend_returns (api_backend E)"
    and "\<And>p c. p \<in> set ps \<Longrightarrow> public_peer_is_valid (api_time E) (fst (to_public_peer c p))"
    and "ps \<noteq> [] \<or> eng_registry (svc_system v) = []"
    and "eng_status (svc_system v) = DS_Stopped \<Longrightarrow> eng_registry (svc_system v) = []"
  shows "\<exists>w k. (\<forall>poll. calling_loop E poll (restart_handler g) ps v h = Finished (w, k)) \<and>
    eng_registry (svc_system w) = []"
  using assms(2-4)
proof (induction ps arbitrary: v h)
  case (Cons p ps)
  obtain q c where q: "to_public_peer (sys_clock (svc_system v)) p = (q, c)" by fastforce
  let ?v = "v\<lparr>svc_system := (svc_system v)\<lparr>sys_clock := c\<rparr>\<rparr>"
  have valid: "public_peer_is_valid (api_time E) q"
    using Cons.prems(1) [of p "sys_clock (svc_system v)"] by (simp add: q)
  obtain w where w: "\<And>poll. run_script E poll (restart_handler g q h) ?v = Finished (w, g q h)"
      "eng_registry (svc_system w) = []"
    using restart_script [OF assms(1), of ?v g q h] Cons.prems(3) by auto
  from Cons.IH [OF Cons.prems(1), of w "g q h"] w(2)
  show ?case by (simp add: q valid w(1))
qed simp

text \<open>
  C36.  A handler that restarts the service hides peers from itself: when a poll reports new peers to a handler
  that calls \<open>stop()\<close> and \<open>start()\<close>, the poll returns with an empty registry, but with the number
  of peers from before the restart as the count of known peers; and the handler is not called
  after any later engine call that finds at most that many peers, though all of them are new.
\<close>

theorem restart_in_handler_hides_peers:
  assumes "timestamp_ok T" and "serializer_ok S" and "platform_returns P" and "layout_ok L"
    and "calling_reachable T S P X opts (v, h)"
    and "svc_on_peer_found v = Some (restart_handler g)"
    and "engine_polls (udp_env T S P X L) c v = Some (r, w)"
    and "svc_known_peer_count v < length (available_peers (engine_peers (svc_system w)))"
  shows "\<exists>v' h'. (\<forall>depth. calling_poll (Suc depth) (udp_env T S P X L) c v h = Finished (r, v', h')) \<and>
    registry_size (engine_peers (svc_system v')) = 0 \<and>
    svc_known_peer_count v' = length (available_peers (engine_peers (svc_system w))) \<and>
    (\<forall>s poll k. length (available_peers (engine_peers s)) \<le> length (available_peers (engine_peers (svc_system w))) \<longrightarrow>
       calling_notify (udp_env T S P X L) poll (v'\<lparr>svc_system := s\<rparr>) k =
         Finished (v'\<lparr>svc_system := s, svc_known_peer_count := length (available_peers (engine_peers s))\<rparr>, k))"
proof -
  let ?E = "udp_env T S P X L" and ?ps = "available_peers (engine_peers (svc_system w))"
  let ?new = "drop (svc_known_peer_count v) ?ps"
  from calling_reachable_inv [OF assms(5)] have inv: "service_inv T S P X opts v" by simp
  note keeps = engine_polls_keeps [OF assms(7)]
  have valid: "public_peer_is_valid (api_time ?E) (fst (to_public_peer c p))" if "p \<in> set ?new" for p c
    using inv_listed [OF engine_polls_inv [OF inv assms(4,7)]] that by (auto dest: in_set_dropD)
  have stopped: "eng_status (svc_system w) = DS_Stopped \<Longrightarrow> eng_registry (svc_system w) = []"
    using service_inv_ok [OF engine_polls_inv [OF inv assms(4,7)]]
    by (simp add: engine_ok_any [where L = L] engine_inv_def)
  have "backend_returns (api_backend ?E)" using udp_backend_returns [OF assms(2,3)] by simp
  then obtain u k where u: "\<forall>poll. calling_loop ?E poll (restart_handler g) ?new w h = Finished (u, k)"
      "eng_registry (svc_system u) = []"
    using restart_loop [where ps = ?new, OF _ valid, where v = w and g = g and h = h] assms(8) stopped by auto
  let ?v' = "u\<lparr>svc_known_peer_count := length ?ps\<rparr>"
  have poll: "\<forall>depth. calling_poll (Suc depth) ?E c v h = Finished (r, ?v', k)"
    using assms(6-8) keeps u(1) by (simp add: calling_notify_def Let_def)
  have quiet: "calling_notify ?E poll (?v'\<lparr>svc_system := s\<rparr>) k' =
      Finished (?v'\<lparr>svc_system := s, svc_known_peer_count := length (available_peers (engine_peers s))\<rparr>, k')"
    if "length (available_peers (engine_peers s)) \<le> length ?ps" for s poll k'
    using that by (simp add: calling_notify_def Let_def split: option.splits)
  show ?thesis
    by (intro exI [of _ ?v'] exI [of _ k] conjI poll)
      (use u(2) quiet in \<open>simp_all add: engine_peers_def registry_size_def\<close>)
qed

theorem restart_in_handler_hides_peers_witness:
  "\<exists>v' h'. calling_poll 1 demo_env Call_Poll (demo_caller (restart_handler (\<lambda>q log. pub_node_id q # log))) [] =
      Finished (R_Bool True, v', h') \<and>
    registry_size (engine_peers (svc_system v')) = 0 \<and> 0 < svc_known_peer_count v'"
proof -
  let ?v = "demo_caller (restart_handler (\<lambda>q log. pub_node_id q # log))"
  obtain s p where polls: "engine_polls demo_env Call_Poll ?v = Some (R_Bool True, ?v\<lparr>svc_system := s\<rparr>)"
      "registry_get (engine_peers s) ''node-b'' = Some p" "dp_state p = PS_Alive"
    using demo_caller_polls by blast
  then have "available_peers (engine_peers s) \<noteq> []"
    by (intro alive_listed [of s "''node-b''"]) (simp add: knows_alive_def registry_get_def engine_peers_def)
  then have grown: "svc_known_peer_count ?v < length (available_peers (engine_peers (svc_system (?v\<lparr>svc_system := s\<rparr>))))"
    by (simp add: demo_caller_def)
  have handler: "svc_on_peer_found ?v = Some (restart_handler (\<lambda>q log. pub_node_id q # log))"
    by (simp add: demo_caller_def)
  from restart_in_handler_hides_peers [OF demo_timestamp_ok demo_serializer_ok demo_platform_returns
      layout_id demo_caller_reachable handler polls(1) [unfolded demo_env_def] grown]
  obtain v' h' where v': "\<forall>depth. calling_poll (Suc depth) demo_env Call_Poll ?v [] = Finished (R_Bool True, v', h')"
      "registry_size (engine_peers (svc_system v')) = 0"
      "svc_known_peer_count v' = length (available_peers (engine_peers s))"
    by (auto simp flip: demo_env_def)
  have "calling_poll 1 demo_env Call_Poll ?v [] = Finished (R_Bool True, v', h')"
    using v'(1) [rule_format, of 0] by (simp only: One_nat_def)
  then show ?thesis
    using v'(2,3) \<open>available_peers (engine_peers s) \<noteq> []\<close> by (intro exI conjI) auto
qed

end
