(* ===== verification/Handshake.thy ===== *)
theory Handshake
  imports Delivery
begin

text \<open>
  Probe and reply over the network.  A queueing backend that also knows where its next message
  comes from (\<open>origin\<close>) is the contract \<open>answering_node\<close>: an engine on such a backend answers a
  probe to the endpoint it came from.  The UDP backend on a queueing kernel meets it.
\<close>

section \<open>A backend that knows the origin of its messages\<close>

locale answering_node = queueing_node E good awaits
  for E :: "('t, 'd, 'b, 'x) env" and good :: bool and awaits :: "'b \<Rightarrow> message list \<Rightarrow> bool" +
  fixes origin :: "'b \<Rightarrow> string \<times> u16"
  assumes poll_origin: "good \<Longrightarrow> be_is_running (api_backend E) b \<Longrightarrow> awaits b (m # ms) \<Longrightarrow>
      be_poll (api_backend E) b c = Some (Some e, b', c') \<Longrightarrow>
      (env_from_host e, env_from_port e) = origin b"
    and send_origin: "good \<Longrightarrow> awaits b (m # ms) \<Longrightarrow>
      be_send (api_backend E) b e = Some (ok, b') \<Longrightarrow> origin b' = origin b"

text \<open>A probe of another node.\<close>

definition probes :: "('t, 'd, 'b, 'x) env \<Rightarrow> 'd discovery_context \<Rightarrow> message \<Rightarrow> bool" where
  "probes E ctx m \<longleftrightarrow>
     message_is_valid m \<and> msg_type m = MT_Probe \<and> msg_from m \<noteq> local_node_id E ctx"

context answering_node
begin

lemma maybe_announce_origin:
  assumes "good" and "awaits (sys_backend s) (m # ms)" and "maybe_announce E ctx s = Some s'"
  shows "origin (sys_backend s') = origin (sys_backend s)"
  using maybe_announce_backend
      [of "\<lambda>b. awaits b (m # ms) \<and> origin b = origin (sys_backend s)" s ctx s'] assms
    send_awaits send_origin by (metis (no_types, lifting))

text \<open>A successful poll that takes a probe has sent the reply back to where the probe came from.\<close>

lemma poll_once_answers:
  assumes good: good and run: "engine_is_running E s" and wait: "awaits (sys_backend s) (m # ms)"
    and m: "probes E ctx m" and c: "config_checked (api_time E) ctx = Inr cfg"
    and clock: "clock_ok (api_time E) (sys_clock s)" and got: "poll_once E ctx s = Some (True, s')"
  shows "\<exists>t t1 t2 b. ts_is_valid (api_time E) t \<and>
    be_send (api_backend E) b
      (first_attempt E (reply_message_at E cfg m t) (fst (origin (sys_backend s)))
        (snd (origin (sys_backend s))) t1 t2) = Some (True, sys_backend s')"
proof -
  obtain e s1 sa c' where eff: "engine_effects E ctx s s1" and e: "env_message e = m"
    and rest: "handle_inbound E ctx (Some e) s1 = Some (True, s')"
    and sa: "maybe_announce E ctx s = Some sa" "be_is_running (api_backend E) (sys_backend sa)"
    and polled: "be_poll (api_backend E) (sys_backend sa) c' = Some (Some e, sys_backend s1, sys_clock s1)"
    by (rule poll_once_takes [OF good run wait got]) blast
  have src: "(env_from_host e, env_from_port e) = origin (sys_backend s)"
    using poll_origin [OF good sa(2) maybe_announce_awaits [OF good wait sa(1)] polled]
      maybe_announce_origin [OF good wait sa(1)] by simp
  have clock1: "clock_ok (api_time E) (sys_clock s1)"
    using clock effects_clock [OF eff] by (simp add: clock_ok_def)
  have answer: "handle_probe E ctx e s1 = Some (True, s')"
    using rest m by (simp add: handle_inbound_def e probes_def split: if_splits)
  then have "envelope_has_source e" by (auto simp: handle_probe_def split: if_splits)
  from answer [unfolded handle_probe_eq [OF this c clock1]]
  have "be_send (api_backend E) (sys_backend s1)
      (first_attempt E (reply_message_at E cfg m (time_at s1 0)) (env_from_host e) (env_from_port e)
        (time_at s1 1) (time_at s1 2)) = Some (True, sys_backend s')"
    by (auto simp: e)
  then show ?thesis
    using clock_ok_time_at [OF clock1, of 0] by (auto simp flip: src)
qed

end

section \<open>The UDP backend\<close>

interpretation udp_answers: answering_node "udp_env T S (linux_platform T K) X L"
    "kernel_queue K inbox" "udp_awaits K inbox S" "udp_origin K inbox"
proof (unfold_locales, unfold udp_env_simps udp_backend_api_simps)
  fix b b' :: "('b, 'c udp_socket) udp_backend" and m ms and c c' :: "'a clock" and e :: "'a envelope"
  assume "kernel_queue K inbox" and "udp_is_running b" and "udp_awaits K inbox S b (m # ms)"
    and "udp_poll T S (linux_platform T K) b c = Some (Some e, b', c')"
  with udp_poll_queue [OF this(1-3), of T c]
  show "(env_from_host e, env_from_port e) = udp_origin K inbox b" by auto
next
  fix b b' :: "('b, 'c udp_socket) udp_backend" and m ms and e :: "'a envelope" and ok
  assume K: "kernel_queue K inbox" and wait: "udp_awaits K inbox S b (m # ms)"
    and sent: "udp_send T S (linux_platform T K) b e = Some (ok, b')"
  from udp_send_queue [OF K sent] wait show "udp_origin K inbox b' = udp_origin K inbox b"
    by (auto simp: udp_origin_def udp_awaits_def list_all2_Cons2)
qed

text \<open>
  The next datagram in the queue of the kernel: its bytes fit the buffer of the backend, and its
  source address has a host and a port.
\<close>

definition brings ::
    "'k kernel_api \<Rightarrow> ('k \<Rightarrow> (bytes \<times> sockaddr) list) \<Rightarrow> ('d, 'k udp_socket) udp_backend \<Rightarrow>
     bytes \<Rightarrow> string \<Rightarrow> u16 \<Rightarrow> bool" where
  "brings K inbox b data host port \<longleftrightarrow>
     socket_is_valid (ub_socket b) \<and> length data \<le> cfg_max_datagram_size (ub_config b) \<and>
     (\<exists>src rest ip. inbox (sock_kernel (ub_socket b)) = (data, src) # rest \<and>
        inet_ntop K (sin_addr src) = Some ip \<and> c_str ip = host \<and> host \<noteq> [] \<and>
        ntohs K (sin_port src) = port \<and> port \<noteq> 0)"

lemma brings_awaits:
  assumes "serializer_ok S" and "message_fits m" and "brings K inbox b (encode_message S m) host port"
  shows "udp_awaits K inbox S b [m]" and "udp_origin K inbox b = (host, port)"
proof -
  obtain src rest ip where q: "inbox (sock_kernel (ub_socket b)) = (encode_message S m, src) # rest"
    and src: "inet_ntop K (sin_addr src) = Some ip" "c_str ip = host" "host \<noteq> []"
      "ntohs K (sin_port src) = port" "port \<noteq> 0"
    using assms(3) by (auto simp: brings_def)
  have "arrives K S (cfg_max_datagram_size (ub_config b)) (encode_message S m, src) m"
    using decode_encode_message [OF assms(1,2)] assms(3) src by (simp add: arrives_def brings_def)
  then show "udp_awaits K inbox S b [m]"
    using assms(3) exI [where x = "[(encode_message S m, src)]"]
    by (simp add: udp_awaits_def brings_def q)
  show "udp_origin K inbox b = (host, port)" by (simp add: udp_origin_def q src)
qed

text \<open>A message that introduces its sender, first in the queue, is learned by the next \<open>poll_many\<close>.\<close>

lemma brought_introduction_learned:
  fixes T :: "('t, 'd) time_api" and S :: serializer and K :: "'k kernel_api"
    and X :: "'x transport_api" and L :: "'t registry_layout"
    and s :: "('t, ('d, 'k udp_socket) udp_backend, 'x) system"
  defines "E \<equiv> udp_env T S (linux_platform T K) X L"
  assumes T: "timestamp_ok T" and S: "serializer_ok S" and L: "layout_ok L"
    and K: "kernel_ok K" "kernel_settles K" "kernel_queue K inbox"
    and s: "engine_reachable E ctx s" "engine_is_running E s" "clock_ok T (sys_clock s)"
    and m: "message_fits m" "introduces E ctx m"
    and here: "brings K inbox (sys_backend s) (encode_message S m) host port" and n: "0 < n"
  shows "\<exists>k s'. poll_many E ctx n s = Some (k, s') \<and> registry_contains (engine_peers s') (msg_from m)"
proof -
  have inv: "engine_inv E ctx s"
    unfolding E_def by (rule udp_node.engine_reachable_inv [OF s(1) [unfolded E_def]])
  have returns: "backend_returns (api_backend E)"
    using udp_backend_returns [OF S linux_returns [OF K(1,2)]] by (simp add: E_def)
  show ?thesis
    using udp_queue.poll_loop_introduced [OF K(3) _ _ returns [unfolded E_def], of s ctx "[m]" n 0 0]
      brings_awaits(1) [OF S m(1) here] T S L s(2,3) m(2) inv n
    by (auto simp: E_def poll_many_def intro: heard_since_contains)
qed

section \<open>The two messages of the handshake\<close>

lemma sent_attempt_log:
  assumes "kernel_log K log"
    and "udp_send T S (linux_platform T K) b (first_attempt E m host port t t') = Some (True, b')"
  shows "\<exists>addr. make_sockaddr K host port = Some addr \<and>
    log (sock_kernel (ub_socket b')) = log (sock_kernel (ub_socket b)) @ [(encode_message S m, addr)]"
  using udp_send_log [OF assms]
  by (simp add: first_attempt_def envelope_defs envelope_mark_attempt_def)

lemma probe_now_log:
  assumes K: "kernel_log K log" and c: "config_checked T ctx = Inr c" and clock: "clock_ok T (sys_clock s)"
    and sent: "probe_now (udp_env T S (linux_platform T K) X L) ctx s = Some (True, s')"
  shows "\<exists>addr. make_sockaddr K (cfg_broadcast_host c) (cfg_broadcast_port c) = Some addr \<and>
    log (sock_kernel (ub_socket (sys_backend s'))) = log (sock_kernel (ub_socket (sys_backend s))) @
      [(encode_message S (probe_message_at (udp_env T S (linux_platform T K) X L) c (time_at s 0)), addr)]"
proof -
  let ?E = "udp_env T S (linux_platform T K) X L"
  have c': "config_checked (api_time ?E) ctx = Inr c" and clock': "clock_ok (api_time ?E) (sys_clock s)"
    using c clock by simp_all
  have run: "engine_is_running ?E s"
    using sent udp_node.not_running_nothing(2) by fastforce
  show ?thesis
    using sent probe_now_eq [OF run c' clock'] sent_attempt_log [OF K] by auto
qed

lemma probe_answered_log:
  fixes T :: "('t, 'd) time_api" and S :: serializer and K :: "'k kernel_api"
    and X :: "'x transport_api" and L :: "'t registry_layout"
    and s :: "('t, ('d, 'k udp_socket) udp_backend, 'x) system"
  defines "E \<equiv> udp_env T S (linux_platform T K) X L" and "wire u \<equiv> sock_kernel (ub_socket (sys_backend u))"
  assumes K: "kernel_log K log" "kernel_queue K inbox" and run: "engine_is_running E s"
    and m: "serializer_ok S" "message_fits m" "probes E ctx m"
    and here: "brings K inbox (sys_backend s) (encode_message S m) host port"
    and c: "config_checked T ctx = Inr cfg" and clock: "clock_ok T (sys_clock s)"
    and got: "poll_once E ctx s = Some (True, s')"
  shows "\<exists>t addr before. ts_is_valid T t \<and> make_sockaddr K host port = Some addr \<and>
    log (wire s') = before @ [(encode_message S (reply_message_at E cfg m t), addr)]"
proof -
  have c': "config_checked (api_time E) ctx = Inr cfg" and clock': "clock_ok (api_time E) (sys_clock s)"
    using c clock by (simp_all add: E_def)
  obtain t t1 t2 b where t: "ts_is_valid T t" and sent: "udp_send T S (linux_platform T K) b
      (first_attempt E (reply_message_at E cfg m t) host port t1 t2) = Some (True, sys_backend s')"
    using udp_answers.poll_once_answers [OF K(2) run [unfolded E_def] brings_awaits(1) [OF m(1,2) here]
      m(3) [unfolded E_def] c' [unfolded E_def] clock' [unfolded E_def] got [unfolded E_def]]
    by (auto simp: brings_awaits(2) [OF m(1,2) here] E_def)
  from sent_attempt_log [OF K(1) sent] t show ?thesis by (auto simp: wire_def)
qed

text \<open>The reply of one engine introduces its node to another engine.\<close>

lemma reply_introduces:
  assumes c: "config_checked (api_time E') ctx' = Inr c" and fits: "identity_fits c"
    and t: "ts_is_valid (api_time E') t"
    and same: "api_time E' = api_time E" "api_serializer E' = api_serializer E"
    and other: "cfg_node_id c \<noteq> local_node_id E ctx"
  shows "introduces E ctx (reply_message_at E' c m t)"
  using engine_messages_valid(3) [OF c] local_announcement_fits [OF c fits t] other same
  unfolding introduces_def
  by (intro exI [of _ "local_announcement c t"])
    (simp add: reply_message_at_def local_announcement_def make_announcement_def)

lemma probe_reaches:
  "config_checked (api_time E') ctx' = Inr c \<Longrightarrow> cfg_node_id c \<noteq> local_node_id E ctx \<Longrightarrow>
   probes E ctx (probe_message_at E' c t)"
  using engine_messages_valid(2) [of "api_time E'" ctx' c E' t]
  by (simp add: probes_def) (simp add: probe_message_at_def)

end
