(* ===== verification/Handshake_Properties.thy ===== *)
theory Handshake_Properties
  imports Handshake Delivery_Properties
begin

text \<open>
  The probe handshake of two nodes, with the network between them.
\<close>

text \<open>
  C9.  A probe finds its reply: a successful \<open>probe_now\<close> of one node puts exactly one datagram on the
  network, to its configured broadcast endpoint; when the network brings these bytes, from
  some address, to another running node as the first entry of its socket queue, a poll of that node
  that succeeds has sent one datagram to just that address as its last one; and when the network
  brings those bytes, from whatever address, to the first node as the first entry of its queue, its
  next \<open>poll_many\<close> for at least one message has the second one in its registry.  Both datagrams
  are within the size of the receive buffers.  (An echo of the probe in front of the reply would
  end that \<open>poll_many\<close>; see \<open>own_message_stops_poll_many\<close>.)
\<close>

theorem probe_crosses_network:
  fixes T :: "('t, 'd) time_api" and S :: serializer
    and XA :: "'xa transport_api" and XB :: "'xb transport_api" and LA LB :: "'t registry_layout"
    and KA :: "'ka kernel_api" and KB :: "'kb kernel_api"
    and log_of_a :: "'ka \<Rightarrow> (bytes \<times> sockaddr) list" and log_of_b :: "'kb \<Rightarrow> (bytes \<times> sockaddr) list"
    and sa sa1 sa2 :: "('t, ('d, 'ka udp_socket) udp_backend, 'xa) system"
    and sb sb1 :: "('t, ('d, 'kb udp_socket) udp_backend, 'xb) system"
  defines "A \<equiv> udp_env T S (linux_platform T KA) XA LA"
    and "B \<equiv> udp_env T S (linux_platform T KB) XB LB"
    and "log_a s \<equiv> log_of_a (sock_kernel (ub_socket (sys_backend s)))"
    and "log_b s' \<equiv> log_of_b (sock_kernel (ub_socket (sys_backend s')))"
  assumes "timestamp_ok T" and "serializer_ok S" and "layout_ok LA"
    and "kernel_ok KA" and "kernel_settles KA"
    and "kernel_log KA log_of_a" and "kernel_queue KA inbox_a"
    and "kernel_log KB log_of_b" and "kernel_queue KB inbox_b"
    and "config_checked T ctx_a = Inr cfg_a" and "config_checked T ctx_b = Inr cfg_b"
    and "identity_fits cfg_a" and "identity_fits cfg_b" and "cfg_node_id cfg_a \<noteq> cfg_node_id cfg_b"
    and "clock_ok T (sys_clock sa)" and "clock_ok T (sys_clock sb)" and "clock_ok T (sys_clock sa2)"
    and "probe_now A ctx_a sa = Some (True, sa1)"
    and "brings KB inbox_b (sys_backend sb) (fst (last (log_a sa1))) host port"
    and "engine_is_running B sb" and "poll_once B ctx_b sb = Some (True, sb1)"
    and "brings KA inbox_a (sys_backend sa2) (fst (last (log_b sb1))) host' port'"
    and "engine_reachable A ctx_a sa2" and "engine_is_running A sa2" and "0 < n"
  shows "\<exists>probe dest reply addr before k sa3.
    log_a sa1 = log_a sa @ [(probe, dest)] \<and>
    make_sockaddr KA (cfg_broadcast_host cfg_a) (cfg_broadcast_port cfg_a) = Some dest \<and>
    log_b sb1 = before @ [(reply, addr)] \<and> make_sockaddr KB host port = Some addr \<and>
    poll_many A ctx_a n sa2 = Some (k, sa3) \<and> registry_contains (engine_peers sa3) (cfg_node_id cfg_b)"
proof -
  let ?p = "probe_message_at A cfg_a (time_at sa 0)"
  have ca: "config_checked (api_time A) ctx_a = Inr cfg_a" and cb: "config_checked (api_time B) ctx_b = Inr cfg_b"
    using assms(14,15) by (simp_all add: A_def B_def)
  have ids: "local_node_id A ctx_a = cfg_node_id cfg_a" "local_node_id B ctx_b = cfg_node_id cfg_b"
    using local_node_id_config [OF ca] local_node_id_config [OF cb] by simp_all
  obtain dest where dest: "make_sockaddr KA (cfg_broadcast_host cfg_a) (cfg_broadcast_port cfg_a) = Some dest"
    and probe: "log_a sa1 = log_a sa @ [(encode_message S ?p, dest)]"
    using probe_now_log [OF assms(10,14,19) assms(22) [unfolded A_def]]
    by (auto simp: log_a_def A_def)
  have p: "message_fits ?p" "probes B ctx_b ?p"
    using engine_messages_fit(2) [OF _ ca assms(16), of "time_at sa 0"] clock_ok_time_at [OF assms(19)]
      assms(6,18) probe_reaches [OF ca, of B ctx_b] ids by (simp_all add: A_def)
  have here: "brings KB inbox_b (sys_backend sb) (encode_message S ?p) host port"
    using assms(23) probe by simp
  obtain t addr before where t: "ts_is_valid T t" and addr: "make_sockaddr KB host port = Some addr"
    and reply: "log_b sb1 = before @ [(encode_message S (reply_message_at B cfg_b ?p t), addr)]"
    using probe_answered_log [OF assms(12,13) assms(24) [unfolded B_def] assms(6) p(1)
        p(2) [unfolded B_def] here assms(15,20) assms(25) [unfolded B_def]]
    by (auto simp: log_b_def B_def)
  let ?r = "reply_message_at B cfg_b ?p t"
  have tb: "ts_is_valid (api_time B) t" using t by (simp add: B_def)
  have r: "message_fits ?r"
    by (rule engine_messages_fit(3) [OF _ cb assms(17) tb]) (use p(1) assms(6) in \<open>auto simp: B_def message_fits_def\<close>)
  have intro: "introduces A ctx_a ?r"
    by (rule reply_introduces [OF cb assms(17) tb]) (use assms(18) ids in \<open>simp_all add: A_def B_def\<close>)
  have there: "brings KA inbox_a (sys_backend sa2) (encode_message S ?r) host' port'"
    using assms(26) reply by simp
  have "\<exists>k s. poll_many A ctx_a n sa2 = Some (k, s) \<and> registry_contains (engine_peers s) (msg_from ?r)"
    by (rule brought_introduction_learned [where T = T and S = S and K = KA and X = XA and L = LA,
        folded A_def, OF assms(5-9,11,27,28,21) r intro there assms(29)])
  moreover have "msg_from ?r = cfg_node_id cfg_b" by (simp add: reply_message_at_def)
  ultimately show ?thesis
    using probe dest reply addr by auto
qed

text \<open>The handshake of the nodes of \<open>Scenario\<close>.\<close>

abbreviation demo_probe :: message where
  "demo_probe \<equiv> probe_message_at demo_env demo_config 5000"

abbreviation demo_source :: sockaddr where
  "demo_source \<equiv> \<lparr>sin_port = 9400, sin_addr = 1\<rparr>"

lemma demo_env_linux:
  "demo_env = udp_env demo_time demo_serializer (linux_platform demo_time demo_kernel) demo_transport id"
  by (simp add: demo_env_def demo_platform_def)

lemma demo_config_fits: "identity_fits demo_config"
  by (simp add: identity_fits_def demo_config_def demo_options_def to_config_def options_defs)

lemma demo_on:
  "sys_backend (demo_started_on k) = demo_mail k"
  "time_at (demo_started_on k) i = 5000"
  "brings demo_kernel fst (demo_mail ([(data, demo_source)], out)) data ''10.0.0.2'' 9400 \<longleftrightarrow>
     length data \<le> 65536"
  by (simp_all add: time_at_def demo_clock_def brings_def demo_mail_of_def socket_is_valid_def)
    (simp_all add: demo_started_on_def demo_mail_of_def demo_kernel_def c_str_def)

lemma demo_probe_facts:
  "message_fits demo_probe" "length (encode_message demo_serializer demo_probe) \<le> 65536"
  "probes demo_env (make_context demo_config_b) demo_probe"
proof -
  have c: "config_checked (api_time demo_env) demo_context = Inr demo_config" by simp
  show fits: "message_fits demo_probe"
    by (rule engine_messages_fit(2) [OF _ c demo_config_fits, of 5000]) simp_all
  from length_encode_message [OF demo_serializer_ok, of demo_probe] this
  show "length (encode_message demo_serializer demo_probe) \<le> 65536"
    by (simp add: message_fits_def probe_message_at_def minimum_message_size_def int_to_string_5000)
  show "probes demo_env (make_context demo_config_b) demo_probe"
    by (rule probe_reaches [OF c]) (simp add: local_node_id_def)
qed

lemma demo_sockaddr: "make_sockaddr demo_kernel ''127.0.0.1'' 9400 = Some demo_source"
  by (simp add: make_sockaddr_def demo_kernel_def c_str_def)

lemma demo_reply_length:
  assumes "ts_is_valid demo_time t"
  shows "length (encode_message demo_serializer (reply_message_at demo_env demo_config_b demo_probe t)) \<le> 65536"
proof -
  have c: "config_checked (api_time demo_env) (make_context demo_config_b) = Inr demo_config_b" by simp
  have h: "cfg_announce_host demo_config_b = ''127.0.0.1''"
    by (simp add: demo_config_b_def to_config_def options_defs config_default_def)
  have id: "cfg_node_id demo_config = ''node-a''" by simp
  note len = length_encode_message [OF demo_serializer_ok engine_messages_valid(3) [OF c]]
    length_encode_announcement [OF demo_serializer_ok local_announcement_valid [OF demo_config_b_facts(1) assms]]
  show ?thesis
    unfolding len(1)
    by (simp add: reply_message_at_def probe_message_at_def minimum_message_size_def int_to_string_5000 len(2))
      (simp add: local_announcement_def make_announcement_def h)
qed

lemma demo_send_keeps:
  "udp_send demo_time demo_serializer demo_platform (demo_mail (inbox, out)) e = Some (ok, b) \<Longrightarrow>
   \<exists>out'. b = demo_mail (inbox, out')"
  using udp_send_queue [OF demo_queue, of demo_time demo_serializer "demo_mail (inbox, out)" e ok b]
  by (cases b)
    (auto simp: udp_send_def demo_platform_def demo_mail_of_def Let_def bind_eq_Some_conv
      socket_send_datagram_def socket_send_to_def demo_kernel_def send_loop.simps
      split: if_splits option.splits)

lemma demo_probe_answered:
  "\<exists>s. poll_once demo_env (make_context demo_config_b)
     (demo_started_on ([(encode_message demo_serializer demo_probe, demo_source)], [])) = Some (True, s)"
proof -
  let ?k = "\<lambda>out. ([(encode_message demo_serializer demo_probe, demo_source)], out)"
  let ?s = "demo_started_on (?k [])" and ?c = "make_context demo_config_b"
  have here: "brings demo_kernel fst (sys_backend ?s) (encode_message demo_serializer demo_probe) ''10.0.0.2'' 9400"
    by (simp add: demo_on demo_probe_facts(2))
  note waits = brings_awaits [OF demo_serializer_ok demo_probe_facts(1) here]
  let ?E = "udp_env demo_time demo_serializer (linux_platform demo_time demo_kernel) demo_transport id"
  note E = demo_env_linux
  have c: "config_checked (api_time demo_env) ?c = Inr demo_config_b" by simp
  obtain ok s' where one: "poll_once ?E ?c ?s = Some (ok, s')"
    using udp_node.poll_once_returns [of demo_time demo_serializer demo_platform demo_transport id,
        folded demo_env_def, OF _ _ demo_backend_returns, of ?s ?c] by (auto simp: E)
  obtain e s1 sa t where eff: "engine_effects ?E ?c ?s s1" and e: "env_message e = demo_probe"
    and rest: "handle_inbound ?E ?c (Some e) s1 = Some (ok, s')"
    and sa: "maybe_announce ?E ?c ?s = Some sa" "udp_is_running (sys_backend sa)"
    and polled: "udp_poll demo_time demo_serializer demo_platform (sys_backend sa) t =
      Some (Some e, sys_backend s1, sys_clock s1)"
    using udp_queue.poll_once_takes [OF demo_queue demo_started_facts(5) [unfolded E] waits(1) one]
    unfolding udp_env_simps udp_backend_api_simps demo_platform_def by metis
  obtain out where out: "sys_backend sa = demo_mail (?k out)"
    using udp_queue.maybe_announce_backend
        [where P = "\<lambda>b. \<exists>out. b = demo_mail (?k out)", OF _ _ sa(1)] demo_send_keeps
    by (fastforce simp: demo_on demo_platform_def)
  have s1: "sys_backend s1 = demo_mail ([], out)"
    using demo_mail_poll [OF demo_probe_facts(1,2), of "[]" out t] polled by (auto simp: out)
  have src: "env_from_host e = ''10.0.0.2''" "env_from_port e = 9400"
    using udp_poll_queue [OF demo_queue sa(2), of demo_serializer demo_probe "[]" demo_time t] polled
      brings_awaits [OF demo_serializer_ok demo_probe_facts(1), of demo_kernel fst "demo_mail (?k out)"
        "''10.0.0.2''" 9400]
    by (auto simp: out demo_on demo_probe_facts(2) demo_platform_def)
  have clock: "clock_ok (api_time demo_env) (sys_clock s1)"
    using effects_clock [OF eff] by (simp add: clock_ok_def demo_clock_def)
  have here: "envelope_has_source e" by (simp add: envelope_has_source_def src)
  let ?r = "first_attempt demo_env (reply_message_at demo_env demo_config_b demo_probe (time_at s1 0))
      ''10.0.0.2'' 9400 (time_at s1 1) (time_at s1 2)"
  have "message_is_valid (env_message ?r)" "0 < sint (env_timestamp ?r)"
      "c_str (env_to_host ?r) \<noteq> []" "env_to_port ?r \<noteq> 0"
    using engine_messages_valid(3) [OF c] clock_ok_time_at [OF clock, of 1]
    by (simp_all add: first_attempt_def envelope_defs envelope_mark_attempt_def c_str_def)
  from demo_mail_send [OF this, of demo_config "[]" out]
  have "\<exists>b. udp_send demo_time demo_serializer demo_platform (sys_backend s1) ?r = Some (True, b)"
    by (auto simp: s1)
  moreover have "handle_probe demo_env ?c e s1 = Some (ok, s')"
    using rest demo_probe_facts(3) by (simp add: handle_inbound_def e probes_def flip: E)
  ultimately have "ok" using handle_probe_eq [OF here c clock] by (auto simp: e src)
  with one show ?thesis by (auto simp: E)
qed

lemma demo_probe_sent:
  "\<exists>s. probe_now demo_env demo_context demo_started = Some (True, s) \<and>
     snd (sock_kernel (ub_socket (sys_backend s))) = [(encode_message demo_serializer demo_probe, demo_source)]"
proof -
  have c: "config_checked (api_time demo_env) demo_context = Inr demo_config" by simp
  have clock: "clock_ok demo_time (sys_clock demo_started)" by simp
  let ?e = "first_attempt demo_env demo_probe ''127.0.0.1'' 9400 5000 5000"
  have "message_is_valid (env_message ?e)" "0 < sint (env_timestamp ?e)"
      "c_str (env_to_host ?e) \<noteq> []" "env_to_port ?e \<noteq> 0"
    using demo_probe_facts(1)
    by (simp_all add: first_attempt_def envelope_defs envelope_mark_attempt_def c_str_def message_fits_def)
  from demo_mail_send [OF this] obtain s where
    s: "probe_now demo_env demo_context demo_started = Some (True, s)"
    using probe_now_eq [OF demo_started_facts(5) c] by (fastforce simp: demo_on)
  then show ?thesis
    using probe_now_log [OF demo_log demo_config_checked clock s [unfolded demo_env_linux]]
    by (simp add: demo_on demo_mail_of_def demo_sockaddr flip: demo_env_linux)
qed

lemma demo_reply_sent:
  "\<exists>s before addr t. poll_once demo_env (make_context demo_config_b)
     (demo_started_on ([(encode_message demo_serializer demo_probe, demo_source)], [])) = Some (True, s) \<and>
     ts_is_valid demo_time t \<and> snd (sock_kernel (ub_socket (sys_backend s))) =
       before @ [(encode_message demo_serializer (reply_message_at demo_env demo_config_b demo_probe t), addr)]"
proof -
  let ?s = "demo_started_on ([(encode_message demo_serializer demo_probe, demo_source)], [])"
  obtain s where s: "poll_once demo_env (make_context demo_config_b) ?s = Some (True, s)"
    using demo_probe_answered by blast
  have here: "brings demo_kernel fst (sys_backend ?s) (encode_message demo_serializer demo_probe) ''10.0.0.2'' 9400"
    by (simp add: demo_on demo_probe_facts(2))
  have clock: "clock_ok demo_time (sys_clock ?s)" by simp
  from probe_answered_log [of demo_kernel snd fst demo_time demo_serializer demo_transport id,
      folded demo_env_linux, OF demo_log demo_queue demo_started_facts(5) demo_serializer_ok
      demo_probe_facts(1,3) here demo_config_b_facts(1) clock s] s
  show ?thesis by blast
qed

theorem probe_crosses_network_witness:
  "\<exists>sa1 probe sb1 before reply addr k sa3.
     probe_now demo_env demo_context demo_started = Some (True, sa1) \<and>
     snd (sock_kernel (ub_socket (sys_backend sa1))) = [(probe, demo_source)] \<and>
     poll_once demo_env (make_context demo_config_b) (demo_started_on ([(probe, demo_source)], [])) =
       Some (True, sb1) \<and>
     snd (sock_kernel (ub_socket (sys_backend sb1))) = before @ [(reply, addr)] \<and>
     poll_many demo_env demo_context 4 (demo_started_on ([(reply, demo_source)], [])) = Some (k, sa3) \<and>
     registry_contains (engine_peers sa3) ''node-b''"
proof -
  let ?probe = "encode_message demo_serializer demo_probe"
  obtain sa1 where sa1: "probe_now demo_env demo_context demo_started = Some (True, sa1)"
    and log1: "snd (sock_kernel (ub_socket (sys_backend sa1))) = [(?probe, demo_source)]"
    using demo_probe_sent by blast
  obtain sb1 before addr t where t: "ts_is_valid demo_time t"
    and sb1: "poll_once demo_env (make_context demo_config_b) (demo_started_on ([(?probe, demo_source)], [])) =
      Some (True, sb1)"
    and log2: "snd (sock_kernel (ub_socket (sys_backend sb1))) =
      before @ [(encode_message demo_serializer (reply_message_at demo_env demo_config_b demo_probe t), addr)]"
    using demo_reply_sent by blast
  let ?reply = "encode_message demo_serializer (reply_message_at demo_env demo_config_b demo_probe t)"
  have here: "brings demo_kernel fst (sys_backend (demo_started_on ([(?probe, demo_source)], [])))
      (fst (last (snd (sock_kernel (ub_socket (sys_backend sa1)))))) ''10.0.0.2'' 9400"
    by (simp add: demo_on log1 demo_probe_facts(2))
  have there: "brings demo_kernel fst (sys_backend (demo_started_on ([(?reply, demo_source)], [])))
      (fst (last (snd (sock_kernel (ub_socket (sys_backend sb1)))))) ''10.0.0.2'' 9400"
    by (simp add: demo_on log2 demo_reply_length [OF t])
  have ids: "cfg_node_id demo_config \<noteq> cfg_node_id demo_config_b" by simp
  have clock: "clock_ok demo_time (sys_clock (demo_started_on k))" for k by simp
  from probe_crosses_network [where T = demo_time and S = demo_serializer and XA = demo_transport
      and XB = demo_transport and LA = id and LB = id and KA = demo_kernel and KB = demo_kernel,
      folded demo_env_linux, OF demo_timestamp_ok demo_serializer_ok layout_id demo_kernel_ok
      demo_kernel_settles demo_log demo_queue demo_log demo_queue demo_config_checked demo_config_b_facts(1)
      demo_config_fits demo_config_b_facts(2) ids clock clock clock sa1 here demo_started_facts(5) sb1 there
      demo_started_reachable demo_started_facts(5), of 4]
  have "\<exists>k sa3. poll_many demo_env demo_context 4 (demo_started_on ([(?reply, demo_source)], [])) =
      Some (k, sa3) \<and> registry_contains (engine_peers sa3) ''node-b''"
    by auto
  with sa1 log1 sb1 log2 show ?thesis by blast
qed

end
