(* ===== verification/Recency.thy ===== *)
theory Recency
  imports Ownership Heard
begin

text \<open>
  The list of peers as a statement about time.  With a clock that does not go back, the states
  that the engine keeps say how long ago a peer was heard: after every poll the available peers
  are those that were seen less than half of \<open>peer_ttl\<close> before the sweep of this poll.  That an
  expired peer may turn stale again does not matter here, because neither state is available.
\<close>

section \<open>Clocks that do not go back\<close>

abbreviation millis_at :: "('t, 'd) time_api \<Rightarrow> 't clock \<Rightarrow> nat \<Rightarrow> int" where
  "millis_at T c i \<equiv> sint (ts_millis T (readings c i))"

definition steady :: "('t, 'd) time_api \<Rightarrow> 't clock \<Rightarrow> bool" where
  "steady T c \<longleftrightarrow> (\<forall>i j. i \<le> j \<longrightarrow> millis_at T c i \<le> millis_at T c j)"

lemma steadyD: "steady T c \<Longrightarrow> i \<le> j \<Longrightarrow> millis_at T c i \<le> millis_at T c j"
  by (simp add: steady_def)

lemma steady_readings: "readings c' = readings c \<Longrightarrow> steady T c' = steady T c"
  by (simp add: steady_def)

section \<open>A registry swept at a time\<close>

text \<open>The last sweep was at \<open>t\<close>, and the peers seen less than \<open>stale\<close> before it are the available ones.\<close>

definition swept :: "('t, 'd) time_api \<Rightarrow> int \<Rightarrow> int \<Rightarrow> ('t, 'b, 'x) system \<Rightarrow> bool" where
  "swept T stale t s \<longleftrightarrow>
     (\<forall>i \<ge> ticks (sys_clock s). t \<le> millis_at T (sys_clock s) i) \<and>
     (\<forall>k p. um_find (eng_registry s) k = Some p \<longrightarrow> dp_state p \<noteq> PS_Discovered \<and>
        (dp_state p = PS_Alive \<longleftrightarrow> t - sint (ts_millis T (dp_last_seen_at p)) < stale))"

lemma swept_later:
  "swept T stale t s \<Longrightarrow> eng_registry s' = eng_registry s \<Longrightarrow>
   readings (sys_clock s') = readings (sys_clock s) \<Longrightarrow> ticks (sys_clock s) \<le> ticks (sys_clock s') \<Longrightarrow>
   swept T stale t s'"
  by (simp add: swept_def)

lemma swept_talks: "swept T stale t s \<Longrightarrow> talks E s s' \<Longrightarrow> swept T stale t s'"
  by (rule swept_later [where s = s]) (simp_all add: talks_def)

lemma swept_empty:
  "steady T (sys_clock s) \<Longrightarrow> eng_registry s = [] \<Longrightarrow>
   swept T stale (millis_at T (sys_clock s) (ticks (sys_clock s))) s"
  by (simp add: swept_def steady_def um_find_def)

text \<open>A sweep at a later time decides the state of every peer anew.\<close>

lemma refreshed_alive:
  assumes "stale \<le> expire" and "st \<noteq> PS_Discovered" and "st = PS_Alive \<longleftrightarrow> age0 < stale" and "age0 \<le> age"
  shows "refreshed_state stale expire age st \<noteq> PS_Discovered \<and>
    (refreshed_state stale expire age st = PS_Alive \<longleftrightarrow> age < stale)"
  using assms by (auto simp: refreshed_state_def)

lemma swept_refresh:
  assumes T: "timestamp_ok (api_time E)" and c: "config_checked (api_time E) ctx = Inr c"
    and stale: "sint (dur_millis (api_time E) (stale_after (api_time E) c)) = stale"
      "stale \<le> sint (dur_millis (api_time E) (cfg_peer_ttl c))"
    and seen: "peers_seen E s" and steady: "steady (api_time E) (sys_clock s)"
    and s: "swept (api_time E) stale t s" and got: "refresh_peer_states E ctx s = Some s'"
  shows "swept (api_time E) stale (millis_at (api_time E) (sys_clock s) (ticks (sys_clock s))) s' \<and>
    readings (sys_clock s') = readings (sys_clock s) \<and> ticks (sys_clock s') = Suc (ticks (sys_clock s))"
proof -
  let ?t = "time_at s 0" and ?now = "millis_at (api_time E) (sys_clock s) (ticks (sys_clock s))"
  let ?p = "refreshed_peer (api_time E) ?t (stale_after (api_time E) c) (cfg_peer_ttl c)"
  have t: "?t = readings (sys_clock s) (ticks (sys_clock s))" by (simp add: time_at_def)
  have valid: "ts_is_valid (api_time E) ?t"
    using peers_seenD(1) [OF seen] by (rule clock_ok_time_at)
  have s': "s' = (advance 1 s)\<lparr>eng_registry := map (\<lambda>(k, p). (k, ?p p)) (eng_registry s)\<rparr>"
    using got c by (simp add: refresh_peer_states_def sys_now_eq refresh_states_eq [OF T valid])
  have "dp_state (?p p) \<noteq> PS_Discovered \<and>
      (dp_state (?p p) = PS_Alive \<longleftrightarrow> ?now - sint (ts_millis (api_time E) (dp_last_seen_at (?p p))) < stale)"
    if p: "um_find (eng_registry s) k = Some p" for k p
  proof -
    have "dp_state p \<noteq> PS_Discovered"
      and "dp_state p = PS_Alive \<longleftrightarrow> t - sint (ts_millis (api_time E) (dp_last_seen_at p)) < stale"
      and "t \<le> ?now" using s p by (auto simp: swept_def)
    then show ?thesis
      using refreshed_alive [OF stale(2), of "dp_state p"
          "t - sint (ts_millis (api_time E) (dp_last_seen_at p))"
          "peer_age (api_time E) ?t p"] peers_seenD(3) [OF seen p]
      by (simp add: refreshed_peer_def stale(1) peer_age_def t)
  qed
  moreover have "\<forall>i \<ge> Suc (ticks (sys_clock s)). ?now \<le> millis_at (api_time E) (sys_clock s) i"
    using steady by (simp add: steady_def)
  ultimately show ?thesis
    by (auto simp: swept_def s' um_find_map)
qed

text \<open>A peer that is learned was seen after the last sweep.\<close>

lemma swept_learn:
  assumes L: "layout_ok (api_layout E)" and wf: "um_wf (eng_registry s)"
    and a: "announcement_is_valid (api_time E) a" and stale: "0 < stale"
    and s: "swept (api_time E) stale t s"
  shows "swept (api_time E) stale t (integrate_with_transport E ctx a (upsert_discovered_peer E a s))"
proof -
  let ?u = "registry_upsert_announcement (api_time E) (api_layout E) (eng_registry s) a (sys_clock s)"
  let ?s' = "integrate_with_transport E ctx a (upsert_discovered_peer E a s)"
  have clock: "sys_clock (upsert_discovered_peer E a s) = snd ?u"
    by (simp add: upsert_discovered_peer_def Let_def case_prod_unfold)
  have "ticks (sys_clock s) \<le> ticks (snd ?u)"
    by (auto simp: registry_upsert_announcement_def Let_def now_def split: option.splits)
  moreover have "readings (snd ?u) = readings (sys_clock s)" by (rule upsert_announcement_clock)
  moreover obtain i where i: "ticks (sys_clock s) \<le> i"
      "dp_last_seen_at (announced_peer (eng_registry s) a (sys_clock s)) = readings (sys_clock s) i"
    using announced_peer_later by blast
  moreover have "t - millis_at (api_time E) (sys_clock s) i < stale"
    using i(1) s stale by (fastforce simp: swept_def)
  ultimately show ?thesis
    using s upsert_announcement_lookup [OF L wf a, of "sys_clock s"]
    unfolding swept_def learn_frame clock by (auto simp: announced_peer_simps)
qed

section \<open>Polls\<close>

text \<open>The ageing thresholds of a context, where it has a configuration.\<close>

definition turns_stale :: "('t, 'd) time_api \<Rightarrow> 'd discovery_context \<Rightarrow> int \<Rightarrow> bool" where
  "turns_stale T ctx stale \<longleftrightarrow> 0 < stale \<and>
     (\<forall>c. config_checked T ctx = Inr c \<longrightarrow>
        sint (dur_millis T (stale_after T c)) = stale \<and> stale \<le> sint (dur_millis T (cfg_peer_ttl c)))"

context discovery_node
begin

lemma handle_inbound_swept:
  assumes "layout_ok (api_layout E)" and "um_wf (eng_registry s)" and "0 < stale"
    and "swept (api_time E) stale t s" and "handle_inbound E ctx got s = Some (ok, s')"
  shows "swept (api_time E) stale t s'"
proof -
  have announce: "swept (api_time E) stale t s'" if "handle_announce E ctx e s = Some (ok, s')" for e
    using that assms(4) swept_learn [OF assms(1,2) _ assms(3,4)]
    by (auto simp: handle_announce_def bind_eq_Some_conv Let_def split: option.splits if_splits)
  show ?thesis
    using assms(5) announce swept_talks [OF assms(4) handle_probe_talks] assms(4)
    unfolding handle_inbound_def handle_reply_announce
    by (auto split: option.splits if_splits message_type.splits)
qed

lemma handle_inbound_ticks:
  assumes "handle_inbound E ctx got s = Some (ok, s')"
  shows "ticks (sys_clock s) \<le> ticks (sys_clock s')"
proof -
  have announce: "ticks (sys_clock s) \<le> ticks (sys_clock s')" if "handle_announce E ctx e s = Some (ok, s')" for e
    using that upsert_discovered_ticks [of s E]
    by (auto simp: handle_announce_def bind_eq_Some_conv Let_def integrate_frame split: option.splits if_splits)
  show ?thesis
    using assms announce talksD(6) [OF handle_probe_talks]
    unfolding handle_inbound_def handle_reply_announce
    by (auto split: option.splits if_splits message_type.splits)
qed

lemma poll_once_swept:
  assumes T: "timestamp_ok (api_time E)" and L: "layout_ok (api_layout E)"
    and stale: "turns_stale (api_time E) ctx stale"
    and steady: "steady (api_time E) (sys_clock s)"
    and inv: "engine_inv E ctx s" "engine_is_running E s" and seen: "peers_seen E s"
    and s: "swept (api_time E) stale t s" and got: "poll_once E ctx s = Some (ok, s')"
  shows "\<exists>i \<ge> ticks (sys_clock s). i < ticks (sys_clock s') \<and>
    swept (api_time E) stale (millis_at (api_time E) (sys_clock s) i) s'"
proof -
  from poll_once_running [OF inv(2) got] obtain s1 s2 inbound b c where
    s1: "maybe_announce E ctx s = Some s1" and
    s2: "refresh_peer_states E ctx s1 = Some s2" and
    polled: "server_poll (api_backend E) (sys_backend s2) (sys_clock s2) = Some (inbound, b, c)" and
    rest: "handle_inbound E ctx inbound (s2\<lparr>sys_backend := b, sys_clock := c\<rparr>) = Some (ok, s')"
    by metis
  have run: "eng_status s = DS_Running" using inv by (simp add: engine_inv_running)
  then obtain cfg where cfg: "config_checked (api_time E) ctx = Inr cfg"
    using inv(1) by (auto simp: engine_inv_def context_is_valid_def config_checked_Inr
        split: option.splits)
  note t1 = maybe_announce_talks [OF s1]
  note eff1 = talks_effects [OF t1]
  have seen1: "peers_seen E s1" by (rule engine_effects_seen [OF eff1 L inv(1) run seen])
  have steady1: "steady (api_time E) (sys_clock s1)"
    using steady talksD(5) [OF t1] by (simp add: steady_def)
  from stale cfg have th: "sint (dur_millis (api_time E) (stale_after (api_time E) cfg)) = stale"
      "stale \<le> sint (dur_millis (api_time E) (cfg_peer_ttl cfg))" and pos: "0 < stale"
    by (simp_all add: turns_stale_def)
  let ?i = "ticks (sys_clock s1)"
  have sw2: "swept (api_time E) stale (millis_at (api_time E) (sys_clock s1) ?i) s2 \<and>
      readings (sys_clock s2) = readings (sys_clock s1) \<and> ticks (sys_clock s2) = Suc ?i"
    by (rule swept_refresh [OF T cfg th seen1 steady1 swept_talks [OF s t1] s2])
  let ?s3 = "s2\<lparr>sys_backend := b, sys_clock := c\<rparr>"
  note t3 = poll_talks [OF polled]
  have eff3: "engine_effects E ctx s ?s3"
    using eff1 refresh_peer_states_effects [OF s2] talks_effects [OF t3] by (meson rtranclp_trans)
  then have "um_wf (eng_registry ?s3)"
    using engine_effects_inv [OF eff3 L inv(1) run] by (auto simp: engine_inv_def dest: registry_wf_um)
  from handle_inbound_swept [OF L this pos swept_talks [OF conjunct1 [OF sw2] t3] rest]
  have "swept (api_time E) stale (millis_at (api_time E) (sys_clock s1) ?i) s'" .
  moreover have "?i < ticks (sys_clock s')"
    using sw2 talksD(6) [OF t3] handle_inbound_ticks [OF rest] by simp
  ultimately show ?thesis
    using talksD(5,6) [OF t1] by (intro exI [of _ ?i]) simp
qed

lemma poll_loop_first:
  assumes "poll_loop E ctx (Suc n) p s = Some (k, s')"
  obtains ok s1 where "poll_once E ctx s = Some (ok, s1)"
    and "(if ok then poll_loop E ctx n (p + 1) s1 else Some (p, s1)) = Some (k, s')"
  using assms by (auto simp: bind_eq_Some_conv split: if_splits)

lemma poll_loop_swept:
  assumes T: "timestamp_ok (api_time E)" and L: "layout_ok (api_layout E)"
    and stale: "turns_stale (api_time E) ctx stale"
  shows "steady (api_time E) (sys_clock s) \<Longrightarrow> engine_inv E ctx s \<Longrightarrow> engine_is_running E s \<Longrightarrow>
    peers_seen E s \<Longrightarrow> swept (api_time E) stale t s \<Longrightarrow> poll_loop E ctx (Suc n) p s = Some (k, s') \<Longrightarrow>
    \<exists>i \<ge> ticks (sys_clock s). i < ticks (sys_clock s') \<and>
      swept (api_time E) stale (millis_at (api_time E) (sys_clock s) i) s'"
proof (induction n arbitrary: s t p)
  case 0
  then show ?case
    using poll_once_swept [OF T L stale 0(1-5)] by (auto simp: bind_eq_Some_conv split: if_splits)
next
  case (Suc n)
  from Suc.prems(6) obtain ok s1 where one: "poll_once E ctx s = Some (ok, s1)"
    and rest: "(if ok then poll_loop E ctx (Suc n) (p + 1) s1 else Some (p, s1)) = Some (k, s')"
    by (rule poll_loop_first)
  obtain i where i: "ticks (sys_clock s) \<le> i" "i < ticks (sys_clock s1)"
      "swept (api_time E) stale (millis_at (api_time E) (sys_clock s) i) s1"
    using poll_once_swept [OF T L stale Suc.prems(1-5) one] by blast
  show ?case
  proof (cases ok)
    case True
    note eff = poll_once_effects [OF one]
    have run: "eng_status s = DS_Running" using Suc.prems(2,3) by (simp add: engine_inv_running)
    from engine_effects_inv [OF eff L Suc.prems(2) run] engine_effects_seen [OF eff L Suc.prems(2) run Suc.prems(4)]
    have s1: "engine_inv E ctx s1" "peers_seen E s1" "engine_is_running E s1"
      using engine_inv_running [of ctx s1] by auto
    have clock: "readings (sys_clock s1) = readings (sys_clock s)" by (rule effects_clock [OF eff])
    have "steady (api_time E) (sys_clock s1)" using Suc.prems(1) by (simp add: steady_readings [OF clock])
    then obtain j where "ticks (sys_clock s1) \<le> j" "j < ticks (sys_clock s')"
        "swept (api_time E) stale (millis_at (api_time E) (sys_clock s) j) s'"
      using Suc.IH [OF _ s1(1,3,2) i(3)] rest True clock by auto
    then show ?thesis using i(1,2) by (intro exI [of _ j]) simp
  qed (use rest i in auto)
qed

lemma engine_step_readings:
  "engine_step E ctx s s' \<Longrightarrow> readings (sys_clock s') = readings (sys_clock s)"
proof (induction rule: engine_step.induct)
  case (started s ok s')
  then show ?case by (auto simp: engine_start_def bind_eq_Some_conv Let_def split: if_splits)
next
  case (stopped s)
  then show ?case by (simp add: engine_stop_def Let_def)
next
  case (polled L s ok s')
  then show ?case using effects_clock discovery_node.poll_once_effects [OF node_layout] by blast
next
  case (polled_many L n s k s')
  then show ?case
    using effects_clock discovery_node.poll_loop_effects [OF node_layout] unfolding poll_many_def by blast
qed (auto dest: announce_now_talks probe_now_talks talksD(5))

text \<open>Some sweep has decided the states at every moment between two calls.\<close>

lemma engine_step_swept:
  assumes T: "timestamp_ok (api_time E)" and stale: "turns_stale (api_time E) ctx stale"
    and steady: "steady (api_time E) (sys_clock s)"
    and inv: "engine_inv E ctx s" and seen: "peers_seen E s"
    and s: "swept (api_time E) stale t s" and step: "engine_step E ctx s s'"
  shows "\<exists>t. swept (api_time E) stale t s'"
proof -
  have idle: ?thesis if "s' = s" using s that by blast
  show ?thesis
    using step
  proof cases
    case (started ok)
    then have "eng_registry s' = eng_registry s \<and> sys_clock s' = sys_clock s"
      by (auto simp: engine_start_def bind_eq_Some_conv Let_def split: if_splits)
    then show ?thesis using swept_later [OF s, of s'] by auto
  next
    case stopped
    have "sys_clock s' = sys_clock s"
      by (simp add: stopped engine_stop_def Let_def)
    then show ?thesis
      using swept_empty [of "api_time E" s' stale] engine_stop_outcome(3) [OF inv] steady
      by (auto simp: stopped)
  next
    case (announced ok)
    then show ?thesis using swept_talks [OF s announce_now_talks] by blast
  next
    case (probed ok)
    then show ?thesis using swept_talks [OF s probe_now_talks] by blast
  next
    case (polled L ok)
    show ?thesis
      using discovery_node.poll_once_swept [OF node_layout, of L ctx stale s t ok s']
        discovery_node.not_running_nothing(3) [OF node_layout, of L s ctx] idle polled assms
      by (cases "engine_is_running E s") auto
  next
    case (polled_many L n k)
    show ?thesis
    proof (cases "engine_is_running E s \<and> n \<noteq> 0")
      case True
      then obtain m where "n = Suc m" by (cases n) auto
      then show ?thesis
        using discovery_node.poll_loop_swept [OF node_layout, of L ctx stale s t m 0 k s'] polled_many assms True
        by (auto simp: poll_many_def simp del: poll_loop.simps)
    next
      case False
      then show ?thesis
        using discovery_node.not_running_nothing(4) [OF node_layout, of L s ctx n] idle polled_many
        by (auto simp: poll_many_def)
    qed
  qed
qed

end

section \<open>The service\<close>

lemma listed_ids:
  assumes wf: "registry_wf T r" and known: "\<And>k p. um_find r k = Some p \<Longrightarrow> dp_state p \<noteq> PS_Discovered"
  shows "pub_node_id ` set (map public_view (available_peers r)) =
    {k. \<exists>p. um_find r k = Some p \<and> dp_state p = PS_Alive}"
proof -
  have id: "pub_node_id (public_view p) = peer_node_id p" for p :: "'a discovered_peer"
    by (simp add: public_view_def from_discovered_peer_def make_public_peer_def peer_node_id_def)
  have listed: "\<exists>k. um_find r k = Some p \<and> dp_state p = PS_Alive" if p: "p \<in> set (available_peers r)" for p
    using available_peers_find [OF registry_wf_um [OF wf] p] known
    by (auto simp: peer_available_def is_available_def)
  have "p \<in> set (available_peers r)" if "um_find r k = Some p" "dp_state p = PS_Alive" for k p
    using that by (force simp: um_find_def available_peers_def peer_available_def is_available_def
        dest: map_of_SomeD)
  with listed registry_wfD(1) [OF wf] show ?thesis by (force simp: id)
qed

text \<open>The time after which the peers of a service turn stale, from its options.\<close>

definition stale_millis :: "('t, 'd) time_api \<Rightarrow> 'd options \<Rightarrow> int" where
  "stale_millis T opts = sint (dur_millis T (opt_peer_ttl opts)) div 2"

lemma service_turns_stale:
  assumes D: "duration_ok T" and ttl: "2 \<le> sint (dur_millis T (opt_peer_ttl opts))"
    and inv: "service_inv T S P X opts v"
  shows "turns_stale T (svc_context v) (stale_millis T opts)"
proof -
  have "cfg_peer_ttl c = opt_peer_ttl opts" if "config_checked T (svc_context v) = Inr c" for c
    using that inv by (auto simp: service_inv_def config_checked_Inr make_context_def to_config_def)
  then show ?thesis
    using stale_after_half [OF D] ttl by (auto simp: turns_stale_def stale_millis_def)
qed

lemma service_step_swept:
  assumes T: "timestamp_ok T" and D: "duration_ok T" and ttl: "2 \<le> sint (dur_millis T (opt_peer_ttl opts))"
    and inv: "service_inv T S P X opts v" and steady: "steady T (sys_clock (svc_system v))"
    and v: "swept T (stale_millis T opts) t (svc_system v)" and step: "service_step T S P X (v, h) (v', h')"
  shows "\<exists>t. swept T (stale_millis T opts) t (svc_system v')"
proof -
  note stale = service_turns_stale [OF D ttl inv]
  from service_step_engine [OF step] obtain s where clock: "same_but_clock s (svc_system v')" and
    s_cases: "s = svc_system v \<or> (\<exists>L. engine_step (udp_env T S P X L) (svc_context v) (svc_system v) s)"
    by blast
  have "\<exists>t. swept T (stale_millis T opts) t s"
    using s_cases
  proof (elim disjE exE)
    fix L assume step: "engine_step (udp_env T S P X L) (svc_context v) (svc_system v) s"
    have eng: "engine_inv (udp_env T S P X L) (svc_context v) (svc_system v)"
        "peers_seen (udp_env T S P X L) (svc_system v)"
      using service_inv_ok [OF inv] by (simp_all add: engine_ok_any [where L = L])
    show ?thesis
      using udp_node.engine_step_swept [of T S P X L, OF _ _ _ eng _ step] T stale steady v by simp
  qed (use v in blast)
  then show ?thesis using clock by (auto simp: same_but_clock_def intro: swept_later)
qed

text \<open>A peer that was heard less than the time to turn stale before the last sweep is listed.\<close>

lemma heard_listed:
  assumes inv: "service_inv T S P X opts v" and steady: "steady T (sys_clock (svc_system v))"
    and swept: "swept T stale (millis_at T (sys_clock (svc_system v)) i) (svc_system v)"
    and heard: "heard_since n (svc_system v) k"
    and brief: "millis_at T (sys_clock (svc_system v)) i - millis_at T (sys_clock (svc_system v)) n < stale"
  shows "k \<in> pub_node_id ` set (fst (service_peers (udp_env T S P X L) v))"
proof -
  have eng: "engine_inv (udp_env T S P X L) (svc_context v) (svc_system v)"
      "peers_seen (udp_env T S P X L) (svc_system v)"
    using service_inv_ok [OF inv] by (simp_all add: engine_ok_any [where L = L])
  have wf: "registry_wf T (eng_registry (svc_system v))" using eng(1) by (simp add: engine_inv_def)
  obtain p j where p: "um_find (eng_registry (svc_system v)) k = Some p" and j: "n \<le> j"
      "dp_last_seen_at p = readings (sys_clock (svc_system v)) j"
    using heard by (auto simp: heard_since_def)
  have "millis_at T (sys_clock (svc_system v)) n \<le> millis_at T (sys_clock (svc_system v)) j"
    by (rule steadyD [OF steady j(1)])
  then have "dp_state p = PS_Alive" using swept p j(2) brief by (auto simp: swept_def)
  with p show ?thesis
    unfolding service_peers_eq [OF eng]
    using listed_ids [OF wf] swept by (auto simp: swept_def)
qed

lemma service_step_readings:
  assumes "service_step T S P X (v, h) (v', h')"
  shows "readings (sys_clock (svc_system v')) = readings (sys_clock (svc_system v))"
  using service_step_engine [OF assms] udp_node.engine_step_readings
  by (auto simp: same_but_clock_def)

lemma service_reachable_swept:
  assumes T: "timestamp_ok T" and D: "duration_ok T" and ttl: "2 \<le> sint (dur_millis T (opt_peer_ttl opts))"
  shows "service_reachable T S P X opts vh \<Longrightarrow> steady T (sys_clock (svc_system (fst vh))) \<Longrightarrow>
    \<exists>t. swept T (stale_millis T opts) t (svc_system (fst vh))"
proof (induction rule: service_reachable.induct)
  case (service_created c x k h)
  then show ?case
    using swept_empty [of T "svc_system (make_service T opts x k c)"]
    by (auto simp: make_service_def Let_def make_system_def)
next
  case (service_continues vh vh')
  have inv: "service_inv T S P X opts (fst vh)" by (rule service_reachable_inv [OF service_continues(1)])
  have step: "service_step T S P X (fst vh, snd vh) (fst vh', snd vh')" using service_continues(2) by simp
  have steady: "steady T (sys_clock (svc_system (fst vh)))"
    using service_continues.prems by (simp add: steady_readings [OF service_step_readings [OF step]])
  from service_continues.IH [OF this] service_step_swept [OF T D ttl inv steady _ step] show ?case by blast
qed

text \<open>After a call of \<open>poll_many\<close> that may handle a message, the last sweep was during this call.\<close>

lemma service_poll_many_swept:
  assumes T: "timestamp_ok T" and D: "duration_ok T" and L: "layout_ok L"
    and ttl: "2 \<le> sint (dur_millis T (opt_peer_ttl opts))"
    and reach: "service_reachable T S P X opts (v, h)" and steady: "steady T (sys_clock (svc_system v))"
    and run: "service_is_running (udp_env T S P X L) v"
    and got: "service_poll_many (udp_env T S P X L) (Suc n) v h = Some (k, v', h')"
  shows "\<exists>i < ticks (sys_clock (svc_system v')).
    swept T (stale_millis T opts) (millis_at T (sys_clock (svc_system v')) i) (svc_system v')"
proof -
  let ?E = "udp_env T S P X L" and ?c = "sys_clock (svc_system v)"
  from service_reachable_inv [OF reach] have inv: "service_inv T S P X opts v" by simp
  have eng: "engine_inv ?E (svc_context v) (svc_system v)" "peers_seen ?E (svc_system v)"
    using service_inv_ok [OF inv] by (simp_all add: engine_ok_any [where L = L])
  obtain t where t: "swept T (stale_millis T opts) t (svc_system v)"
    using service_reachable_swept [OF T D ttl reach] steady by auto
  obtain s where s: "poll_loop ?E (svc_context v) (Suc n) 0 (svc_system v) = Some (k, s)"
    and v': "v' = fst (notify_new_peers ?E (v\<lparr>svc_system := s\<rparr>) h)"
    using got by (auto simp: service_poll_many_def poll_many_def bind_eq_Some_conv case_prod_unfold
        simp del: poll_loop.simps)
  have run: "engine_is_running ?E (svc_system v)" using run by (simp add: service_is_running_def)
  obtain i where i: "i < ticks (sys_clock s)" and sw: "swept T (stale_millis T opts) (millis_at T ?c i) s"
    using udp_node.poll_loop_swept [OF _ _ _ _ eng(1) run eng(2) _ s] service_turns_stale [OF D ttl inv]
      T L steady t by auto
  have clock: "same_but_clock s (svc_system v')"
    using notify_new_peers_clock [of "v\<lparr>svc_system := s\<rparr>" ?E h] by (simp add: v')
  have "readings (sys_clock s) = readings ?c" by (rule effects_clock [OF udp_node.poll_loop_effects [OF s]])
  with clock have same: "readings (sys_clock (svc_system v')) = readings ?c" by (simp add: same_but_clock_def)
  have "swept T (stale_millis T opts) (millis_at T ?c i) (svc_system v')"
    using swept_later [OF sw, of "svc_system v'"] clock by (simp add: same_but_clock_def)
  then show ?thesis
    using i clock by (intro exI [of _ i]) (simp add: same same_but_clock_def)
qed

end
