(* ===== verification/Recency_Properties.thy ===== *)
theory Recency_Properties
  imports Recency Network_Members
begin

text \<open>
  Which peers a service lists, as a statement about time.
\<close>

text \<open>
  C6.  The list is what was heard recently: with a clock that does not go back, after every poll of a
  running service the listed peers are exactly the known peers that were last seen less than
  half of \<open>peer_ttl\<close> before the moment of this poll at which it swept the registry, peers learned by
  the poll itself included.  Nothing silent for longer is listed, and nothing heard since is
  left out, over every history of public calls and for every order of the hash map.
\<close>

theorem service_lists_recent_peers:
  assumes "timestamp_ok T" and "duration_ok T" and "layout_ok L"
    and "service_reachable T S P X opts (v, h)" and "steady T (sys_clock (svc_system v))"
    and "2 \<le> sint (dur_millis T (opt_peer_ttl opts))"
    and "service_is_running (udp_env T S P X L) v"
    and "service_poll (udp_env T S P X L) v h = Some (ok, v', h')"
  shows "\<exists>i \<ge> ticks (sys_clock (svc_system v)). i < ticks (sys_clock (svc_system v')) \<and>
    (\<forall>k. k \<in> pub_node_id ` set (fst (service_peers (udp_env T S P X L) v')) \<longleftrightarrow>
       (\<exists>p. registry_get (engine_peers (svc_system v')) k = Some p \<and>
          sint (ts_millis T (readings (sys_clock (svc_system v)) i)) -
            sint (ts_millis T (dp_last_seen_at p)) < sint (dur_millis T (opt_peer_ttl opts)) div 2))"
proof -
  let ?E = "udp_env T S P X L" and ?c = "sys_clock (svc_system v)"
  from service_reachable_inv [OF assms(4)] have inv: "service_inv T S P X opts v" by simp
  have eng: "engine_inv ?E (svc_context v) (svc_system v)" "peers_seen ?E (svc_system v)"
    using service_inv_ok [OF inv] by (simp_all add: engine_ok_any [where L = L])
  obtain t where t: "swept T (stale_millis T opts) t (svc_system v)"
    using service_reachable_swept [OF assms(1,2,6,4)] assms(5) by auto
  obtain s where s: "poll_once ?E (svc_context v) (svc_system v) = Some (ok, s)"
    and v': "v' = fst (notify_new_peers ?E (v\<lparr>svc_system := s\<rparr>) h)"
    using assms(8) by (auto simp: service_poll_def bind_eq_Some_conv case_prod_unfold)
  have run: "engine_is_running ?E (svc_system v)" using assms(7) by (simp add: service_is_running_def)
  obtain i where i: "ticks ?c \<le> i" "i < ticks (sys_clock s)"
    and sw: "swept T (stale_millis T opts) (millis_at T ?c i) s"
    using udp_node.poll_once_swept [OF _ _ _ _ eng(1) run eng(2) _ s]
      service_turns_stale [OF assms(2,6) inv] assms(1,3,5) t by auto
  have clock: "same_but_clock s (svc_system v')"
    using notify_new_peers_clock [of "v\<lparr>svc_system := s\<rparr>" ?E h] by (simp add: v')
  have inv': "service_inv T S P X opts v'"
    using service_step_inv [OF service_step.service_polls [OF assms(3,8)]] inv by simp
  have eng': "engine_inv ?E (svc_context v') (svc_system v')" "peers_seen ?E (svc_system v')"
    using service_inv_ok [OF inv'] by (simp_all add: engine_ok_any [where L = L])
  have reg: "eng_registry (svc_system v') = eng_registry s" and later: "ticks (sys_clock s) \<le> ticks (sys_clock (svc_system v'))"
    using clock by (simp_all add: same_but_clock_def)
  have wf: "registry_wf T (eng_registry s)" using eng'(1) by (simp add: engine_inv_def reg)
  have clocks: "readings (sys_clock s) = readings ?c"
    by (rule effects_clock [OF udp_node.poll_once_effects [OF s]])
  have "pub_node_id ` set (fst (service_peers ?E v')) =
      {k. \<exists>p. um_find (eng_registry s) k = Some p \<and> dp_state p = PS_Alive}"
    unfolding service_peers_eq [OF eng'] reg
    by (rule listed_ids [OF wf]) (use sw in \<open>auto simp: swept_def\<close>)
  also have "\<dots> = {k. \<exists>p. um_find (eng_registry s) k = Some p \<and>
      millis_at T ?c i - sint (ts_millis T (dp_last_seen_at p)) < sint (dur_millis T (opt_peer_ttl opts)) div 2}"
    using sw by (auto simp: swept_def stale_millis_def)
  finally show ?thesis
    using i later by (intro exI [of _ i]) (simp add: registry_get_def engine_peers_def reg)
qed

text \<open>The node of \<open>Network_Members\<close> that has the announcement of the other one in its inbox.\<close>

abbreviation demo_listening where
  "demo_listening \<equiv> demo_up False ([demo_packet], [])"

lemma demo_listening_facts:
  "service_reachable demo_time demo_serializer demo_platform demo_transport demo_options
     (demo_listening, [] :: demo_log)"
  "sys_clock (svc_system demo_listening) = demo_clock"
  "steady demo_time (sys_clock (svc_system demo_listening))"
  "service_is_running demo_env demo_listening"
  "sint (opt_peer_ttl demo_options) = 15000"
proof -
  have "service_step demo_time demo_serializer demo_platform demo_transport
      (demo_node_on ([demo_packet], []) False, []) (demo_listening, [] :: demo_log)"
    by (rule service_step.service_starts [of _ _ _ _ id]) (simp add: demo_node_starts [unfolded demo_env_def])
  moreover have "service_reachable demo_time demo_serializer demo_platform demo_transport demo_options
      (demo_node_on ([demo_packet], []) False, [] :: demo_log)"
    unfolding demo_node_on_def demo_opts_def if_False
    by (rule service_reachable.service_created [OF demo_clock_ok])
  ultimately show "service_reachable demo_time demo_serializer demo_platform demo_transport demo_options
      (demo_listening, [] :: demo_log)"
    by (rule service_reachable.service_continues [rotated])
  show clock: "sys_clock (svc_system demo_listening) = demo_clock"
    by (simp add: demo_up_def demo_node_on_def make_service_def Let_def make_system_def)
  show "steady demo_time (sys_clock (svc_system demo_listening))"
    by (simp add: clock steady_def demo_clock_def)
  show "service_is_running demo_env demo_listening"
    by (simp add: service_is_running_def demo_up_started)
  show "sint (opt_peer_ttl demo_options) = 15000"
    by (simp add: demo_options_def options_defs)
qed

theorem service_lists_recent_peers_witness:
  "\<exists>w h. service_poll demo_env (demo_up False ([demo_packet], [])) [] = Some (True, w, h) \<and>
     ''node-b'' \<in> pub_node_id ` set (fst (service_peers demo_env w))"
proof -
  let ?v = "demo_up False ([demo_packet], [])"
  obtain w h p where poll: "service_poll demo_env ?v [] = Some (True, w, h)"
    and p: "registry_get (engine_peers (svc_system w)) ''node-b'' = Some p"
    using demo_polled by blast
  note reach = demo_listening_facts(1) and clock = demo_listening_facts(2)
    and steady = demo_listening_facts(3) and run = demo_listening_facts(4) and ttl = demo_listening_facts(5)
  have "service_reachable demo_time demo_serializer demo_platform demo_transport demo_options (w, h)"
    using service_reachable.service_continues [OF reach service_step.service_polls [OF layout_id]] poll
    by (simp add: demo_env_def)
  from service_reachable_inv [OF this]
  have "peers_seen demo_env (svc_system w)"
    using engine_ok_any [where L = id] service_inv_ok by (fastforce simp: demo_env_def)
  moreover have "readings (sys_clock (svc_system w)) = readings demo_clock"
    using service_step_readings [OF service_step.service_polls [OF layout_id]] poll clock
    by (fastforce simp: demo_env_def)
  ultimately have "dp_last_seen_at p = 5000"
    using peers_seenD(2) [of demo_env "svc_system w" "''node-b''" p] p
    by (auto simp: registry_get_def engine_peers_def demo_clock_def)
  moreover have "2 \<le> sint (dur_millis demo_time (opt_peer_ttl demo_options))" by (simp add: ttl)
  note service_lists_recent_peers [OF demo_timestamp_ok demo_duration_ok layout_id reach steady this
      run [unfolded demo_env_def] poll [unfolded demo_env_def]]
  ultimately have "''node-b'' \<in> pub_node_id ` set (fst (service_peers demo_env w))"
    using p by (auto simp: ttl clock demo_clock_def simp flip: demo_env_def)
  with poll show ?thesis by blast
qed

text \<open>One \<open>poll_many\<close> hears the sender of every introduction at the front of the socket queue.\<close>

lemma announced_nodes_heard:
  fixes T :: "('t, 'd) time_api" and S :: serializer and K :: "'k kernel_api"
    and X :: "'x transport_api" and L :: "'t registry_layout"
  defines "E \<equiv> udp_env T S (linux_platform T K) X L"
  assumes T: "timestamp_ok T" and S: "serializer_ok S" and L: "layout_ok L"
    and K: "kernel_ok K" "kernel_settles K" "kernel_queue K inbox"
    and inv: "service_inv T S (linux_platform T K) X opts v" and run: "service_is_running E v"
    and wait: "udp_awaits K inbox S (sys_backend (svc_system v)) ms"
    and intro: "\<forall>m \<in> set ms. introduces E (svc_context v) m" and n: "length ms \<le> n"
  shows "\<exists>k v' h'. service_poll_many E n v h = Some (k, v', h') \<and> length ms \<le> k \<and> k \<le> n \<and>
    (\<forall>m \<in> set ms. heard_since (ticks (sys_clock (svc_system v))) (svc_system v') (msg_from m))"
proof -
  let ?c = "sys_clock (svc_system v)"
  have eng: "engine_inv E (svc_context v) (svc_system v)" "peers_seen E (svc_system v)"
    using service_inv_ok [OF inv] by (simp_all add: E_def engine_ok_any [where L = L])
  have run: "engine_is_running E (svc_system v)" using run by (simp add: service_is_running_def)
  have B: "backend_returns (api_backend E)"
    using udp_backend_returns [OF S linux_returns [OF K(1,2)]] by (simp add: E_def)
  obtain k s where s: "poll_many E (svc_context v) n (svc_system v) = Some (k, s)"
    and k: "length ms \<le> k" "k \<le> n" and heard: "\<forall>m \<in> set ms. heard_since (ticks ?c) s (msg_from m)"
    using udp_queue.poll_loop_introduced [OF K(3) _ _ B [unfolded E_def] _ _ eng(1) [unfolded E_def]
        run [unfolded E_def] wait intro [unfolded E_def] n, of "ticks ?c" 0]
      T S L peers_seenD(1) [OF eng(2)] by (auto simp: poll_many_def E_def)
  obtain v' h' where v': "notify_new_peers E (v\<lparr>svc_system := s\<rparr>) h = (v', h')" by fastforce
  have "same_but_clock s (svc_system v')"
    using notify_new_peers_clock [of "v\<lparr>svc_system := s\<rparr>" E h] by (simp add: v')
  then have "\<forall>m \<in> set ms. heard_since (ticks ?c) (svc_system v') (msg_from m)"
    using heard by (simp add: heard_since_def same_but_clock_def)
  then show ?thesis using s k v' by (auto simp: service_poll_many_def)
qed

text \<open>
  C5.  Announced nodes are listed: when the announcements of any number of other nodes are the next
  datagrams in the socket queue of a running service, ahead of everything else, and each fits the
  receive buffer (\<open>max_datagram_size\<close>), one \<open>poll_many\<close> with a bound at least as large handles them
  all, and if it takes less than half of \<open>peer_ttl\<close> by a clock that does not go back, \<open>peers()\<close> shows
  every one of them afterwards, whatever the history of the service and the order of its hash map.
  (A datagram in between that no call handles, such as an echo of the node's own broadcast, would end
  \<open>poll_many\<close>; see \<open>own_message_stops_poll_many\<close>.)
\<close>

theorem announced_nodes_listed:
  assumes "timestamp_ok T" and "duration_ok T" and "serializer_ok S" and "layout_ok L"
    and "kernel_ok K" and "kernel_settles K" and "kernel_queue K inbox"
    and "service_reachable T S (linux_platform T K) X opts (v, h)"
    and "service_is_running (udp_env T S (linux_platform T K) X L) v"
    and "steady T (sys_clock (svc_system v))" and "2 \<le> sint (dur_millis T (opt_peer_ttl opts))"
    and "udp_awaits K inbox S (sys_backend (svc_system v)) ms"
    and "\<forall>m \<in> set ms. \<exists>ctx_b cfg_b sb.
      m = fst (make_announce_message (udp_env T S P' X' L') ctx_b sb) \<and>
      config_checked T ctx_b = Inr cfg_b \<and> identity_fits cfg_b \<and> clock_ok T (sys_clock sb) \<and>
      cfg_node_id cfg_b \<noteq> opt_node_id opts"
    and "length ms \<le> n"
  shows "\<exists>k v' h'. service_poll_many (udp_env T S (linux_platform T K) X L) n v h = Some (k, v', h') \<and>
    length ms \<le> k \<and> k \<le> n \<and>
    (millis_at T (sys_clock (svc_system v')) (ticks (sys_clock (svc_system v')) - 1) -
       millis_at T (sys_clock (svc_system v)) (ticks (sys_clock (svc_system v))) <
         sint (dur_millis T (opt_peer_ttl opts)) div 2 \<longrightarrow>
     msg_from ` set ms \<subseteq>
       pub_node_id ` set (fst (service_peers (udp_env T S (linux_platform T K) X L) v')))"
proof -
  let ?E = "udp_env T S (linux_platform T K) X L" and ?B = "udp_env T S P' X' L'"
  let ?c = "sys_clock (svc_system v)"
  from service_reachable_inv [OF assms(8)] have inv: "service_inv T S (linux_platform T K) X opts v" by simp
  have own: "local_node_id ?E (svc_context v) = opt_node_id opts"
    using service_local_node_id [OF inv] service_inv_facts [OF inv, of L] assms(9) by auto
  have intro: "\<forall>m \<in> set ms. introduces ?E (svc_context v) m"
    using assms(13) announcement_introduces [where E' = ?B and E = ?E and ctx = "svc_context v"] own by fastforce
  obtain k v' h' where poll: "service_poll_many ?E n v h = Some (k, v', h')"
    and k: "length ms \<le> k" "k \<le> n"
    and heard: "\<forall>m \<in> set ms. heard_since (ticks ?c) (svc_system v') (msg_from m)"
    using announced_nodes_heard [OF assms(1,3-7) inv assms(9,12) intro assms(14)] by blast
  have step: "service_step T S (linux_platform T K) X (v, h) (v', h')"
    by (rule service_step.service_polls_many [OF assms(4) poll])
  have inv': "service_inv T S (linux_platform T K) X opts v'" using service_step_inv [OF step] inv by simp
  note same = service_step_readings [OF step]
  have steady': "steady T (sys_clock (svc_system v'))" using assms(10) by (simp add: steady_readings [OF same])
  have listed: "msg_from m \<in> pub_node_id ` set (fst (service_peers ?E v'))"
    if m: "m \<in> set ms" and brief: "millis_at T (sys_clock (svc_system v')) (ticks (sys_clock (svc_system v')) - 1) -
      millis_at T ?c (ticks ?c) < stale_millis T opts" for m
  proof -
    obtain n' where "n = Suc n'" using m assms(14) by (cases n) auto
    then obtain i where i: "i < ticks (sys_clock (svc_system v'))" and
      sw: "swept T (stale_millis T opts) (millis_at T (sys_clock (svc_system v')) i) (svc_system v')"
      using service_poll_many_swept [OF assms(1,2,4,11,8,10,9)] poll by blast
    have "heard_since (ticks ?c) (svc_system v') (msg_from m)" using heard m by blast
    moreover have "millis_at T (sys_clock (svc_system v')) i \<le>
        millis_at T (sys_clock (svc_system v')) (ticks (sys_clock (svc_system v')) - 1)"
      using steadyD [OF steady'] i by simp
    ultimately show ?thesis
      using heard_listed [OF inv' steady' sw] brief by (simp add: same)
  qed
  show ?thesis
    using poll k listed by (intro exI [of _ k] exI [of _ v'] exI [of _ h']) (auto simp: stale_millis_def)
qed

theorem announced_nodes_listed_witness:
  "\<exists>k w h. service_poll_many demo_env 4 demo_listening [] = Some (k, w, h) \<and> 1 \<le> k \<and>
     ''node-b'' \<in> pub_node_id ` set (fst (service_peers demo_env w))"
proof -
  have node_b: "msg_from demo_post = ''node-b''"
    by (simp add: demo_post_def announce_message_at_def)
  have opts: "opt_node_id demo_options = ''node-a''" by (simp add: demo_options_def options_defs)
  have announced: "\<forall>m \<in> set [demo_post]. \<exists>ctx_b cfg_b sb.
      m = fst (make_announce_message (udp_env demo_time demo_serializer demo_platform demo_transport id)
        ctx_b (sb :: (i64, (i64, demo_state udp_socket) udp_backend, string list) system)) \<and>
      config_checked demo_time ctx_b = Inr cfg_b \<and> identity_fits cfg_b \<and>
      clock_ok demo_time (sys_clock sb) \<and> cfg_node_id cfg_b \<noteq> opt_node_id demo_options"
    using demo_post_made [unfolded demo_env_def] demo_config_b_facts demo_running_facts(1) opts by fastforce
  have wait: "udp_awaits demo_kernel fst demo_serializer (sys_backend (svc_system demo_listening)) [demo_post]"
    using demo_started_awaits by (simp add: demo_up_started)
  have ttl: "2 \<le> sint (dur_millis demo_time (opt_peer_ttl demo_options))"
    by (simp add: demo_listening_facts(5))
  obtain k w h where poll: "service_poll_many demo_env 4 demo_listening [] = Some (k, w, h :: demo_log)" "1 \<le> k"
    and brief: "millis_at demo_time (sys_clock (svc_system w)) (ticks (sys_clock (svc_system w)) - 1) - 5000 < 7500 \<longrightarrow>
      ''node-b'' \<in> pub_node_id ` set (fst (service_peers demo_env w))"
    using announced_nodes_listed [OF demo_timestamp_ok demo_duration_ok demo_serializer_ok layout_id
        demo_kernel_ok demo_kernel_settles demo_queue
        demo_listening_facts(1) [unfolded demo_platform_def]
        demo_listening_facts(4) [unfolded demo_env_def demo_platform_def]
        demo_listening_facts(3) ttl wait announced, of 4]
    by (auto simp: node_b demo_listening_facts(2,5) demo_clock_def simp flip: demo_platform_def demo_env_def)
  have "readings (sys_clock (svc_system w)) = readings demo_clock"
    using service_step_readings [OF service_step.service_polls_many [OF layout_id]] poll demo_listening_facts(2)
    by (fastforce simp: demo_env_def)
  with poll brief show ?thesis by (auto simp: demo_clock_def)
qed

end
