(* ===== verification/Notification_Properties.thy ===== *)
theory Notification_Properties
  imports Network_Members
begin

text \<open>
  Who the handler is told about.  The service compares only the number of available peers, so the
  order of the hash map decides which ones it takes for new.
\<close>

section \<open>The registry after a poll\<close>

text \<open>A poll sweeps the registry and then files at most one announcement.\<close>

context discovery_node
begin

lemma poll_once_registry:
  assumes T: "timestamp_ok (api_time E)" and run: "engine_is_running E s"
    and clock: "clock_ok (api_time E) (sys_clock s)" and got: "poll_once E ctx s = Some (ok, s')"
    and c: "config_checked (api_time E) ctx = Inr c"
  shows "\<exists>t \<in> range (readings (sys_clock s)).
    let r = map (\<lambda>(k, p). (k, refreshed_peer (api_time E) t (stale_after (api_time E) c) (cfg_peer_ttl c) p))
      (eng_registry s)
    in eng_registry s' = r \<or>
      (\<exists>a c'. announcement_is_valid (api_time E) a \<and> readings c' = readings (sys_clock s) \<and>
        eng_registry s' = fst (registry_upsert_announcement (api_time E) (api_layout E) r a c'))"
proof -
  from poll_once_running [OF run got] obtain s1 s2 inbound b k where
    s1: "maybe_announce E ctx s = Some s1" and
    s2: "refresh_peer_states E ctx s1 = Some s2" and
    polled: "server_poll (api_backend E) (sys_backend s2) (sys_clock s2) = Some (inbound, b, k)" and
    rest: "handle_inbound E ctx inbound (s2\<lparr>sys_backend := b, sys_clock := k\<rparr>) = Some (ok, s')"
    by metis
  note t1 = maybe_announce_talks [OF s1]
  have clock1: "clock_ok (api_time E) (sys_clock s1)" using clock t1 by (simp add: clock_ok_def talksD)
  let ?g = "refreshed_peer (api_time E) (time_at s1 0) (stale_after (api_time E) c) (cfg_peer_ttl c)"
  have r2: "eng_registry s2 = map (\<lambda>(k, p). (k, ?g p)) (eng_registry s)"
    and k2: "sys_clock s2 = sys_clock (advance 1 s1)"
    using s2 c talksD(2) [OF t1]
    by (auto simp: refresh_peer_states_def sys_now_eq refresh_states_eq [OF T clock_ok_time_at [OF clock1]])
  have k: "readings k = readings (sys_clock s)"
    using talksD(5) [OF poll_talks [OF polled]] talksD(5) [OF t1] by (simp add: k2)
  have filed: "eng_registry s' = eng_registry s2 \<or>
      (\<exists>a. announcement_is_valid (api_time E) a \<and>
        eng_registry s' = fst (registry_upsert_announcement (api_time E) (api_layout E) (eng_registry s2) a k))"
    if "handle_announce E ctx e (s2\<lparr>sys_backend := b, sys_clock := k\<rparr>) = Some (ok, s')" for e
  proof -
    let ?s3 = "s2\<lparr>sys_backend := b, sys_clock := k\<rparr>"
    have "s' = ?s3 \<or> (\<exists>a. announcement_is_valid (api_time E) a \<and>
        s' = integrate_with_transport E ctx a (upsert_discovered_peer E a ?s3))"
      using that by (auto simp: handle_announce_def bind_eq_Some_conv Let_def split: option.splits if_splits)
    then show ?thesis
      by (auto simp: integrate_frame upsert_discovered_peer_def case_prod_unfold Let_def)
  qed
  have "eng_registry s' = eng_registry s2 \<or>
      (\<exists>a. announcement_is_valid (api_time E) a \<and>
        eng_registry s' = fst (registry_upsert_announcement (api_time E) (api_layout E) (eng_registry s2) a k))"
    using rest filed talksD(2) [OF handle_probe_talks] unfolding handle_inbound_def handle_reply_announce
    by (auto split: option.splits if_splits message_type.splits)
  moreover have "time_at s1 0 \<in> range (readings (sys_clock s))"
    using talksD(5) [OF t1] by (simp add: time_at_def)
  ultimately show ?thesis using k unfolding r2 Let_def by blast
qed

end

text \<open>A sweep makes no peer available, so as many available peers are the same ones.\<close>

lemma refreshed_available:
  "peer_available (refreshed_peer T t stale expire p) \<Longrightarrow> peer_available p"
  "peer_node_id (refreshed_peer T t stale expire p) = peer_node_id p"
  by (auto simp: refreshed_peer_def refreshed_state_def peer_available_def is_available_def peer_node_id_def
      split: if_splits)

lemma available_after_sweep:
  assumes "\<And>p. peer_available (g p) \<Longrightarrow> peer_available p" and "\<And>p. peer_node_id (g p) = peer_node_id p"
    and "length (available_peers r) \<le> length (available_peers (map (\<lambda>(k, p). (k, g p)) r))"
  shows "map peer_node_id (available_peers (map (\<lambda>(k, p). (k, g p)) r)) = map peer_node_id (available_peers r)"
proof -
  have swept: "available_peers (map (\<lambda>(k, p). (k, g p)) rs) =
      map g (filter (peer_available \<circ> g) (available_peers rs))" for rs
    using assms(1) by (induction rs) (auto simp: available_peers_def)
  with assms(3) have "\<not> length (filter (peer_available \<circ> g) (available_peers r)) < length (available_peers r)"
    by simp
  then have "filter (peer_available \<circ> g) (available_peers r) = available_peers r"
    using length_filter_less filter_True by metis
  with swept show ?thesis by (simp add: assms(2))
qed

text \<open>Where the hash map puts a new entry in front of the others.\<close>

definition new_in_front :: "('k, 'v) layout \<Rightarrow> bool" where
  "new_in_front L \<longleftrightarrow> (\<forall>m e. L (m @ [e]) = e # m)"

lemma upsert_in_front:
  assumes "new_in_front L" and "um_find r (ann_node_id a) = None" and "announcement_is_valid T a"
  shows "fst (registry_upsert_announcement T L r a c) = (ann_node_id a, announced_peer r a c) # r"
  using assms
  by (simp add: registry_upsert_announcement_def registry_find_def announced_peer_def Let_def now_def
      registry_upsert_def um_assign_def peer_node_id_def new_in_front_def)

text \<open>A poll that learns a node then has it in front of the swept registry.\<close>

lemma learned_in_front:
  assumes front: "new_in_front L" "layout_ok L" and wf: "um_wf r"
    and r': "r' = r \<or> (\<exists>a c. announcement_is_valid T a \<and> r' = fst (registry_upsert_announcement T L r a c))"
    and k: "um_find r k = None" "um_find r' k \<noteq> None"
  shows "\<exists>a c. ann_node_id a = k \<and> announcement_is_valid T a \<and> r' = (k, announced_peer r a c) # r"
proof -
  from r' k obtain a c where a: "announcement_is_valid T a"
    and r': "r' = fst (registry_upsert_announcement T L r a c)" by auto
  have "um_find r' = (um_find r)(ann_node_id a \<mapsto> announced_peer r a c)"
    unfolding r' by (rule upsert_announcement_lookup [OF front(2) wf a])
  with k have "ann_node_id a = k" by (auto split: if_splits)
  with upsert_in_front [OF front(1) _ a] k(1) a r' show ?thesis by blast
qed

context discovery_node
begin

lemma new_peer_in_front:
  assumes T: "timestamp_ok (api_time E)" and L: "layout_ok (api_layout E)" "new_in_front (api_layout E)"
    and inv: "engine_inv E ctx s" and seen: "peers_seen E s" and got: "poll_once E ctx s = Some (ok, s')"
    and k: "um_find (eng_registry s) k = None" "um_find (eng_registry s') k \<noteq> None"
    and grown: "length (available_peers (eng_registry s)) < length (available_peers (eng_registry s'))"
  shows "\<exists>p old. available_peers (eng_registry s') = p # old \<and> peer_node_id p = k \<and>
    map peer_node_id old = map peer_node_id (available_peers (eng_registry s))"
proof -
  have run: "engine_is_running E s"
    using not_running_nothing(3) [of s ctx] got k by (cases "engine_is_running E s") auto
  then obtain c where c: "config_checked (api_time E) ctx = Inr c"
    using inv by (auto simp: engine_inv_running engine_inv_def context_is_valid_def config_checked_Inr
        split: option.splits)
  define g where "g = (\<lambda>t. refreshed_peer (api_time E) t (stale_after (api_time E) c) (cfg_peer_ttl c))"
  define swept where "swept = (\<lambda>t. map (\<lambda>(k, p). (k, g t p)) (eng_registry s))"
  obtain t where "eng_registry s' = swept t \<or> (\<exists>a c'. announcement_is_valid (api_time E) a \<and>
      eng_registry s' = fst (registry_upsert_announcement (api_time E) (api_layout E) (swept t) a c'))"
    using poll_once_registry [OF T run peers_seenD(1) [OF seen] got c]
    unfolding swept_def g_def Let_def by blast
  moreover have "um_find (swept t) k = None" using k(1) by (simp add: swept_def um_find_map)
  moreover have "um_wf (eng_registry s)" using inv by (auto simp: engine_inv_def dest: registry_wf_um)
  then have "um_wf (swept t)" by (simp add: swept_def um_wf_def comp_def case_prod_unfold)
  ultimately obtain a c' where a: "ann_node_id a = k"
    and s': "eng_registry s' = (k, announced_peer (swept t) a c') # swept t"
    using learned_in_front [OF L(2,1) _ _ _ k(2)] by blast
  let ?new = "announced_peer (swept t) a c'" and ?old = "available_peers (swept t)"
  have list: "available_peers (eng_registry s') = ?new # ?old"
    by (simp add: s' available_peers_def peer_available_def is_available_def announced_peer_simps)
  have "length (available_peers (eng_registry s)) \<le> length ?old" using grown by (simp add: list)
  then have "map peer_node_id ?old = map peer_node_id (available_peers (eng_registry s))"
    unfolding swept_def
    by (intro available_after_sweep) (auto simp: g_def refreshed_available)
  with list a show ?thesis by (auto simp: announced_peer_simps)
qed

end

section \<open>The wrong peer\<close>

text \<open>
  C34.  The handler is told about the wrong peer.  Take any reachable service that has a handler and
  has counted the n > 0 peers that it lists, and a hash map that puts a new entry in front, as the
  usual implementation does for an empty bucket.  When a poll learns a node k that was not known
  and the list grows, the handler is called exactly once, with a peer that was listed
  before the poll and is not k; now \<open>peers()\<close> shows k, but k counts as reported: the next
  notification calls nothing.
\<close>

theorem notify_reports_wrong_peer:
  assumes "timestamp_ok T" and "layout_ok L" and "new_in_front L"
    and "service_reachable T S P X opts (v, h)" and "svc_on_peer_found v = Some f"
    and "available_peers (engine_peers (svc_system v)) \<noteq> []"
    and "svc_known_peer_count v = length (available_peers (engine_peers (svc_system v)))"
    and "service_poll (udp_env T S P X L) v h = Some (ok, w, h')"
    and "registry_get (engine_peers (svc_system v)) k = None"
    and "registry_get (engine_peers (svc_system w)) k \<noteq> None"
    and "svc_known_peer_count v < length (available_peers (engine_peers (svc_system w)))"
  shows "\<exists>q. h' = f q h \<and> pub_node_id q \<noteq> k \<and>
    pub_node_id q \<in> pub_node_id ` set (fst (service_peers (udp_env T S P X L) v)) \<and>
    k \<notin> pub_node_id ` set (fst (service_peers (udp_env T S P X L) v)) \<and>
    k \<in> pub_node_id ` set (fst (service_peers (udp_env T S P X L) w)) \<and>
    svc_known_peer_count w = svc_known_peer_count v + 1 \<and>
    snd (notify_new_peers (udp_env T S P X L) w h') = h'"
proof -
  let ?E = "udp_env T S P X L" and ?r = "eng_registry (svc_system v)"
  have step: "service_step T S P X (v, h) (w, h')" by (rule service_step.service_polls [OF assms(2,8)])
  have inv: "service_inv T S P X opts v" "service_inv T S P X opts w"
    using service_reachable_inv [OF assms(4)] service_step_inv [OF step] by auto
  have eng: "engine_inv ?E (svc_context u) (svc_system u)" "peers_seen ?E (svc_system u)"
    if "service_inv T S P X opts u" for u :: "('a, 'b, 'd, 'c, 'e) service"
    using service_inv_ok [OF that] by (simp_all add: engine_ok_any [where L = L])
  from assms(8) obtain s where s: "poll_once ?E (svc_context v) (svc_system v) = Some (ok, s)"
    and n: "notify_new_peers ?E (v\<lparr>svc_system := s\<rparr>) h = (w, h')"
    by (simp add: service_poll_def bind_eq_Some_conv case_prod_unfold) (metis prod.collapse)
  let ?u = "v\<lparr>svc_system := s\<rparr>"
  have reg: "eng_registry (svc_system w) = eng_registry s"
    using notify_new_peers_frame [of ?E ?u h] by (simp add: n)
  obtain p old where new: "available_peers (eng_registry s) = p # old" "peer_node_id p = k"
    and old: "map peer_node_id old = map peer_node_id (available_peers ?r)"
    using udp_node.new_peer_in_front [OF _ _ _ eng(1) [OF inv(1)] eng(2) [OF inv(1)] s, of k]
      assms(1-3,7,9-11) reg by (auto simp: registry_get_def engine_peers_def)
  let ?q = "public_view (last old)"
  have count: "svc_known_peer_count v = length old" "old \<noteq> []"
    using old assms(6,7) by (auto simp: engine_peers_def dest: map_eq_imp_length_eq)
  then have "drop (svc_known_peer_count v) (p # old) = [last old]"
    by (simp add: drop_Cons' last_conv_nth flip: Cons_nth_drop_Suc)
  moreover have "public_peer_is_valid T ?q"
    using available_peer_public [OF eng [OF inv(2)], of "last old"] count(2) new(1) reg by simp
  ultimately have told: "h' = f ?q h"
    using notify_new_peers_handler [of ?E ?u h] assms(5) new(1) n by simp
  have ids: "distinct (k # map peer_node_id old)"
    using available_ids_distinct [of T "eng_registry s"] eng(1) [OF inv(2)] new reg by (simp add: engine_inv_def)
  have listed: "pub_node_id ` set (fst (service_peers ?E x)) = set (map peer_node_id (available_peers (eng_registry (svc_system x))))"
    if "service_inv T S P X opts x" for x :: "('a, 'b, 'd, 'c, 'e) service"
    unfolding service_peers_eq [OF eng [OF that]]
    by (simp add: image_image public_view_def from_discovered_peer_def make_public_peer_def peer_node_id_def)
  have now_count: "svc_known_peer_count w = svc_known_peer_count v + 1"
    using notify_new_peers_count [of ?E ?u h] new(1) n count by simp
  then have "snd (notify_new_peers ?E w h') = h'"
    using notify_new_peers_handler [of ?E w h'] new(1) reg count by (simp split: option.splits)
  moreover have "pub_node_id ?q = peer_node_id (last old)"
    by (simp add: public_view_def from_discovered_peer_def make_public_peer_def peer_node_id_def)
  moreover have "peer_node_id (last old) \<in> set (map peer_node_id old)" using count(2) by simp
  moreover have "pub_node_id ` set (fst (service_peers ?E v)) = set (map peer_node_id old)"
      "pub_node_id ` set (fst (service_peers ?E w)) = insert k (set (map peer_node_id old))"
    by (simp_all only: listed [OF inv(1)] listed [OF inv(2)] old reg new list.map list.set)
  ultimately show ?thesis
    using told ids now_count by (intro exI [of _ ?q]) (auto simp del: set_map)
qed

section \<open>A history in which it happens\<close>

text \<open>
  Two nodes announce themselves to a third one whose hash map puts new entries in front.  The handler
  logs the ids that it is told.
\<close>

definition front :: "('k, 'v) layout" where
  "front m = (if m = [] then [] else last m # butlast m)"

lemma layout_front [simp]: "layout_ok front"
proof -
  have "mset (last m # butlast m) = mset m" if "m \<noteq> []" for m :: "('a \<times> 'b) list"
  proof -
    have "mset m = mset (butlast m @ [last m])" using that by simp
    then show ?thesis by (simp only: mset_append) simp
  qed
  then show ?thesis by (simp add: layout_ok_def front_def)
qed

lemma new_in_front_front [simp]: "new_in_front front"
  by (simp add: new_in_front_def front_def)

definition demo_config_c :: "i64 config" where
  "demo_config_c = to_config demo_time (options_local demo_time ''node-c'' 9400 7003)"

lemma demo_config_c_facts:
  "config_checked demo_time (make_context demo_config_c) = Inr demo_config_c"
  "identity_fits demo_config_c" "cfg_node_id demo_config_c = ''node-c''"
  "cfg_announce_host demo_config_c = ''127.0.0.1''"
  by (simp_all add: config_checked_Inr make_context_def config_is_valid_def demo_config_c_def
      to_config_def options_defs config_default_def identity_fits_def)

definition demo_posts :: "message list" where
  "demo_posts = [demo_post, announce_message_at demo_env demo_config_c 5000 5000]"

lemma demo_posts_fit:
  "m \<in> set demo_posts \<Longrightarrow> message_fits m \<and> length (encode_message demo_serializer m) \<le> 65536"
  using demo_post_fits demo_announcement_sized [OF demo_config_c_facts(1,2)]
  by (auto simp: demo_posts_def demo_config_c_facts)

abbreviation demo_front :: "(i64, i64, (i64, demo_state udp_socket) udp_backend, string list) env" where
  "demo_front \<equiv> udp_env demo_time demo_serializer demo_platform demo_transport front"

lemma demo_introduces:
  assumes "config_checked demo_time (make_context c) = Inr c" and "identity_fits c"
    and "cfg_node_id c \<noteq> ''node-a''"
  shows "introduces demo_front demo_context (announce_message_at demo_env c 5000 5000)"
proof -
  have "announce_message_at demo_env c 5000 5000 =
      fst (make_announce_message demo_env (make_context c) demo_running)"
    using make_messages_eq(1) [of demo_env "make_context c" c demo_running] assms(1)
    by (simp add: time_at_def demo_clock_def)
  then show ?thesis
    using announcement_introduces [of demo_env "make_context c" c demo_running demo_front demo_context] assms
    by simp
qed

text \<open>A poll of this node takes the next announcement and learns its sender.\<close>

lemma demo_front_hears:
  assumes inv: "service_inv demo_time demo_serializer demo_platform demo_transport demo_options v"
    and run: "service_is_running demo_front v"
    and wait: "udp_awaits demo_kernel fst demo_serializer (sys_backend (svc_system v)) (m # ms)"
    and m: "introduces demo_front demo_context m"
  shows "\<exists>s. poll_once demo_front (svc_context v) (svc_system v) = Some (True, s) \<and>
    udp_awaits demo_kernel fst demo_serializer (sys_backend s) ms \<and>
    um_find (eng_registry s) (msg_from m) \<noteq> None"
proof -
  have eng: "engine_inv demo_front (svc_context v) (svc_system v)" "peers_seen demo_front (svc_system v)"
    using service_inv_ok [OF inv] by (simp_all add: engine_ok_any [where L = front])
  have ctx: "svc_context v = demo_context"
    using inv by (simp add: service_inv_def demo_context_def demo_config_def)
  have B: "backend_returns (api_backend demo_front)"
    using demo_backend_returns by simp
  obtain ok s where one: "poll_once demo_front (svc_context v) (svc_system v) = Some (ok, s)"
    using udp_node.poll_once_returns [OF _ _ B] peers_seenD(1) [OF eng(2)] by (fastforce simp: ctx)
  have "ok \<and> udp_awaits demo_kernel fst demo_serializer (sys_backend s) ms \<and>
      heard_since (ticks (sys_clock (svc_system v))) s (msg_from m)"
    using udp_queue.poll_once_introduced [OF demo_queue, of demo_time demo_serializer demo_transport front
        "svc_context v" "svc_system v" m ms ok s] eng run wait m one
    by (simp add: ctx service_is_running_def flip: demo_platform_def)
  with one show ?thesis by (auto simp: heard_since_def)
qed

definition demo_listener :: demo_node where
  "demo_listener = service_on_peer_found (Some (\<lambda>q log. log @ [pub_node_id q]))
     (demo_up False (map demo_datagram demo_posts, []))"

lemma demo_listener_facts:
  "svc_on_peer_found demo_listener = Some (\<lambda>q log. log @ [pub_node_id q])"
  "svc_known_peer_count demo_listener = 0" "eng_registry (svc_system demo_listener) = []"
  "sys_clock (svc_system demo_listener) = demo_clock" "service_is_running demo_front demo_listener"
  "sys_backend (svc_system demo_listener) = demo_mail (map demo_datagram demo_posts, [])"
  by (simp_all add: demo_listener_def service_on_peer_found_def demo_up_def demo_node_on_def make_service_def
      Let_def make_system_def service_is_running_def engine_is_running_def status_is_running_def)

lemma demo_listener_reachable:
  "service_reachable demo_time demo_serializer demo_platform demo_transport demo_options (demo_listener, [])"
proof -
  let ?k = "(map demo_datagram demo_posts, [])"
  have "service_step demo_time demo_serializer demo_platform demo_transport
      (demo_node_on ?k False, []) (demo_up False ?k, [])"
    by (rule service_step.service_starts [of _ _ _ _ id]) (simp add: demo_node_starts [unfolded demo_env_def])
  moreover have "service_reachable demo_time demo_serializer demo_platform demo_transport demo_options
      (demo_node_on ?k False, [])"
    unfolding demo_node_on_def demo_opts_def if_False
    by (rule service_reachable.service_created [OF demo_clock_ok])
  ultimately show ?thesis
    unfolding demo_listener_def
    by (blast intro: service_reachable.service_continues service_step.service_handles)
qed

text \<open>The first poll tells the handler about \<open>node-b\<close>, which is right.\<close>

lemma demo_first_poll:
  "\<exists>w p. service_poll demo_front demo_listener [] = Some (True, w, [''node-b'']) \<and>
     svc_on_peer_found w = Some (\<lambda>q log. log @ [pub_node_id q]) \<and> svc_known_peer_count w = 1 \<and>
     eng_registry (svc_system w) = [(''node-b'', p)] \<and> dp_state p = PS_Alive \<and>
     readings (sys_clock (svc_system w)) = readings demo_clock \<and> service_is_running demo_front w \<and>
     udp_awaits demo_kernel fst demo_serializer (sys_backend (svc_system w)) (tl demo_posts)"
proof -
  let ?v = "demo_listener" and ?f = "\<lambda>q log. log @ [pub_node_id q :: string]"
  from service_reachable_inv [OF demo_listener_reachable]
  have inv: "service_inv demo_time demo_serializer demo_platform demo_transport demo_options ?v" by simp
  then have ctx: "svc_context ?v = demo_context"
    by (simp add: service_inv_def demo_context_def demo_config_def)
  have posts: "demo_posts = demo_post # tl demo_posts" "msg_from demo_post = ''node-b''"
    by (simp_all add: demo_posts_def demo_post_def announce_message_at_def)
  have "udp_awaits demo_kernel fst demo_serializer (sys_backend (svc_system ?v)) (demo_post # tl demo_posts)"
    using demo_awaits [of demo_posts "[]"] demo_posts_fit by (simp add: demo_listener_facts flip: posts(1))
  moreover have "introduces demo_front demo_context demo_post"
    using demo_introduces [of demo_config_b] by (simp add: demo_post_def)
  ultimately obtain s where s: "poll_once demo_front demo_context (svc_system ?v) = Some (True, s)"
    and wait: "udp_awaits demo_kernel fst demo_serializer (sys_backend s) (tl demo_posts)"
    and heard: "um_find (eng_registry s) ''node-b'' \<noteq> None"
    using demo_front_hears [OF inv demo_listener_facts(5), of demo_post "tl demo_posts"]
    by (auto simp: ctx posts(2))
  have "um_find ([] :: i64 registry) ''node-b'' = None" by (simp add: um_find_def)
  moreover have "eng_registry s = [] \<or> (\<exists>a c. announcement_is_valid demo_time a \<and>
      eng_registry s = fst (registry_upsert_announcement demo_time front [] a c))"
    using udp_node.poll_once_registry [OF _ _ _ s, of demo_config] demo_listener_facts(3,4,5)
    by (auto simp: service_is_running_def)
  ultimately obtain p where reg: "eng_registry s = [(''node-b'', p)]" and alive: "dp_state p = PS_Alive"
    using learned_in_front [of front "[]" "eng_registry s" demo_time "''node-b''"] heard
    by (auto simp: um_wf_def announced_peer_simps)
  let ?u = "?v\<lparr>svc_system := s\<rparr>"
  obtain w h where n: "notify_new_peers demo_front ?u [] = (w, h)" by fastforce
  have poll: "service_poll demo_front ?v [] = Some (True, w, h)"
    using s n by (simp add: service_poll_def ctx)
  have inv': "service_inv demo_time demo_serializer demo_platform demo_transport demo_options w"
    using service_step_inv [OF service_step.service_polls [OF layout_front poll]] inv by simp
  then have eng: "engine_inv demo_front (svc_context w) (svc_system w)" "peers_seen demo_front (svc_system w)"
    using service_inv_ok [OF inv'] by (simp_all add: engine_ok_any [where L = front])
  have same: "same_but_clock s (svc_system w)"
    using notify_new_peers_clock [of ?u demo_front "[]"] by (simp add: n)
  have avail: "available_peers (eng_registry s) = [p]"
    using alive by (simp add: reg available_peers_def peer_available_def is_available_def)
  have "peer_node_id p = ''node-b''"
    using registry_wfD(1) [of demo_time "eng_registry s" "''node-b''" p] eng(1) same
    by (simp add: engine_inv_def same_but_clock_def reg um_find_def)
  moreover have "public_peer_is_valid demo_time (public_view p)"
    using available_peer_public [OF eng, of p] avail same by (simp add: same_but_clock_def)
  ultimately have "h = [''node-b'']"
    using notify_new_peers_handler [of demo_front ?u "[]"] avail n demo_listener_facts(1,2)
    by (simp add: public_view_def from_discovered_peer_def make_public_peer_def peer_node_id_def)
  moreover have "svc_on_peer_found w = Some ?f"
    using notify_new_peers_on_found [of demo_front ?u "[]"] n demo_listener_facts(1) by simp
  moreover have "svc_known_peer_count w = 1"
    using notify_new_peers_count [of demo_front ?u "[]"] n avail by simp
  moreover have "readings (sys_clock s) = readings demo_clock"
    using effects_clock [OF udp_node.poll_once_effects [OF s]] demo_listener_facts(4) by simp
  moreover have "service_is_running demo_front w"
    using eng(1) reg same udp_node.engine_inv_running [OF eng(1)]
    by (auto simp: engine_inv_def service_is_running_def same_but_clock_def)
  ultimately show ?thesis
    using poll reg alive same wait by (auto simp: same_but_clock_def)
qed

theorem notify_reports_wrong_peer_witness:
  "\<exists>v w. service_reachable demo_time demo_serializer demo_platform demo_transport demo_options (v, [''node-b'']) \<and>
     service_poll demo_front v [''node-b''] = Some (True, w, [''node-b'', ''node-b'']) \<and>
     ''node-c'' \<in> pub_node_id ` set (fst (service_peers demo_front w))"
proof -
  obtain v p where one: "service_poll demo_front demo_listener [] = Some (True, v, [''node-b''])"
    and f: "svc_on_peer_found v = Some (\<lambda>q log. log @ [pub_node_id q])" and count: "svc_known_peer_count v = 1"
    and reg: "eng_registry (svc_system v) = [(''node-b'', p)]" and alive: "dp_state p = PS_Alive"
    and clock: "readings (sys_clock (svc_system v)) = readings demo_clock"
    and run: "service_is_running demo_front v"
    and wait: "udp_awaits demo_kernel fst demo_serializer (sys_backend (svc_system v)) (tl demo_posts)"
    using demo_first_poll by blast
  have reach: "service_reachable demo_time demo_serializer demo_platform demo_transport demo_options (v, [''node-b''])"
    using service_reachable.service_continues [OF demo_listener_reachable
        service_step.service_polls [OF layout_front one]] .
  from service_reachable_inv [OF this]
  have inv: "service_inv demo_time demo_serializer demo_platform demo_transport demo_options v" by simp
  have eng: "engine_inv demo_front (svc_context v) (svc_system v)" "peers_seen demo_front (svc_system v)"
    using service_inv_ok [OF inv] by (simp_all add: engine_ok_any [where L = front])
  have ctx: "svc_context v = demo_context"
    using inv by (simp add: service_inv_def demo_context_def demo_config_def)
  let ?m = "announce_message_at demo_env demo_config_c 5000 5000"
  have m: "tl demo_posts = [?m]" "msg_from ?m = ''node-c''"
    by (simp_all add: demo_posts_def announce_message_at_def demo_config_c_facts)
  obtain s where s: "poll_once demo_front demo_context (svc_system v) = Some (True, s)"
    and heard: "um_find (eng_registry s) ''node-c'' \<noteq> None"
    using demo_front_hears [OF inv run, of ?m "[]"] wait demo_introduces [OF demo_config_c_facts(1,2)]
    by (auto simp: ctx m demo_config_c_facts)
  have avail: "available_peers (eng_registry (svc_system v)) = [p]"
    using alive by (simp add: reg available_peers_def peer_available_def is_available_def)
  have seen: "dp_last_seen_at p = 5000"
    using peers_seenD(2) [OF eng(2), of "''node-b''" p] clock by (auto simp: reg um_find_def demo_clock_def)
  have ttl: "sint (dur_millis demo_time (cfg_peer_ttl demo_config)) = 15000"
    by (simp add: demo_config_def demo_options_def to_config_def options_defs)
  then have "sint (dur_millis demo_time (stale_after demo_time demo_config)) = 7500"
    using stale_after_half [OF demo_duration_ok, of demo_config] by simp
  then have fresh: "refreshed_peer demo_time 5000 (stale_after demo_time demo_config) (cfg_peer_ttl demo_config) p = p"
    using ttl by (simp add: refreshed_peer_def refreshed_state_def peer_age_def seen)
  have "eng_registry s = [(''node-b'', p)] \<or> (\<exists>a c. announcement_is_valid demo_time a \<and>
      eng_registry s = fst (registry_upsert_announcement demo_time front [(''node-b'', p)] a c))"
    using udp_node.poll_once_registry [OF _ _ _ s, of demo_config] peers_seenD(1) [OF eng(2)] run clock
    by (auto simp: service_is_running_def reg fresh demo_clock_def Let_def)
  moreover have "um_wf [(''node-b'', p)]" "um_find [(''node-b'', p)] ''node-c'' = None"
    by (simp_all add: um_wf_def um_find_def)
  ultimately obtain a c where "eng_registry s =
      [(''node-c'', announced_peer [(''node-b'', p)] a c), (''node-b'', p)]"
    using learned_in_front [OF new_in_front_front layout_front _ _ _ heard] by blast
  then have grown: "length (available_peers (eng_registry s)) = 2"
    using alive by (simp add: available_peers_def peer_available_def is_available_def announced_peer_simps)
  obtain w h where n: "notify_new_peers demo_front (v\<lparr>svc_system := s\<rparr>) [''node-b''] = (w, h)" by fastforce
  have poll: "service_poll demo_front v [''node-b''] = Some (True, w, h)"
    using s n by (simp add: service_poll_def ctx)
  have "eng_registry (svc_system w) = eng_registry s"
    using notify_new_peers_frame [of demo_front "v\<lparr>svc_system := s\<rparr>" "[''node-b'']"] by (simp add: n)
  then have "available_peers (engine_peers (svc_system v)) \<noteq> []"
      "svc_known_peer_count v = length (available_peers (engine_peers (svc_system v)))"
      "registry_get (engine_peers (svc_system v)) ''node-c'' = None"
      "registry_get (engine_peers (svc_system w)) ''node-c'' \<noteq> None"
      "svc_known_peer_count v < length (available_peers (engine_peers (svc_system w)))"
    using heard grown count avail by (simp_all add: registry_get_def engine_peers_def reg um_find_def)
  from notify_reports_wrong_peer [OF demo_timestamp_ok layout_front new_in_front_front reach f this(1,2) poll this(3-5)]
  obtain q :: "i64 public_peer" where q: "h = [''node-b''] @ [pub_node_id q]"
      "pub_node_id q \<in> pub_node_id ` set (fst (service_peers demo_front v))"
      "''node-c'' \<in> pub_node_id ` set (fst (service_peers demo_front w))"
    by blast
  have "peer_node_id p = ''node-b''"
    using registry_wfD(1) [of demo_time "eng_registry (svc_system v)" "''node-b''" p] eng(1)
    by (simp add: engine_inv_def reg um_find_def)
  then have "pub_node_id q = ''node-b''"
    using q(2) unfolding service_peers_eq [OF eng]
    by (simp add: avail public_view_def from_discovered_peer_def make_public_peer_def peer_node_id_def)
  with reach poll q show ?thesis by auto
qed

end
