(* ===== verification/Spec2Isabelle.thy ===== *)
theory Spec2Isabelle
  imports Codec_Properties Registry_Properties Network_Properties Engine_Properties
    Service_Properties Windows_Properties Delivery_Properties
    Directory_Properties Examples_Properties Ownership_Properties Network_Members
    Reentrant_Properties Handshake_Properties Recency_Properties Notification_Properties
begin

text \<open>
  A verification development for the Softadastra discovery module, a C++ header library that
  finds peers on a local network over UDP (\<open>include/softadastra/discovery\<close> and
  \<open>platform/{linux,windows}/UdpSocket.cpp\<close>).

  \<^bold>\<open>The program.\<close>  Nodes broadcast announcements (node id, host, port, time) and answer probes.
  A \<open>DiscoveryService\<close> owns options, configuration, context, a UDP backend and a
  \<open>DiscoveryEngine\<close>.  Each poll of the engine announces itself when its timer is due, ages
  the peers of its \<open>DiscoveryRegistry\<close>, receives at most one datagram through the backend,
  decodes it, and updates the registry, answers, or tells the transport engine to connect.

  \<^bold>\<open>The model.\<close>  One theory per component, in the order in which they call each other:
  \<^item> \<open>Prelude\<close>: machine integers, \<open>'a exec\<close> (a call that returns \<open>Some\<close> or has no defined
    return, \<open>None\<close>), byte and string conversions, checked subtraction, buffer slices.
  \<^item> \<open>Unordered_Map\<close>: \<open>std::unordered_map\<close> as a list of entries in iteration order, with the
    order after an insertion an argument (a layout); the contract \<open>keyed_store\<close>,
    interpreted as \<open>um\<close>.
  \<^item> \<open>Externals\<close>: the packages outside the repository (time, serializer, transport) as records
    of functions, with the documented laws that results may assume.
  \<^item> \<open>Discovery_Types\<close> (\<open>types/\<close>), \<open>Messages\<close> (announcement, message, envelope, datagram),
    \<open>Config\<close> (\<open>DiscoveryConfig\<close>, \<open>DiscoveryOptions\<close>, \<open>DiscoveryContext\<close>), \<open>Peers\<close>
    (\<open>DiscoveredPeer\<close>, \<open>Peer\<close>): one record per struct, one definition per method.
  \<^item> \<open>Wire\<close>, \<open>Codec\<close> (\<open>DiscoveryEncoder\<close>, \<open>DiscoveryDecoder\<close>) and \<open>Announcement_Codec\<close> (the
    payload codec inside the engine): the contracts \<open>wire_field\<close> and \<open>wire_format\<close>,
    interpreted for every field and for both formats.
  \<^item> \<open>Registry\<close> and \<open>Registry_Proofs\<close> (\<open>DiscoveryRegistry\<close>): all operations, the invariant and
    the histories.
  \<^item> \<open>Backend\<close> (\<open>IDiscoveryBackend\<close>, \<open>DiscoveryClient\<close>, \<open>DiscoveryServer\<close>): the contract
    \<open>discovery_backend\<close>.
  \<^item> \<open>Platform\<close>: the socket methods the UDP backend is compiled against (\<open>namespace platform\<close>),
    as the contract \<open>socket_platform\<close>, and when one platform acts as another
    (\<open>platform_simulation\<close>).  \<open>Udp_Socket\<close> is the Linux class over a parametric kernel,
    \<open>Windows_Socket\<close> the Windows class over a parametric Winsock; they interpret the contract
    as \<open>linux\<close> and \<open>windows\<close>, and \<open>win_posix\<close> reduces the second to the first.
  \<^item> \<open>Udp_Backend\<close> (\<open>UdpDiscoveryBackend\<close>), for any platform, interprets the backend contract as
    \<open>udp\<close>.
  \<^item> \<open>Engine\<close> (\<open>DiscoveryEngine\<close>), \<open>Engine_Proofs\<close> (effects, invariant, histories, for any
    backend with the contract: locale \<open>discovery_node\<close>), \<open>Engine_Behaviour\<close> (what each call does
    and that it returns), \<open>Exchange\<close> (messages between two nodes).
  \<^item> \<open>Service\<close> and \<open>Service_Proofs\<close> (\<open>DiscoveryService\<close>); \<open>discovery_node\<close> is interpreted
    on the UDP backend as \<open>udp_node\<close>.
  \<^item> \<open>Heard\<close>: when a peer was last heard, in readings of the clock, and that every effect of the
    engine keeps it.  \<open>Delivery\<close>: a backend that queues messages (locale \<open>queueing_node\<close>) and what the
    polling loop does with the queue; met by the UDP backend on a kernel whose socket is a FIFO queue
    (\<open>udp_queue\<close>).  \<open>Handshake\<close>: such a backend that also knows where its messages come from
    (locale \<open>answering_node\<close>, \<open>udp_answers\<close>), and the answer to a probe on it.  \<open>Recency\<close>: what the
    states of the peers say about time, for clocks that do not go back.  \<open>Lifetime\<close>: destructors and the move constructor of the engine.
  \<^item> \<open>Provenance\<close>: every peer of an engine was learned from a message that its backend
    delivered, and what it sends is its own, for any backend (locale \<open>tracked_node\<close>).  \<open>Ownership\<close>: the socket of a
    service over its whole life, and every peer of its registry traced to a datagram that its
    socket received, on any platform.  \<open>Traffic\<close> (locales \<open>socket_traffic\<close> and
    \<open>simulated_traffic\<close>): which datagrams a service sends and receives, in terms of a log of the kernel; met by
    the Linux class on a kernel that keeps such a log and, through the simulation, by the Windows
    class.  \<open>Network\<close>: any number of services whose datagrams a network loses, repeats and
    reorders, as a step relation; \<open>Network_Members\<close> is its main result.
  \<^item> \<open>Node_Simulation\<close>: when one backend acts as another (locales \<open>node_simulation\<close>,
    \<open>service_simulation\<close>), so do the engine and the service on it; interpreted for Windows on
    Linux as \<open>win_node\<close> and \<open>win_service\<close>.
  \<^item> \<open>Reentrant\<close>: handlers of \<open>onPeerFound\<close> that call the service back, or its engine through
    \<open>engine()\<close>, as scripts of calls, and
    \<open>notify_new_peers\<close>, \<open>poll\<close> and \<open>poll_many\<close> with such a handler.  A poll is followed to a
    given depth of nested polls; \<open>Out_Of_Depth\<close> is kept apart from undefined behaviour, and a
    result that is reached is the same at every greater depth (\<open>calling_poll_le\<close>).
  \<^item> \<open>Directory\<close>: the abstract specification, a directory of other nodes with a function for each
    operation (start, stop, one round of a poll: age every entry, then file at most one
    announcement), the directory that an engine on any backend holds (\<open>directory_of\<close>), and that
    each call of the engine is its operation; \<open>Directory_Properties\<close> has the same for the service.
  \<^item> \<open>Examples\<close>: the programs of \<open>examples/\<close>, with their exit codes and output.
  \<^item> \<open>Instances\<close> and \<open>Scenario\<close>: concrete time, serializer, transport, kernel and Winsock, and the
    history of a small network on them, which show that the hypotheses can hold; the theories
    named \<open>..._Properties\<close> state the properties, each followed by a closed instance where it has hypotheses.

  \<^bold>\<open>Reading the definitions.\<close>  State is passed explicitly; references held by an object (backend,
  transport engine, clock) are fields of the state record \<open>system\<close>.  \<open>Timestamp::now()\<close> reads
  the next entry of \<open>readings\<close> in the order in which the source calls it.  A failed
  \<open>Result\<close> is \<open>Inl\<close>, an empty \<open>std::optional\<close> is \<open>None\<close>.  Undefined behaviour (a read
  outside a buffer, signed overflow) and a loop that never ends are the outcome \<open>None\<close> of an
  \<open>exec\<close>; that calls return is proved (\<open>decoders_total\<close>, \<open>engine_calls_return\<close>).  The only fuel is the depth of nested
  polls in \<open>Reentrant\<close>, where depth one is enough for handlers that do not poll the service
  (\<open>calling_handlers_return\<close>); otherwise \<open>poll_many\<close> recurses on its bound, the notification loop has a measure, and the two
  system-call retry loops are partial functions with an exact termination condition.

  \<^bold>\<open>What is shown.\<close>  The service refines the directory: every public call is one of its
  operations, a function of the directory and of what the call reads from clock and socket, and
  \<open>peers()\<close> shows what it holds alive (\<open>service_refines_directory\<close>).  Both codecs accept exactly the encodings of
  valid values and never leave the buffer; every registry history keeps one valid peer per id, and each operation is an update of
  an abstract map, whatever the hash map does with its order; the UDP backend keeps its
  contract, its start succeeds exactly when every system call does (\<open>udp_start_spec\<close>), and its
  socket is owned once; every engine history keeps the engine, its
  backend and its registry in step, the node never lists itself, announcements respect the
  interval, an announcement or reply from another node is learned, the transport engine is told
  about new valid peers only; an announcement that one node puts on the network makes it known to
  a node that has the bytes next in its socket queue (\<open>announcement_crosses_network\<close>), a probe comes back as a reply to where it was sent from
  (\<open>probe_crosses_network\<close>), all announcements at the front of a socket queue are learned and listed
  by one \<open>poll_many\<close> (\<open>announced_nodes_listed\<close>; a datagram ahead of them that is not handled, such as
  the node's own echo, ends the call, \<open>own_message_stops_poll_many\<close>), and a datagram that is longer than the receive
  buffer is never taken for a message (\<open>oversized_message_lost\<close>); after a poll \<open>peers()\<close> lists
  exactly the nodes that were heard less than half of \<open>peer_ttl\<close> ago (\<open>service_lists_recent_peers\<close>); the service shows every available peer, and its destruction closes the descriptor
  once.  Over its whole life the socket is open exactly while the service runs
  (\<open>service_owns_socket\<close>); in a network in which only its members send, a service shows other
  members only, as their options describe them (\<open>no_phantom_peers\<close>); with handlers that call
  back the invariant still holds, and polls return unless the handler polls the service itself.
  Everything about the backend, the engine and the service holds for both platforms
  unless its statement names one; on Windows the service does call by call what it does on Linux
  (\<open>windows_service_agrees\<close>).

  Some results record behaviour that differs from the documentation or the intention:
  \<open>refresh_revives_expired\<close> (an expired peer turns stale at the next refresh),
  \<open>notify_reports_wrong_peer\<close> (in \<open>Notification_Properties\<close>: a poll that learns a new node can report
  a peer that was listed before, and never the new one),
  \<open>own_message_stops_poll_many\<close> (a node's own broadcast ends the polling loop),
  \<open>peers_kept_until_stop\<close> (nothing removes expired peers from a running engine),
  \<open>moved_engine_is_dead\<close> (a moved engine loses its backend),
  \<open>polling_handler_never_returns\<close> and \<open>restart_in_handler_hides_peers\<close> (the count of known peers is
  written only after the handler has run) and \<open>announcer_example_ignored\<close> (the
  announcer example sends what no engine accepts).

  \<^bold>\<open>Not modelled.\<close>  Of the writes through the pointer that the non-const \<open>find\<close> of the registry
  returns, the histories have those that keep the id and the validity of the peer (\<open>registry_write\<close>,
  \<open>keeps_identity\<close>); others, such as \<open>find(id)->clear()\<close>, break the invariant of the registry
  (\<open>registry_clear_through_find\<close>).  The queue of a socket (\<open>kernel_queue\<close>) gains datagrams between
  calls and behind a send, not during a receive.  Also left out: exceptions from allocation, a handler that replaces itself during its own call, getters that return a reference to a backend or context
  (the arguments of the definitions stand for them), threads (the classes have no locks, and the
  calls on one object are taken one after another), and the store and sync engine that two example programs set up.  Time, serializer, transport and the base
  class \<open>NonCopyable\<close> are not part of the repository; the first three are parameters.
\<close>

section \<open>The service on a well-behaved kernel\<close>

text \<open>
  C23.  No public call of a service hangs or has undefined behaviour on a kernel that respects its
  receive buffers and does not interrupt a call for ever, whatever arrives on the network: from
  every reachable state start, announce, probe and both polls return, \<open>poll_many\<close> handles at most
  the given number of messages, and a start that succeeds leaves the service running.
\<close>

theorem service_calls_return:
  assumes "timestamp_ok T" and "serializer_ok S" and "kernel_ok K" and "kernel_settles K"
    and "service_reachable T S (linux_platform T K) X opts (v, h)"
  shows "(\<exists>ok v'. service_start (udp_env T S (linux_platform T K) X L) v = Some (ok, v') \<and>
      (ok \<longrightarrow> service_is_running (udp_env T S (linux_platform T K) X L) v' \<and> options_is_valid T opts)) \<and>
    (\<exists>r. service_announce_now (udp_env T S (linux_platform T K) X L) v = Some r) \<and>
    (\<exists>r. service_probe_now (udp_env T S (linux_platform T K) X L) v = Some r) \<and>
    (\<exists>r. service_poll (udp_env T S (linux_platform T K) X L) v h = Some r) \<and>
    (\<exists>k r. service_poll_many (udp_env T S (linux_platform T K) X L) n v h = Some (k, r) \<and> k \<le> n)"
  using service_calls_return_on [OF assms(1,2) linux_returns [OF assms(3,4)] assms(5)] .

theorem service_calls_return_witness:
  "\<exists>k r. service_poll_many demo_env 16 demo_service [] = Some (k, r) \<and> k \<le> 16"
  using service_calls_return [OF demo_timestamp_ok demo_serializer_ok demo_kernel_ok
      demo_kernel_settles demo_service_reachable [unfolded demo_platform_def], of id 16]
  unfolding demo_env_def demo_platform_def by blast

end
